(* ===== verification/Prelude.thy ===== *)
theory Prelude
  imports Main "HOL-Library.Word" "HOL-Library.Code_Target_Nat" "HOL-Library.Char_ord"
    "HOL-Library.List_Lexorder"
begin

text \<open>
  Shared material of the development: the machine types of the Rust code, its error values, and
  the part of Rust's string library that the modelled code calls. A Rust \<open>String\<close> is a sequence of
  UTF-8 bytes and an Isabelle \<open>char\<close> is one byte, so a \<open>string\<close> here is the byte sequence and its
  \<open>length\<close> is Rust's \<open>len()\<close>. Operations that Rust defines on Unicode scalar values
  (\<open>chars\<close>, \<open>trim\<close>, \<open>char::is_control\<close>) decode the bytes first.
\<close>

unbundle bit_operations_syntax

type_synonym u8 = "8 word"
type_synonym u32 = "32 word"
type_synonym u64 = "64 word"

named_theorems str_simps \<open>facts about splitting, joining and printing strings\<close>
named_theorems net_simps \<open>facts about addresses, masks and networks\<close>
named_theorems ver_simps \<open>facts about release versions\<close>

section \<open>Errors and results\<close>

text \<open>
  \<open>goish/errors.rs\<close>: an error is a formatted message, a sentinel type with its fixed message, or a
  wrapped error whose text is the prefix, a colon and the text of the source. \<open>is::<T>\<close> looks for a
  sentinel along the chain.
\<close>

datatype sentinel = ErrUnknownInstalledVersion | ErrInvalidSignature | ErrInvalidPublicKey
  | ErrInvalidSignatureFormat | ErrUntrustedPublicKey | ErrSnapshotNotFound | ErrSnapshotCorrupt | ErrNoRows

fun sentinel_message :: "sentinel \<Rightarrow> string" where
  "sentinel_message ErrUnknownInstalledVersion =
     ''installed bootstrap version is unknown; use a verified full distribution installation to establish the version floor''"
| "sentinel_message ErrInvalidSignature = ''invalid firmware signature''"
| "sentinel_message ErrInvalidPublicKey =
     ''invalid trusted public key (must be 32 bytes Ed25519)''"
| "sentinel_message ErrInvalidSignatureFormat =
     ''invalid signature format (must be 64 bytes Ed25519)''"
| "sentinel_message ErrUntrustedPublicKey =
     ''manifest signer does not match the pinned firmware key''"
| "sentinel_message ErrSnapshotNotFound = ''snapshot not found''"
| "sentinel_message ErrSnapshotCorrupt = ''snapshot integrity check failed''"
| "sentinel_message ErrNoRows = ''sql: no rows in result set''"

datatype error = Errorf string | Sentinel sentinel | Wrapf string error

fun error_text :: "error \<Rightarrow> string" where
  "error_text (Errorf m) = m"
| "error_text (Sentinel s) = sentinel_message s"
| "error_text (Wrapf p e) = p @ '': '' @ error_text e"

fun error_is :: "sentinel \<Rightarrow> error \<Rightarrow> bool" where
  "error_is s (Errorf m) = False"
| "error_is s (Sentinel t) = (s = t)"
| "error_is s (Wrapf p e) = error_is s e"

type_synonym 'a result = "error + 'a"

fun map_err :: "(error \<Rightarrow> error) \<Rightarrow> 'a result \<Rightarrow> 'a result" where
  "map_err f (Inl e) = Inl (f e)"
| "map_err f (Inr x) = Inr x"

definition is_ok :: "'a + 'b \<Rightarrow> bool" where
  "is_ok r = (case r of Inl _ \<Rightarrow> False | Inr _ \<Rightarrow> True)"

lemma is_ok_simps [simp]: "is_ok (Inr x) = True" "is_ok (Inl e) = False"
  by (simp_all add: is_ok_def)

lemma is_ok_iff: "is_ok r \<longleftrightarrow> (\<exists>x. r = Inr x)"
  by (cases r) simp_all

section \<open>Bytes and characters\<close>

lemma unat_u8: "unat (b :: u8) < 256"
proof -
  have "unat b < 2 ^ LENGTH(8)" by (rule unsigned_less)
  then show ?thesis by simp
qed

abbreviation code :: "char \<Rightarrow> nat" where
  "code c \<equiv> of_char c"

definition is_ascii_digit :: "char \<Rightarrow> bool" where
  "is_ascii_digit c = (48 \<le> code c \<and> code c \<le> 57)"

definition is_ascii_upper :: "char \<Rightarrow> bool" where
  "is_ascii_upper c = (65 \<le> code c \<and> code c \<le> 90)"

definition is_ascii_lower :: "char \<Rightarrow> bool" where
  "is_ascii_lower c = (97 \<le> code c \<and> code c \<le> 122)"

definition is_ascii_alnum :: "char \<Rightarrow> bool" where
  "is_ascii_alnum c = (is_ascii_digit c \<or> is_ascii_upper c \<or> is_ascii_lower c)"

definition is_ascii :: "string \<Rightarrow> bool" where
  "is_ascii s = list_all (\<lambda>c. code c < 128) s"

definition to_ascii_lower :: "char \<Rightarrow> char" where
  "to_ascii_lower c = (if is_ascii_upper c then char_of (code c + 32) else c)"

text \<open>\<open>char::to_digit(radix)\<close> for radix at most 16, on a byte.\<close>

definition to_digit :: "nat \<Rightarrow> char \<Rightarrow> nat option" where
  "to_digit radix c =
     (let d = (if is_ascii_digit c then code c - 48
               else if 97 \<le> code c \<and> code c \<le> 102 then code c - 87
               else if 65 \<le> code c \<and> code c \<le> 70 then code c - 55
               else 99)
      in if d < radix then Some d else None)"

definition digit_char :: "nat \<Rightarrow> char" where
  "digit_char d = char_of (if d < 10 then 48 + d else 87 + d)"

lemma code_digit_char: "d < 10 \<Longrightarrow> code (digit_char d) = 48 + d"
  by (simp add: digit_char_def)

lemma digit_char_0: "digit_char 0 = CHR ''0''"
  by code_simp

lemma is_ascii_digit_digit_char [simp]: "d < 10 \<Longrightarrow> is_ascii_digit (digit_char d)"
  by (simp add: is_ascii_digit_def code_digit_char)

lemma to_digit_digit_char [simp]:
  "d < radix \<Longrightarrow> radix \<le> 16 \<Longrightarrow> to_digit radix (digit_char d) = Some d"
  by (auto simp: to_digit_def digit_char_def is_ascii_digit_def Let_def)

lemma digit_char_inj: "a < 16 \<Longrightarrow> b < 16 \<Longrightarrow> digit_char a = digit_char b \<Longrightarrow> a = b"
  by (metis option.inject to_digit_digit_char order_refl)

lemma is_ascii_digit_alt: "is_ascii_digit c \<longleftrightarrow> (\<exists>d<10. c = digit_char d)"
proof
  assume "is_ascii_digit c"
  then have "c = digit_char (code c - 48) \<and> code c - 48 < 10"
    by (auto simp: is_ascii_digit_def digit_char_def)
  then show "\<exists>d<10. c = digit_char d" by blast
qed auto

section \<open>Splitting and joining\<close>

text \<open>\<open>str::split(c)\<close> always yields at least one piece; \<open>join\<close> is \<open>[String]::join\<close>.\<close>

fun split_char :: "char \<Rightarrow> string \<Rightarrow> string list" where
  "split_char c [] = [[]]"
| "split_char c (x # xs) =
     (if x = c then [] # split_char c xs
      else (case split_char c xs of [] \<Rightarrow> [[x]] | p # ps \<Rightarrow> (x # p) # ps))"

fun join :: "string \<Rightarrow> string list \<Rightarrow> string" where
  "join sep [] = []"
| "join sep [p] = p"
| "join sep (p # q # ps) = p @ sep @ join sep (q # ps)"

lemma split_char_not_Nil [simp]: "split_char c s \<noteq> []"
  by (induction s) (auto split: list.splits)

lemma join_split_char [str_simps]: "join [c] (split_char c s) = s"
proof (induction s)
  case (Cons x xs)
  then show ?case
    by (cases "split_char c xs"; cases "tl (split_char c xs)") auto
qed simp

lemma split_char_no_sep: "p \<in> set (split_char c s) \<Longrightarrow> c \<notin> set p"
  by (induction s arbitrary: p) (auto split: if_splits list.splits)

lemma split_char_id [simp]: "c \<notin> set p \<Longrightarrow> split_char c p = [p]"
  by (induction p) auto

lemma split_char_append [str_simps]:
  "c \<notin> set p \<Longrightarrow> split_char c (p @ c # s) = p # split_char c s"
  by (induction p) auto

lemma split_char_join [str_simps]:
  "ps \<noteq> [] \<Longrightarrow> (\<forall>p\<in>set ps. c \<notin> set p) \<Longrightarrow> split_char c (join [c] ps) = ps"
  by (induction "[c]" ps rule: join.induct) (auto simp: split_char_append)

text \<open>\<open>str::split_once(c)\<close>.\<close>

fun split_once :: "char \<Rightarrow> string \<Rightarrow> (string \<times> string) option" where
  "split_once c [] = None"
| "split_once c (x # xs) =
     (if x = c then Some ([], xs)
      else map_option (\<lambda>(a, b). (x # a, b)) (split_once c xs))"

lemma split_once_append [str_simps]: "c \<notin> set p \<Longrightarrow> split_once c (p @ c # s) = Some (p, s)"
  by (induction p) auto

lemma split_once_Some:
  "split_once c s = Some (a, b) \<longleftrightarrow> s = a @ c # b \<and> c \<notin> set a"
proof (induction s arbitrary: a)
  case (Cons x xs)
  show ?case
  proof (cases "x = c")
    case True
    then show ?thesis by (cases a) auto
  next
    case False
    then show ?thesis using Cons.IH by (cases a) auto
  qed
qed simp

lemma split_once_None: "split_once c s = None \<longleftrightarrow> c \<notin> set s"
  by (induction s) auto

text \<open>\<open>str::find(c)\<close> and \<open>str::rfind(c)\<close>: byte index of the first and of the last occurrence.\<close>

fun find_char :: "char \<Rightarrow> string \<Rightarrow> nat option" where
  "find_char c [] = None"
| "find_char c (x # xs) = (if x = c then Some 0 else map_option Suc (find_char c xs))"

fun rfind_char :: "char \<Rightarrow> string \<Rightarrow> nat option" where
  "rfind_char c [] = None"
| "rfind_char c (x # xs) =
     (case rfind_char c xs of Some i \<Rightarrow> Some (Suc i) | None \<Rightarrow> if x = c then Some 0 else None)"

definition starts_with :: "string \<Rightarrow> string \<Rightarrow> bool" where
  "starts_with s p = (take (length p) s = p)"

definition ends_with :: "string \<Rightarrow> string \<Rightarrow> bool" where
  "ends_with s p = starts_with (rev s) (rev p)"

definition strip_prefix :: "string \<Rightarrow> string \<Rightarrow> string option" where
  "strip_prefix p s = (if starts_with s p then Some (drop (length p) s) else None)"

definition strip_suffix :: "string \<Rightarrow> string \<Rightarrow> string option" where
  "strip_suffix p s = (if ends_with s p then Some (take (length s - length p) s) else None)"

lemma starts_with_iff: "starts_with s p \<longleftrightarrow> (\<exists>t. s = p @ t)"
  by (metis append_eq_conv_conj starts_with_def)

lemma find_char_None [simp]: "find_char c s = None \<longleftrightarrow> c \<notin> set s"
  by (induction s) auto

lemma find_char_append [simp]: "c \<notin> set p \<Longrightarrow> find_char c (p @ c # s) = Some (length p)"
  by (induction p) auto

lemma rfind_char_None [simp]: "rfind_char c s = None \<longleftrightarrow> c \<notin> set s"
  by (induction s) (auto split: option.splits)

lemma rfind_char_append [simp]:
  assumes "c \<notin> set s"
  shows "rfind_char c (p @ c # s) = Some (length p)"
proof -
  from assms have none: "rfind_char c s = None" by simp
  show ?thesis by (induction p) (simp_all add: none)
qed

lemma rfind_charD:
  "rfind_char c s = Some i \<Longrightarrow>
   i < length s \<and> s = take i s @ c # drop (Suc i) s \<and> c \<notin> set (drop (Suc i) s)"
  by (induction s arbitrary: i) (auto split: option.splits if_splits)

section \<open>Decimal and hexadecimal numbers\<close>

fun nat_string :: "nat \<Rightarrow> string" where
  "nat_string n =
     (if n < 10 then [digit_char n] else nat_string (n div 10) @ [digit_char (n mod 10)])"

declare nat_string.simps [simp del]

definition int_string :: "int \<Rightarrow> string" where
  "int_string i = (if i < 0 then ''-'' @ nat_string (nat (- i)) else nat_string (nat i))"

text \<open>Digits in a base, most significant first, and their value.\<close>

fun digits_value :: "nat \<Rightarrow> nat \<Rightarrow> string \<Rightarrow> nat option" where
  "digits_value radix acc [] = Some acc"
| "digits_value radix acc (c # cs) =
     (case to_digit radix c of None \<Rightarrow> None | Some d \<Rightarrow> digits_value radix (acc * radix + d) cs)"

lemma digits_value_append:
  "digits_value r a (xs @ ys) =
     (case digits_value r a xs of None \<Rightarrow> None | Some b \<Rightarrow> digits_value r b ys)"
  by (induction xs arbitrary: a) (auto split: option.splits)

lemma nat_string_not_Nil [simp]: "nat_string n \<noteq> []"
  by (subst nat_string.simps) simp

lemma nat_string_digits [simp]: "c \<in> set (nat_string n) \<Longrightarrow> is_ascii_digit c"
proof (induction n rule: nat_string.induct)
  case (1 n)
  then show ?case
    by (cases "n < 10") (auto simp: nat_string.simps [of n])
qed

lemma digits_value_nat_string [str_simps]: "digits_value 10 0 (nat_string n) = Some n"
proof (induction n rule: nat_string.induct)
  case (1 n)
  then show ?case
    by (cases "n < 10") (auto simp: nat_string.simps [of n] digits_value_append)
qed

lemma nat_string_inject [simp]: "nat_string m = nat_string n \<longleftrightarrow> m = n"
  by (metis digits_value_nat_string option.inject)

lemma nat_string_small: "n < 10 \<Longrightarrow> nat_string n = [digit_char n]"
  by (simp add: nat_string.simps)

lemma length_nat_string_le: "n < 10 ^ k \<Longrightarrow> 0 < k \<Longrightarrow> length (nat_string n) \<le> k"
proof (induction n arbitrary: k rule: nat_string.induct)
  case (1 n)
  show ?case
  proof (cases "n < 10")
    case True
    with "1.prems" show ?thesis by (simp add: nat_string_small)
  next
    case False
    with "1.prems" have "k \<noteq> 1" by auto
    with "1.prems"(2) obtain j where j: "k = Suc j" "0 < j"
      by (cases k) auto
    from "1.prems"(1) j have "n div 10 < 10 ^ j"
      by (simp add: less_mult_imp_div_less mult.commute)
    from "1.IH" [OF False this j(2)] False j show ?thesis
      by (simp add: nat_string.simps [of n])
  qed
qed

lemma nat_string_no_leading_zero:
  "1 < length (nat_string n) \<Longrightarrow> hd (nat_string n) \<noteq> CHR ''0''"
proof (induction n rule: nat_string.induct)
  case (1 n)
  show ?case
  proof (cases "n < 10")
    case True
    with "1.prems" show ?thesis by (simp add: nat_string_small)
  next
    case False
    then have eq: "nat_string n = nat_string (n div 10) @ [digit_char (n mod 10)]"
      by (simp add: nat_string.simps [of n])
    show ?thesis
    proof (cases "n div 10 < 10")
      case True
      from False have "n div 10 \<noteq> 0" by simp
      with True have "digit_char (n div 10) \<noteq> digit_char 0"
        using digit_char_inj [of "n div 10" 0] by linarith
      with True eq show ?thesis by (simp add: nat_string_small digit_char_0)
    next
      case nb: False
      then have "1 < length (nat_string (n div 10))"
        by (subst nat_string.simps) simp
      with "1.IH" [OF False] eq show ?thesis by simp
    qed
  qed
qed

lemma nat_string_0: "nat_string 0 = ''0''"
  by (simp add: nat_string_small digit_char_0)

lemma nat_string_step: "0 < m \<Longrightarrow> d < 10 \<Longrightarrow> nat_string (m * 10 + d) = nat_string m @ [digit_char d]"
  by (subst nat_string.simps) auto

lemma nat_string_surj:
  assumes "s \<noteq> []" "list_all is_ascii_digit s" "1 < length s \<longrightarrow> hd s \<noteq> CHR ''0''"
  shows "\<exists>n. s = nat_string n"
  using assms
proof (induction s rule: rev_induct)
  case (snoc c s)
  from snoc.prems obtain d where d: "d < 10" "c = digit_char d"
    by (auto simp: is_ascii_digit_alt)
  show ?case
  proof (cases "s = []")
    case True
    then show ?thesis using d by (metis append_Nil nat_string_small)
  next
    case False
    then have hd0: "hd s \<noteq> CHR ''0''" using snoc.prems by (cases s) auto
    with False snoc obtain m where m: "s = nat_string m" by auto
    with hd0 have "0 < m" using nat_string_0 by (cases m) auto
    with m d show ?thesis using nat_string_step by metis
  qed
qed simp

end
