(* ===== verification/Release_Version.thy ===== *)
theory Release_Version
  imports Prelude "HOL-Library.Product_Lexorder"
begin

text \<open>
  Release versions of \<open>mr-core/src/firmware/mod.rs\<close>: the accepted syntax, the comparison and the
  forward-upgrade check. The comparison is proved to be the order of a key in a linear order, so the
  reader gets reflexivity, totality and transitivity from the library's class \<open>linorder\<close>.
\<close>

section \<open>Model\<close>

text \<open>\<open>RELEASE_VERSION_PATTERN\<close>: \<open>^v?[0-9]+\.[0-9]+\.[0-9]+(?:[-+][A-Za-z0-9.-]+)?$\<close>. No piece can start
  with a byte that continues the piece before it, so greedy matching decides the pattern.\<close>

definition suffix_char :: "char \<Rightarrow> bool" where
  "suffix_char c = (is_ascii_alnum c \<or> c = CHR ''.'' \<or> c = CHR ''-'')"

definition match_digits :: "string \<Rightarrow> string option" where
  "match_digits s = (if takeWhile is_ascii_digit s = [] then None else Some (dropWhile is_ascii_digit s))"

definition match_dot :: "string \<Rightarrow> string option" where
  "match_dot s = (case s of [] \<Rightarrow> None | c # r \<Rightarrow> if c = CHR ''.'' then Some r else None)"

definition match_suffix :: "string \<Rightarrow> bool" where
  "match_suffix s = (case s of
      [] \<Rightarrow> True
    | c # r \<Rightarrow> (c = CHR ''-'' \<or> c = CHR ''+'') \<and> r \<noteq> [] \<and> list_all suffix_char r)"

definition strip_v :: "string \<Rightarrow> string" where
  "strip_v s = (case strip_prefix ''v'' s of Some t \<Rightarrow> t | None \<Rightarrow> s)"

definition is_release_version :: "string \<Rightarrow> bool" where
  "is_release_version s =
     (case Option.bind (match_digits (strip_v s)) (\<lambda>s1.
           Option.bind (match_dot s1) (\<lambda>s2.
           Option.bind (match_digits s2) (\<lambda>s3.
           Option.bind (match_dot s3) match_digits))) of
        None \<Rightarrow> False
      | Some s5 \<Rightarrow> match_suffix s5)"

record parsed_release_version =
  core :: "string list"
  prerelease :: "string list"

definition parse_release_version :: "string \<Rightarrow> parsed_release_version result" where
  "parse_release_version value =
     (if \<not> is_release_version value then Inl (Errorf ''invalid release version'')
      else
        (let v1 = strip_v value;
             v2 = (case find_char (CHR ''+'') v1 of Some i \<Rightarrow> take i v1 | None \<Rightarrow> v1);
             (v3, pre) = (case find_char (CHR ''-'') v2 of
                Some dash \<Rightarrow> (take dash v2, drop (dash + 1) v2)
              | None \<Rightarrow> (v2, []));
             parts = split_char (CHR ''.'') v3
         in if length parts \<noteq> 3 then Inl (Errorf ''invalid release version'')
            else Inr \<lparr>core = parts, prerelease = (if pre = [] then [] else split_char (CHR ''.'') pre)\<rparr>))"

definition numeric_identifier :: "string \<Rightarrow> bool" where
  "numeric_identifier value = (value \<noteq> [] \<and> list_all is_ascii_digit value)"

text \<open>\<open>std::cmp::Ordering\<close> with \<open>o as i32\<close>: less is -1, equal 0, greater 1.\<close>

definition cmp :: "'a :: linorder \<Rightarrow> 'a \<Rightarrow> int" where
  "cmp x y = (if x < y then - 1 else if x = y then 0 else 1)"

definition trim_zeros :: "string \<Rightarrow> string" where
  "trim_zeros s =
     (let t = dropWhile (\<lambda>c. c = CHR ''0'') s in if t = [] then ''0'' else t)"

definition compare_numeric_strings :: "string \<Rightarrow> string \<Rightarrow> int" where
  "compare_numeric_strings left right =
     (let l = trim_zeros left; r = trim_zeros right
      in if cmp (length l) (length r) \<noteq> 0 then cmp (length l) (length r) else cmp l r)"

fun compare_core :: "string list \<Rightarrow> string list \<Rightarrow> int" where
  "compare_core (a # as) (b # bs) =
     (let c = compare_numeric_strings a b in if c \<noteq> 0 then c else compare_core as bs)"
| "compare_core _ _ = 0"

definition compare_identifier :: "string \<Rightarrow> string \<Rightarrow> int" where
  "compare_identifier l r =
     (if numeric_identifier l then (if numeric_identifier r then compare_numeric_strings l r else - 1)
      else if numeric_identifier r then 1 else cmp l r)"

fun compare_prerelease :: "string list \<Rightarrow> string list \<Rightarrow> int" where
  "compare_prerelease (l # ls) (r # rs) =
     (let c = compare_identifier l r in if c \<noteq> 0 then c else compare_prerelease ls rs)"
| "compare_prerelease ls rs = cmp (length ls) (length rs)"

definition compare_parsed :: "parsed_release_version \<Rightarrow> parsed_release_version \<Rightarrow> int" where
  "compare_parsed a b =
     (let c = compare_core (core a) (core b)
      in if c \<noteq> 0 then c
         else if prerelease a = [] then (if prerelease b = [] then 0 else 1)
         else if prerelease b = [] then - 1
         else compare_prerelease (prerelease a) (prerelease b))"

definition compare_release_versions :: "string \<Rightarrow> string \<Rightarrow> int result" where
  "compare_release_versions left right =
     (case parse_release_version left of Inl e \<Rightarrow> Inl e | Inr a \<Rightarrow>
      case parse_release_version right of Inl e \<Rightarrow> Inl e | Inr b \<Rightarrow>
        Inr (compare_parsed a b))"

definition validate_forward_upgrade :: "string \<Rightarrow> string \<Rightarrow> unit result" where
  "validate_forward_upgrade candidate current =
     (if current = [] then Inr ()
      else (case compare_release_versions candidate current of
              Inl e \<Rightarrow> Inl e
            | Inr c \<Rightarrow>
                if c \<le> 0 then
                  Inl (Errorf ''refusing non-forward update; use the explicit rollback command to return to the previous release'')
                else Inr ()))"

section \<open>Specification: the precedence key\<close>

text \<open>A prerelease identifier is a number or a word; numbers come before words.\<close>

datatype ident = Num nat | Alpha string

instantiation ident :: linorder
begin

fun less_ident :: "ident \<Rightarrow> ident \<Rightarrow> bool" where
  "less_ident (Num m) (Num n) = (m < n)"
| "less_ident (Num m) (Alpha t) = True"
| "less_ident (Alpha s) (Num n) = False"
| "less_ident (Alpha s) (Alpha t) = (s < t)"

definition less_eq_ident :: "ident \<Rightarrow> ident \<Rightarrow> bool" where
  "less_eq_ident x y = (x = y \<or> x < y)"

instance
proof
  fix x y z :: ident
  show "(x < y) = (x \<le> y \<and> \<not> y \<le> x)"
    by (cases x; cases y) (auto simp: less_eq_ident_def)
  show "x \<le> x" by (simp add: less_eq_ident_def)
  show "x \<le> y \<Longrightarrow> y \<le> z \<Longrightarrow> x \<le> z"
    by (cases x; cases y; cases z) (auto simp: less_eq_ident_def)
  show "x \<le> y \<Longrightarrow> y \<le> x \<Longrightarrow> x = y"
    by (cases x; cases y) (auto simp: less_eq_ident_def)
  show "x \<le> y \<or> y \<le> x"
    by (cases x; cases y) (auto simp: less_eq_ident_def)
qed

end

definition digits_num :: "string \<Rightarrow> nat" where
  "digits_num s = (case digits_value 10 0 s of Some n \<Rightarrow> n | None \<Rightarrow> 0)"

definition ident_of :: "string \<Rightarrow> ident" where
  "ident_of s = (if numeric_identifier s then Num (digits_num s) else Alpha s)"

text \<open>The three core numbers, then whether the version is stable, then the prerelease identifiers.\<close>

type_synonym version_key = "nat list \<times> bool \<times> ident list"

definition version_key :: "parsed_release_version \<Rightarrow> version_key" where
  "version_key v = (map digits_num (core v), prerelease v = [], map ident_of (prerelease v))"

definition release_key :: "string \<Rightarrow> version_key option" where
  "release_key s = (case parse_release_version s of Inl _ \<Rightarrow> None | Inr v \<Rightarrow> Some (version_key v))"

section \<open>The comparison is the order of the keys\<close>

lemma cmp_simps [simp]: "cmp x x = 0" "x < y \<Longrightarrow> cmp x y = - 1" "y < x \<Longrightarrow> cmp x y = 1"
  by (auto simp: cmp_def)

lemma cmp_eq_0 [simp]: "cmp x y = 0 \<longleftrightarrow> x = y"
  by (auto simp: cmp_def)

lemma cmp_Cons: "cmp (x # xs) (y # ys) = (if cmp x y \<noteq> 0 then cmp x y else cmp xs ys)"
  by (auto simp: cmp_def)

lemma cmp_Pair: "cmp (a, b) (c, d) = (if cmp a c \<noteq> 0 then cmp a c else cmp b d)"
  by (auto simp: cmp_def less_prod_simp)

lemma digits_value_Cons_zero: "digits_value 10 0 (CHR ''0'' # s) = digits_value 10 0 s"
  using to_digit_digit_char [of 0 10] by (simp add: digit_char_0)

lemma digits_num_dropWhile: "digits_num (dropWhile (\<lambda>c. c = CHR ''0'') s) = digits_num s"
  by (induction s) (auto simp: digits_num_def digits_value_Cons_zero simp del: digits_value.simps(2))

text \<open>A trimmed digit string is the decimal text of its value, so a longer one is larger and equally
  long ones compare byte by byte.\<close>

lemma digits_value_total: "list_all is_ascii_digit s \<Longrightarrow> \<exists>v. digits_value 10 a s = Some v"
  by (induction s arbitrary: a) (auto simp: to_digit_def is_ascii_digit_def Let_def)

lemma trim_zeros_nat_string:
  assumes "list_all is_ascii_digit s" and "s \<noteq> []"
  shows "trim_zeros s = nat_string (digits_num s)"
proof (cases "dropWhile (\<lambda>c. c = CHR ''0'') s = []")
  case True
  have "digits_num s = digits_num []" using digits_num_dropWhile [of s] unfolding True by (rule sym)
  with True show ?thesis by (simp add: trim_zeros_def digits_num_def nat_string_0)
next
  case False
  let ?t = "dropWhile (\<lambda>c. c = CHR ''0'') s"
  have "list_all is_ascii_digit ?t" using assms(1) by (auto simp: list_all_iff dest: set_dropWhileD)
  moreover have "hd ?t \<noteq> CHR ''0''" using hd_dropWhile [OF False] by simp
  ultimately obtain n where n: "?t = nat_string n" using nat_string_surj [OF False] by blast
  then have "digits_num s = n"
    using digits_num_dropWhile [of s] by (simp add: digits_num_def digits_value_nat_string)
  with n False show ?thesis by (simp add: trim_zeros_def)
qed

lemma length_nat_string_ge: "10 ^ k \<le> n \<Longrightarrow> k < length (nat_string n)"
proof (induction n arbitrary: k rule: nat_string.induct)
  case (1 n)
  show ?case
  proof (cases k)
    case (Suc j)
    from "1.prems" Suc have p: "10 * 10 ^ j \<le> n" by simp
    have "(1 :: nat) \<le> 10 ^ j" by simp
    with p have n: "\<not> n < 10" "10 ^ j \<le> n div 10"
      by (linarith, simp add: less_eq_div_iff_mult_less_eq mult.commute)
    from "1.IH" [OF n] n(1) Suc show ?thesis by (simp add: nat_string.simps [of n])
  qed simp
qed

lemma length_nat_string_mono: "m \<le> n \<Longrightarrow> length (nat_string m) \<le> length (nat_string n)"
proof (cases "length (nat_string m) = 1")
  case False
  assume "m \<le> n"
  have pos: "0 < length (nat_string m)" by simp
  define j where "j = length (nat_string m) - 1"
  from pos False have j: "length (nat_string m) = Suc j" "0 < j" unfolding j_def by linarith+
  have "10 ^ j \<le> m" using length_nat_string_le [of m j] j by linarith
  with \<open>m \<le> n\<close> j show ?thesis using length_nat_string_ge [of j n] by simp
next
  case True
  have "0 < length (nat_string n)" by simp
  with True show ?thesis by linarith
qed

lemma digit_char_less: "a < 10 \<Longrightarrow> b < 10 \<Longrightarrow> digit_char a < digit_char b \<longleftrightarrow> a < b"
  by (simp add: less_char_def code_digit_char)

lemma less_snoc:
  fixes x y :: "'a :: linorder"
  assumes "length xs = length ys"
  shows "xs @ [x] < ys @ [y] \<longleftrightarrow> xs < ys \<or> xs = ys \<and> x < y"
  using assms by (induction xs ys rule: list_induct2) auto

lemma nat_string_less:
  "length (nat_string m) = length (nat_string n) \<Longrightarrow> nat_string m < nat_string n \<longleftrightarrow> m < n"
proof (induction m arbitrary: n rule: nat_string.induct)
  case (1 m)
  show ?case
  proof (cases "m < 10")
    case True
    then have "length (nat_string m) = 1" by (simp add: nat_string_small)
    with "1.prems" have "\<not> 1 < length (nat_string n)" by linarith
    then have "n < 10" using length_nat_string_ge [of 1 n] by (cases "n < 10") auto
    with True show ?thesis by (simp add: nat_string_small digit_char_less)
  next
    case False
    have "\<not> n < 10" using "1.prems" False length_nat_string_ge [of 1 m] by (auto simp: nat_string_small)
    then have s: "nat_string n = nat_string (n div 10) @ [digit_char (n mod 10)]"
      "nat_string m = nat_string (m div 10) @ [digit_char (m mod 10)]"
      using False by (simp_all add: nat_string.simps [of n] nat_string.simps [of m])
    have len: "length (nat_string (m div 10)) = length (nat_string (n div 10))"
      using "1.prems" unfolding s(1) s(2) by simp
    have "m < n \<longleftrightarrow> m div 10 < n div 10 \<or> m div 10 = n div 10 \<and> m mod 10 < n mod 10"
      using div_mult_mod_eq [of m 10] div_mult_mod_eq [of n 10] mod_less_divisor [of 10 m]
        mod_less_divisor [of 10 n] by linarith
    with "1.IH" [OF False len] show ?thesis
      unfolding s less_snoc [OF len] by (simp add: digit_char_less)
  qed
qed

lemma compare_numeric_correct:
  assumes "numeric_identifier l" and "numeric_identifier r"
  shows "compare_numeric_strings l r = cmp (digits_num l) (digits_num r)"
proof -
  let ?m = "digits_num l" and ?n = "digits_num r"
  have t: "trim_zeros l = nat_string ?m" "trim_zeros r = nat_string ?n"
    using assms by (auto simp: numeric_identifier_def intro!: trim_zeros_nat_string)
  consider "length (nat_string ?m) = length (nat_string ?n)" | "length (nat_string ?m) < length (nat_string ?n)"
    | "length (nat_string ?n) < length (nat_string ?m)" by linarith
  then show ?thesis
  proof cases
    case 1
    then show ?thesis by (simp add: compare_numeric_strings_def t cmp_def nat_string_less)
  next
    case 2
    then have "?m < ?n" using length_nat_string_mono [of ?n ?m] by linarith
    with 2 show ?thesis by (simp add: compare_numeric_strings_def t)
  next
    case 3
    then have "?n < ?m" using length_nat_string_mono [of ?m ?n] by linarith
    with 3 show ?thesis by (simp add: compare_numeric_strings_def t)
  qed
qed

lemma compare_identifier_correct: "compare_identifier l r = cmp (ident_of l) (ident_of r)"
proof -
  have "cmp (Alpha s) (Alpha t) = cmp s t" "cmp (Num m) (Num n) = cmp m n" for s t m n
    by (simp_all add: cmp_def)
  then show ?thesis by (simp add: compare_identifier_def ident_of_def compare_numeric_correct)
qed

lemma compare_core_correct:
  "length as = length bs \<Longrightarrow> list_all numeric_identifier as \<Longrightarrow> list_all numeric_identifier bs \<Longrightarrow>
   compare_core as bs = cmp (map digits_num as) (map digits_num bs)"
  by (induction as bs rule: list_induct2) (simp_all add: cmp_Cons compare_numeric_correct Let_def)

lemma cmp_Nil [simp]: "cmp [] (y # ys) = - 1" "cmp (x # xs) [] = 1"
  by (simp_all add: cmp_def)

lemma compare_prerelease_correct:
  "compare_prerelease ls rs = cmp (map ident_of ls) (map ident_of rs)"
proof (induction ls arbitrary: rs)
  case Nil
  then show ?case by (cases rs) simp_all
next
  case (Cons l ls)
  then show ?case by (cases rs) (simp_all add: cmp_Cons compare_identifier_correct Let_def)
qed

lemma match_digitsD:
  "match_digits s = Some r \<Longrightarrow> \<exists>d. s = d @ r \<and> numeric_identifier d"
  by (auto simp: match_digits_def numeric_identifier_def list_all_iff split: if_splits
      dest: set_takeWhileD intro!: exI [of _ "takeWhile is_ascii_digit s"])

lemma match_dotD: "match_dot s = Some r \<Longrightarrow> s = CHR ''.'' # r"
  by (auto simp: match_dot_def split: list.splits if_splits)

lemma release_version_shape:
  assumes "is_release_version s"
  obtains a b c suf where "strip_v s = a @ ''.'' @ b @ ''.'' @ c @ suf"
    "numeric_identifier a" "numeric_identifier b" "numeric_identifier c" "match_suffix suf"
proof -
  from assms obtain s1 s2 s3 s4 s5 where m: "match_digits (strip_v s) = Some s1" "match_dot s1 = Some s2"
    "match_digits s2 = Some s3" "match_dot s3 = Some s4" "match_digits s4 = Some s5" "match_suffix s5"
    by (auto simp: is_release_version_def bind_eq_Some_conv split: option.splits)
  from match_digitsD [OF m(1)] match_digitsD [OF m(3)] match_digitsD [OF m(5)]
  obtain a b c where "strip_v s = a @ s1" "numeric_identifier a" "s2 = b @ s3" "numeric_identifier b"
    "s4 = c @ s5" "numeric_identifier c" by blast
  with match_dotD [OF m(2)] match_dotD [OF m(4)] m(6) that show thesis by simp
qed

lemma numeric_no: "numeric_identifier a \<Longrightarrow> \<not> is_ascii_digit c \<Longrightarrow> c \<notin> set a"
  by (auto simp: numeric_identifier_def list_all_iff)

lemma not_digit [simp]: "\<not> is_ascii_digit (CHR ''-'')" "\<not> is_ascii_digit (CHR ''+'')" "\<not> is_ascii_digit (CHR ''.'')"
  by code_simp+

lemma suffix_char_no_plus: "list_all suffix_char r \<Longrightarrow> CHR ''+'' \<notin> set r"
proof -
  have "\<not> suffix_char (CHR ''+'')" by code_simp
  then show "list_all suffix_char r \<Longrightarrow> CHR ''+'' \<notin> set r" by (auto simp: list_all_iff)
qed

lemma take_drop_mid: "(take (length p) (p @ d # r), drop (length p + 1) (p @ d # r)) = (p, r)"
  by simp

lemma parse_release_version_shape:
  assumes "is_release_version s"
  shows "\<exists>v. parse_release_version s = Inr v \<and> length (core v) = 3 \<and> list_all numeric_identifier (core v)"
proof -
  from assms obtain a b c suf where s: "strip_v s = a @ ''.'' @ b @ ''.'' @ c @ suf"
    and n: "numeric_identifier a" "numeric_identifier b" "numeric_identifier c" and suf: "match_suffix suf"
    by (rule release_version_shape)
  let ?p = "a @ ''.'' @ b @ ''.'' @ c"
  have no: "CHR ''+'' \<notin> set ?p" "CHR ''-'' \<notin> set ?p" using n by (simp_all add: numeric_no)
  have parts: "split_char (CHR ''.'') ?p = [a, b, c]"
    using n by (simp add: split_char_append numeric_no)
  have v: "strip_v s = ?p @ suf" using s by simp
  define v2 where "v2 = (case find_char (CHR ''+'') (strip_v s) of Some i \<Rightarrow> take i (strip_v s) | None \<Rightarrow> strip_v s)"
  consider (none) "v2 = ?p" | (dash) r where "v2 = ?p @ CHR ''-'' # r" 
  proof (cases suf)
    case Nil
    with v no have "find_char (CHR ''+'') (strip_v s) = None" by (simp only: find_char_None append_Nil2 not_False_eq_True)
    then have "v2 = strip_v s" unfolding v2_def by (simp only: option.case)
    with v Nil none show thesis by simp
  next
    case (Cons d r)
    show thesis
    proof (cases "d = CHR ''+''")
      case True
      with v Cons have "find_char (CHR ''+'') (strip_v s) = Some (length ?p)"
        using find_char_append [OF no(1), of r] by (simp only:)
      then have "v2 = take (length ?p) (strip_v s)" unfolding v2_def by (simp only: option.case)
      with v none show thesis by simp
    next
      case False
      with suf Cons have d: "d = CHR ''-''" "list_all suffix_char r" by (simp_all add: match_suffix_def)
      then have "CHR ''+'' \<notin> set (?p @ suf)" using no(1) suffix_char_no_plus Cons by auto
      then have "find_char (CHR ''+'') (strip_v s) = None" by (simp only: v find_char_None not_False_eq_True)
      then have "v2 = strip_v s" unfolding v2_def by (simp only: option.case)
      with v Cons d dash show thesis by simp
    qed
  qed
  then obtain pre where "(case find_char (CHR ''-'') v2 of Some dash \<Rightarrow> (take dash v2, drop (dash + 1) v2)
      | None \<Rightarrow> (v2, [])) = (?p, pre)"
  proof cases
    case none
    then have "find_char (CHR ''-'') v2 = None" using no(2) by (simp only: find_char_None not_False_eq_True)
    with none show thesis by (intro that) (simp only: option.case)
  next
    case (dash r)
    then have "find_char (CHR ''-'') v2 = Some (length ?p)" using find_char_append [OF no(2), of r] by (simp only:)
    then show thesis by (intro that [of r]) (simp only: option.case dash take_drop_mid)
  qed
  with assms parts n show ?thesis
    unfolding parse_release_version_def Let_def v2_def [symmetric] by simp
qed

lemma parse_release_versionD:
  assumes "parse_release_version s = Inr v"
  shows "is_release_version s" and "length (core v) = 3" and "list_all numeric_identifier (core v)"
proof -
  from assms show r: "is_release_version s" by (auto simp: parse_release_version_def split: if_splits)
  from parse_release_version_shape [OF r] assms
  show "length (core v) = 3" and "list_all numeric_identifier (core v)" by auto
qed

lemma compare_parsed_correct:
  assumes "parse_release_version s = Inr a" and "parse_release_version t = Inr b"
  shows "compare_parsed a b = cmp (version_key a) (version_key b)"
proof -
  note a = parse_release_versionD [OF assms(1)] and b = parse_release_versionD [OF assms(2)]
  have c: "compare_core (core a) (core b) = cmp (map digits_num (core a)) (map digits_num (core b))"
    using a b by (intro compare_core_correct) auto
  have "cmp True False = 1" "cmp False True = - 1" by (simp_all add: cmp_def)
  then show ?thesis
    by (simp add: compare_parsed_def version_key_def cmp_Pair c compare_prerelease_correct)
qed

lemma release_key_Some: "release_key s = Some k \<longleftrightarrow> (\<exists>v. parse_release_version s = Inr v \<and> k = version_key v)"
  by (auto simp: release_key_def split: sum.splits)

lemma release_key_None: "release_key s = None \<longleftrightarrow> \<not> is_release_version s"
proof (cases "parse_release_version s")
  case (Inl e)
  with parse_release_version_shape [of s] show ?thesis by (auto simp: release_key_def)
next
  case (Inr v)
  with parse_release_versionD(1) [OF Inr] show ?thesis by (simp add: release_key_def)
qed

lemma compare_release_key:
  "release_key l = Some k \<Longrightarrow> release_key r = Some m \<Longrightarrow> compare_release_versions l r = Inr (cmp k m)"
  by (auto simp: release_key_Some compare_release_versions_def compare_parsed_correct)

lemma compare_release_err:
  "release_key l = None \<or> release_key r = None \<Longrightarrow> \<exists>e. compare_release_versions l r = Inl e"
  by (auto simp: release_key_def compare_release_versions_def split: sum.splits)

lemma release_key_empty: "release_key [] = None"
  by (simp add: release_key_None) code_simp

lemma forward_upgrade_key:
  "validate_forward_upgrade c cur = Inr () \<longleftrightarrow>
     cur = [] \<or> (\<exists>k m. release_key c = Some k \<and> release_key cur = Some m \<and> m < k)"
proof (cases "release_key c = None \<or> release_key cur = None")
  case True
  then show ?thesis using compare_release_err [OF True] by (auto simp: validate_forward_upgrade_def)
next
  case False
  then obtain k m where km: "release_key c = Some k" "release_key cur = Some m" by auto
  then show ?thesis
    using compare_release_key [OF km] by (auto simp: validate_forward_upgrade_def cmp_def not_less_iff_gr_or_eq)
qed

section \<open>Properties\<close>

text \<open>
  C28: The release comparison succeeds exactly on two texts of the release syntax, and there it is the
  comparison of their precedence keys: three numbers, a stable release above its prereleases, and
  prerelease identifiers in lexicographic order with numbers by value and below words.
\<close>

theorem compare_release_versions_key:
  "compare_release_versions l r = Inr c \<longleftrightarrow>
     (\<exists>k m. release_key l = Some k \<and> release_key r = Some m \<and> c = cmp k m)"
proof (cases "release_key l = None \<or> release_key r = None")
  case True
  then show ?thesis using compare_release_err [OF True] by auto
next
  case False
  then obtain k m where km: "release_key l = Some k" "release_key r = Some m" by auto
  then show ?thesis using compare_release_key [OF km] by auto
qed

text \<open>
  C31: No sequence of forward upgrades returns to a version it has left: the versions accepted one
  after the other over a known version strictly ascend, so the last is above the first.
\<close>

theorem forward_upgrades_ascend:
  assumes "vs \<noteq> []" and "v0 \<noteq> []" and "\<forall>v\<in>set vs. v \<noteq> []"
    and "\<forall>i<length vs. validate_forward_upgrade (vs ! i) ((v0 # vs) ! i) = Inr ()"
  shows "\<exists>k m. release_key v0 = Some k \<and> release_key (last vs) = Some m \<and> k < m"
  using assms
proof (induction vs rule: rev_induct)
  case (snoc v vs)
  have last: "validate_forward_upgrade v (last (v0 # vs)) = Inr ()"
    using snoc.prems(4) [rule_format, of "length vs"] by (cases vs rule: rev_cases) (simp_all add: nth_append)
  show ?case
  proof (cases "vs = []")
    case True
    with last snoc.prems(2) show ?thesis unfolding forward_upgrade_key by fastforce
  next
    case False
    have "\<forall>i<length vs. validate_forward_upgrade (vs ! i) ((v0 # vs) ! i) = Inr ()"
    proof (intro allI impI)
      fix i assume "i < length vs"
      with snoc.prems(4) [rule_format, of i] show "validate_forward_upgrade (vs ! i) ((v0 # vs) ! i) = Inr ()"
        by (cases i) (simp_all add: nth_append)
    qed
    with snoc.IH False snoc.prems(2,3) obtain k m where
      "release_key v0 = Some k" "release_key (last vs) = Some m" "k < m" by auto
    moreover have "last (v0 # vs) \<noteq> []" using False snoc.prems(3) by (auto dest: last_in_set)
    ultimately obtain k' where "release_key v = Some k'" "m < k'"
      using last False by (auto simp only: forward_upgrade_key last.simps if_False option.inject)
    with \<open>release_key v0 = Some k\<close> \<open>k < m\<close> show ?thesis using less_trans by (metis last_snoc)
  qed
qed simp

theorem forward_upgrades_ascend_witness:
  "\<exists>k m. release_key ''1.2.0-rc.1'' = Some k \<and> release_key (last [''1.2.0-rc.10'', ''v1.2.0'', ''1.10.0'']) = Some m \<and> k < m"
proof (rule forward_upgrades_ascend)
  have "list_all (\<lambda>i. validate_forward_upgrade ([''1.2.0-rc.10'', ''v1.2.0'', ''1.10.0''] ! i)
      ([''1.2.0-rc.1'', ''1.2.0-rc.10'', ''v1.2.0'', ''1.10.0''] ! i) = Inr ()) [0..<3]" by code_simp
  then show "\<forall>i<length [''1.2.0-rc.10'', ''v1.2.0'', ''1.10.0'']. validate_forward_upgrade
      ([''1.2.0-rc.10'', ''v1.2.0'', ''1.10.0''] ! i) ([''1.2.0-rc.1'', ''1.2.0-rc.10'', ''v1.2.0'', ''1.10.0''] ! i) = Inr ()"
    by (simp only: list_all_iff set_upt) auto
qed simp_all

end
