(* ===== verification/Filepath.thy ===== *)
theory Filepath
  imports Prelude
begin

text \<open>
  \<open>mr-core/src/goish/filepath.rs\<close>: lexical path processing. \<open>clean\<close> is written over a byte buffer
  with a write position and a position below which \<open>..\<close> may not back up; it is proved equal to the
  reference definition on path components.
\<close>

section \<open>Model\<close>

text \<open>
  The state of \<open>clean\<close>'s loop is the unread input, the bytes written so far (\<open>buf[..w]\<close>, so that
  \<open>w\<close> is their number) and \<open>dotdot\<close>. Backing up removes bytes and inspects the byte just removed
  (\<open>buf[w]\<close> after \<open>w -= 1\<close>).
\<close>

function backtrack :: "nat \<Rightarrow> string \<Rightarrow> string" where
  "backtrack dotdot out =
     (if out = [] then []
      else if length (butlast out) > dotdot \<and> last out \<noteq> CHR ''/''
      then backtrack dotdot (butlast out)
      else butlast out)"
  by pat_completeness auto
termination by (relation "measure (\<lambda>(d, out). length out)") auto

declare backtrack.simps [simp del]

definition at_end :: "string \<Rightarrow> bool" where
  "at_end r = (r = [] \<or> hd r = CHR ''/'')"

definition not_slash :: "char \<Rightarrow> bool" where
  "not_slash c = (c \<noteq> CHR ''/'')"

function clean_loop :: "bool \<Rightarrow> nat \<Rightarrow> string \<Rightarrow> string \<Rightarrow> string" where
  "clean_loop rooted dotdot out r =
     (case r of
        [] \<Rightarrow> out
      | c # cs \<Rightarrow>
          if c = CHR ''/'' then clean_loop rooted dotdot out cs
          else if c = CHR ''.'' \<and> at_end cs then clean_loop rooted dotdot out cs
          else if c = CHR ''.'' \<and> hd cs = CHR ''.'' \<and> at_end (tl cs) then
            (if length out > dotdot then clean_loop rooted dotdot (backtrack dotdot out) (tl cs)
             else if \<not> rooted then
               (let out' = (if out \<noteq> [] then out @ ''/'' else out) @ ''..''
                in clean_loop rooted (length out') out' (tl cs))
             else clean_loop rooted dotdot out (tl cs))
          else
            (let out' = (if (rooted \<and> length out \<noteq> 1) \<or> (\<not> rooted \<and> length out \<noteq> 0) then out @ ''/'' else out)
             in clean_loop rooted dotdot (out' @ takeWhile not_slash r) (dropWhile not_slash r)))"
  by pat_completeness auto
termination
proof (relation "measure (\<lambda>(_, _, _, r). length r)", goal_cases)
  case (7 rooted dotdot out r c cs out')
  then have "length (dropWhile not_slash cs) \<le> length cs" by (simp add: length_dropWhile_le)
  with 7 show ?case by (simp add: not_slash_def)
qed auto

declare clean_loop.simps [simp del]

definition clean :: "string \<Rightarrow> string" where
  "clean path =
     (if path = [] then ''.''
      else
        (let rooted = (hd path = CHR ''/'');
             out = (if rooted then clean_loop True 1 ''/'' (tl path) else clean_loop False 0 [] path)
         in if out = [] then ''.'' else out))"

definition is_abs :: "string \<Rightarrow> bool" where
  "is_abs path = starts_with path ''/''"

definition is_local :: "string \<Rightarrow> bool" where
  "is_local path =
     (if is_abs path \<or> path = [] then False
      else
        (let p = (if list_ex (\<lambda>part. part = ''.'' \<or> part = ''..'') (split_char (CHR ''/'') path)
                  then clean path else path)
         in \<not> (p = ''..'' \<or> starts_with p ''../'')))"

definition dir :: "string \<Rightarrow> string" where
  "dir path = (case rfind_char (CHR ''/'') path of
      Some i \<Rightarrow> clean (take (i + 1) path)
    | None \<Rightarrow> ''.'')"

definition trim_end_slash :: "string \<Rightarrow> string" where
  "trim_end_slash s = rev (dropWhile (\<lambda>c. c = CHR ''/'') (rev s))"

definition base :: "string \<Rightarrow> string" where
  "base path =
     (if path = [] then ''.''
      else
        (let trimmed = trim_end_slash path
         in if trimmed = [] then ''/'' else last (split_char (CHR ''/'') trimmed)))"

section \<open>Reference definition\<close>

text \<open>
  Components of a path, without the empty ones and \<open>.\<close>; \<open>..\<close> removes the component before it,
  unless there is none: at the root it is dropped, in a relative path it is kept.
\<close>

fun resolve :: "bool \<Rightarrow> string list \<Rightarrow> string list \<Rightarrow> string list" where
  "resolve rooted acc [] = acc"
| "resolve rooted acc (p # ps) =
     (if p = [] \<or> p = ''.'' then resolve rooted acc ps
      else if p = ''..'' then
        (if acc \<noteq> [] \<and> last acc \<noteq> ''..'' then resolve rooted (butlast acc) ps
         else if rooted then resolve rooted acc ps
         else resolve rooted (acc @ [''..'']) ps)
      else resolve rooted (acc @ [p]) ps)"

definition clean_spec :: "string \<Rightarrow> string" where
  "clean_spec path =
     (if path \<noteq> [] \<and> hd path = CHR ''/''
      then ''/'' @ join ''/'' (resolve True [] (split_char (CHR ''/'') (tl path)))
      else
        (let ps = resolve False [] (split_char (CHR ''/'') path)
         in if ps = [] then ''.'' else join ''/'' ps))"

section \<open>Equivalence\<close>

lemma at_end_Nil [simp]: "at_end []"
  by (simp add: at_end_def)

lemma join_snoc: "join s (ps @ [p]) = (if ps = [] then p else join s ps @ s @ p)"
  by (induction s ps rule: join.induct) auto

lemma split_comp:
  assumes "CHR ''/'' \<notin> set p" and "at_end rest"
  shows "split_char (CHR ''/'') (p @ rest) = p # tl (split_char (CHR ''/'') rest)"
    and "hd (split_char (CHR ''/'') rest) = []"
proof -
  show "split_char (CHR ''/'') (p @ rest) = p # tl (split_char (CHR ''/'') rest)"
    using assms by (cases rest) (auto simp: at_end_def split_char_append)
  show "hd (split_char (CHR ''/'') rest) = []"
    using assms(2) by (cases rest) (auto simp: at_end_def)
qed

lemma resolve_skip:
  assumes "at_end rest"
  shows "resolve rt acc (split_char (CHR ''/'') rest) = resolve rt acc (tl (split_char (CHR ''/'') rest))"
  using split_comp(2) [of "[]" rest] assms by (cases "split_char (CHR ''/'') rest") auto

lemma backtrack_name:
  "name \<noteq> [] \<Longrightarrow> CHR ''/'' \<notin> set name \<Longrightarrow> length pre = d \<Longrightarrow> backtrack d (pre @ name) = pre"
proof (induction name rule: rev_induct)
  case (snoc c name)
  show ?case
  proof (cases "name = []")
    case True
    then show ?thesis using snoc.prems by (subst backtrack.simps) simp
  next
    case False
    then have "backtrack d (pre @ name @ [c]) = backtrack d (pre @ name)"
      using snoc.prems by (subst backtrack.simps) (auto simp: butlast_append)
    then show ?thesis using snoc False by simp
  qed
qed simp

lemma backtrack_slash:
  "CHR ''/'' \<notin> set name \<Longrightarrow> d \<le> length pre \<Longrightarrow> backtrack d (pre @ ''/'' @ name) = pre"
proof (induction name rule: rev_induct)
  case Nil
  then show ?case by (subst backtrack.simps) simp
next
  case (snoc c name)
  have "backtrack d (pre @ ''/'' @ name @ [c]) = backtrack d (pre @ ''/'' @ name)"
    using snoc.prems by (subst backtrack.simps) (auto simp: butlast_append)
  then show ?case using snoc by simp
qed

definition proper :: "string \<Rightarrow> bool" where
  "proper p = (p \<noteq> [] \<and> p \<noteq> ''.'' \<and> p \<noteq> ''..'' \<and> CHR ''/'' \<notin> set p)"

definition slash :: "bool \<Rightarrow> string" where
  "slash rooted = (if rooted then ''/'' else [])"

text \<open>What the loop keeps: the bytes written are the resolved components, and \<open>dotdot\<close> is the end of
  the leading \<open>..\<close> components.\<close>

definition clean_inv :: "bool \<Rightarrow> nat \<Rightarrow> string list \<Rightarrow> nat \<Rightarrow> string \<Rightarrow> string list \<Rightarrow> bool" where
  "clean_inv rooted k names dotdot out acc =
     (acc = replicate k ''..'' @ names \<and> (rooted \<longrightarrow> k = 0) \<and> list_all proper names
      \<and> out = slash rooted @ join ''/'' acc
      \<and> dotdot = length (slash rooted @ join ''/'' (replicate k ''..'')))"

lemma join_eq_Nil: "[] \<notin> set ps \<Longrightarrow> join s ps = [] \<longleftrightarrow> ps = []"
  by (cases ps rule: remdups_adj.cases) auto

lemma join_append:
  "xs \<noteq> [] \<Longrightarrow> ys \<noteq> [] \<Longrightarrow> join s (xs @ ys) = join s xs @ s @ join s ys"
proof (induction s xs rule: join.induct)
  case (2 s p)
  then show ?case by (cases ys) auto
qed auto

lemma clean_inv_no_Nil: "clean_inv rt k names d out acc \<Longrightarrow> [] \<notin> set acc"
  by (auto simp: clean_inv_def slash_def proper_def list_all_iff)

lemma clean_inv_length:
  assumes "clean_inv rt k names d out acc"
  shows "length out > d \<longleftrightarrow> names \<noteq> []"
proof (cases "names = []")
  case False
  have "join ''/'' names \<noteq> []"
    using assms False by (subst join_eq_Nil) (auto simp: clean_inv_def slash_def proper_def list_all_iff)
  with assms False show ?thesis
    by (cases "k = 0") (auto simp: clean_inv_def slash_def join_append)
qed (use assms in \<open>simp add: clean_inv_def slash_def\<close>)

lemma clean_inv_last:
  assumes "clean_inv rt k names d out acc"
  shows "acc \<noteq> [] \<and> last acc \<noteq> ''..'' \<longleftrightarrow> names \<noteq> []"
proof (cases names rule: rev_cases)
  case Nil
  with assms show ?thesis by (cases k) (auto simp: clean_inv_def slash_def simp flip: replicate_append_same)
next
  case (snoc ns n)
  with assms show ?thesis by (auto simp: clean_inv_def slash_def proper_def)
qed

lemma clean_inv_backtrack:
  assumes "clean_inv rt k names d out acc" and "names \<noteq> []"
  shows "clean_inv rt k (butlast names) d (backtrack d out) (butlast acc)"
proof -
  from assms(2) obtain ns n where n: "names = ns @ [n]" by (cases names rule: rev_cases) auto
  let ?acc = "replicate k ''..'' @ ns"
  have acc: "acc = ?acc @ [n]" "butlast acc = ?acc" "proper n"
    using assms(1) by (auto simp: clean_inv_def slash_def n butlast_append)
  have d: "d \<le> length (slash rt @ join ''/'' ?acc)"
  proof (cases "k = 0 \<or> ns = []")
    case False
    with assms(1) show ?thesis by (simp add: clean_inv_def slash_def join_append)
  qed (use assms(1) in \<open>auto simp: clean_inv_def slash_def\<close>)
  have "backtrack d out = slash rt @ join ''/'' ?acc"
  proof (cases "?acc = []")
    case True
    then have "out = slash rt @ n" "d = length (slash rt)"
      using assms(1) acc by (auto simp: clean_inv_def slash_def)
    with True acc show ?thesis using backtrack_name [of n "slash rt" d] by (simp add: proper_def)
  next
    case False
    then have "join ''/'' acc = join ''/'' ?acc @ ''/'' @ n" unfolding acc(1) join_snoc by simp
    then have "out = (slash rt @ join ''/'' ?acc) @ ''/'' @ n"
      using assms(1) by (simp add: clean_inv_def slash_def)
    with acc(3) show ?thesis using backtrack_slash [OF _ d, of n] by (simp add: proper_def)
  qed
  with assms(1) acc show ?thesis by (simp add: clean_inv_def n)
qed

lemma clean_inv_name:
  assumes "clean_inv rt k names d out acc" and "proper p"
  shows "clean_inv rt k (names @ [p]) d
    ((if (rt \<and> length out \<noteq> 1) \<or> (\<not> rt \<and> length out \<noteq> 0) then out @ ''/'' else out) @ p) (acc @ [p])"
proof -
  have "(rt \<and> length out \<noteq> 1) \<or> (\<not> rt \<and> length out \<noteq> 0) \<longleftrightarrow> acc \<noteq> []"
    using assms(1) join_eq_Nil [OF clean_inv_no_Nil [OF assms(1)], of "''/''"] by (auto simp: clean_inv_def slash_def)
  with assms show ?thesis by (auto simp: clean_inv_def slash_def join_snoc simp flip: append_assoc)
qed

lemma clean_inv_dotdot:
  assumes "clean_inv False k [] d out acc"
  shows "clean_inv False (Suc k) [] (length ((if out \<noteq> [] then out @ ''/'' else out) @ ''..''))
    ((if out \<noteq> [] then out @ ''/'' else out) @ ''..'') (acc @ [''..''])"
proof -
  have "out \<noteq> [] \<longleftrightarrow> acc \<noteq> []"
    using assms join_eq_Nil [OF clean_inv_no_Nil [OF assms], of "''/''"] by (auto simp: clean_inv_def slash_def)
  then show ?thesis
    using assms by (auto simp: clean_inv_def slash_def join_snoc replicate_append_same simp flip: replicate_append_same)
qed

lemma takeWhile_comp:
  "CHR ''/'' \<notin> set (takeWhile not_slash r)" "at_end (dropWhile not_slash r)"
  by (induction r) (auto simp: not_slash_def at_end_def)

lemma dot_comp:
  assumes "c \<noteq> CHR ''/''" and "\<not> (c = CHR ''.'' \<and> at_end cs)"
    and "\<not> (c = CHR ''.'' \<and> hd cs = CHR ''.'' \<and> at_end (tl cs))"
  shows "proper (takeWhile not_slash (c # cs))"
proof -
  have "takeWhile not_slash cs \<noteq> [] \<or> c \<noteq> CHR ''.''"
    using assms(2) by (cases cs) (auto simp: at_end_def not_slash_def)
  moreover have "c # takeWhile not_slash cs \<noteq> ''..''"
  proof
    assume "c # takeWhile not_slash cs = ''..''"
    then have c: "c = CHR ''.''" and t: "takeWhile not_slash cs = ''.''" by auto
    from t obtain ds where ds: "cs = CHR ''.'' # ds" "takeWhile not_slash ds = []"
      by (cases cs) (auto split: if_splits)
    then have "at_end ds" by (cases ds) (auto simp: at_end_def not_slash_def split: if_splits)
    with assms(3) c ds show False by simp
  qed
  ultimately show ?thesis
    using assms(1) takeWhile_comp(1) [of "c # cs"] by (auto simp: proper_def not_slash_def)
qed

lemma clean_loop_name:
  assumes "c \<noteq> CHR ''/''" and "\<not> (c = CHR ''.'' \<and> at_end cs)"
    and "\<not> (c = CHR ''.'' \<and> hd cs = CHR ''.'' \<and> at_end (tl cs))"
  shows "clean_loop rt d out (c # cs) = clean_loop rt d
    ((if (rt \<and> length out \<noteq> 1) \<or> (\<not> rt \<and> length out \<noteq> 0) then out @ ''/'' else out)
      @ takeWhile not_slash (c # cs)) (dropWhile not_slash (c # cs))"
  by (subst clean_loop.simps) (simp only: list.case assms if_False Let_def)

lemma clean_loop_resolve:
  "clean_inv rt k names d out acc \<Longrightarrow>
   clean_loop rt d out r = slash rt @ join ''/'' (resolve rt acc (split_char (CHR ''/'') r))"
proof (induction rt d out r arbitrary: k names acc rule: clean_loop.induct)
  case (1 rt d out r)
  note IH = "1.IH" and inv = "1.prems"
  show ?case
  proof (cases r)
    case Nil
    with inv show ?thesis by (simp add: clean_loop.simps clean_inv_def)
  next
    case (Cons c cs)
    consider (sl) "c = CHR ''/''" | (dot) "c = CHR ''.''" "at_end cs"
      | (dd) "c = CHR ''.''" "\<not> at_end cs" "hd cs = CHR ''.''" "at_end (tl cs)"
      | (name) "c \<noteq> CHR ''/''" "\<not> (c = CHR ''.'' \<and> at_end cs)"
          "\<not> (c = CHR ''.'' \<and> hd cs = CHR ''.'' \<and> at_end (tl cs))" by blast
    then show ?thesis
    proof cases
      case sl
      then show ?thesis using IH(1) [OF Cons sl inv] unfolding Cons by (subst clean_loop.simps) simp
    next
      case dot
      then have "split_char (CHR ''/'') r = ''.'' # tl (split_char (CHR ''/'') cs)"
        using split_comp(1) [of "''.''" cs] Cons by simp
      with dot IH(2) [OF Cons _ _ inv] resolve_skip [OF dot(2)] Cons show ?thesis
        unfolding Cons by (subst clean_loop.simps) simp
    next
      case dd
      then obtain ds where ds: "cs = CHR ''.'' # ds" "at_end ds" by (cases cs) auto
      then have sp: "split_char (CHR ''/'') r = ''..'' # tl (split_char (CHR ''/'') ds)"
        using split_comp(1) [of "''..''" ds] Cons dd by simp
      note last = clean_inv_last [OF inv] and len = clean_inv_length [OF inv] and skip = resolve_skip [OF ds(2)]
      show ?thesis
      proof (cases "names = []")
        case False
        with IH(3) [OF Cons _ _ _ _ clean_inv_backtrack [OF inv False]] dd ds sp last len skip Cons
        show ?thesis unfolding Cons by (subst clean_loop.simps) simp
      next
        case True
        show ?thesis
        proof (cases rt)
          case rt: True
          with IH(5) [OF Cons _ _ _ _ _ inv] dd ds sp last len skip Cons True
          show ?thesis unfolding Cons by (subst clean_loop.simps) auto
        next
          case rt: False
          with inv True have i: "clean_inv False k [] d out acc" by simp
          from IH(4) [OF Cons _ _ _ _ _ refl] clean_inv_dotdot [OF i] rt dd ds sp last len skip Cons True
          show ?thesis unfolding Cons by (subst clean_loop.simps) (auto simp: Let_def)
        qed
      qed
    next
      case name
      let ?p = "takeWhile not_slash r" and ?rest = "dropWhile not_slash r"
      have p: "proper ?p" using dot_comp [OF name] Cons by simp
      have "split_char (CHR ''/'') r = ?p # tl (split_char (CHR ''/'') ?rest)"
        using split_comp(1) [OF takeWhile_comp, of r r] by simp
      then have "resolve rt acc (split_char (CHR ''/'') r) = resolve rt (acc @ [?p]) (split_char (CHR ''/'') ?rest)"
        using p resolve_skip [OF takeWhile_comp(2), of rt "acc @ [?p]" r] by (simp add: proper_def)
      with IH(6) [OF Cons _ _ _ refl clean_inv_name [OF inv p]] name
      show ?thesis using clean_loop_name [OF name, of rt d out] unfolding Cons by argo
    qed
  qed
qed

lemma resolve_no_Nil: "[] \<notin> set acc \<Longrightarrow> [] \<notin> set (resolve rt acc ps)"
proof (induction rt acc ps rule: resolve.induct)
  case (2 rt acc p ps)
  then have "[] \<notin> set (butlast acc)" by (auto dest: in_set_butlastD)
  with 2 show ?case by auto
qed simp

lemma resolve_no_new_dotdot:
  "''..'' \<notin> set ps \<Longrightarrow> ''..'' \<notin> set acc \<Longrightarrow> ''..'' \<notin> set (resolve rt acc ps)"
  by (induction rt acc ps rule: resolve.induct) auto

lemma join_Cons_dotdot:
  "join ''/'' (''..'' # ps) = ''..'' \<or> starts_with (join ''/'' (''..'' # ps)) ''../''"
  by (cases ps) (simp_all add: starts_with_def)

lemma resolve_dotdot: "''..'' \<in> set acc \<Longrightarrow> ''..'' \<in> set (resolve rt acc ps)"
proof (induction rt acc ps rule: resolve.induct)
  case (2 rt acc p ps)
  have "''..'' \<in> set (butlast acc)" if "acc \<noteq> []" "last acc \<noteq> ''..''"
    using 2(6) that by (cases acc rule: rev_cases) auto
  with 2 show ?case by auto
qed simp

lemma resolve_within:
  assumes "''..'' \<notin> set (resolve False acc ps)"
  shows "resolve False (d @ acc) ps = d @ resolve False acc ps"
  using assms
proof (induction ps arbitrary: acc)
  case (Cons p ps)
  show ?case
  proof (cases "p = ''..''")
    case True
    from Cons.prems have no: "''..'' \<notin> set acc" using resolve_dotdot by blast
    have "acc \<noteq> []" using Cons.prems True resolve_dotdot [of "[''..'']" False ps] by auto
    moreover from this no have "last acc \<noteq> ''..''" by (metis last_in_set)
    ultimately show ?thesis
      using Cons.IH [of "butlast acc"] Cons.prems True by (simp add: butlast_append)
  next
    case False
    with Cons.prems show ?thesis using Cons.IH [of acc] Cons.IH [of "acc @ [p]"] by auto
  qed
qed simp

lemma resolve_proper:
  "(\<And>p. p \<in> set ps \<Longrightarrow> CHR ''/'' \<notin> set p) \<Longrightarrow> list_all proper acc \<Longrightarrow>
   ''..'' \<notin> set (resolve False acc ps) \<Longrightarrow> list_all proper (resolve False acc ps)"
proof (induction ps arbitrary: acc)
  case (Cons p ps)
  have but: "list_all proper (butlast acc)" using Cons.prems(2) by (auto simp: list_all_iff dest: in_set_butlastD)
  show ?case
  proof (cases "p = ''..''")
    case True
    have "acc \<noteq> []" using Cons.prems(3) True resolve_dotdot [of "[''..'']" False ps] by auto
    moreover have "last acc \<noteq> ''..''"
      using Cons.prems(2) \<open>acc \<noteq> []\<close> by (auto simp: list_all_iff proper_def dest: last_in_set)
    ultimately show ?thesis using Cons.IH [OF _ but] Cons.prems True by simp
  next
    case False
    show ?thesis
    proof (cases "p = [] \<or> p = ''.''")
      case True
      then show ?thesis using Cons.IH [of acc] Cons.prems False by auto
    next
      case np: False
      then have "proper p" using Cons.prems(1) [of p] False by (simp add: proper_def)
      then have "list_all proper (acc @ [p])" using Cons.prems(2) by simp
      then show ?thesis using Cons.IH [of "acc @ [p]"] Cons.prems False np by auto
    qed
  qed
qed simp

lemma clean_inv_Nil: "clean_inv rt 0 [] (length (slash rt)) (slash rt) []"
  by (simp add: clean_inv_def)

lemma clean_eq: "clean path = clean_spec path"
proof (cases path)
  case (Cons c cs)
  show ?thesis
  proof (cases "c = CHR ''/''")
    case True
    with clean_loop_resolve [OF clean_inv_Nil, of True cs] Cons show ?thesis
      by (simp add: clean_def clean_spec_def slash_def Let_def)
  next
    case False
    let ?ps = "resolve False [] (split_char (CHR ''/'') path)"
    have "clean_loop False 0 [] path = join ''/'' ?ps"
      using clean_loop_resolve [OF clean_inv_Nil, of False path] by (simp add: slash_def)
    moreover have "join ''/'' ?ps = [] \<longleftrightarrow> ?ps = []" using resolve_no_Nil [of "[]"] by (intro join_eq_Nil) simp
    ultimately show ?thesis using False Cons by (simp add: clean_def clean_spec_def Let_def)
  qed
qed (simp add: clean_def clean_spec_def)

text \<open>
  C29: The buffer implementation of \<open>clean\<close> computes the component-wise reference definition.
\<close>

theorem clean_correct: "clean path = clean_spec path"
  by (rule clean_eq)

text \<open>The leading \<open>..\<close> components come first, so the text of the resolved path shows whether there
  are any.\<close>

lemma resolve_starts_dotdot:
  "acc = replicate k ''..'' @ names \<Longrightarrow> ''..'' \<notin> set names \<Longrightarrow>
   \<exists>j ns. resolve False acc ps = replicate j ''..'' @ ns \<and> ''..'' \<notin> set ns"
proof (induction ps arbitrary: acc k names)
  case (Cons p ps)
  show ?case
  proof (cases "p = ''..''")
    case True
    show ?thesis
    proof (cases names rule: rev_cases)
      case Nil
      then have "acc \<noteq> [] \<longrightarrow> last acc = ''..''" using Cons.prems by (cases k) (auto simp flip: replicate_append_same)
      moreover have "acc @ [''..''] = replicate (Suc k) ''..'' @ []"
        using Cons.prems Nil by (simp add: replicate_append_same)
      ultimately show ?thesis using True Cons.IH [of "acc @ [''..'']" "Suc k" "[]"] by auto
    next
      case (snoc ns n)
      then have "acc \<noteq> []" "last acc \<noteq> ''..''" "butlast acc = replicate k ''..'' @ ns" "''..'' \<notin> set ns"
        using Cons.prems by (auto simp: butlast_append)
      then show ?thesis using True Cons.IH [of "butlast acc" k ns] by simp
    qed
  next
    case False
    have "acc @ [p] = replicate k ''..'' @ names @ [p]" "''..'' \<notin> set (names @ [p])"
      using Cons.prems False by simp_all
    from Cons.IH [OF this] Cons.IH [OF Cons.prems] False show ?thesis
      by (cases "p = [] \<or> p = ''.''") simp_all
  qed
next
  case Nil
  then show ?case by (metis resolve.simps(1))
qed

lemma is_local_resolve:
  assumes "is_local path"
  shows "''..'' \<notin> set (resolve False [] (split_char (CHR ''/'') path))"
proof (cases "list_ex (\<lambda>part. part = ''.'' \<or> part = ''..'') (split_char (CHR ''/'') path)")
  case True
  let ?ps = "resolve False [] (split_char (CHR ''/'') path)"
  from assms have "path \<noteq> [] \<and> hd path \<noteq> CHR ''/''"
    by (cases path) (auto simp: is_local_def is_abs_def starts_with_def)
  then have rel: "path \<noteq> []" "hd path \<noteq> CHR ''/''" by simp_all
  have no: "clean path \<noteq> ''..''" "\<not> starts_with (clean path) ''../''"
    using assms True by (simp_all add: is_local_def Let_def split: if_splits)
  obtain j ns where ps: "?ps = replicate j ''..'' @ ns" "''..'' \<notin> set ns"
    using resolve_starts_dotdot [of "[]" 0 "[]" "split_char (CHR ''/'') path"] by auto
  have "j = 0"
  proof (rule ccontr)
    assume "j \<noteq> 0"
    then obtain i where "?ps = ''..'' # replicate i ''..'' @ ns" using ps by (cases j) auto
    then show False
      using no rel join_Cons_dotdot [of "replicate i ''..'' @ ns"] by (auto simp: clean_eq clean_spec_def Let_def)
  qed
  with ps show ?thesis by simp
next
  case False
  then have "''..'' \<notin> set (split_char (CHR ''/'') path)" by (auto simp: list_ex_iff)
  then show ?thesis using resolve_no_new_dotdot [of _ "[]"] by simp
qed

text \<open>
  C30: A path accepted by \<open>is_local\<close> names an entry below whatever directory it is resolved in:
  resolving its components from any directory only adds proper components to it.
\<close>

theorem is_local_contained:
  assumes "is_local path"
  shows "\<exists>ns. list_all proper ns \<and> (\<forall>d. resolve False d (split_char (CHR ''/'') path) = d @ ns)"
proof (intro exI conjI allI)
  let ?ps = "split_char (CHR ''/'') path"
  note no = is_local_resolve [OF assms]
  show "list_all proper (resolve False [] ?ps)"
    using resolve_proper [OF split_char_no_sep _ no] by simp
  show "resolve False d ?ps = d @ resolve False [] ?ps" for d
    using resolve_within [OF no, of d] by (simp only: append_Nil2)
qed

theorem is_local_contained_witness:
  "is_local ''web/../bin/x'' \<and>
   (\<exists>ns. list_all proper ns \<and> (\<forall>d. resolve False d (split_char (CHR ''/'') ''web/../bin/x'') = d @ ns))"
proof -
  have "is_local ''web/../bin/x''" by code_simp
  from this is_local_contained [OF this] show ?thesis by (rule conjI)
qed

end
