(* ===== verification/Firmware.thy ===== *)
theory Firmware
  imports Release_Version Filepath
begin

text \<open>
  \<open>mr-core/src/firmware/mod.rs\<close>: signed manifests and the appliance payload policy. The Ed25519, hex
  and JSON libraries are parameters, collected in the record \<open>crypto\<close>; a directory is a function from
  cleaned relative paths to entries.
\<close>

section \<open>Model\<close>

record firmware_manifest =
  fm_version :: string
  fm_build_date :: string
  fm_git_commit :: string
  fm_files :: "(string \<times> string) list option"
  fm_signature :: string
  fm_public_key :: string

text \<open>\<open>files\<close> is a \<open>BTreeMap\<close>: an association list in ascending key order.\<close>

definition manifest_files :: "firmware_manifest \<Rightarrow> (string \<times> string) list" where
  "manifest_files m = (case fm_files m of Some fs \<Rightarrow> fs | None \<Rightarrow> [])"

definition contains_key :: "(string \<times> 'a) list \<Rightarrow> string \<Rightarrow> bool" where
  "contains_key fs k = (map_of fs k \<noteq> None)"

text \<open>
  Third-party code: \<open>hex::decode\<close>, \<open>VerifyingKey::from_bytes\<close> (whether the bytes are a key),
  \<open>VerifyingKey::verify\<close>, and the JSON encoder applied to the four signed fields.
\<close>

record crypto =
  hex_decode :: "string \<Rightarrow> u8 list option"
  key_valid :: "u8 list \<Rightarrow> bool"
  key_verify :: "u8 list \<Rightarrow> u8 list \<Rightarrow> u8 list \<Rightarrow> bool"
  marshal_payload :: "string \<Rightarrow> string \<Rightarrow> string \<Rightarrow> (string \<times> string) list option \<Rightarrow> u8 list result"
  debug_str :: "string \<Rightarrow> string"

definition PUBLIC_KEY_SIZE :: nat where
  "PUBLIC_KEY_SIZE = 32"

definition SIGNATURE_SIZE :: nat where
  "SIGNATURE_SIZE = 64"

definition signed_payload :: "crypto \<Rightarrow> firmware_manifest \<Rightarrow> u8 list result" where
  "signed_payload x m = marshal_payload x (fm_version m) (fm_build_date m) (fm_git_commit m) (fm_files m)"

definition claims_other_key :: "crypto \<Rightarrow> firmware_manifest \<Rightarrow> u8 list \<Rightarrow> bool" where
  "claims_other_key x m trusted =
     (fm_public_key m \<noteq> [] \<and>
      \<not> (case hex_decode x (fm_public_key m) of
            Some c \<Rightarrow> length c = PUBLIC_KEY_SIZE \<and> c = trusted
          | None \<Rightarrow> False))"

definition verify_manifest :: "crypto \<Rightarrow> firmware_manifest option \<Rightarrow> u8 list \<Rightarrow> unit result" where
  "verify_manifest x manifest trusted =
     (if length trusted \<noteq> PUBLIC_KEY_SIZE then Inl (Sentinel ErrInvalidPublicKey)
      else (case manifest of
        None \<Rightarrow> Inl (Errorf ''incomplete firmware manifest'')
      | Some m \<Rightarrow>
          (if fm_version m = [] \<or> manifest_files m = [] then Inl (Errorf ''incomplete firmware manifest'')
           else if claims_other_key x m trusted then Inl (Sentinel ErrUntrustedPublicKey)
           else (case hex_decode x (fm_signature m) of
             None \<Rightarrow> Inl (Sentinel ErrInvalidSignatureFormat)
           | Some sig \<Rightarrow>
               (if length sig \<noteq> SIGNATURE_SIZE then Inl (Sentinel ErrInvalidSignatureFormat)
                else (case signed_payload x m of
                  Inl e \<Rightarrow> Inl e
                | Inr payload \<Rightarrow>
                    (if \<not> key_valid x trusted then Inl (Sentinel ErrInvalidSignature)
                     else if \<not> key_verify x trusted payload sig then Inl (Sentinel ErrInvalidSignature)
                     else Inr ())))))))"

text \<open>A directory entry as \<open>symlink_metadata\<close> sees it: a regular file with its mode bits and its SHA-256
  (none when it cannot be read), or something else.\<close>

datatype entry = Regular (entry_mode: u32) (entry_digest: "u8 list option") | NotRegular

type_synonym directory = "string \<Rightarrow> entry option"

fun verify_files :: "crypto \<Rightarrow> directory \<Rightarrow> (string \<times> string) list \<Rightarrow> unit result" where
  "verify_files x d [] = Inr ()"
| "verify_files x d ((relative, expected_hash) # fs) =
     (let c = clean relative
      in if c = ''.'' \<or> is_abs c \<or> c \<noteq> relative \<or> starts_with c ''../''
         then Inl (Errorf (''unsafe firmware path: '' @ debug_str x relative))
         else (case hex_decode x expected_hash of
           None \<Rightarrow> Inl (Errorf (''invalid hash for '' @ relative))
         | Some expected \<Rightarrow>
             (if length expected \<noteq> 32 then Inl (Errorf (''invalid hash for '' @ relative))
              else (case d c of
                Some (Regular md dg) \<Rightarrow>
                  (case dg of
                     None \<Rightarrow> Inl (Errorf (''file missing: '' @ relative))
                   | Some actual \<Rightarrow>
                       if actual \<noteq> expected then Inl (Errorf (''hash mismatch for '' @ relative))
                       else verify_files x d fs)
              | _ \<Rightarrow> Inl (Errorf (''file missing or unsafe: '' @ relative))))))"

definition verify_firmware :: "crypto \<Rightarrow> directory \<Rightarrow> firmware_manifest option \<Rightarrow> u8 list \<Rightarrow> unit result" where
  "verify_firmware x d manifest trusted =
     (case verify_manifest x manifest trusted of
        Inl e \<Rightarrow> Inl e
      | Inr _ \<Rightarrow> verify_files x d (case manifest of Some m \<Rightarrow> manifest_files m | None \<Rightarrow> []))"

subsection \<open>The appliance file roles\<close>

record file_role =
  role_path :: string
  role_system_path :: string
  role_mode :: u32
  role_required :: bool
  role_architecture_binary :: bool
  role_bootstrap :: bool

definition role :: "string \<Rightarrow> string \<Rightarrow> u32 \<Rightarrow> bool \<Rightarrow> bool \<Rightarrow> file_role" where
  "role path system_path mode architecture_binary bootstrap =
     \<lparr>role_path = path, role_system_path = system_path, role_mode = mode, role_required = True,
      role_architecture_binary = architecture_binary, role_bootstrap = bootstrap\<rparr>"

definition SUPPORTED_ARCHITECTURES :: "string list" where
  "SUPPORTED_ARCHITECTURES = [''amd64'', ''arm64'']"

text \<open>Octal 644 is 420, 755 is 493, 750 is 488, 555 is 365.\<close>

definition APPLIANCE_FILE_ROLES :: "file_role list" where
  "APPLIANCE_FILE_ROLES =
    [role ''web/dist/index.html'' [] 420 False False,
     role ''compatibility.json'' ''/etc/minimalrouter/compatibility.json'' 420 False False,
     role ''slot-exec'' ''/usr/libexec/minimalrouter/slot-exec'' 493 False False,
     role ''firstboot'' ''/usr/libexec/minimalrouter/firstboot'' 493 False False,
     role ''init.d/minimalrouter-firstboot'' ''/etc/init.d/minimalrouter-firstboot'' 493 False False,
     role ''firstboot-ready'' ''/usr/libexec/minimalrouter/firstboot-ready'' 493 False False,
     role ''install.sh'' [] 493 False False,
     role ''install-core.sh'' [] 493 False False,
     role ''init.d/routerd'' ''/etc/init.d/routerd'' 493 False False,
     role ''init.d/router-applyd'' ''/etc/init.d/router-applyd'' 493 False False,
     role ''init.d/pppoe-wan'' ''/etc/init.d/pppoe-wan'' 493 False False,
     role ''sysctl/99-minimalrouter.conf'' ''/etc/sysctl.d/99-minimalrouter.conf'' 420 False False,
     role ''modules/minimalrouter.conf'' ''/etc/modules-load.d/minimalrouter.conf'' 420 False False,
     role ''logrotate/minimalrouter'' ''/etc/logrotate.d/minimalrouter'' 420 False False,
     role ''ip-up.d-minimalrouter-qos'' ''/etc/ppp/ip-up.d/minimalrouter-qos'' 493 False False,
     role ''bin/routerd-{arch}'' [] 493 True False,
     role ''bin/router-applyd-{arch}'' [] 493 True False,
     role ''bin/router-recovery-{arch}'' ''/usr/libexec/minimalrouter/bootstrap/bin/router-recovery-{arch}'' 493 True True,
     role ''bin/router-update-{arch}'' ''/usr/libexec/minimalrouter/bootstrap/bin/router-update-{arch}'' 488 True True,
     role ''bin/router-setup-{arch}'' ''/usr/sbin/router-setup'' 493 True True]"

text \<open>\<open>str::replace\<close> for a non-empty pattern.\<close>

fun replace_str :: "string \<Rightarrow> string \<Rightarrow> nat \<Rightarrow> string \<Rightarrow> string" where
  "replace_str p r skip [] = []"
| "replace_str p r (Suc skip) (c # cs) = replace_str p r skip cs"
| "replace_str p r 0 (c # cs) =
     (if starts_with (c # cs) p then r @ replace_str p r (length p - 1) cs
      else c # replace_str p r 0 cs)"

definition resolve_arch :: "string \<Rightarrow> string \<Rightarrow> string" where
  "resolve_arch arch s = replace_str ''{arch}'' arch 0 s"

definition appliance_file_roles :: "crypto \<Rightarrow> string \<Rightarrow> file_role list result" where
  "appliance_file_roles x arch =
     (if arch \<noteq> ''amd64'' \<and> arch \<noteq> ''arm64''
      then Inl (Errorf (''unsupported update architecture '' @ debug_str x arch))
      else Inr (map (\<lambda>r. r\<lparr>role_path := resolve_arch arch (role_path r),
                           role_system_path := resolve_arch arch (role_system_path r)\<rparr>)
                    APPLIANCE_FILE_ROLES))"

fun find_role_mode :: "string list \<Rightarrow> string \<Rightarrow> u32 option" where
  "find_role_mode [] path = None"
| "find_role_mode (arch # archs) path =
     (case find (\<lambda>r. path = resolve_arch arch (role_path r)) APPLIANCE_FILE_ROLES of
        Some r \<Rightarrow> Some (role_mode r)
      | None \<Rightarrow> find_role_mode archs path)"

definition appliance_file_mode :: "string \<Rightarrow> u32" where
  "appliance_file_mode path =
     (case find_role_mode SUPPORTED_ARCHITECTURES path of
        Some md \<Rightarrow> md
      | None \<Rightarrow> if dir path = ''bin'' \<or> starts_with path ''init.d/'' then 493 else 420)"

subsection \<open>Payload policy\<close>

fun require_roles :: "(string \<times> string) list \<Rightarrow> file_role list \<Rightarrow> unit result" where
  "require_roles files [] = Inr ()"
| "require_roles files (r # rs) =
     (if \<not> contains_key files (role_path r)
      then Inl (Errorf (''incomplete appliance payload: missing '' @ role_path r))
      else require_roles files rs)"

definition binaries :: "file_role list \<Rightarrow> file_role list" where
  "binaries roles = filter (\<lambda>r. role_required r \<and> role_architecture_binary r) roles"

fun count_architectures :: "crypto \<Rightarrow> (string \<times> string) list \<Rightarrow> nat \<Rightarrow> string list \<Rightarrow> nat result" where
  "count_architectures x files n [] = Inr n"
| "count_architectures x files n (arch # archs) =
     (case appliance_file_roles x arch of
        Inl e \<Rightarrow> Inl e
      | Inr roles \<Rightarrow>
          (let bs = binaries roles;
               present = list_ex (\<lambda>r. contains_key files (role_path r)) bs;
               complete = list_all (\<lambda>r. contains_key files (role_path r)) bs
           in if present \<and> \<not> complete
              then Inl (Errorf ''incomplete appliance payload: architecture binary set is partial'')
              else count_architectures x files (if complete then n + 1 else n) archs))"

definition validate_appliance_payload :: "crypto \<Rightarrow> firmware_manifest option \<Rightarrow> unit result" where
  "validate_appliance_payload x manifest =
     (case manifest of
        None \<Rightarrow> Inl (Errorf ''missing appliance manifest'')
      | Some m \<Rightarrow>
          (case require_roles (manifest_files m)
                  (filter (\<lambda>r. role_required r \<and> \<not> role_architecture_binary r) APPLIANCE_FILE_ROLES) of
             Inl e \<Rightarrow> Inl e
           | Inr _ \<Rightarrow>
               (case count_architectures x (manifest_files m) 0 SUPPORTED_ARCHITECTURES of
                  Inl e \<Rightarrow> Inl e
                | Inr n \<Rightarrow>
                    if n \<noteq> 1
                    then Inl (Errorf ''incomplete appliance payload: exactly one supported architecture binary set is required'')
                    else Inr ())))"

fun check_modes :: "directory \<Rightarrow> string list \<Rightarrow> unit result" where
  "check_modes d [] = Inr ()"
| "check_modes d (relative # rs) =
     (case d relative of
        Some (Regular mode dg) \<Rightarrow>
          (let required = appliance_file_mode relative AND 365
           in if mode AND 511 AND required \<noteq> required \<or> mode AND 18 \<noteq> 0 \<or> mode AND 3584 \<noteq> 0
              then Inl (Errorf (''appliance file has unsafe runtime permissions: '' @ relative))
              else check_modes d rs)
      | _ \<Rightarrow> Inl (Errorf (''appliance executable is missing or unsafe: '' @ relative)))"

definition validate_appliance_file_modes ::
  "crypto \<Rightarrow> directory \<Rightarrow> firmware_manifest option \<Rightarrow> unit result" where
  "validate_appliance_file_modes x d manifest =
     (case validate_appliance_payload x manifest of
        Inl e \<Rightarrow> Inl e
      | Inr _ \<Rightarrow> check_modes d (map fst (case manifest of Some m \<Rightarrow> manifest_files m | None \<Rightarrow> [])))"

fun require_arch :: "(string \<times> string) list \<Rightarrow> string \<Rightarrow> file_role list \<Rightarrow> unit result" where
  "require_arch files arch [] = Inr ()"
| "require_arch files arch (r # rs) =
     (if \<not> contains_key files (role_path r)
      then Inl (Errorf (''signed appliance is not built for '' @ arch))
      else require_arch files arch rs)"

definition validate_appliance_architecture ::
  "crypto \<Rightarrow> firmware_manifest option \<Rightarrow> string \<Rightarrow> unit result" where
  "validate_appliance_architecture x manifest arch =
     (case manifest of
        None \<Rightarrow> Inl (Errorf ''missing appliance manifest'')
      | Some m \<Rightarrow>
          (case appliance_file_roles x arch of
             Inl e \<Rightarrow> Inl e
           | Inr roles \<Rightarrow> require_arch (manifest_files m) arch (binaries roles)))"

definition validate_release_candidate ::
  "crypto \<Rightarrow> directory \<Rightarrow> firmware_manifest option \<Rightarrow> u8 list \<Rightarrow> string \<Rightarrow> unit result" where
  "validate_release_candidate x d manifest trusted arch =
     (case verify_firmware x d manifest trusted of
        Inl e \<Rightarrow> Inl (Wrapf ''verify signed release'' e)
      | Inr _ \<Rightarrow>
          (case validate_appliance_file_modes x d manifest of
             Inl e \<Rightarrow> Inl (Wrapf ''validate appliance layout'' e)
           | Inr _ \<Rightarrow>
               (case validate_appliance_architecture x manifest arch of
                  Inl e \<Rightarrow> Inl (Wrapf ''validate appliance architecture'' e)
                | Inr _ \<Rightarrow> Inr ())))"

end
