(* ===== verification/Firmware_Props.thy ===== *)
theory Firmware_Props
  imports Firmware
begin

text \<open>
  What acceptance by the firmware checks of \<open>Firmware\<close> guarantees.
\<close>

section \<open>Lemmas\<close>

definition safe_path :: "string \<Rightarrow> bool" where
  "safe_path rel = (clean rel = rel \<and> rel \<noteq> ''.'' \<and> \<not> is_abs rel \<and> \<not> starts_with rel ''../'')"

lemma safe_path_local:
  assumes "safe_path rel"
  shows "rel = ''..'' \<or> is_local rel"
proof -
  have "rel \<noteq> []" using assms by (auto simp: safe_path_def clean_def)
  with assms show ?thesis by (auto simp: safe_path_def is_local_def Let_def)
qed

lemma verify_files_iff:
  "verify_files x d fs = Inr () \<longleftrightarrow>
     (\<forall>(rel, h)\<in>set fs. safe_path rel \<and>
        (\<exists>md dg. d rel = Some (Regular md (Some dg)) \<and> hex_decode x h = Some dg \<and> length dg = 32))"
proof (induction fs)
  case (Cons f fs)
  obtain rel h where f: "f = (rel, h)" by (cases f)
  have "verify_files x d ((rel, h) # fs) = Inr () \<longleftrightarrow> verify_files x d fs = Inr () \<and> safe_path rel \<and>
      (\<exists>md dg. d rel = Some (Regular md (Some dg)) \<and> hex_decode x h = Some dg \<and> length dg = 32)"
    by (auto simp: safe_path_def Let_def split: option.splits entry.splits)
  with Cons.IH show ?case by (simp add: f conj_comms del: verify_files.simps)
qed simp

lemma verify_manifest_Some:
  assumes "verify_manifest x (Some m) key = Inr ()"
  shows "length key = 32 \<and> manifest_files m \<noteq> [] \<and>
    (\<exists>sig payload. hex_decode x (fm_signature m) = Some sig \<and> length sig = 64 \<and>
      signed_payload x m = Inr payload \<and> key_verify x key payload sig)"
  using assms
  by (auto simp: verify_manifest_def PUBLIC_KEY_SIZE_def SIGNATURE_SIZE_def split: if_splits option.splits sum.splits)

lemma require_roles_iff:
  "require_roles files rs = Inr () \<longleftrightarrow> (\<forall>r\<in>set rs. contains_key files (role_path r))"
  by (induction rs) auto

lemma require_arch_iff:
  "require_arch files arch rs = Inr () \<longleftrightarrow> (\<forall>r\<in>set rs. contains_key files (role_path r))"
  by (induction rs) auto

definition mode_safe :: "string \<Rightarrow> u32 \<Rightarrow> bool" where
  "mode_safe rel md = (md AND 511 AND (appliance_file_mode rel AND 365) = appliance_file_mode rel AND 365
     \<and> md AND 18 = 0 \<and> md AND 3584 = 0)"

lemma check_modes_iff:
  "check_modes d rs = Inr () \<longleftrightarrow> (\<forall>r\<in>set rs. \<exists>md dg. d r = Some (Regular md dg) \<and> mode_safe r md)"
  by (induction rs) (auto simp: mode_safe_def Let_def split: option.splits entry.splits)

text \<open>The binaries of an architecture, by path.\<close>

definition arch_paths :: "string \<Rightarrow> string list" where
  "arch_paths arch = map (\<lambda>r. resolve_arch arch (role_path r)) (binaries APPLIANCE_FILE_ROLES)"

lemma roles_binaries:
  "appliance_file_roles x arch = Inr roles \<Longrightarrow>
   arch \<in> {''amd64'', ''arm64''} \<and> map role_path (binaries roles) = arch_paths arch"
  by (auto simp: appliance_file_roles_def binaries_def arch_paths_def filter_map comp_def split: if_splits)

lemma binaries_all:
  assumes "appliance_file_roles x arch = Inr roles"
  shows "(\<forall>r\<in>set (binaries roles). P (role_path r)) \<longleftrightarrow> (\<forall>p\<in>set (arch_paths arch). P p)"
    and "(\<exists>r\<in>set (binaries roles). P (role_path r)) \<longleftrightarrow> (\<exists>p\<in>set (arch_paths arch). P p)"
proof -
  have "set (arch_paths arch) = role_path ` set (binaries roles)"
    using arg_cong [OF roles_binaries [OF assms, THEN conjunct2], of set] by simp
  then show "(\<forall>r\<in>set (binaries roles). P (role_path r)) \<longleftrightarrow> (\<forall>p\<in>set (arch_paths arch). P p)"
    and "(\<exists>r\<in>set (binaries roles). P (role_path r)) \<longleftrightarrow> (\<exists>p\<in>set (arch_paths arch). P p)" by auto
qed

abbreviation arch_complete :: "(string \<times> string) list \<Rightarrow> string \<Rightarrow> bool" where
  "arch_complete files arch \<equiv> \<forall>p\<in>set (arch_paths arch). contains_key files p"

abbreviation arch_absent :: "(string \<times> string) list \<Rightarrow> string \<Rightarrow> bool" where
  "arch_absent files arch \<equiv> \<forall>p\<in>set (arch_paths arch). \<not> contains_key files p"

lemma count_architectures_ok:
  "count_architectures x files n archs = Inr k \<Longrightarrow>
   k = n + length (filter (arch_complete files) archs) \<and> (\<forall>a\<in>set archs. arch_complete files a \<or> arch_absent files a)"
proof (induction archs arbitrary: n)
  case (Cons a archs)
  then obtain roles where roles: "appliance_file_roles x a = Inr roles" by (auto split: sum.splits)
  have ex: "list_ex (\<lambda>r. contains_key files (role_path r)) (binaries roles) \<longleftrightarrow> \<not> arch_absent files a"
    using binaries_all(2) [OF roles, of "contains_key files"] by (auto simp: list_ex_iff)
  have all: "list_all (\<lambda>r. contains_key files (role_path r)) (binaries roles) \<longleftrightarrow> arch_complete files a"
    using binaries_all(1) [OF roles, of "contains_key files"] by (auto simp: list_all_iff)
  from Cons.prems roles have *: "arch_complete files a \<or> arch_absent files a"
    "count_architectures x files (if arch_complete files a then n + 1 else n) archs = Inr k"
    unfolding count_architectures.simps roles sum.case Let_def ex all by (simp_all split: if_splits)
  from Cons.IH [OF *(2)] *(1) show ?case by auto
qed simp

lemma payload_architectures:
  assumes "validate_appliance_payload x (Some m) = Inr ()" and "arch \<in> {''amd64'', ''arm64''}"
    and "arch_complete (manifest_files m) arch"
  shows "\<forall>a\<in>{''amd64'', ''arm64''}. a \<noteq> arch \<longrightarrow> arch_absent (manifest_files m) a"
proof -
  have "count_architectures x (manifest_files m) 0 SUPPORTED_ARCHITECTURES = Inr 1"
    using assms(1) by (auto simp: validate_appliance_payload_def split: sum.splits if_splits)
  from count_architectures_ok [OF this]
  have one: "length (filter (arch_complete (manifest_files m)) [''amd64'', ''arm64'']) = 1"
    and part: "\<And>a. a \<in> {''amd64'', ''arm64''} \<Longrightarrow> arch_complete (manifest_files m) a \<or> arch_absent (manifest_files m) a"
    by (auto simp: SUPPORTED_ARCHITECTURES_def)
  show ?thesis
  proof (rule ballI, rule impI)
    fix a assume a: "a \<in> {''amd64'', ''arm64''}" "a \<noteq> arch"
    with one assms(2,3) have "\<not> arch_complete (manifest_files m) a" by (auto split: if_splits)
    with part [OF a(1)] show "arch_absent (manifest_files m) a" by blast
  qed
qed

lemma replace_str_id: "CHR ''{'' \<notin> set s \<Longrightarrow> replace_str ''{arch}'' r 0 s = s"
  by (induction s) (auto simp: starts_with_def)

lemma fixed_paths:
  assumes "r \<in> set APPLIANCE_FILE_ROLES" and "\<not> role_architecture_binary r"
  shows "resolve_arch arch (role_path r) = role_path r"
proof -
  have "list_all (\<lambda>r. role_architecture_binary r \<or> CHR ''{'' \<notin> set (role_path r)) APPLIANCE_FILE_ROLES"
    by code_simp
  with assms show ?thesis by (auto simp: list_all_iff resolve_arch_def intro!: replace_str_id)
qed

section \<open>Properties\<close>

text \<open>
  C9: A release candidate is accepted only if its manifest's signature verifies under the pinned key
  (never a key the manifest names), every listed file has a clean relative path and is a regular file
  with the signed digest and safe permissions, every required file is listed, and the binaries listed
  are the complete set of the requested architecture and none of the other.
\<close>

theorem release_candidate_sound:
  assumes "validate_release_candidate x d (Some m) key arch = Inr ()"
  shows "(\<exists>sig payload. hex_decode x (fm_signature m) = Some sig \<and> signed_payload x m = Inr payload
      \<and> key_verify x key payload sig)
    \<and> (\<forall>(rel, h)\<in>set (manifest_files m). (rel = ''..'' \<or> is_local rel) \<and>
        (\<exists>md dg. d rel = Some (Regular md (Some dg)) \<and> hex_decode x h = Some dg \<and> mode_safe rel md))
    \<and> (\<forall>r\<in>set APPLIANCE_FILE_ROLES. role_required r \<longrightarrow>
        contains_key (manifest_files m) (resolve_arch arch (role_path r)))
    \<and> (\<forall>a\<in>{''amd64'', ''arm64''}. a \<noteq> arch \<longrightarrow> arch_absent (manifest_files m) a)"
proof -
  from assms have vf: "verify_firmware x d (Some m) key = Inr ()"
    and vm: "validate_appliance_file_modes x d (Some m) = Inr ()"
    and va: "validate_appliance_architecture x (Some m) arch = Inr ()"
    by (auto simp: validate_release_candidate_def split: sum.splits)
  from vf have man: "verify_manifest x (Some m) key = Inr ()" and files: "verify_files x d (manifest_files m) = Inr ()"
    by (auto simp: verify_firmware_def split: sum.splits)
  from vm have pay: "validate_appliance_payload x (Some m) = Inr ()"
    and modes: "check_modes d (map fst (manifest_files m)) = Inr ()"
    by (auto simp: validate_appliance_file_modes_def split: sum.splits)
  from va obtain roles where roles: "appliance_file_roles x arch = Inr roles"
    and bin: "\<forall>r\<in>set (binaries roles). contains_key (manifest_files m) (role_path r)"
    by (auto simp: validate_appliance_architecture_def require_arch_iff split: sum.splits)
  from bin have complete: "arch_complete (manifest_files m) arch" by (simp add: binaries_all(1) [OF roles])
  have sys: "contains_key (manifest_files m) (role_path r)"
    if "r \<in> set APPLIANCE_FILE_ROLES" "role_required r" "\<not> role_architecture_binary r" for r
    using pay that by (auto simp: validate_appliance_payload_def require_roles_iff split: sum.splits)
  have req: "contains_key (manifest_files m) (resolve_arch arch (role_path r))"
    if "r \<in> set APPLIANCE_FILE_ROLES" "role_required r" for r
    using that sys complete fixed_paths [of r arch]
    by (cases "role_architecture_binary r") (auto simp: arch_paths_def binaries_def)
  have each: "(rel = ''..'' \<or> is_local rel) \<and>
      (\<exists>md dg. d rel = Some (Regular md (Some dg)) \<and> hex_decode x h = Some dg \<and> mode_safe rel md)"
    if "(rel, h) \<in> set (manifest_files m)" for rel h
    using files modes that safe_path_local by (fastforce simp: verify_files_iff check_modes_iff)
  have "\<forall>a\<in>{''amd64'', ''arm64''}. a \<noteq> arch \<longrightarrow> arch_absent (manifest_files m) a"
    using payload_architectures [OF pay _ complete] roles_binaries [OF roles] by simp
  moreover have "\<exists>sig payload. hex_decode x (fm_signature m) = Some sig \<and> signed_payload x m = Inr payload
      \<and> key_verify x key payload sig"
    using verify_manifest_Some [OF man] by blast
  moreover have "\<forall>(rel, h)\<in>set (manifest_files m). (rel = ''..'' \<or> is_local rel) \<and>
      (\<exists>md dg. d rel = Some (Regular md (Some dg)) \<and> hex_decode x h = Some dg \<and> mode_safe rel md)"
    using each by (intro ballI) (simp only: split_paired_all prod.case)
  moreover have "\<forall>r\<in>set APPLIANCE_FILE_ROLES. role_required r \<longrightarrow>
      contains_key (manifest_files m) (resolve_arch arch (role_path r))"
    using req by (intro ballI impI)
  ultimately show ?thesis by (intro conjI)
qed

definition witness_crypto :: crypto where
  "witness_crypto = \<lparr>hex_decode = (\<lambda>s. Some (replicate (if s = ''sig'' then 64 else 32) 7)),
     key_valid = (\<lambda>k. True), key_verify = (\<lambda>k p s. k = replicate 32 1 \<and> p = [9]),
     marshal_payload = (\<lambda>v b g fs. Inr [9]), debug_str = id\<rparr>"

definition witness_manifest :: firmware_manifest where
  "witness_manifest = \<lparr>fm_version = ''1.0.0'', fm_build_date = [], fm_git_commit = [],
     fm_files = Some (map (\<lambda>r. (resolve_arch ''amd64'' (role_path r), ''00'')) APPLIANCE_FILE_ROLES),
     fm_signature = ''sig'', fm_public_key = []\<rparr>"

theorem release_candidate_sound_witness:
  "(\<exists>sig payload. hex_decode witness_crypto (fm_signature witness_manifest) = Some sig
      \<and> signed_payload witness_crypto witness_manifest = Inr payload
      \<and> key_verify witness_crypto (replicate 32 1) payload sig)"
proof -
  let ?d = "\<lambda>p. Some (Regular 493 (Some (replicate 32 7)))"
  have "(493 :: u32) AND 511 AND (w AND 365) = (493 AND 511 AND 365) AND w" for w
    by (simp only: and.assoc and.left_commute and.commute)
  moreover have "(493 :: u32) AND 511 AND 365 = 365" "(493 :: u32) AND 18 = 0" "(493 :: u32) AND 3584 = 0"
    by code_simp+
  ultimately have "mode_safe rel 493" for rel by (simp only: mode_safe_def and.commute simp_thms)
  then have modes: "check_modes ?d rs = Inr ()" for rs by (simp add: check_modes_iff)
  have "verify_firmware witness_crypto ?d (Some witness_manifest) (replicate 32 1) = Inr ()"
    "validate_appliance_payload witness_crypto (Some witness_manifest) = Inr ()"
    "validate_appliance_architecture witness_crypto (Some witness_manifest) ''amd64'' = Inr ()"
    by code_simp+
  then have "validate_release_candidate witness_crypto ?d (Some witness_manifest) (replicate 32 1) ''amd64'' = Inr ()"
    by (simp add: validate_release_candidate_def validate_appliance_file_modes_def modes)
  from release_candidate_sound [OF this] show ?thesis by (rule conjunct1)
qed

end
