(* ===== verification/Go_Strings.thy ===== *)
theory Go_Strings
  imports Prelude
begin

text \<open>
  \<open>mr-core/src/goish/strings.rs\<close> and the parts of Rust's \<open>str\<close> that work on Unicode scalar values. A
  string is cut into the byte sequences of its characters. Case mapping of non-ASCII characters is
  the Unicode table of the standard library and a parameter (\<open>lower\<close>, \<open>upper\<close>: the first character
  of the mapping).
\<close>

definition utf8_width :: "char \<Rightarrow> nat" where
  "utf8_width c = (if code c < 128 then 1 else if code c < 224 then 2 else if code c < 240 then 3 else 4)"

function utf8_split :: "string \<Rightarrow> string list" where
  "utf8_split [] = []"
| "utf8_split (c # cs) =
     (c # take (utf8_width c - 1) cs) # utf8_split (drop (utf8_width c - 1) cs)"
  by pat_completeness auto
termination by (relation "measure length") auto

fun code_point :: "string \<Rightarrow> nat" where
  "code_point [a] = code a"
| "code_point [a, b] = (code a mod 32) * 64 + code b mod 64"
| "code_point [a, b, c] = (code a mod 16) * 4096 + (code b mod 64) * 64 + code c mod 64"
| "code_point [a, b, c, d] =
     (code a mod 8) * 262144 + (code b mod 64) * 4096 + (code c mod 64) * 64 + code d mod 64"
| "code_point _ = 0"

definition code_points :: "string \<Rightarrow> nat list" where
  "code_points s = map code_point (utf8_split s)"

text \<open>The Unicode properties \<open>White_Space\<close> and \<open>Cc\<close>.\<close>

definition is_whitespace :: "nat \<Rightarrow> bool" where
  "is_whitespace n =
     ((9 \<le> n \<and> n \<le> 13) \<or> n = 32 \<or> n = 133 \<or> n = 160 \<or> n = 5760 \<or> (8192 \<le> n \<and> n \<le> 8202)
      \<or> n = 8232 \<or> n = 8233 \<or> n = 8239 \<or> n = 8287 \<or> n = 12288)"

definition is_control :: "nat \<Rightarrow> bool" where
  "is_control n = (n < 32 \<or> (127 \<le> n \<and> n \<le> 159))"

definition trim_chunks :: "string list \<Rightarrow> string list" where
  "trim_chunks cs =
     rev (dropWhile (\<lambda>c. is_whitespace (code_point c))
       (rev (dropWhile (\<lambda>c. is_whitespace (code_point c)) cs)))"

definition trim_space :: "string \<Rightarrow> string" where
  "trim_space value = concat (trim_chunks (utf8_split value))"

definition has_control :: "string \<Rightarrow> bool" where
  "has_control value = list_ex is_control (code_points value)"

text \<open>\<open>split_whitespace\<close>: the maximal runs of characters that are not white space.\<close>

fun fields_loop :: "string list \<Rightarrow> string list \<Rightarrow> string list" where
  "fields_loop cur [] = (if cur = [] then [] else [concat cur])"
| "fields_loop cur (c # cs) =
     (if is_whitespace (code_point c)
      then (if cur = [] then fields_loop [] cs else concat cur # fields_loop [] cs)
      else fields_loop (cur @ [c]) cs)"

definition fields :: "string \<Rightarrow> string list" where
  "fields value = fields_loop [] (utf8_split value)"

definition rune_count :: "string \<Rightarrow> nat" where
  "rune_count value = length (utf8_split value)"

definition to_ascii_upper :: "char \<Rightarrow> char" where
  "to_ascii_upper c = (if is_ascii_lower c then char_of (code c - 32) else c)"

definition to_lower :: "(string \<Rightarrow> string) \<Rightarrow> string \<Rightarrow> string" where
  "to_lower lower value =
     (if is_ascii value then map to_ascii_lower value else concat (map lower (utf8_split value)))"

definition to_upper :: "(string \<Rightarrow> string) \<Rightarrow> string \<Rightarrow> string" where
  "to_upper upper value =
     (if is_ascii value then map to_ascii_upper value else concat (map upper (utf8_split value)))"

text \<open>The escapes of \<open>quote\<close>; \<open>hex_pad w n\<close> is \<open>{:0wx}\<close> for \<open>n\<close> below \<open>16 ^ w\<close>.\<close>

fun hex_pad :: "nat \<Rightarrow> nat \<Rightarrow> string" where
  "hex_pad 0 n = []"
| "hex_pad (Suc w) n = hex_pad w (n div 16) @ [digit_char (n mod 16)]"

definition quote_char :: "string \<Rightarrow> string" where
  "quote_char c =
     (let n = code_point c; b = char_of (92 :: nat)
      in if n = 34 then [b, char_of (34 :: nat)]
         else if n = 92 then [b, b]
         else if n = 10 then b # ''n''
         else if n = 13 then b # ''r''
         else if n = 9 then b # ''t''
         else if n = 7 then b # ''a''
         else if n = 8 then b # ''b''
         else if n = 12 then b # ''f''
         else if n = 11 then b # ''v''
         else if n < 32 \<or> n = 127 then b # ''x'' @ hex_pad 2 n
         else if is_control n then (if n < 65536 then b # ''u'' @ hex_pad 4 n else b # ''U'' @ hex_pad 8 n)
         else c)"

definition quote :: "string \<Rightarrow> string" where
  "quote value = [char_of (34 :: nat)] @ concat (map quote_char (utf8_split value)) @ [char_of (34 :: nat)]"

section \<open>Lemmas\<close>

lemma concat_utf8_split: "concat (utf8_split s) = s"
  by (induction s rule: utf8_split.induct) auto

lemma utf8_split_ascii: "is_ascii s \<Longrightarrow> utf8_split s = map (\<lambda>c. [c]) s"
  by (induction s) (auto simp: is_ascii_def utf8_width_def)

lemma code_points_ascii: "is_ascii s \<Longrightarrow> code_points s = map of_char s"
  by (simp add: code_points_def utf8_split_ascii)

lemma concat_dropWhile_suffix: "\<exists>p. concat xs = p @ concat (dropWhile P xs)"
proof (induction xs)
  case (Cons x xs)
  then obtain p where p: "concat xs = p @ concat (dropWhile P xs)" by blast
  show ?case
  proof (cases "P x")
    case True
    with p have "concat (x # xs) = (x @ p) @ concat (dropWhile P (x # xs))" by simp
    then show ?thesis by blast
  qed simp
qed simp

lemma has_control_ascii: "is_ascii s \<Longrightarrow> has_control s \<longleftrightarrow> (\<exists>c\<in>set s. is_control (code c))"
  by (simp add: has_control_def code_points_ascii list_ex_iff)

lemma is_ascii_trim: "is_ascii s \<Longrightarrow> is_ascii (trim_space s)"
  unfolding trim_space_def trim_chunks_def
  by (auto simp: is_ascii_def list_all_iff utf8_split_ascii [unfolded is_ascii_def list_all_iff]
      dest!: set_dropWhileD)

lemma rune_count_le: "rune_count s \<le> length s"
  unfolding rune_count_def by (induction s rule: utf8_split.induct) auto

end
