(* ===== verification/Slots.thy ===== *)
theory Slots
  imports Firmware Go_Strings
begin

text \<open>
  \<open>mr-core/src/firmware/slots.rs\<close>: the A/B slot manager. The state is the update root on disk: the two
  symlinks, the three JSON files and the slot directories. A JSON file holds what decoding it yields
  (the encoder and decoder are inverse on these records), or a decoding error. Every call into the
  operating system takes its outcome from a list of faults: it succeeds, it reports an error before or
  after taking effect, or the machine stops there. When the list is used up, calls succeed.
\<close>

section \<open>State\<close>

record slot_state =
  st_current :: string
  st_previous :: string
  st_pending :: string
  st_minimum_version :: string
  st_installation_pending :: bool

definition default_slot_state :: slot_state where
  "default_slot_state = \<lparr>st_current = [], st_previous = [], st_pending = [], st_minimum_version = [],
     st_installation_pending = False\<rparr>"

record slot_operation =
  op_version :: int
  op_kind :: string
  op_old :: slot_state
  op_next :: slot_state

definition OPERATION_JOURNAL_VERSION :: int where
  "OPERATION_JOURNAL_VERSION = 1"

datatype link = NoLink | Link string | NotALink

type_synonym 'a json_file = "'a result option"

datatype fault = Proceed | FailBefore error | FailAfter error | Crash

record world =
  w_current :: link
  w_previous :: link
  w_state :: "slot_state json_file"
  w_operation :: "slot_operation json_file"
  w_installation :: "slot_state json_file"
  w_slots :: "string \<Rightarrow> directory option"
  w_faults :: "fault list"

text \<open>The fields of \<open>SlotManager\<close>, with the parameters of the firmware checks and the host architecture.\<close>

record slot_manager =
  sm_root :: string
  sm_trusted_key :: "u8 list"
  sm_crypto :: crypto
  sm_arch :: string

section \<open>Fallible steps\<close>

datatype 'a res = Ok 'a | Err error | Halt

type_synonym 'a io = "world \<Rightarrow> 'a res \<times> world"

definition io_return :: "'a \<Rightarrow> 'a io" where
  "io_return x = (\<lambda>w. (Ok x, w))"

definition io_fail :: "error \<Rightarrow> 'a io" where
  "io_fail e = (\<lambda>w. (Err e, w))"

definition io_bind :: "'a io \<Rightarrow> ('a \<Rightarrow> 'b io) \<Rightarrow> 'b io" where
  "io_bind m f = (\<lambda>w. case m w of
      (Ok x, w') \<Rightarrow> f x w'
    | (Err e, w') \<Rightarrow> (Err e, w')
    | (Halt, w') \<Rightarrow> (Halt, w'))"

abbreviation io_then :: "'a io \<Rightarrow> 'b io \<Rightarrow> 'b io" where
  "io_then m n \<equiv> io_bind m (\<lambda>_. n)"

text \<open>\<open>match m { Ok(x) => .., Err(e) => .. }\<close>: the error becomes a value; a stop does not.\<close>

definition attempt :: "'a io \<Rightarrow> 'a result io" where
  "attempt m = (\<lambda>w. case m w of
      (Ok x, w') \<Rightarrow> (Ok (Inr x), w')
    | (Err e, w') \<Rightarrow> (Ok (Inl e), w')
    | (Halt, w') \<Rightarrow> (Halt, w'))"

definition wrap_err :: "string \<Rightarrow> 'a io \<Rightarrow> 'a io" where
  "wrap_err p m = (\<lambda>w. case m w of (Err e, w') \<Rightarrow> (Err (Wrapf p e), w') | r \<Rightarrow> r)"

definition from_result :: "'a result \<Rightarrow> 'a io" where
  "from_result r = (case r of Inl e \<Rightarrow> io_fail e | Inr x \<Rightarrow> io_return x)"

definition syscall :: "(world \<Rightarrow> world) \<Rightarrow> unit io" where
  "syscall f = (\<lambda>w. case w_faults w of
      [] \<Rightarrow> (Ok (), f w)
    | Proceed # fs \<Rightarrow> (Ok (), f (w\<lparr>w_faults := fs\<rparr>))
    | FailBefore e # fs \<Rightarrow> (Err e, w\<lparr>w_faults := fs\<rparr>)
    | FailAfter e # fs \<Rightarrow> (Err e, f (w\<lparr>w_faults := fs\<rparr>))
    | Crash # fs \<Rightarrow> (Halt, w\<lparr>w_faults := fs\<rparr>))"

text \<open>A call without effect on the modelled state (reading, syncing, work on temporary files).\<close>

abbreviation touch :: "unit io" where
  "touch \<equiv> syscall (\<lambda>w. w)"

definition read_world :: "(world \<Rightarrow> 'a) \<Rightarrow> 'a io" where
  "read_world f = io_then touch (\<lambda>w. (Ok (f w), w))"

definition newline :: string where
  "newline = [char_of (10 :: nat)]"

definition join_errors :: "error list \<Rightarrow> error option" where
  "join_errors errors = (if errors = [] then None else Some (Errorf (join newline (map error_text errors))))"

section \<open>Files and pointers\<close>

definition ensure_root :: "slot_manager \<Rightarrow> unit io" where
  "ensure_root m =
     (if trim_space (sm_root m) = [] then io_fail (Errorf ''update root is required'')
      else io_then touch (io_then touch touch))"

text \<open>\<open>write_atomic_json\<close>: create, chmod, write and sync a temporary file, rename it over the target
  (\<open>put\<close>), sync the directory.\<close>

definition write_atomic_json :: "slot_manager \<Rightarrow> (world \<Rightarrow> world) \<Rightarrow> unit io" where
  "write_atomic_json m put =
     io_then (ensure_root m)
    (io_then touch (io_then touch (io_then touch (io_then touch
    (io_then (syscall put) touch)))))"

definition save_state :: "slot_manager \<Rightarrow> slot_state \<Rightarrow> unit io" where
  "save_state m st = write_atomic_json m (\<lambda>w. w\<lparr>w_state := Some (Inr st)\<rparr>)"

definition require_slot :: "string \<Rightarrow> unit io" where
  "require_slot version =
     (if \<not> is_release_version version then io_fail (Errorf ''invalid release version'')
      else io_bind (attempt (read_world (\<lambda>w. w_slots w version \<noteq> None))) (\<lambda>r. case r of
             Inr True \<Rightarrow> io_return ()
           | _ \<Rightarrow> io_fail (Errorf ''release slot is not staged'')))"

datatype pointer = Current | Previous

fun pointer_name :: "pointer \<Rightarrow> string" where
  "pointer_name Current = ''current''"
| "pointer_name Previous = ''previous''"

fun get_link :: "pointer \<Rightarrow> world \<Rightarrow> link" where
  "get_link Current w = w_current w"
| "get_link Previous w = w_previous w"

fun set_link :: "pointer \<Rightarrow> link \<Rightarrow> world \<Rightarrow> world" where
  "set_link Current l w = w\<lparr>w_current := l\<rparr>"
| "set_link Previous l w = w\<lparr>w_previous := l\<rparr>"

definition swap_link :: "pointer \<Rightarrow> string \<Rightarrow> unit io" where
  "swap_link p version =
     io_then (require_slot version)
    (io_then (attempt touch)
    (io_then touch
    (io_bind (attempt (syscall (set_link p (Link (''slots/'' @ version))))) (\<lambda>r. case r of
       Inl err \<Rightarrow> io_then (attempt touch) (io_fail err)
     | Inr _ \<Rightarrow> touch))))"

definition remove_link :: "pointer \<Rightarrow> unit io" where
  "remove_link p = io_then (syscall (set_link p NoLink)) touch"

definition restore_link :: "pointer \<Rightarrow> string \<Rightarrow> unit io" where
  "restore_link p version = (if version = [] then remove_link p else swap_link p version)"

definition restore_links :: "slot_manager \<Rightarrow> slot_state \<Rightarrow> unit io" where
  "restore_links m st =
     io_bind (attempt (restore_link Current (st_current st))) (\<lambda>r1.
     io_bind (attempt (restore_link Previous (st_previous st))) (\<lambda>r2.
       (case join_errors ((case r1 of Inl e \<Rightarrow> [e] | Inr _ \<Rightarrow> []) @ (case r2 of Inl e \<Rightarrow> [e] | Inr _ \<Rightarrow> [])) of
          None \<Rightarrow> io_return ()
        | Some e \<Rightarrow> io_fail e)))"

definition link_version :: "slot_manager \<Rightarrow> pointer \<Rightarrow> string option io" where
  "link_version m p =
     io_bind (read_world (get_link p)) (\<lambda>l. case l of
       NoLink \<Rightarrow> io_return None
     | NotALink \<Rightarrow> io_fail (Errorf (''readlink '' @ sm_root m @ ''/'' @ pointer_name p @ '': invalid argument''))
     | Link target \<Rightarrow>
         (let c = clean target
          in if is_abs c \<or> dir c \<noteq> ''slots''
             then io_fail (Errorf (''unsafe '' @ pointer_name p @ '' slot pointer''))
             else
               (let version = base c
                in if \<not> is_release_version version
                   then io_fail (Errorf (''invalid '' @ pointer_name p @ '' slot pointer''))
                   else io_bind (attempt (require_slot version)) (\<lambda>r. case r of
                          Inl e \<Rightarrow> io_fail (Errorf (pointer_name p @ '' slot pointer is broken: '' @ error_text e))
                        | Inr _ \<Rightarrow> io_return (Some version)))))"

section \<open>Version floor\<close>

definition is_bootstrap :: "string \<Rightarrow> bool" where
  "is_bootstrap v = starts_with (strip_v v) ''0.0.0+bootstrap.''"

definition upgrade_floor :: "slot_state \<Rightarrow> string result" where
  "upgrade_floor st =
     (let floor = st_minimum_version st
      in case (if floor \<noteq> [] then map_sum id (\<lambda>_. ()) (parse_release_version floor) else Inr ()) of
           Inl e \<Rightarrow> Inl e
         | Inr _ \<Rightarrow>
             (if is_bootstrap (st_current st) then
                (if floor = [] then Inl (Sentinel ErrUnknownInstalledVersion) else Inr floor)
              else if st_current st \<noteq> [] then
                (case parse_release_version (st_current st) of
                   Inl e \<Rightarrow> Inl e
                 | Inr _ \<Rightarrow>
                     (if floor = [] then Inr (st_current st)
                      else (case compare_release_versions (st_current st) floor of
                              Inl e \<Rightarrow> Inl e
                            | Inr c \<Rightarrow> if c > 0 then Inr (st_current st) else Inr floor)))
              else Inr floor))"

definition installation_minimum :: "slot_state \<Rightarrow> string \<Rightarrow> string result" where
  "installation_minimum st proposed =
     (case (case upgrade_floor st of
              Inr floor \<Rightarrow> Inr floor
            | Inl err \<Rightarrow> if error_is ErrUnknownInstalledVersion err then Inr [] else Inl err) of
        Inl e \<Rightarrow> Inl e
      | Inr floor \<Rightarrow>
          (if proposed = [] then
             (if floor \<noteq> []
              then Inl (Errorf ''full installation cannot erase a recorded version floor; repeat preflight'')
              else Inr [])
           else (case parse_release_version proposed of
                   Inl e \<Rightarrow> Inl e
                 | Inr _ \<Rightarrow>
                     (if floor = [] then Inr proposed
                      else (case compare_release_versions proposed floor of
                              Inl e \<Rightarrow> Inl e
                            | Inr c \<Rightarrow>
                                if c < 0
                                then Inl (Errorf ''full installation cannot lower the recorded version floor'')
                                else Inr proposed)))))"

text \<open>\<open>apply_installation_floor\<close>, and reading the state file and the pointers.\<close>

definition apply_installation_floor :: "slot_state \<Rightarrow> slot_state io" where
  "apply_installation_floor st =
     io_bind (read_world w_installation) (\<lambda>data.
       (let st0 = st\<lparr>st_installation_pending := False\<rparr>
        in case data of
             None \<Rightarrow> io_return st0
           | Some (Inl e) \<Rightarrow> io_fail e
           | Some (Inr intent) \<Rightarrow>
               (let st1 = st0\<lparr>st_installation_pending := True\<rparr>; minimum = st_minimum_version intent
                in if minimum = [] then io_return st1
                   else io_bind (from_result (parse_release_version minimum)) (\<lambda>_.
                     if st_minimum_version st1 = [] then io_return (st1\<lparr>st_minimum_version := minimum\<rparr>)
                     else io_bind (from_result (compare_release_versions minimum (st_minimum_version st1))) (\<lambda>c.
                       io_return (if c > 0 then st1\<lparr>st_minimum_version := minimum\<rparr> else st1))))))"

definition state_without_operation :: "slot_manager \<Rightarrow> slot_state io" where
  "state_without_operation m =
     io_bind (read_world w_state) (\<lambda>data.
     io_bind (case data of
                None \<Rightarrow> io_return default_slot_state
              | Some (Inl e) \<Rightarrow> io_fail (Wrapf ''decode update state'' e)
              | Some (Inr st) \<Rightarrow> io_return st) (\<lambda>st0.
     io_bind (link_version m Current) (\<lambda>current.
       (let st1 = (case current of
                     None \<Rightarrow> st0
                   | Some c \<Rightarrow> (if st_pending st0 = c then st0\<lparr>st_pending := []\<rparr> else st0)\<lparr>st_current := c\<rparr>)
        in io_bind (link_version m Previous) (\<lambda>previous.
             apply_installation_floor
               (case previous of None \<Rightarrow> st1 | Some p \<Rightarrow> st1\<lparr>st_previous := p\<rparr>))))))"

section \<open>The operation journal\<close>

definition validate_slot_ref :: "slot_manager \<Rightarrow> string \<Rightarrow> unit io" where
  "validate_slot_ref m version =
     (if version = [] then io_return ()
      else if \<not> is_release_version version
      then io_fail (Errorf ''journal contains an invalid release version'')
      else io_bind (attempt (require_slot version)) (\<lambda>r. case r of
             Inl _ \<Rightarrow> io_fail (Errorf (''journal references an unavailable slot '' @ debug_str (sm_crypto m) version))
           | Inr _ \<Rightarrow> io_return ()))"

definition validate_journal_state :: "slot_manager \<Rightarrow> slot_state \<Rightarrow> unit io" where
  "validate_journal_state m st =
     io_bind (if st_minimum_version st \<noteq> []
              then from_result (map_sum id (\<lambda>_. ()) (parse_release_version (st_minimum_version st)))
              else io_return ()) (\<lambda>_.
     io_then (validate_slot_ref m (st_current st))
    (io_then (validate_slot_ref m (st_previous st))
    (io_then (validate_slot_ref m (st_pending st))
       (if st_current st \<noteq> [] \<and> st_current st = st_previous st
        then io_fail (Errorf ''current and previous journal slots must differ'')
        else io_return ()))))"

definition validate_transition :: "string \<Rightarrow> slot_state \<Rightarrow> slot_state \<Rightarrow> unit result" where
  "validate_transition kind old next =
     (if kind = ''install'' then
        (if st_current next = [] \<or> st_previous next \<noteq> []
         then Inl (Errorf ''invalid full installation journal'') else Inr ())
      else if kind = ''activate'' then
        (if st_current next = [] \<or> st_current next = st_current old \<or> st_previous next \<noteq> st_current old
         then Inl (Errorf ''invalid activation slot operation journal'') else Inr ())
      else if kind = ''rollback'' then
        (if st_previous old = [] \<or> st_current next \<noteq> st_previous old \<or> st_previous next \<noteq> st_current old
         then Inl (Errorf ''invalid rollback slot operation journal'') else Inr ())
      else Inl (Errorf ''unknown slot operation journal kind''))"

definition journal_floor :: "string \<Rightarrow> slot_state \<Rightarrow> string result" where
  "journal_floor kind old =
     (case upgrade_floor old of
        Inl err \<Rightarrow> if kind = ''install'' \<and> error_is ErrUnknownInstalledVersion err then Inr [] else Inl err
      | Inr floor \<Rightarrow> Inr floor)"

definition validate_floor :: "string \<Rightarrow> slot_state \<Rightarrow> slot_state \<Rightarrow> unit result" where
  "validate_floor kind old next =
     (case journal_floor kind old of
        Inl e \<Rightarrow> Inl e
      | Inr floor \<Rightarrow>
          (case (if floor = [] then Inr False
                 else if st_minimum_version next = [] then Inr True
                 else map_sum id (\<lambda>c. c < 0) (compare_release_versions (st_minimum_version next) floor)) of
             Inl e \<Rightarrow> Inl e
           | Inr lowers \<Rightarrow>
               (if lowers then Inl (Errorf ''slot operation journal cannot lower or erase the recorded version floor'')
                else if kind = ''activate'' then validate_forward_upgrade (st_current next) floor
                else Inr ())))"

definition validate_operation :: "slot_manager \<Rightarrow> slot_operation \<Rightarrow> unit io" where
  "validate_operation m op =
     (if op_version op \<noteq> OPERATION_JOURNAL_VERSION then io_fail (Errorf ''unsupported slot operation journal'')
      else
        io_then (wrap_err ''invalid old slot operation state'' (validate_journal_state m (op_old op)))
       (io_then (wrap_err ''invalid next slot operation state'' (validate_journal_state m (op_next op)))
          (if st_pending (op_next op) \<noteq> []
           then io_fail (Errorf ''completed slot operation state cannot remain pending'')
           else
             io_then (from_result (validate_transition (op_kind op) (op_old op) (op_next op)))
               (from_result (validate_floor (op_kind op) (op_old op) (op_next op))))))"

definition begin_operation :: "slot_manager \<Rightarrow> slot_operation \<Rightarrow> unit io" where
  "begin_operation m op =
     io_then (validate_operation m op) (write_atomic_json m (\<lambda>w. w\<lparr>w_operation := Some (Inr op)\<rparr>))"

definition read_operation :: "slot_manager \<Rightarrow> slot_operation option io" where
  "read_operation m =
     io_bind (read_world w_operation) (\<lambda>data. case data of
       None \<Rightarrow> io_return None
     | Some (Inl e) \<Rightarrow> io_fail (Wrapf ''decode slot operation journal'' e)
     | Some (Inr op) \<Rightarrow> io_then (validate_operation m op) (io_return (Some op)))"

definition clear_operation :: "unit io" where
  "clear_operation = io_then (syscall (\<lambda>w. w\<lparr>w_operation := None\<rparr>)) touch"

definition project_operation_state :: "slot_manager \<Rightarrow> slot_operation \<Rightarrow> slot_state io" where
  "project_operation_state m op =
     io_then (validate_operation m op)
    (io_bind (link_version m Current) (\<lambda>current.
       (case current of
          Some c \<Rightarrow>
            if c = st_current (op_next op) then io_return (op_next op)
            else if c = st_current (op_old op) then io_return (op_old op)
            else io_fail (Errorf ''slot operation journal does not match the current runtime pointer'')
        | None \<Rightarrow>
            if st_current (op_old op) = [] then io_return (op_old op)
            else if st_current (op_next op) = [] then io_return (op_next op)
            else io_fail (Errorf ''slot operation journal does not match the current runtime pointer''))))"

definition slots_state :: "slot_manager \<Rightarrow> slot_state io" where
  "slots_state m =
     io_bind (read_operation m) (\<lambda>op. case op of
       Some operation \<Rightarrow> io_bind (project_operation_state m operation) apply_installation_floor
     | None \<Rightarrow> state_without_operation m)"

definition recover_operation :: "slot_manager \<Rightarrow> unit io" where
  "recover_operation m =
     io_bind (read_operation m) (\<lambda>op. case op of
       None \<Rightarrow> io_return ()
     | Some operation \<Rightarrow>
         io_bind (project_operation_state m operation) (\<lambda>target.
         io_then (wrap_err ''recover slot pointers'' (restore_links m target))
        (io_then (wrap_err ''recover slot state'' (save_state m target))
           (wrap_err ''clear recovered slot operation journal'' clear_operation))))"

definition abort_operation :: "slot_manager \<Rightarrow> slot_state \<Rightarrow> error \<Rightarrow> error io" where
  "abort_operation m old primary =
     io_bind (attempt (restore_links m old)) (\<lambda>r1. case r1 of
       Inl err \<Rightarrow> io_return (Errorf (error_text primary @ newline @ ''restore slot pointers: '' @ error_text err))
     | Inr _ \<Rightarrow> io_bind (attempt (save_state m old)) (\<lambda>r2. case r2 of
         Inl err \<Rightarrow> io_return (Errorf (error_text primary @ newline @ ''restore slot state: '' @ error_text err))
       | Inr _ \<Rightarrow> io_bind (attempt clear_operation) (\<lambda>r3. case r3 of
           Inl err \<Rightarrow> io_return (Errorf (error_text primary @ newline @ ''clear aborted slot operation journal: '' @ error_text err))
         | Inr _ \<Rightarrow> io_return primary)))"

definition commit_operation ::
  "slot_manager \<Rightarrow> string \<Rightarrow> slot_state \<Rightarrow> slot_state \<Rightarrow> unit io \<Rightarrow> unit io" where
  "commit_operation m kind old next mutate =
     (let op = \<lparr>op_version = OPERATION_JOURNAL_VERSION, op_kind = kind, op_old = old, op_next = next\<rparr>
      in io_then (wrap_err ''persist slot operation journal'' (begin_operation m op))
        (io_bind (attempt mutate) (\<lambda>r. case r of
           Inl err \<Rightarrow> io_bind (abort_operation m old err) io_fail
         | Inr _ \<Rightarrow> io_bind (attempt (save_state m next)) (\<lambda>r2. case r2 of
             Inl err \<Rightarrow> io_bind (abort_operation m old (Wrapf ''persist slot state'' err)) io_fail
           | Inr _ \<Rightarrow> wrap_err ''clear completed slot operation journal'' clear_operation))))"

section \<open>Operations\<close>

definition with_lock :: "slot_manager \<Rightarrow> 'a io \<Rightarrow> 'a io" where
  "with_lock m run = io_then (ensure_root m) (io_then touch (io_then touch run))"

definition check_installation :: "unit io" where
  "check_installation =
     io_bind (read_world (\<lambda>w. w_installation w \<noteq> None)) (\<lambda>present.
       if present
       then io_fail (Errorf ''full installation is incomplete; finish the full installer before update or rollback'')
       else io_return ())"

text \<open>
  Copying a signed payload: \<open>source\<close> is the directory at the time of the copy, which may differ from
  the one that was verified. A copied file gets the mode of its role.
\<close>

fun copy_files :: "directory \<Rightarrow> (string \<times> string) list \<Rightarrow> directory \<Rightarrow> directory io" where
  "copy_files source [] temp = io_return temp"
| "copy_files source ((relative, _) # fs) temp =
     (let c = clean relative
      in io_then touch
           (case source c of
              Some (Regular mode dg) \<Rightarrow>
                (if temp c \<noteq> None then io_fail (Errorf ''file exists'')
                 else io_then touch
                     (io_then touch
                        (copy_files source fs (temp(c \<mapsto> Regular (appliance_file_mode c) dg)))))
            | _ \<Rightarrow> io_fail (Errorf (''release file is missing or unsafe: '' @ c))))"

definition put_slot :: "string \<Rightarrow> directory option \<Rightarrow> world \<Rightarrow> world" where
  "put_slot version d w = w\<lparr>w_slots := (w_slots w)(version := d)\<rparr>"

text \<open>The end of \<open>stage\<close>, from the rename of the verified copy on.\<close>

definition stage_commit :: "slot_manager \<Rightarrow> slot_state \<Rightarrow> string \<Rightarrow> directory \<Rightarrow> unit io" where
  "stage_commit m st version copy =
     io_then (wrap_err ''commit staged slot'' (syscall (put_slot version (Some copy))))
    (io_bind (attempt touch) (\<lambda>r. case r of
       Inl err \<Rightarrow> io_then (attempt (syscall (put_slot version None))) (io_fail (Wrapf ''sync committed slot'' err))
     | Inr _ \<Rightarrow>
         io_bind (attempt (save_state m (st\<lparr>st_pending := version\<rparr>))) (\<lambda>r2. case r2 of
           Inr _ \<Rightarrow> io_return ()
         | Inl err \<Rightarrow>
             io_bind (attempt (syscall (put_slot version None))) (\<lambda>removed.
             io_then (attempt touch)
               (case removed of
                  Inl remove_err \<Rightarrow>
                    io_fail (Errorf (error_text err @ newline @ ''remove uncommitted slot: '' @ error_text remove_err))
                | Inr _ \<Rightarrow> io_fail err)))))"

text \<open>Copying, verifying the copy and committing it; \<open>source'\<close> is the source directory while it is copied.\<close>

definition stage_copy :: "slot_manager \<Rightarrow> directory \<Rightarrow> firmware_manifest \<Rightarrow> slot_state \<Rightarrow> unit io" where
  "stage_copy m source' mf st =
     io_then touch (io_then touch
    (io_bind (copy_files source' (manifest_files mf) Map.empty) (\<lambda>copy.
     io_then (wrap_err ''verify copied release slot''
       (from_result (validate_release_candidate (sm_crypto m) copy (Some mf) (sm_trusted_key m) (sm_arch m))))
    (io_then (wrap_err ''sync staged slot'' touch)
       (stage_commit m st (fm_version mf) copy)))))"

definition stage_release :: "slot_manager \<Rightarrow> directory \<Rightarrow> firmware_manifest \<Rightarrow> slot_state \<Rightarrow> unit io" where
  "stage_release m source' mf st =
     io_bind (from_result (upgrade_floor st)) (\<lambda>floor.
     io_then (from_result (validate_forward_upgrade (fm_version mf) floor))
    (io_bind (read_world (\<lambda>w. w_slots w (fm_version mf) \<noteq> None)) (\<lambda>staged.
       if staged then io_fail (Errorf ''release version is already staged'')
       else stage_copy m source' mf st)))"

definition stage ::
  "slot_manager \<Rightarrow> directory \<Rightarrow> directory \<Rightarrow> firmware_manifest option \<Rightarrow> unit io" where
  "stage m source source' manifest =
     with_lock m
      (io_then check_installation
      (io_then (wrap_err ''recover interrupted slot operation'' (recover_operation m))
        (case manifest of
           None \<Rightarrow> io_fail (Errorf ''release version is not a safe semantic version'')
         | Some mf \<Rightarrow>
             (if \<not> is_release_version (fm_version mf)
              then io_fail (Errorf ''release version is not a safe semantic version'')
              else if length (sm_trusted_key m) \<noteq> PUBLIC_KEY_SIZE then io_fail (Sentinel ErrInvalidPublicKey)
              else
                io_then (wrap_err ''verify release source''
                  (from_result (validate_release_candidate (sm_crypto m) source manifest (sm_trusted_key m) (sm_arch m))))
               (io_bind (state_without_operation m) (stage_release m source' mf))))))"

definition activate_links :: "slot_state \<Rightarrow> string \<Rightarrow> unit io" where
  "activate_links old version =
     io_then (if st_current old \<noteq> []
              then wrap_err ''prepare previous slot pointer'' (swap_link Previous (st_current old))
              else remove_link Previous)
       (wrap_err ''activate slot pointer'' (swap_link Current version))"

definition activate :: "slot_manager \<Rightarrow> string \<Rightarrow> unit io" where
  "activate m version =
     with_lock m
      (io_then check_installation
      (io_then (wrap_err ''recover interrupted slot operation'' (recover_operation m))
        (if \<not> is_release_version version then io_fail (Errorf ''invalid release version'')
         else
           io_then (require_slot version)
          (io_bind (state_without_operation m) (\<lambda>st.
             if st_current st = version then save_state m (st\<lparr>st_pending := []\<rparr>)
             else
               io_bind (from_result (upgrade_floor st)) (\<lambda>floor.
               io_then (from_result (validate_forward_upgrade version floor))
                 (commit_operation m ''activate'' st
                    (st\<lparr>st_previous := st_current st, st_current := version, st_pending := [],
                        st_minimum_version := version\<rparr>)
                    (activate_links st version))))))))"

definition rollback_links :: "slot_state \<Rightarrow> unit io" where
  "rollback_links next =
     io_then (wrap_err ''restore current slot pointer'' (swap_link Current (st_current next)))
       (if st_previous next \<noteq> []
        then wrap_err ''preserve rollback slot pointer'' (swap_link Previous (st_previous next))
        else remove_link Previous)"

definition rollback :: "slot_manager \<Rightarrow> unit io" where
  "rollback m =
     with_lock m
      (io_then check_installation
      (io_then (wrap_err ''recover interrupted slot operation'' (recover_operation m))
      (io_bind (state_without_operation m) (\<lambda>st.
         if st_previous st = [] then io_fail (Errorf ''no previous release slot is available'')
         else
           io_bind (attempt (require_slot (st_previous st))) (\<lambda>r. case r of
             Inl _ \<Rightarrow> io_fail (Errorf ''previous release slot is missing'')
           | Inr _ \<Rightarrow>
               io_bind (from_result (upgrade_floor st)) (\<lambda>floor.
                 (let next = st\<lparr>st_current := st_previous st, st_previous := st_current st,
                                st_pending := [], st_minimum_version := floor\<rparr>
                  in commit_operation m ''rollback'' st next (rollback_links next))))))))"

definition begin_installation :: "slot_manager \<Rightarrow> string \<Rightarrow> unit io" where
  "begin_installation m minimum =
     with_lock m
      (io_then (recover_operation m)
      (io_bind (state_without_operation m) (\<lambda>st.
       io_bind (from_result (installation_minimum st minimum)) (\<lambda>mn.
         write_atomic_json m (\<lambda>w. w\<lparr>w_installation := Some (Inr (default_slot_state\<lparr>st_minimum_version := mn\<rparr>))\<rparr>)))))"

text \<open>
  \<open>install_baseline\<close>: \<open>version\<close> is the name derived from the digest of the inventory, \<open>copied\<close> and
  \<open>existing\<close> are the inventories that walking the copy and an existing baseline directory return.
\<close>

fun check_inventory :: "string \<Rightarrow> (string \<times> string) list \<Rightarrow> (string \<times> string) list \<Rightarrow> unit result" where
  "check_inventory msg found [] = Inr ()"
| "check_inventory msg found ((path, hash) # fs) =
     (if map_of found path \<noteq> Some hash then Inl (Errorf (msg @ path)) else check_inventory msg found fs)"

fun copy_inventory :: "directory \<Rightarrow> (string \<times> string) list \<Rightarrow> directory \<Rightarrow> directory io" where
  "copy_inventory source [] temp = io_return temp"
| "copy_inventory source ((relative, h) # fs) temp =
     (if \<not> is_local relative \<or> clean relative \<noteq> relative
      then io_fail (Errorf (''unsafe installer path: '' @ relative))
      else io_bind (copy_files source [(relative, h)] temp) (copy_inventory source fs))"

definition copy_baseline ::
  "directory \<Rightarrow> firmware_manifest \<Rightarrow> (directory \<Rightarrow> (string \<times> string) list result) \<Rightarrow> directory io" where
  "copy_baseline source inventory inspect =
     io_then touch (io_then touch
    (io_bind (copy_inventory source (manifest_files inventory) Map.empty) (\<lambda>copy.
     io_bind (from_result (inspect copy)) (\<lambda>copied.
     io_then (from_result (check_inventory ''installer payload changed during copy: '' copied (manifest_files inventory)))
    (io_then (wrap_err ''persist complete baseline'' touch) (io_return copy))))))"

definition place_baseline ::
  "firmware_manifest \<Rightarrow> (directory \<Rightarrow> (string \<times> string) list result) \<Rightarrow> string \<Rightarrow> directory \<Rightarrow> unit io" where
  "place_baseline inventory inspect version copy =
     io_bind (read_world (\<lambda>w. w_slots w version)) (\<lambda>final.
     io_then (case final of
                None \<Rightarrow> syscall (put_slot version (Some copy))
              | Some d \<Rightarrow>
                  io_bind (from_result (inspect d)) (\<lambda>existing.
                    if length existing \<noteq> length (manifest_files inventory)
                    then io_fail (Errorf ''existing baseline contains a different file inventory'')
                    else if list_ex (\<lambda>(p, h). map_of existing p \<noteq> Some h) (manifest_files inventory)
                    then io_fail (Errorf ''existing baseline contents differ'')
                    else touch))
       touch)"

definition commit_baseline :: "slot_manager \<Rightarrow> string \<Rightarrow> string \<Rightarrow> unit io" where
  "commit_baseline m version mn =
     io_bind (state_without_operation m) (\<lambda>old.
     io_then (commit_operation m ''install'' old
                (default_slot_state\<lparr>st_current := version, st_minimum_version := mn\<rparr>)
                (io_then (remove_link Previous) (swap_link Current version)))
       (io_then (syscall (\<lambda>w. w\<lparr>w_installation := None\<rparr>)) touch))"

definition install_baseline ::
  "slot_manager \<Rightarrow> directory \<Rightarrow> firmware_manifest \<Rightarrow> string \<Rightarrow> string result
    \<Rightarrow> (directory \<Rightarrow> (string \<times> string) list result) \<Rightarrow> unit io" where
  "install_baseline m source inventory minimum version_of inspect =
     with_lock m
      (io_then (recover_operation m)
      (io_bind (state_without_operation m) (\<lambda>installed.
       io_bind (from_result (installation_minimum installed minimum)) (\<lambda>mn.
       io_bind (from_result version_of) (\<lambda>version.
       io_bind (copy_baseline source inventory inspect) (\<lambda>copy.
       io_then (place_baseline inventory inspect version copy)
         (commit_baseline m version mn)))))))"

end
