(* ===== verification/Slot_Recovery.thy ===== *)
theory Slot_Recovery
  imports Slots
begin

text \<open>
  Crash consistency of the slot manager. A triple \<open>triple P c Q E\<close> says what holds of the disk after
  \<open>c\<close> under every fault list: \<open>Q\<close> when it returns, \<open>E\<close> when it reports an error or the machine stops.
  \<open>reads c\<close> says that \<open>c\<close> leaves the disk alone and that a value it returns is the one it returns
  without faults.
\<close>

section \<open>Triples\<close>

definition disk :: "world \<Rightarrow> world" where
  "disk w = w\<lparr>w_faults := []\<rparr>"

lemma disk_fields [simp]:
  "w_current (disk w) = w_current w" "w_previous (disk w) = w_previous w" "w_state (disk w) = w_state w"
  "w_operation (disk w) = w_operation w" "w_installation (disk w) = w_installation w"
  "w_slots (disk w) = w_slots w" "w_faults (disk w) = []" "disk (disk w) = disk w"
  "disk (w\<lparr>w_faults := fs\<rparr>) = disk w"
  by (simp_all add: disk_def)

definition triple ::
  "(world \<Rightarrow> bool) \<Rightarrow> 'a io \<Rightarrow> ('a \<Rightarrow> world \<Rightarrow> bool) \<Rightarrow> (world \<Rightarrow> bool) \<Rightarrow> bool" where
  "triple P c Q E = (\<forall>w. P (disk w) \<longrightarrow>
     (case c w of (Ok x, w') \<Rightarrow> Q x (disk w') | (Err e, w') \<Rightarrow> E (disk w') | (Halt, w') \<Rightarrow> E (disk w')))"

lemma tripleI:
  "(\<And>w. P (disk w) \<Longrightarrow> case c w of (Ok x, w') \<Rightarrow> Q x (disk w') | (Err e, w') \<Rightarrow> E (disk w') | (Halt, w') \<Rightarrow> E (disk w'))
   \<Longrightarrow> triple P c Q E"
  by (simp add: triple_def)

lemma triple_conseq:
  assumes "triple P c Q E" and "\<And>d. P' d \<Longrightarrow> P d" and "\<And>x d. Q x d \<Longrightarrow> Q' x d" and "\<And>d. E d \<Longrightarrow> E' d"
  shows "triple P' c Q' E'"
  using assms unfolding triple_def by (fastforce split: prod.splits res.splits)

lemma triple_bind:
  assumes "triple P c Q E" and "\<And>x. triple (Q x) (f x) R E"
  shows "triple P (io_bind c f) R E"
proof (rule tripleI)
  fix w assume "P (disk w)"
  with assms(1) have c: "case c w of (Ok x, w') \<Rightarrow> Q x (disk w') | (Err e, w') \<Rightarrow> E (disk w') | (Halt, w') \<Rightarrow> E (disk w')"
    by (simp add: triple_def)
  show "case io_bind c f w of (Ok x, w') \<Rightarrow> R x (disk w') | (Err e, w') \<Rightarrow> E (disk w') | (Halt, w') \<Rightarrow> E (disk w')"
  proof (cases "c w")
    case (Pair r w')
    show ?thesis
    proof (cases r)
      case (Ok x)
      with c Pair assms(2) [of x] show ?thesis by (simp add: io_bind_def triple_def)
    qed (use c Pair in \<open>simp_all add: io_bind_def\<close>)
  qed
qed

lemma triple_return: "(\<And>d. P d \<Longrightarrow> Q x d) \<Longrightarrow> triple P (io_return x) Q E"
  by (simp add: triple_def io_return_def)

lemma triple_fail: "(\<And>d. P d \<Longrightarrow> E d) \<Longrightarrow> triple P (io_fail e) Q E"
  by (simp add: triple_def io_fail_def)

lemma triple_from_result: "(\<And>d x. r = Inr x \<Longrightarrow> P d \<Longrightarrow> Q x d) \<Longrightarrow> (\<And>d. P d \<Longrightarrow> E d) \<Longrightarrow> triple P (from_result r) Q E"
  by (cases r) (auto simp: from_result_def intro: triple_return triple_fail)

lemma triple_attempt:
  assumes "triple P c Q E"
  shows "triple P (attempt c) (\<lambda>r. case r of Inr x \<Rightarrow> Q x | Inl _ \<Rightarrow> E) E"
  using assms unfolding triple_def attempt_def by (fastforce split: prod.splits res.splits)

lemma triple_wrap: "triple P c Q E \<Longrightarrow> triple P (wrap_err p c) Q E"
  unfolding triple_def wrap_err_def by (fastforce split: prod.splits res.splits)

lemma triple_syscall:
  assumes "\<And>w. disk (f w) = f (disk w)" and "\<And>d. P d \<Longrightarrow> Q () (f d)" and "\<And>d. P d \<Longrightarrow> E d \<and> E (f d)"
  shows "triple P (syscall f) Q E"
proof (rule tripleI)
  fix w assume P: "P (disk w)"
  have "f (w\<lparr>w_faults := fs\<rparr>) = g \<Longrightarrow> disk g = f (disk w)" for fs g using assms(1) [of "w\<lparr>w_faults := fs\<rparr>"] by auto
  then have f: "disk (f (w\<lparr>w_faults := fs\<rparr>)) = f (disk w)" for fs by blast
  show "case syscall f w of (Ok x, w') \<Rightarrow> Q x (disk w') | (Err e, w') \<Rightarrow> E (disk w') | (Halt, w') \<Rightarrow> E (disk w')"
    using P assms f by (auto simp: syscall_def split: list.split fault.split)
qed

lemma triple_touch: "(\<And>d. P d \<Longrightarrow> Q () d) \<Longrightarrow> (\<And>d. P d \<Longrightarrow> E d) \<Longrightarrow> triple P touch Q E"
  by (rule triple_syscall) auto

text \<open>A step that is only sequenced: its precondition is kept.\<close>

lemma triple_then: "triple P c (\<lambda>_. Q) E \<Longrightarrow> triple Q c' R E \<Longrightarrow> triple P (io_then c c') R E"
  by (rule triple_bind)

section \<open>Reading\<close>

definition reads :: "'a io \<Rightarrow> bool" where
  "reads c = (\<forall>w. disk (snd (c w)) = disk w \<and> snd (c (disk w)) = disk w
     \<and> (\<forall>x. fst (c w) = Ok x \<longrightarrow> fst (c (disk w)) = Ok x))"

abbreviation value_of :: "'a io \<Rightarrow> world \<Rightarrow> 'a res" where
  "value_of c w \<equiv> fst (c (disk w))"

lemma readsD:
  assumes "reads c"
  shows "disk (snd (c w)) = disk w" and "snd (c (disk w)) = disk w" and "fst (c w) = Ok x \<Longrightarrow> value_of c w = Ok x"
  using assms unfolding reads_def by blast+

lemma reads_touch: "reads touch"
  by (auto simp: reads_def syscall_def disk_def split: list.splits fault.splits)

lemma reads_return [simp]: "reads (io_return x)"
  by (simp add: reads_def io_return_def)

lemma reads_fail [simp]: "reads (io_fail e)"
  by (simp add: reads_def io_fail_def)

lemma reads_from_result [simp]: "reads (from_result r)"
  by (cases r) (simp_all add: from_result_def)

lemma reads_bind:
  assumes "reads c" and "\<And>x. reads (f x)"
  shows "reads (io_bind c f)"
  unfolding reads_def
proof (intro allI conjI impI)
  fix w
  obtain r w' where cw: "c w = (r, w')" by (cases "c w")
  obtain r2 w2 where cd: "c (disk w) = (r2, w2)" by (cases "c (disk w)")
  have w': "disk w' = disk w" using readsD(1) [OF assms(1), of w] cw by simp
  have w2: "w2 = disk w" using readsD(2) [OF assms(1), of w] cd by simp
  show "disk (snd (io_bind c f w)) = disk w"
    using cw w' readsD(1) [OF assms(2), of _ w'] by (cases r) (simp_all add: io_bind_def)
  show "snd (io_bind c f (disk w)) = disk w"
    using cd w2 readsD(2) [OF assms(2), of _ w] by (cases r2) (simp_all add: io_bind_def)
  fix y assume y: "fst (io_bind c f w) = Ok y"
  with cw obtain x where x: "r = Ok x" "fst (f x w') = Ok y" by (cases r) (auto simp: io_bind_def)
  have "r2 = Ok x" using readsD(3) [OF assms(1), of w x] cw x(1) cd by simp
  with readsD(3) [OF assms(2) x(2)] w' w2 cd show "fst (io_bind c f (disk w)) = Ok y"
    by (simp add: io_bind_def)
qed

lemma reads_world: "(\<And>w. f (disk w) = f w) \<Longrightarrow> reads (read_world f)"
  unfolding read_world_def by (rule reads_bind [OF reads_touch]) (simp add: reads_def)

lemma reads_wrap: "reads c \<Longrightarrow> reads (wrap_err p c)"
proof -
  have s: "snd (wrap_err p c w) = snd (c w)" for w
    by (cases "c w"; cases "fst (c w)") (auto simp: wrap_err_def)
  have f: "fst (wrap_err p c w) = Ok x \<longleftrightarrow> fst (c w) = Ok x" for w x
    by (cases "c w"; cases "fst (c w)") (auto simp: wrap_err_def)
  show "reads c \<Longrightarrow> reads (wrap_err p c)" by (simp add: reads_def s f)
qed

text \<open>Catching an error only to report another one is still a read.\<close>

lemma reads_attempt_fail:
  assumes "reads c" and "\<And>x. reads (f x)" and "\<And>e. \<exists>e'. g e = io_fail e'"
  shows "reads (io_bind (attempt c) (\<lambda>r. case r of Inl e \<Rightarrow> g e | Inr x \<Rightarrow> f x))"
proof -
  let ?a = "io_bind (attempt c) (\<lambda>r. case r of Inl e \<Rightarrow> g e | Inr x \<Rightarrow> f x)"
  have s: "snd (?a w) = snd (io_bind c f w)" for w
  proof (cases "c w")
    case (Pair r w')
    then show ?thesis
    proof (cases r)
      case (Err e)
      with assms(3) [of e] Pair show ?thesis by (auto simp: io_bind_def attempt_def io_fail_def)
    qed (auto simp: io_bind_def attempt_def)
  qed
  have f: "fst (?a w) = Ok x \<longleftrightarrow> fst (io_bind c f w) = Ok x" for w x
  proof (cases "c w")
    case (Pair r w')
    then show ?thesis
    proof (cases r)
      case (Err e)
      with assms(3) [of e] Pair show ?thesis by (auto simp: io_bind_def attempt_def io_fail_def)
    qed (auto simp: io_bind_def attempt_def)
  qed
  from reads_bind [OF assms(1,2)] show ?thesis by (simp add: reads_def s f)
qed

lemma triple_reads:
  assumes "reads c" and "\<And>d x. P d \<Longrightarrow> value_of c d = Ok x \<Longrightarrow> Q x d" and "\<And>d. P d \<Longrightarrow> E d"
  shows "triple P c Q E"
proof (rule tripleI)
  fix w assume P: "P (disk w)"
  obtain r w' where cw: "c w = (r, w')" by (cases "c w")
  have w': "disk w' = disk w" using readsD(1) [OF assms(1), of w] cw by simp
  show "case c w of (Ok x, w') \<Rightarrow> Q x (disk w') | (Err e, w') \<Rightarrow> E (disk w') | (Halt, w') \<Rightarrow> E (disk w')"
  proof (cases r)
    case (Ok x)
    with readsD(3) [OF assms(1), of w x] cw assms(2) [OF P] w' show ?thesis by simp
  qed (use cw w' P assms(3) in simp_all)
qed

section \<open>The manager's reads\<close>

lemma reads_require_slot: "reads (require_slot v)"
proof -
  have "reads (io_bind (attempt (read_world (\<lambda>w. w_slots w v \<noteq> None))) (\<lambda>r. case r of
      Inl e \<Rightarrow> io_fail (Errorf ''release slot is not staged'')
    | Inr b \<Rightarrow> if b then io_return () else io_fail (Errorf ''release slot is not staged'')))"
    by (rule reads_attempt_fail) (auto intro: reads_world)
  moreover have "(\<lambda>r :: bool result. case r of
      Inl e \<Rightarrow> io_fail (Errorf ''release slot is not staged'')
    | Inr b \<Rightarrow> if b then io_return () else io_fail (Errorf ''release slot is not staged''))
    = (\<lambda>r. case r of Inr True \<Rightarrow> io_return () | _ \<Rightarrow> io_fail (Errorf ''release slot is not staged''))"
    by (auto split: sum.split bool.split)
  ultimately show ?thesis unfolding require_slot_def by simp
qed

lemma reads_link_version: "reads (link_version m p)"
proof -
  have "reads (read_world (get_link p))" by (rule reads_world) (cases p; simp)
  moreover have "reads (io_bind (attempt (require_slot v)) (\<lambda>r. case r of
      Inl e \<Rightarrow> io_fail (Errorf (pointer_name p @ '' slot pointer is broken: '' @ error_text e))
    | Inr _ \<Rightarrow> io_return (Some v)))" for v
    by (rule reads_attempt_fail [OF reads_require_slot]) auto
  ultimately show ?thesis
    unfolding link_version_def by (intro reads_bind) (auto simp: Let_def split: link.split)
qed

lemma reads_apply_installation_floor: "reads (apply_installation_floor st)"
  unfolding apply_installation_floor_def
  by (intro reads_bind reads_world) (auto simp: Let_def intro!: reads_bind split: option.split sum.split)

lemma reads_state_without_operation: "reads (state_without_operation m)"
  unfolding state_without_operation_def
  by (intro reads_bind reads_world reads_link_version)
    (auto simp: Let_def intro!: reads_bind reads_link_version reads_apply_installation_floor split: option.split sum.split)

lemma reads_validate_slot_ref: "reads (validate_slot_ref m v)"
proof -
  have "reads (io_bind (attempt (require_slot v)) (\<lambda>r. case r of
      Inl _ \<Rightarrow> io_fail (Errorf (''journal references an unavailable slot '' @ debug_str (sm_crypto m) v))
    | Inr _ \<Rightarrow> io_return ()))"
    by (rule reads_attempt_fail [OF reads_require_slot]) auto
  then show ?thesis
    unfolding validate_slot_ref_def by (simp only: reads_return reads_fail simp_thms split: if_split)
qed

lemma reads_validate_operation: "reads (validate_operation m op)"
proof -
  have "reads (validate_journal_state m st)" for st
    unfolding validate_journal_state_def by (auto intro!: reads_bind reads_validate_slot_ref)
  then show ?thesis unfolding validate_operation_def by (auto intro!: reads_bind reads_wrap)
qed

lemma reads_read_operation: "reads (read_operation m)"
  unfolding read_operation_def
  by (intro reads_bind reads_world) (auto intro!: reads_bind reads_validate_operation split: option.split sum.split)

lemma reads_project: "reads (project_operation_state m op)"
  unfolding project_operation_state_def
  by (intro reads_bind reads_validate_operation reads_link_version) (auto split: option.split)

lemma reads_slots_state: "reads (slots_state m)"
  unfolding slots_state_def
  by (intro reads_bind reads_read_operation)
    (auto intro!: reads_bind reads_project reads_apply_installation_floor reads_state_without_operation split: option.split)

lemma reads_check_installation: "reads check_installation"
  unfolding check_installation_def by (intro reads_bind reads_world) auto

lemma reads_ensure_root: "reads (ensure_root m)"
  unfolding ensure_root_def by (auto intro!: reads_bind reads_touch)

section \<open>What a read depends on\<close>

definition quiet :: "'a io \<Rightarrow> bool" where
  "quiet c = (\<forall>w. snd (c (disk w)) = disk w)"

definition depends :: "(world \<Rightarrow> 'k) \<Rightarrow> 'a io \<Rightarrow> bool" where
  "depends f c = (\<forall>w w'. f w = f w' \<longrightarrow> value_of c w = value_of c w')"

lemma reads_quiet: "reads c \<Longrightarrow> quiet c"
  by (simp add: quiet_def readsD)

lemma quiet_attempt: "quiet c \<Longrightarrow> quiet (attempt c)"
  unfolding quiet_def attempt_def by (auto split: prod.splits res.splits) (metis snd_conv)+

lemma depends_return [simp]: "depends f (io_return x)"
  by (simp add: depends_def io_return_def)

lemma depends_fail [simp]: "depends f (io_fail e)"
  by (simp add: depends_def io_fail_def)

lemma depends_from_result [simp]: "depends f (from_result r)"
  by (cases r) (simp_all add: from_result_def)

lemma value_bind:
  assumes "quiet c"
  shows "value_of (io_bind c f) w = (case value_of c w of Ok x \<Rightarrow> value_of (f x) w | Err e \<Rightarrow> Err e | Halt \<Rightarrow> Halt)"
proof (cases "c (disk w)")
  case (Pair r w')
  with assms have "w' = disk w" by (metis quiet_def snd_conv)
  with Pair show ?thesis by (cases r) (simp_all add: io_bind_def)
qed

lemma value_attempt: "value_of (attempt c) w = (case value_of c w of Ok x \<Rightarrow> Ok (Inr x) | Err e \<Rightarrow> Ok (Inl e) | Halt \<Rightarrow> Halt)"
  by (cases "c (disk w)"; cases "fst (c (disk w))") (auto simp: attempt_def)

lemma value_wrap: "value_of (wrap_err p c) w = (case value_of c w of Err e \<Rightarrow> Err (Wrapf p e) | r \<Rightarrow> r)"
  by (cases "c (disk w)"; cases "fst (c (disk w))") (auto simp: wrap_err_def)

lemma value_read_world: "(\<And>w. f (disk w) = f w) \<Longrightarrow> value_of (read_world f) w = Ok (f w)"
  by (simp add: read_world_def io_bind_def syscall_def)

lemma value_return [simp]: "value_of (io_return x) w = Ok x"
  by (simp add: io_return_def)

lemma value_fail [simp]: "value_of (io_fail e) w = Err e"
  by (simp add: io_fail_def)

lemma value_from_result: "value_of (from_result r) w = (case r of Inl e \<Rightarrow> Err e | Inr x \<Rightarrow> Ok x)"
  by (cases r) (simp_all add: from_result_def)

lemma dependsD: "depends f c \<Longrightarrow> f w = f w' \<Longrightarrow> value_of c w = value_of c w'"
  unfolding depends_def by blast

lemma dependsI: "(\<And>w w'. f w = f w' \<Longrightarrow> value_of c w = value_of c w') \<Longrightarrow> depends f c"
  unfolding depends_def by blast

lemma depends_bind:
  assumes "quiet c" and "depends f c" and "\<And>x. depends f (g x)"
  shows "depends f (io_bind c g)"
proof (rule dependsI)
  fix w w' assume eq: "f w = f w'"
  show "value_of (io_bind c g) w = value_of (io_bind c g) w'"
    unfolding value_bind [OF assms(1)] dependsD [OF assms(2) eq] dependsD [OF assms(3) eq] by (rule refl)
qed

lemma depends_attempt:
  assumes "depends f c"
  shows "depends f (attempt c)"
proof (rule dependsI)
  fix w w' assume eq: "f w = f w'"
  show "value_of (attempt c) w = value_of (attempt c) w'"
    unfolding value_attempt dependsD [OF assms eq] by (rule refl)
qed

lemma depends_wrap:
  assumes "depends f c"
  shows "depends f (wrap_err p c)"
proof (rule dependsI)
  fix w w' assume eq: "f w = f w'"
  show "value_of (wrap_err p c) w = value_of (wrap_err p c) w'"
    unfolding value_wrap dependsD [OF assms eq] by (rule refl)
qed

lemma depends_read_world:
  assumes "\<And>w. g (disk w) = g w" and "\<And>w w'. f w = f w' \<Longrightarrow> g w = g w'"
  shows "depends f (read_world g)"
proof (rule dependsI)
  fix w w' assume eq: "f w = f w'"
  show "value_of (read_world g) w = value_of (read_world g) w'"
    unfolding value_read_world [of g, OF assms(1)] assms(2) [OF eq] by (rule refl)
qed

lemma depends_weaken: "depends f c \<Longrightarrow> (\<And>w w'. g w = g w' \<Longrightarrow> f w = f w') \<Longrightarrow> depends g c"
  by (rule dependsI) (rule dependsD)

lemma value_require_slot:
  "value_of (require_slot v) w =
     (if \<not> is_release_version v then Err (Errorf ''invalid release version'')
      else if w_slots w v \<noteq> None then Ok () else Err (Errorf ''release slot is not staged''))"
  unfolding require_slot_def
  by (simp add: value_bind quiet_attempt reads_quiet reads_world value_attempt value_read_world split: bool.split)

lemma depends_require_slot: "depends w_slots (require_slot v)"
  by (rule dependsI) (simp only: value_require_slot)

lemma quiet_attempt_require: "quiet (attempt (require_slot v))"
  by (intro quiet_attempt reads_quiet reads_require_slot)

lemma depends_validate_slot_ref: "depends w_slots (validate_slot_ref m v)"
  unfolding validate_slot_ref_def
  by (auto intro!: depends_bind depends_attempt quiet_attempt_require depends_require_slot split: sum.split)

lemma reads_validate_journal_state: "reads (validate_journal_state m st)"
  unfolding validate_journal_state_def by (auto intro!: reads_bind reads_validate_slot_ref)

lemma depends_validate_journal_state: "depends w_slots (validate_journal_state m st)"
  unfolding validate_journal_state_def
  by (auto intro!: depends_bind depends_validate_slot_ref reads_quiet reads_validate_slot_ref)

lemma depends_validate_operation: "depends w_slots (validate_operation m op)"
  unfolding validate_operation_def
  by (auto intro!: depends_bind depends_wrap depends_validate_journal_state reads_quiet reads_wrap
      reads_validate_journal_state)

lemma depends_link_version: "depends (\<lambda>w. (w_slots w, get_link p w)) (link_version m p)"
proof -
  have "depends (\<lambda>w. (w_slots w, get_link p w)) (require_slot v)" for v
    by (rule depends_weaken [OF depends_require_slot]) simp
  moreover have g: "get_link p (disk w) = get_link p w" for w by (cases p) simp_all
  moreover have "quiet (read_world (get_link p))" by (intro reads_quiet reads_world g)
  ultimately show ?thesis
    unfolding link_version_def
    by (auto intro!: depends_bind depends_read_world depends_attempt quiet_attempt_require
        simp: Let_def split: link.split sum.split)
qed

lemma depends_apply_installation_floor: "depends w_installation (apply_installation_floor st)"
  unfolding apply_installation_floor_def
  by (auto intro!: depends_bind depends_read_world reads_quiet reads_world simp: Let_def split: option.split sum.split)

section \<open>Slot pointers\<close>

definition lnk :: "string \<Rightarrow> link" where
  "lnk v = (if v = [] then NoLink else Link (''slots/'' @ v))"

lemma release_version_chars:
  assumes "is_release_version v"
  shows "CHR ''/'' \<notin> set v" and "v \<noteq> []" and "v \<noteq> ''.''" and "v \<noteq> ''..''"
proof -
  from assms obtain a b c suf where s: "strip_v v = a @ ''.'' @ b @ ''.'' @ c @ suf"
    "numeric_identifier a" "numeric_identifier b" "numeric_identifier c" "match_suffix suf"
    by (rule release_version_shape)
  have nd: "\<not> is_ascii_digit (CHR ''/'')" "\<not> suffix_char (CHR ''/'')" by code_simp+
  have "CHR ''/'' \<notin> set suf"
    using s(5) nd(2) by (auto simp: match_suffix_def list_all_iff split: list.splits)
  with s nd(1) have "CHR ''/'' \<notin> set (strip_v v)" by (simp add: numeric_no)
  moreover have "v = strip_v v \<or> v = CHR ''v'' # strip_v v"
    by (auto simp: strip_v_def strip_prefix_def starts_with_iff split: if_splits)
  moreover from this have "set v \<subseteq> insert (CHR ''v'') (set (strip_v v))"
    by (metis list.set(2) subset_insertI subset_refl)
  ultimately show "CHR ''/'' \<notin> set v" by blast
  have "5 \<le> length (strip_v v)"
    using s(1-4) by (cases a; cases b; cases c) (auto simp: numeric_identifier_def)
  moreover have "length (strip_v v) \<le> length v"
    using \<open>v = strip_v v \<or> v = CHR ''v'' # strip_v v\<close> by (metis le_Suc_eq length_Cons order_refl)
  ultimately show "v \<noteq> []" "v \<noteq> ''.''" "v \<noteq> ''..''" by auto
qed

lemma slot_link_path:
  assumes "is_release_version v"
  shows "clean (''slots/'' @ v) = ''slots/'' @ v" and "\<not> is_abs (''slots/'' @ v)"
    and "dir (''slots/'' @ v) = ''slots''" and "base (''slots/'' @ v) = v"
proof -
  note v = release_version_chars [OF assms]
  have sp: "split_char (CHR ''/'') (''slots/'' @ v) = [''slots'', v]"
    using v(1) split_char_append [of "CHR ''/''" "''slots''" v] by simp
  show "clean (''slots/'' @ v) = ''slots/'' @ v"
    using sp v by (simp add: clean_eq clean_spec_def)
  show "\<not> is_abs (''slots/'' @ v)" by (simp add: is_abs_def starts_with_def)
  have "rfind_char (CHR ''/'') (''slots'' @ CHR ''/'' # v) = Some (length ''slots'')"
    using v(1) by (rule rfind_char_append)
  then have "dir (''slots/'' @ v) = clean ''slots/''" by (simp add: dir_def)
  then show "dir (''slots/'' @ v) = ''slots''" by (simp add: clean_eq clean_spec_def)
  have "last v \<noteq> CHR ''/''" using v(1,2) by (metis last_in_set)
  then have "trim_end_slash (''slots/'' @ v) = ''slots/'' @ v"
    using v(2) by (cases v rule: rev_cases) (simp_all add: trim_end_slash_def)
  with sp show "base (''slots/'' @ v) = v" by (simp add: base_def Let_def)
qed

lemma value_link_version_None: "get_link p w = NoLink \<Longrightarrow> value_of (link_version m p) w = Ok None"
proof -
  have "get_link p (disk w) = get_link p w" for w by (cases p) simp_all
  then show "get_link p w = NoLink \<Longrightarrow> value_of (link_version m p) w = Ok None"
    by (simp add: link_version_def value_bind reads_quiet reads_world value_read_world)
qed

lemma value_link_version_Link:
  assumes "is_release_version v" and "w_slots w v \<noteq> None" and "get_link p w = Link (''slots/'' @ v)"
  shows "value_of (link_version m p) w = Ok (Some v)"
proof -
  have "get_link p (disk w) = get_link p w" for w by (cases p) simp_all
  then show ?thesis
    using assms(1,2) assms(3) slot_link_path [OF assms(1)]
    by (simp add: link_version_def value_bind reads_quiet reads_world value_read_world quiet_attempt
        reads_require_slot value_attempt value_require_slot Let_def del: append.simps)
qed

section \<open>Valid operations\<close>

definition slot_ok :: "world \<Rightarrow> string \<Rightarrow> bool" where
  "slot_ok d v = (v = [] \<or> (is_release_version v \<and> w_slots d v \<noteq> None))"

definition valid_state :: "world \<Rightarrow> slot_state \<Rightarrow> bool" where
  "valid_state d st = (slot_ok d (st_current st) \<and> slot_ok d (st_previous st) \<and> slot_ok d (st_pending st)
     \<and> (st_minimum_version st = [] \<or> is_release_version (st_minimum_version st))
     \<and> (st_current st = [] \<or> st_current st \<noteq> st_previous st))"

definition valid_op :: "world \<Rightarrow> slot_operation \<Rightarrow> bool" where
  "valid_op d op = (valid_state d (op_old op) \<and> valid_state d (op_next op) \<and> st_pending (op_next op) = []
     \<and> validate_transition (op_kind op) (op_old op) (op_next op) = Inr ()
     \<and> validate_floor (op_kind op) (op_old op) (op_next op) = Inr ())"

lemma value_validate_slot_ref:
  "value_of (validate_slot_ref m v) w = Ok () \<longleftrightarrow> slot_ok w v"
  unfolding validate_slot_ref_def slot_ok_def
  by (simp add: value_bind quiet_attempt_require value_attempt value_require_slot)

lemma value_bind_Ok:
  "quiet c \<Longrightarrow> value_of (io_bind c f) w = Ok y \<longleftrightarrow> (\<exists>x. value_of c w = Ok x \<and> value_of (f x) w = Ok y)"
  by (auto simp: value_bind split: res.splits)

lemma value_validate_journal_state:
  assumes "value_of (validate_journal_state m st) w = Ok ()"
  shows "valid_state w st"
proof -
  note q = reads_quiet [OF reads_validate_slot_ref] and u = old.unit.exhaust
  let ?c = "if st_minimum_version st \<noteq> []
      then from_result (map_sum id (\<lambda>_. ()) (parse_release_version (st_minimum_version st))) else io_return ()"
  have "quiet ?c" by (simp add: reads_quiet)
  with assms have c: "value_of ?c w = Ok ()" and v: "value_of (validate_slot_ref m (st_current st)) w = Ok ()"
    "value_of (validate_slot_ref m (st_previous st)) w = Ok ()" "value_of (validate_slot_ref m (st_pending st)) w = Ok ()"
    by (simp_all add: validate_journal_state_def value_bind_Ok q)
  have "st_minimum_version st \<noteq> [] \<Longrightarrow> \<exists>p. parse_release_version (st_minimum_version st) = Inr p"
    using c by (cases "parse_release_version (st_minimum_version st)") (auto simp: value_from_result)
  then have "st_minimum_version st = [] \<or> is_release_version (st_minimum_version st)"
    using parse_release_versionD(1) by blast
  moreover have "st_current st = [] \<or> st_current st \<noteq> st_previous st"
    using assms v \<open>quiet ?c\<close> c by (auto simp: validate_journal_state_def value_bind_Ok q)
  ultimately show ?thesis using v by (simp add: valid_state_def value_validate_slot_ref)
qed

lemma value_validate_operation:
  assumes "value_of (validate_operation m op) w = Ok ()"
  shows "valid_op w op"
proof -
  note q = reads_quiet [OF reads_wrap [OF reads_validate_journal_state]]
  have wr: "value_of (wrap_err p c) w = Ok x \<longleftrightarrow> value_of c w = Ok x" for p x and c :: "unit io"
    by (auto simp: value_wrap split: res.splits)
  have fr: "value_of (from_result r) w = Ok () \<longleftrightarrow> r = Inr ()" for r
    by (cases r) (simp_all add: value_from_result)
  from assms show ?thesis
    unfolding validate_operation_def valid_op_def
    by (auto simp: value_bind_Ok q wr fr reads_quiet value_validate_journal_state split: if_splits)
qed

lemma transition_current: "validate_transition k old next = Inr () \<Longrightarrow> st_current next \<noteq> []"
  by (auto simp: validate_transition_def split: if_splits)

section \<open>The observed state\<close>

text \<open>What \<open>state()\<close> reports when no call fails.\<close>

abbreviation obs :: "slot_manager \<Rightarrow> world \<Rightarrow> slot_state res" where
  "obs m w \<equiv> value_of (slots_state m) w"

abbreviation floored :: "slot_state \<Rightarrow> world \<Rightarrow> slot_state res" where
  "floored st w \<equiv> value_of (apply_installation_floor st) w"

lemma obs_settled: "w_operation d = None \<Longrightarrow> obs m d = value_of (state_without_operation m) d"
proof -
  have "w_operation d = None \<Longrightarrow> value_of (read_operation m) d = Ok None"
    by (simp add: read_operation_def value_bind reads_quiet reads_world value_read_world)
  then show "w_operation d = None \<Longrightarrow> obs m d = value_of (state_without_operation m) d"
    by (simp add: slots_state_def value_bind reads_quiet reads_read_operation)
qed

fun selects :: "slot_operation \<Rightarrow> string option \<Rightarrow> slot_state option" where
  "selects op (Some c) = (if c = st_current (op_next op) then Some (op_next op)
     else if c = st_current (op_old op) then Some (op_old op) else None)"
| "selects op None = (if st_current (op_old op) = [] then Some (op_old op)
     else if st_current (op_next op) = [] then Some (op_next op) else None)"

lemma value_project:
  "value_of (project_operation_state m op) d = Ok t \<longleftrightarrow>
     value_of (validate_operation m op) d = Ok () \<and>
     (\<exists>c. value_of (link_version m Current) d = Ok c \<and> selects op c = Some t)"
proof -
  note q = reads_quiet [OF reads_validate_operation] reads_quiet [OF reads_link_version]
  let ?e = "Errorf ''slot operation journal does not match the current runtime pointer''"
  have "value_of (case c of
      Some c \<Rightarrow> if c = st_current (op_next op) then io_return (op_next op)
        else if c = st_current (op_old op) then io_return (op_old op) else io_fail ?e
    | None \<Rightarrow> if st_current (op_old op) = [] then io_return (op_old op)
        else if st_current (op_next op) = [] then io_return (op_next op) else io_fail ?e) d = Ok t
    \<longleftrightarrow> selects op c = Some t" for c
    by (cases c) simp_all
  then show ?thesis unfolding project_operation_state_def by (simp only: value_bind_Ok q) simp
qed

lemma obs_journal:
  assumes "w_operation d = Some (Inr op)" and "value_of (validate_operation m op) d = Ok ()"
    and "value_of (link_version m Current) d = Ok c" and "selects op c = Some t"
  shows "obs m d = floored t d"
proof -
  have r: "value_of (read_operation m) d = Ok (Some op)"
    using assms(1,2) by (simp add: read_operation_def value_bind reads_quiet reads_world value_read_world reads_validate_operation)
  have "value_of (project_operation_state m op) d = Ok t" using assms(2-4) value_project by blast
  with r show ?thesis by (simp add: slots_state_def value_bind reads_quiet reads_read_operation reads_project)
qed

lemma obs_journalD:
  assumes "w_operation d = Some (Inr op)" and "obs m d = Ok s"
  shows "value_of (validate_operation m op) d = Ok () \<and>
    (\<exists>c t. value_of (link_version m Current) d = Ok c \<and> selects op c = Some t \<and> floored t d = Ok s)"
proof -
  from assms(2) obtain r where r: "value_of (read_operation m) d = Ok r"
    by (auto simp: slots_state_def value_bind_Ok reads_quiet reads_read_operation)
  with assms(1) have "r = Some op" and v: "value_of (validate_operation m op) d = Ok ()"
    by (auto simp: read_operation_def value_bind_Ok reads_quiet reads_world value_read_world reads_validate_operation)
  with r assms(2) obtain t where "value_of (project_operation_state m op) d = Ok t" "floored t d = Ok s"
    by (auto simp: slots_state_def value_bind_Ok value_bind reads_quiet reads_read_operation reads_project split: res.splits)
  with v show ?thesis by (auto simp: value_project)
qed

lemma link_value_lnk:
  assumes "slot_ok d v" and "get_link p d = lnk v"
  shows "value_of (link_version m p) d = Ok (if v = [] then None else Some v)"
  using assms value_link_version_None [of p d m] value_link_version_Link [of v d p m]
  by (auto simp: lnk_def slot_ok_def)

definition normal :: "slot_state \<Rightarrow> bool" where
  "normal st = (st_pending st = [] \<or> st_pending st \<noteq> st_current st)"

lemma value_state_settled:
  assumes "w_state d = Some (Inr st)" and "valid_state d st" and "normal st"
    and "w_current d = lnk (st_current st)" and "w_previous d = lnk (st_previous st)"
  shows "value_of (state_without_operation m) d = floored st d"
proof -
  have c: "value_of (link_version m Current) d = Ok (if st_current st = [] then None else Some (st_current st))"
    and p: "value_of (link_version m Previous) d = Ok (if st_previous st = [] then None else Some (st_previous st))"
    using link_value_lnk [of d "st_current st" Current] link_value_lnk [of d "st_previous st" Previous] assms(2,4,5)
    by (simp_all add: valid_state_def)
  have "(if st_pending st = st_current st then st\<lparr>st_pending := []\<rparr> else st) = st"
    using assms(3) by (auto simp: normal_def)
  then show ?thesis
    using assms(1) c p
    by (simp add: state_without_operation_def value_bind reads_quiet reads_world value_read_world
        reads_link_version Let_def)
qed

end
