(* ===== verification/Slot_Atomic.thy ===== *)
theory Slot_Atomic
  imports Slot_Recovery
begin

text \<open>
  The operations of the slot manager are atomic: whatever calls fail and wherever the machine stops,
  the reported state is the one before the operation or the one after it.
\<close>

section \<open>Steps\<close>

lemma triple_keep: "reads c \<Longrightarrow> (\<And>d. P d \<Longrightarrow> E d) \<Longrightarrow> triple P c (\<lambda>_. P) E"
  by (rule triple_reads) auto

lemma triple_write:
  assumes "\<And>w. disk (put w) = put (disk w)" and "\<And>d. P d \<Longrightarrow> Q (put d)"
    and "\<And>d. P d \<Longrightarrow> E d" and "\<And>d. Q d \<Longrightarrow> E d"
  shows "triple P (write_atomic_json m put) (\<lambda>_. Q) E"
proof -
  have t: "triple P touch (\<lambda>_. P) E" by (rule triple_touch) (auto intro: assms)
  have s: "triple P (syscall put) (\<lambda>_. Q) E" by (rule triple_syscall) (auto intro: assms)
  have u: "triple Q touch (\<lambda>_. Q) E" by (rule triple_touch) (auto intro: assms)
  have e: "triple P (ensure_root m) (\<lambda>_. P) E" by (rule triple_keep [OF reads_ensure_root]) (rule assms)
  show ?thesis
    unfolding write_atomic_json_def by (rule triple_then [OF e triple_then [OF t triple_then [OF t
      triple_then [OF t triple_then [OF t triple_then [OF s u]]]]]])
qed

lemma disk_set_link [simp]: "disk (set_link p l w) = set_link p l (disk w)"
  by (cases p) (simp_all add: disk_def)

lemma triple_attempt_touch: "(\<And>d. P d \<Longrightarrow> E d) \<Longrightarrow> triple P (attempt touch) (\<lambda>_. P) E"
proof -
  assume E: "\<And>d. P d \<Longrightarrow> E d"
  have "triple P touch (\<lambda>_. P) P" by (rule triple_touch)
  from triple_attempt [OF this] show ?thesis
    by (rule triple_conseq) (auto intro: E split: sum.splits)
qed

lemma triple_swap_link:
  assumes "\<And>d. P d \<Longrightarrow> Q (set_link p (Link (''slots/'' @ v)) d)" and "\<And>d. P d \<Longrightarrow> E d" and "\<And>d. Q d \<Longrightarrow> E d"
  shows "triple P (swap_link p v) (\<lambda>_. Q) E"
proof -
  let ?set = "syscall (set_link p (Link (''slots/'' @ v)))"
  have r: "triple P (require_slot v) (\<lambda>_. P) E" by (rule triple_keep [OF reads_require_slot]) (rule assms)
  have t: "triple P touch (\<lambda>_. P) E" by (rule triple_touch) (auto intro: assms)
  have a: "triple P (attempt touch) (\<lambda>_. P) E" by (rule triple_attempt_touch) (rule assms)
  have "triple P ?set (\<lambda>_. Q) E"
    by (rule triple_syscall) (rule disk_set_link, erule assms(1), intro conjI, erule assms(2), rule assms(3), erule assms(1))
  from triple_attempt [OF this]
  have s: "triple P (attempt ?set) (\<lambda>r. case r of Inr _ \<Rightarrow> Q | Inl _ \<Rightarrow> E) E" .
  have f: "triple (case r of Inr _ \<Rightarrow> Q | Inl _ \<Rightarrow> E)
      (case r of Inl err \<Rightarrow> io_then (attempt touch) (io_fail err) | Inr _ \<Rightarrow> touch) (\<lambda>_. Q) E" for r :: "unit result"
  proof (cases r)
    case (Inl e)
    have "triple E (io_then (attempt touch) (io_fail e)) (\<lambda>_. Q) E"
      by (rule triple_then [OF triple_attempt_touch triple_fail])
    with Inl show ?thesis by simp
  next
    case (Inr x)
    have "triple Q touch (\<lambda>_. Q) E" by (rule triple_touch) (auto intro: assms)
    with Inr show ?thesis by simp
  qed
  show ?thesis
    unfolding swap_link_def by (rule triple_then [OF r triple_then [OF a triple_then [OF t triple_bind [OF s f]]]])
qed

lemma triple_remove_link:
  assumes "\<And>d. P d \<Longrightarrow> Q (set_link p NoLink d)" and "\<And>d. P d \<Longrightarrow> E d" and "\<And>d. Q d \<Longrightarrow> E d"
  shows "triple P (remove_link p) (\<lambda>_. Q) E"
proof -
  have "triple P (syscall (set_link p NoLink)) (\<lambda>_. Q) E" by (rule triple_syscall) (auto intro: assms)
  moreover have "triple Q touch (\<lambda>_. Q) E" by (rule triple_touch) (auto intro: assms)
  ultimately show ?thesis unfolding remove_link_def by (rule triple_then)
qed

lemma triple_restore_link:
  assumes "\<And>d. P d \<Longrightarrow> Q (set_link p (lnk v) d)" and "\<And>d. P d \<Longrightarrow> E d" and "\<And>d. Q d \<Longrightarrow> E d"
  shows "triple P (restore_link p v) (\<lambda>_. Q) E"
proof (cases "v = []")
  case True
  have "triple P (remove_link p) (\<lambda>_. Q) E"
    by (rule triple_remove_link) (use assms True in \<open>auto simp: lnk_def\<close>)
  with True show ?thesis by (simp add: restore_link_def)
next
  case False
  have "triple P (swap_link p v) (\<lambda>_. Q) E"
    by (rule triple_swap_link) (use assms False in \<open>auto simp: lnk_def\<close>)
  with False show ?thesis by (simp add: restore_link_def)
qed

section \<open>Phases of an operation\<close>

definition phase :: "world \<Rightarrow> slot_operation \<Rightarrow> link set \<Rightarrow> world \<Rightarrow> bool" where
  "phase d0 op ls d = (w_operation d = Some (Inr op) \<and> w_slots d = w_slots d0
     \<and> w_installation d = w_installation d0 \<and> w_current d \<in> ls)"

definition settled :: "world \<Rightarrow> slot_state \<Rightarrow> world \<Rightarrow> bool" where
  "settled d0 t d = (w_operation d = None \<and> w_slots d = w_slots d0 \<and> w_installation d = w_installation d0
     \<and> w_state d = Some (Inr t) \<and> w_current d = lnk (st_current t) \<and> w_previous d = lnk (st_previous t))"

abbreviation linked :: "world \<Rightarrow> slot_operation \<Rightarrow> slot_state \<Rightarrow> world \<Rightarrow> bool" where
  "linked d0 op t d \<equiv> phase d0 op {lnk (st_current t)} d \<and> w_previous d = lnk (st_previous t)"

lemma phase_mono: "phase d0 op ls d \<Longrightarrow> ls \<subseteq> ls' \<Longrightarrow> phase d0 op ls' d"
  by (auto simp: phase_def)

lemma phase_update [simp]:
  "phase d0 op ls (d\<lparr>w_previous := l\<rparr>) = phase d0 op ls d"
  "phase d0 op ls (d\<lparr>w_state := x\<rparr>) = phase d0 op ls d"
  "phase d0 op ls (d\<lparr>w_current := l\<rparr>) \<longleftrightarrow> phase d0 op UNIV d \<and> l \<in> ls"
  by (auto simp: phase_def)

lemma phase_UNIV [simp]: "phase d0 op ls d \<Longrightarrow> phase d0 op UNIV d"
  by (auto simp: phase_def)

lemma triple_restore_links:
  "triple (phase d0 op ls) (restore_links m t) (\<lambda>_. linked d0 op t)
     (phase d0 op (insert (lnk (st_current t)) ls))"
proof -
  let ?E = "phase d0 op (insert (lnk (st_current t)) ls)" and ?C = "phase d0 op {lnk (st_current t)}"
  have sub: "phase d0 op ls d \<Longrightarrow> ?E d" "?C d \<Longrightarrow> ?E d" "phase d0 op ls d \<Longrightarrow> phase d0 op UNIV d" for d
    by (auto simp: phase_def)
  have "triple (phase d0 op ls) (restore_link Current (st_current t)) (\<lambda>_. ?C) ?E"
    by (rule triple_restore_link) (auto simp: phase_def)
  note a1 = triple_attempt [OF this]
  have "triple ?C (restore_link Previous (st_previous t)) (\<lambda>_. linked d0 op t) ?E"
    by (rule triple_restore_link) (auto intro: sub)
  note a2 = triple_attempt [OF this]
  have "triple ?E (restore_link Previous (st_previous t)) (\<lambda>_. ?E) ?E"
    by (rule triple_restore_link) auto
  note a3 = triple_attempt [OF this]
  have fin: "triple ((case r1 of Inr _ \<Rightarrow> (case r2 of Inr _ \<Rightarrow> linked d0 op t | Inl _ \<Rightarrow> ?E) | Inl _ \<Rightarrow> ?E))
      (case join_errors ((case r1 of Inl e \<Rightarrow> [e] | Inr _ \<Rightarrow> []) @ (case r2 of Inl e \<Rightarrow> [e] | Inr _ \<Rightarrow> [])) of
         None \<Rightarrow> io_return () | Some e \<Rightarrow> io_fail e) (\<lambda>_. linked d0 op t) ?E" for r1 r2 :: "unit result"
    by (cases r1; cases r2) (auto simp: join_errors_def intro: triple_return triple_fail)
  have "triple (case r1 of Inr _ \<Rightarrow> ?C | Inl _ \<Rightarrow> ?E) (attempt (restore_link Previous (st_previous t)))
      (\<lambda>r2. case r1 of Inr _ \<Rightarrow> (case r2 of Inr _ \<Rightarrow> linked d0 op t | Inl _ \<Rightarrow> ?E) | Inl _ \<Rightarrow> ?E) ?E" for r1 :: "unit result"
  proof (cases r1)
    case (Inl e)
    have "triple ?E (attempt (restore_link Previous (st_previous t))) (\<lambda>_. ?E) ?E"
      by (rule triple_conseq [OF a3]) (auto split: sum.splits)
    with Inl show ?thesis by simp
  qed (use a2 in simp)
  from triple_bind [OF a1 triple_bind [OF this fin]] show ?thesis unfolding restore_links_def .
qed

lemma triple_save:
  "triple (linked d0 op t) (save_state m t) (\<lambda>_ d. linked d0 op t d \<and> w_state d = Some (Inr t)) (linked d0 op t)"
  unfolding save_state_def by (rule triple_write) (auto simp: disk_def phase_def)

lemma triple_clear:
  "triple (\<lambda>d. linked d0 op t d \<and> w_state d = Some (Inr t)) clear_operation (\<lambda>_. settled d0 t)
     (\<lambda>d. linked d0 op t d \<or> settled d0 t d)"
proof -
  have "triple (\<lambda>d. linked d0 op t d \<and> w_state d = Some (Inr t)) (syscall (\<lambda>w. w\<lparr>w_operation := None\<rparr>))
      (\<lambda>_. settled d0 t) (\<lambda>d. linked d0 op t d \<or> settled d0 t d)"
    by (rule triple_syscall) (auto simp: disk_def phase_def settled_def)
  moreover have "triple (settled d0 t) touch (\<lambda>_. settled d0 t) (\<lambda>d. linked d0 op t d \<or> settled d0 t d)"
    by (rule triple_touch) auto
  ultimately show ?thesis unfolding clear_operation_def by (rule triple_then)
qed

section \<open>Recovery, abort and commit\<close>

text \<open>Restoring the pointers, saving the state and clearing the journal, with the errors ignored or
  reported: the disk ends settled on the target, or is still in the journal phase.\<close>

lemma triple_recover_target:
  "triple (phase d0 op ls)
     (io_then (wrap_err p1 (restore_links m t))
       (io_then (wrap_err p2 (save_state m t)) (wrap_err p3 clear_operation)))
     (\<lambda>_. settled d0 t) (\<lambda>d. phase d0 op (insert (lnk (st_current t)) ls) d \<or> settled d0 t d)"
proof -
  let ?E = "\<lambda>d. phase d0 op (insert (lnk (st_current t)) ls) d \<or> settled d0 t d"
  have l: "linked d0 op t d \<Longrightarrow> ?E d" for d by (auto simp: phase_def)
  have "triple (phase d0 op ls) (restore_links m t) (\<lambda>_. linked d0 op t) ?E"
    by (rule triple_conseq [OF triple_restore_links]) auto
  moreover have "triple (linked d0 op t) (save_state m t) (\<lambda>_ d. linked d0 op t d \<and> w_state d = Some (Inr t)) ?E"
    by (rule triple_conseq [OF triple_save]) (auto elim: phase_mono)
  moreover have "triple (\<lambda>d. linked d0 op t d \<and> w_state d = Some (Inr t)) clear_operation (\<lambda>_. settled d0 t) ?E"
    by (rule triple_conseq [OF triple_clear]) (auto elim: phase_mono)
  ultimately show ?thesis by (intro triple_then triple_wrap)
qed

lemma triple_abort:
  "triple (phase d0 op ls) (abort_operation m old e)
     (\<lambda>_ d. phase d0 op (insert (lnk (st_current old)) ls) d \<or> settled d0 old d)
     (\<lambda>d. phase d0 op (insert (lnk (st_current old)) ls) d \<or> settled d0 old d)"
proof -
  let ?E = "\<lambda>d. phase d0 op (insert (lnk (st_current old)) ls) d \<or> settled d0 old d"
  have l: "linked d0 op old d \<Longrightarrow> ?E d" for d by (auto simp: phase_def)
  have "triple (phase d0 op ls) (restore_links m old) (\<lambda>_. linked d0 op old) ?E"
    by (rule triple_conseq [OF triple_restore_links]) auto
  note a1 = triple_attempt [OF this]
  have "triple (linked d0 op old) (save_state m old) (\<lambda>_ d. linked d0 op old d \<and> w_state d = Some (Inr old)) ?E"
    by (rule triple_conseq [OF triple_save]) (auto elim: phase_mono)
  note a2 = triple_attempt [OF this]
  have "triple (\<lambda>d. linked d0 op old d \<and> w_state d = Some (Inr old)) clear_operation (\<lambda>_. settled d0 old) ?E"
    by (rule triple_conseq [OF triple_clear]) (auto elim: phase_mono)
  note a3 = triple_attempt [OF this]
  have ret: "triple ?E (io_return x) (\<lambda>_. ?E) ?E" for x :: error by (rule triple_return)
  have fin: "triple (case r of Inr _ \<Rightarrow> settled d0 old | Inl _ \<Rightarrow> ?E)
      (case r of Inl err \<Rightarrow> io_return (g err) | Inr _ \<Rightarrow> io_return e) (\<lambda>_. ?E) ?E" for r :: "unit result" and g
    by (cases r) (auto intro: triple_return)
  have mid: "triple (case r of Inr _ \<Rightarrow> (\<lambda>d. linked d0 op old d \<and> w_state d = Some (Inr old)) | Inl _ \<Rightarrow> ?E)
      (case r of Inl err \<Rightarrow> io_return (g err) | Inr _ \<Rightarrow> io_bind (attempt clear_operation) (\<lambda>r3. case r3 of
         Inl err \<Rightarrow> io_return (h err) | Inr _ \<Rightarrow> io_return e)) (\<lambda>_. ?E) ?E" for r :: "unit result" and g h
    by (cases r) (simp_all only: sum.case ret triple_bind [OF a3 fin])
  have top: "triple (case r of Inr _ \<Rightarrow> linked d0 op old | Inl _ \<Rightarrow> ?E)
      (case r of Inl err \<Rightarrow> io_return (f err) | Inr _ \<Rightarrow> io_bind (attempt (save_state m old)) (\<lambda>r2. case r2 of
         Inl err \<Rightarrow> io_return (g err) | Inr _ \<Rightarrow> io_bind (attempt clear_operation) (\<lambda>r3. case r3 of
           Inl err \<Rightarrow> io_return (h err) | Inr _ \<Rightarrow> io_return e))) (\<lambda>_. ?E) ?E" for r :: "unit result" and f g h
    by (cases r) (simp_all only: sum.case ret triple_bind [OF a2 mid])
  show ?thesis unfolding abort_operation_def by (rule triple_bind [OF a1 top])
qed

text \<open>
  The journal phase of an operation that starts on the disk \<open>d0\<close>: the current pointer is still the one
  of \<open>d0\<close>, or the old one written again, or the new one.
\<close>

abbreviation op_links :: "world \<Rightarrow> slot_state \<Rightarrow> slot_state \<Rightarrow> link set" where
  "op_links d0 old next \<equiv> {w_current d0, lnk (st_current old), lnk (st_current next)}"

abbreviation the_op :: "string \<Rightarrow> slot_state \<Rightarrow> slot_state \<Rightarrow> slot_operation" where
  "the_op kind old next \<equiv> \<lparr>op_version = OPERATION_JOURNAL_VERSION, op_kind = kind, op_old = old, op_next = next\<rparr>"

definition between :: "slot_manager \<Rightarrow> world \<Rightarrow> string \<Rightarrow> slot_state \<Rightarrow> slot_state \<Rightarrow> world \<Rightarrow> bool" where
  "between m d0 kind old next d =
     (d = d0 \<or> (value_of (validate_operation m (the_op kind old next)) d0 = Ok ()
        \<and> (phase d0 (the_op kind old next) (op_links d0 old next) d \<or> settled d0 old d \<or> settled d0 next d)))"

lemma triple_commit:
  assumes "triple (phase d0 (the_op kind old next) (op_links d0 old next)) mutate
      (\<lambda>_. linked d0 (the_op kind old next) next) (phase d0 (the_op kind old next) (op_links d0 old next))"
  shows "triple (\<lambda>d. d = d0) (commit_operation m kind old next mutate)
    (\<lambda>_ d. settled d0 next d \<and> value_of (validate_operation m (the_op kind old next)) d0 = Ok ())
    (between m d0 kind old next)"
proof -
  let ?op = "the_op kind old next" and ?L = "op_links d0 old next"
  let ?v = "value_of (validate_operation m ?op) d0 = Ok ()" and ?E = "between m d0 kind old next"
  let ?J = "\<lambda>d. ?v \<and> phase d0 ?op ?L d"
  have J: "?J d \<Longrightarrow> ?E d" for d by (simp add: between_def)
  have "triple (\<lambda>d. d = d0) (validate_operation m ?op) (\<lambda>_ d. d = d0 \<and> ?v) ?E"
    by (rule triple_reads [OF reads_validate_operation]) (auto simp: between_def)
  moreover have "triple (\<lambda>d. d = d0 \<and> ?v) (write_atomic_json m (\<lambda>w. w\<lparr>w_operation := Some (Inr ?op)\<rparr>)) (\<lambda>_. ?J) ?E"
    by (rule triple_write) (auto simp: disk_def phase_def between_def)
  ultimately have beg: "triple (\<lambda>d. d = d0) (wrap_err p (begin_operation m ?op)) (\<lambda>_. ?J) ?E" for p
    unfolding begin_operation_def by (intro triple_wrap triple_then)
  have mut: "triple ?J mutate (\<lambda>_ d. ?v \<and> linked d0 ?op next d) ?J"
  proof (cases ?v)
    case True
    then show ?thesis by (intro triple_conseq [OF assms]) auto
  qed (simp add: triple_def)
  have ab: "triple ?J (io_bind (abort_operation m old e) io_fail) (\<lambda>_. Q) ?E" for e Q
  proof -
    have "triple ?J (abort_operation m old e) (\<lambda>_. ?E) ?E"
    proof (cases ?v)
      case True
      then show ?thesis
        by (intro triple_conseq [OF triple_abort [of d0 ?op ?L m old e]]) (auto simp: between_def insert_absorb2 insert_commute)
    qed (simp add: triple_def)
    then show ?thesis by (rule triple_bind) (rule triple_fail)
  qed
  let ?S = "\<lambda>d. ?v \<and> linked d0 ?op next d \<and> w_state d = Some (Inr next)"
  let ?D = "\<lambda>d. settled d0 next d \<and> ?v"
  have lj: "?v \<and> linked d0 ?op next d \<Longrightarrow> ?J d" for d by (auto simp: phase_def)
  have sv: "triple (\<lambda>d. ?v \<and> linked d0 ?op next d) (save_state m next) (\<lambda>_. ?S) ?J"
  proof (cases ?v)
    case True
    then show ?thesis by (intro triple_conseq [OF triple_save [of d0 ?op "next" m]]) (auto simp: phase_def)
  qed (simp add: triple_def)
  have cl: "triple ?S (wrap_err p clear_operation) (\<lambda>_. ?D) ?E" for p
  proof (cases ?v)
    case True
    then show ?thesis
      by (intro triple_wrap triple_conseq [OF triple_clear [of d0 ?op "next"]]) (auto simp: between_def phase_def)
  qed (simp add: triple_def)
  have a_mut: "triple ?J (attempt mutate) (\<lambda>r. case r of Inr _ \<Rightarrow> (\<lambda>d. ?v \<and> linked d0 ?op next d) | Inl _ \<Rightarrow> ?J) ?E"
    by (rule triple_conseq [OF triple_attempt [OF mut]]) (auto intro: J)
  have a_sv: "triple (\<lambda>d. ?v \<and> linked d0 ?op next d) (attempt (save_state m next))
      (\<lambda>r. case r of Inr _ \<Rightarrow> ?S | Inl _ \<Rightarrow> ?J) ?E"
    by (rule triple_conseq [OF triple_attempt [OF sv]]) (auto intro: J)
  have fin: "triple (case r of Inr _ \<Rightarrow> ?S | Inl _ \<Rightarrow> ?J) (case r of
      Inl err \<Rightarrow> io_bind (abort_operation m old (g err)) io_fail
    | Inr _ \<Rightarrow> wrap_err p clear_operation) (\<lambda>_. ?D) ?E" for r :: "unit result" and p g
    by (cases r) (simp_all only: sum.case ab cl)
  have mid: "triple (case r of Inr _ \<Rightarrow> (\<lambda>d. ?v \<and> linked d0 ?op next d) | Inl _ \<Rightarrow> ?J) (case r of
      Inl err \<Rightarrow> io_bind (abort_operation m old err) io_fail
    | Inr _ \<Rightarrow> io_bind (attempt (save_state m next)) (\<lambda>r2. case r2 of
        Inl err \<Rightarrow> io_bind (abort_operation m old (g err)) io_fail
      | Inr _ \<Rightarrow> wrap_err p clear_operation)) (\<lambda>_. ?D) ?E" for r :: "unit result" and p g
    by (cases r) (simp_all only: sum.case ab triple_bind [OF a_sv fin])
  show ?thesis
    unfolding commit_operation_def Let_def by (rule triple_then [OF beg triple_bind [OF a_mut mid]])
qed

lemma link_none:
  assumes "value_of (link_version m Current) d = Ok None"
  shows "w_current d = NoLink"
proof (cases "w_current d")
  case (Link t)
  with assms show ?thesis
    by (auto simp: link_version_def value_bind reads_quiet reads_world value_read_world quiet_attempt_require
        value_attempt value_require_slot Let_def split: if_splits)
next
  case NotALink
  with assms show ?thesis by (simp add: link_version_def value_bind reads_quiet reads_world value_read_world)
qed

section \<open>What is observed in each phase\<close>

lemma obs_phase:
  assumes "phase d0 op {l} d" and "value_of (validate_operation m op) d0 = Ok ()"
    and "value_of (link_version m Current) (d0\<lparr>w_current := l\<rparr>) = Ok c" and "selects op c = Some t"
  shows "obs m d = floored t d0"
proof -
  have s: "w_slots d = w_slots d0" "w_operation d = Some (Inr op)" "w_installation d = w_installation d0"
    using assms(1) by (simp_all add: phase_def)
  have "value_of (validate_operation m op) d = Ok ()"
    using dependsD [OF depends_validate_operation s(1)] assms(2) by simp
  moreover have "value_of (link_version m Current) d = Ok c"
    using dependsD [OF depends_link_version [of Current m], of d "d0\<lparr>w_current := l\<rparr>"] assms(1,3)
    by (simp add: phase_def)
  ultimately have "obs m d = floored t d" using obs_journal s(2) assms(4) by blast
  also have "\<dots> = floored t d0" using dependsD [OF depends_apply_installation_floor s(3)] by blast
  finally show ?thesis .
qed

lemma obs_settled_on:
  assumes "settled d0 t d" and "valid_state d0 t" and "normal t"
  shows "obs m d = floored t d0"
proof -
  from assms(1) have s: "w_operation d = None" "w_slots d = w_slots d0" "w_installation d = w_installation d0"
    "w_state d = Some (Inr t)" "w_current d = lnk (st_current t)" "w_previous d = lnk (st_previous t)"
    by (simp_all add: settled_def)
  have "valid_state d t" using assms(2) s(2) by (simp add: valid_state_def slot_ok_def)
  then have "obs m d = floored t d" using obs_settled [OF s(1)] value_state_settled s(4-6) assms(3) by metis
  also have "\<dots> = floored t d0" using dependsD [OF depends_apply_installation_floor s(3)] by blast
  finally show ?thesis .
qed

lemma link_of_lnk:
  "slot_ok d0 v \<Longrightarrow> value_of (link_version m Current) (d0\<lparr>w_current := lnk v\<rparr>) = Ok (if v = [] then None else Some v)"
  by (rule link_value_lnk) (simp_all add: slot_ok_def)

text \<open>A disk is well formed when the state file names no current version without a pointer to it, and a
  journal's states are not pending on their current version.\<close>

definition wf_disk :: "world \<Rightarrow> bool" where
  "wf_disk d = (case w_operation d of
      None \<Rightarrow> w_current d = NoLink \<longrightarrow> (\<forall>st. w_state d = Some (Inr st) \<longrightarrow> st_current st = [])
    | Some (Inr op) \<Rightarrow> normal (op_old op)
    | Some (Inl e) \<Rightarrow> True)"

lemma wf_settled: "settled d0 t d \<Longrightarrow> wf_disk d"
  by (auto simp: settled_def wf_disk_def lnk_def split: if_splits)

lemma wf_phase: "phase d0 op ls d \<Longrightarrow> normal (op_old op) \<Longrightarrow> wf_disk d"
  by (simp add: phase_def wf_disk_def)

lemma valid_op_normal_next: "valid_op d op \<Longrightarrow> normal (op_next op)"
  by (simp add: valid_op_def normal_def)

lemma floored_fields:
  "floored st d = Ok st' \<Longrightarrow> st_current st' = st_current st \<and> st_previous st' = st_previous st \<and> st_pending st' = st_pending st"
  unfolding apply_installation_floor_def
  by (auto simp: value_bind_Ok reads_quiet reads_world value_read_world Let_def split: option.splits sum.splits if_splits)

text \<open>The state read on a well-formed disk without journal: it agrees with the current pointer.\<close>

lemma state_link:
  assumes "wf_disk d" and "w_operation d = None" and "value_of (state_without_operation m) d = Ok old"
  shows "\<exists>c. value_of (link_version m Current) d = Ok c \<and> (c = Some (st_current old) \<or> c = None \<and> st_current old = [])"
    and "normal old"
proof -
  let ?st = "case w_state d of None \<Rightarrow> io_return default_slot_state
      | Some (Inl e) \<Rightarrow> io_fail (Wrapf ''decode update state'' e) | Some (Inr st) \<Rightarrow> io_return st"
  have q: "quiet ?st" by (auto intro: reads_quiet split: option.split sum.split)
  from assms(3) obtain st0 c p where st0: "value_of ?st d = Ok st0"
    and c: "value_of (link_version m Current) d = Ok c" and p: "value_of (link_version m Previous) d = Ok p"
    and fl: "floored (case p of None \<Rightarrow> (case c of None \<Rightarrow> st0
         | Some c \<Rightarrow> (if st_pending st0 = c then st0\<lparr>st_pending := []\<rparr> else st0)\<lparr>st_current := c\<rparr>)
       | Some v \<Rightarrow> (case c of None \<Rightarrow> st0
         | Some c \<Rightarrow> (if st_pending st0 = c then st0\<lparr>st_pending := []\<rparr> else st0)\<lparr>st_current := c\<rparr>)\<lparr>st_previous := v\<rparr>) d = Ok old"
    using q unfolding state_without_operation_def
    by (auto simp: value_bind_Ok reads_quiet reads_world value_read_world reads_link_version Let_def)
  note f = floored_fields [OF fl]
  have none: "st_current st0 = []" if "c = None"
  proof -
    have "w_current d = NoLink" using c that link_none by blast
    then have "\<forall>st. w_state d = Some (Inr st) \<longrightarrow> st_current st = []" using assms(1,2) by (simp add: wf_disk_def)
    then show ?thesis using st0 by (auto simp: default_slot_state_def split: option.splits sum.splits)
  qed
  show "\<exists>c. value_of (link_version m Current) d = Ok c \<and> (c = Some (st_current old) \<or> c = None \<and> st_current old = [])"
    using c f none by (intro exI [of _ c]) (auto split: option.splits)
  show "normal old" using f none by (auto simp: normal_def split: option.splits if_splits)
qed

lemma floored_idem: "floored st d = Ok st' \<Longrightarrow> floored st' d = Ok st'"
proof -
  assume fl: "floored st d = Ok st'"
  show ?thesis
  proof (cases "w_installation d")
    case None
    with fl have "st' = st\<lparr>st_installation_pending := False\<rparr>"
      by (simp add: apply_installation_floor_def value_bind reads_quiet reads_world value_read_world)
    with None show ?thesis
      by (simp add: apply_installation_floor_def value_bind reads_quiet reads_world value_read_world)
  next
    case (Some f)
    with fl obtain i where i: "f = Inr i"
      by (cases f) (auto simp: apply_installation_floor_def value_bind reads_quiet reads_world value_read_world)
    let ?m = "st_minimum_version i"
    have self: "compare_release_versions ?m ?m = Inr 0" if "parse_release_version ?m = Inr p" for p
      using that compare_parsed_correct [OF that that] by (simp add: compare_release_versions_def)
    from fl Some i show ?thesis
      by (auto simp: apply_installation_floor_def value_bind_Ok value_bind reads_quiet reads_world value_read_world
          value_from_result Let_def self split: if_splits sum.splits res.splits)
  qed
qed

lemma floored_None: "w_installation d = None \<Longrightarrow> floored st d = Ok (st\<lparr>st_installation_pending := False\<rparr>)"
  by (simp add: apply_installation_floor_def value_bind reads_quiet reads_world value_read_world)

lemma state_file_quiet:
  "quiet (case f of None \<Rightarrow> io_return default_slot_state | Some (Inl e) \<Rightarrow> io_fail (Wrapf p e) | Some (Inr st) \<Rightarrow> io_return st)"
  by (auto intro: reads_quiet split: option.split sum.split)

lemma obs_floored:
  assumes "obs m d = Ok s"
  shows "floored s d = Ok s"
proof -
  from assms obtain r where r: "value_of (read_operation m) d = Ok r"
    by (auto simp: slots_state_def value_bind_Ok reads_quiet reads_read_operation)
  show ?thesis
  proof (cases r)
    case None
    with assms r have "value_of (state_without_operation m) d = Ok s"
      by (simp add: slots_state_def value_bind reads_quiet reads_read_operation)
    then obtain st where "floored st d = Ok s"
      unfolding state_without_operation_def
      by (auto simp: value_bind_Ok reads_quiet reads_world reads_link_version Let_def state_file_quiet)
    then show ?thesis by (rule floored_idem)
  next
    case (Some op)
    with assms r obtain t where "floored t d = Ok s"
      by (auto simp: slots_state_def value_bind value_bind_Ok reads_quiet reads_read_operation reads_project split: res.splits)
    then show ?thesis by (rule floored_idem)
  qed
qed

lemma between_obs:
  assumes "wf_disk d0" and "w_operation d0 = None" and "obs m d0 = Ok old" and "between m d0 kind old next d"
  shows "(obs m d = Ok old \<or> obs m d = floored next d0) \<and> wf_disk d"
proof -
  let ?op = "the_op kind old next"
  have old: "value_of (state_without_operation m) d0 = Ok old" using assms(2,3) obs_settled by metis
  note sl = state_link [OF assms(1,2) old] and fl = obs_floored [OF assms(3)]
  show ?thesis
  proof (cases "d = d0")
    case True
    with assms show ?thesis by simp
  next
    case False
    with assms(4) have v: "value_of (validate_operation m ?op) d0 = Ok ()"
      and ph: "phase d0 ?op (op_links d0 old next) d \<or> settled d0 old d \<or> settled d0 next d"
      by (auto simp: between_def)
    have vo: "valid_op d0 ?op" using value_validate_operation [OF v] .
    then have vs: "valid_state d0 old" "valid_state d0 next" "st_current next \<noteq> []"
      using transition_current by (auto simp: valid_op_def)
    have sel: "selects ?op c = Some old \<or> selects ?op c = Some next"
      if "c = Some (st_current old) \<or> c = None \<and> st_current old = []" for c using that by auto
    have "obs m d = floored old d0 \<or> obs m d = floored next d0" if pl: "phase d0 ?op {l} d" and ll: "l \<in> op_links d0 old next" for l
    proof -
      obtain c where c: "value_of (link_version m Current) (d0\<lparr>w_current := l\<rparr>) = Ok c"
        and s: "selects ?op c = Some old \<or> selects ?op c = Some next"
      proof (cases "l = lnk (st_current next)")
        case True
        with link_of_lnk [of d0 "st_current next" m] vs show ?thesis by (intro that) (auto simp: valid_state_def)
      next
        case nl: False
        show ?thesis
        proof (cases "l = lnk (st_current old)")
          case True
          with link_of_lnk [of d0 "st_current old" m] vs sel show ?thesis by (intro that) (auto simp: valid_state_def)
        next
          case False
          with nl ll have "d0\<lparr>w_current := l\<rparr> = d0" by simp
          with sl(1) sel that show ?thesis by metis
        qed
      qed
      with obs_phase [OF pl v c] show ?thesis by blast
    qed
    moreover have "phase d0 ?op (op_links d0 old next) d \<Longrightarrow> phase d0 ?op {w_current d} d \<and> w_current d \<in> op_links d0 old next"
      by (simp add: phase_def)
    ultimately have o: "obs m d = floored old d0 \<or> obs m d = floored next d0"
      using ph obs_settled_on vs sl(2) valid_op_normal_next [OF vo] by (metis slot_operation.select_convs(4))
    have "wf_disk d" using ph wf_settled wf_phase sl(2) by (metis slot_operation.select_convs(3))
    with o fl show ?thesis by simp
  qed
qed

end
