(* ===== verification/Slot_Props.thy ===== *)
theory Slot_Props
  imports Slot_Atomic
begin

text \<open>
  Atomicity of activation and rollback under arbitrary faults, and the version floor over the life of
  an appliance.
\<close>

section \<open>Recovery\<close>

definition sound :: "slot_manager \<Rightarrow> slot_state \<Rightarrow> world \<Rightarrow> bool" where
  "sound m s d = (obs m d = Ok s \<and> wf_disk d)"

lemma triple_exists: "(\<And>d0. P d0 \<Longrightarrow> triple (\<lambda>d. d = d0) c Q E) \<Longrightarrow> triple P c Q E"
  by (rule tripleI) (simp add: triple_def)

lemma selects_again:
  "selects op c = Some t \<Longrightarrow> st_current (op_next op) \<noteq> [] \<Longrightarrow>
   selects op (if st_current t = [] then None else Some (st_current t)) = Some t"
  by (cases c) (auto split: if_splits)

lemma selects_old_next: "selects op c = Some t \<Longrightarrow> t = op_old op \<or> t = op_next op"
  by (cases c) (auto split: if_splits)

lemma recovering_sound:
  assumes "sound m s d0" and "w_operation d0 = Some (Inr op)"
    and "value_of (project_operation_state m op) d0 = Ok t"
    and "phase d0 op {lnk (st_current t), w_current d0} d \<or> settled d0 t d"
  shows "sound m s d"
proof -
  from assms(3) obtain c where v: "value_of (validate_operation m op) d0 = Ok ()"
    and c: "value_of (link_version m Current) d0 = Ok c" and t: "selects op c = Some t" by (auto simp: value_project)
  have vo: "valid_op d0 op" using value_validate_operation [OF v] .
  then have ne: "st_current (op_next op) \<noteq> []" using transition_current by (auto simp: valid_op_def)
  have no: "normal (op_old op)" using assms(1,2) by (simp add: sound_def wf_disk_def)
  have vt: "valid_state d0 t" "normal t"
    using selects_old_next [OF t] vo no valid_op_normal_next [OF vo] by (auto simp: valid_op_def)
  have s: "floored t d0 = Ok s"
    using obs_journal [OF assms(2) v c t] assms(1) by (simp add: sound_def)
  have "obs m d = floored t d0" if "phase d0 op {l} d" "l = lnk (st_current t) \<or> l = w_current d0" for l
  proof (cases "l = w_current d0")
    case True
    then have "d0\<lparr>w_current := l\<rparr> = d0" by simp
    with obs_phase [OF that(1) v, of c t] c t show ?thesis by simp
  next
    case False
    with that(2) have l: "l = lnk (st_current t)" by simp
    have "slot_ok d0 (st_current t)" using vt(1) by (simp add: valid_state_def)
    from obs_phase [OF that(1) v link_of_lnk [OF this, folded l] selects_again [OF t ne]] show ?thesis .
  qed
  moreover have "phase d0 op {lnk (st_current t), w_current d0} d \<Longrightarrow>
      phase d0 op {w_current d} d \<and> (w_current d = lnk (st_current t) \<or> w_current d = w_current d0)"
    by (auto simp: phase_def)
  ultimately have "obs m d = floored t d0" using assms(4) obs_settled_on [OF _ vt] by blast
  moreover have "wf_disk d" using assms(4) wf_settled wf_phase [OF _ no] by blast
  ultimately show ?thesis using s by (simp add: sound_def)
qed

lemma read_operation_value:
  "value_of (read_operation m) d = Ok r \<longleftrightarrow>
     (r = None \<and> w_operation d = None \<or>
      (\<exists>op. r = Some op \<and> w_operation d = Some (Inr op) \<and> value_of (validate_operation m op) d = Ok ()))"
proof -
  have q: "quiet (validate_operation m op)" for op by (intro reads_quiet reads_validate_operation)
  show ?thesis
  proof (cases "w_operation d")
    case None
    then show ?thesis by (auto simp: read_operation_def value_bind reads_quiet reads_world value_read_world)
  next
    case (Some f)
    then show ?thesis
      by (cases f) (auto simp: read_operation_def value_bind reads_quiet reads_world value_read_world q split: res.splits)
  qed
qed

lemma triple_recover:
  "triple (\<lambda>d. sound m s d \<and> R (w_installation d) (w_slots d)) (recover_operation m)
     (\<lambda>_ d. sound m s d \<and> R (w_installation d) (w_slots d) \<and> w_operation d = None)
     (\<lambda>d. sound m s d \<and> R (w_installation d) (w_slots d))"
proof (rule triple_exists)
  fix d0 assume d0: "sound m s d0 \<and> R (w_installation d0) (w_slots d0)"
  let ?E = "\<lambda>d. sound m s d \<and> R (w_installation d) (w_slots d)"
  let ?Q = "\<lambda>d. sound m s d \<and> R (w_installation d) (w_slots d) \<and> w_operation d = None"
  have rd: "triple (\<lambda>d. d = d0) (read_operation m) (\<lambda>r d. d = d0 \<and> value_of (read_operation m) d0 = Ok r) ?E"
    by (rule triple_reads [OF reads_read_operation]) (use d0 in auto)
  have "triple (\<lambda>d. d = d0 \<and> value_of (read_operation m) d0 = Ok r)
     (case r of None \<Rightarrow> io_return () | Some operation \<Rightarrow>
         io_bind (project_operation_state m operation) (\<lambda>target.
         io_then (wrap_err ''recover slot pointers'' (restore_links m target))
        (io_then (wrap_err ''recover slot state'' (save_state m target))
           (wrap_err ''clear recovered slot operation journal'' clear_operation)))) (\<lambda>_. ?Q) ?E" for r
  proof (cases "value_of (read_operation m) d0 = Ok r")
    case True
    show ?thesis
    proof (cases r)
      case None
      with True have "w_operation d0 = None" by (auto simp: read_operation_value)
      with None d0 show ?thesis by (auto intro: triple_return)
    next
      case (Some op)
      with True have op: "w_operation d0 = Some (Inr op)" by (auto simp: read_operation_value)
      let ?tail = "\<lambda>t. io_then (wrap_err ''recover slot pointers'' (restore_links m t))
          (io_then (wrap_err ''recover slot state'' (save_state m t))
             (wrap_err ''clear recovered slot operation journal'' clear_operation))"
      have pr: "triple (\<lambda>d. d = d0) (project_operation_state m op)
          (\<lambda>t d. d = d0 \<and> value_of (project_operation_state m op) d0 = Ok t) ?E"
        by (rule triple_reads [OF reads_project]) (use d0 in auto)
      have "triple (\<lambda>d. d = d0 \<and> value_of (project_operation_state m op) d0 = Ok t) (?tail t) (\<lambda>_. ?Q) ?E" for t
      proof (cases "value_of (project_operation_state m op) d0 = Ok t")
        case True
        note rs = recovering_sound [OF conjunct1 [OF d0] op True]
        have pre: "phase d0 op {w_current d0} d" if "d = d0 \<and> value_of (project_operation_state m op) d0 = Ok t" for d
          using that op by (simp add: phase_def)
        have E: "?E d" if "phase d0 op {lnk (st_current t), w_current d0} d \<or> settled d0 t d" for d
          using that rs [OF that] d0 by (auto simp: settled_def phase_def)
        have Q: "?Q d" if "settled d0 t d" for d using that E [of d] by (simp add: settled_def)
        show ?thesis by (rule triple_conseq [OF triple_recover_target pre Q E])
      qed (simp add: triple_def)
      from triple_bind [OF pr this] Some show ?thesis
        by (simp only: option.case) (erule triple_conseq, auto)
    qed
  qed (simp add: triple_def)
  from triple_bind [OF rd this] show "triple (\<lambda>d. d = d0) (recover_operation m) (\<lambda>_. ?Q) ?E"
    unfolding recover_operation_def .
qed

lemma link_not_none: "value_of (link_version m Current) d = Ok (Some c) \<Longrightarrow> w_current d \<noteq> NoLink"
  using value_link_version_None [of Current d m] by auto

lemma state_previous:
  assumes "value_of (state_without_operation m) d = Ok s"
  shows "\<exists>q. value_of (link_version m Previous) d = Ok q \<and> (q = None \<or> q = Some (st_previous s))"
proof -
  from assms obtain st0 q where q: "value_of (link_version m Previous) d = Ok q"
    and fl: "floored (case q of None \<Rightarrow> st0 | Some v \<Rightarrow> st0\<lparr>st_previous := v\<rparr>) d = Ok s"
    unfolding state_without_operation_def
    by (auto simp: value_bind_Ok reads_quiet reads_world reads_link_version state_file_quiet Let_def)
  with floored_fields [OF fl] show ?thesis by (auto split: option.splits)
qed

section \<open>Activation and rollback\<close>

abbreviation quiescent :: "slot_manager \<Rightarrow> slot_state \<Rightarrow> world \<Rightarrow> bool" where
  "quiescent m s d \<equiv> sound m s d \<and> w_installation d = None \<and> w_operation d = None"

lemma triple_prologue:
  assumes "triple (quiescent m s) body Q E" and "\<And>d. sound m s d \<Longrightarrow> E d"
  shows "triple (sound m s) (with_lock m (io_then check_installation
      (io_then (wrap_err p (recover_operation m)) body))) Q E"
proof -
  have k: "triple (sound m s) c (\<lambda>_. sound m s) E" if "reads c" for c :: "unit io"
    using that assms(2) by (rule triple_keep)
  have ci: "triple (sound m s) check_installation (\<lambda>_ d. sound m s d \<and> w_installation d = None) E"
  proof (rule triple_reads [OF reads_check_installation])
    fix d x assume "sound m s d" "value_of check_installation d = Ok x"
    then show "sound m s d \<and> w_installation d = None"
      by (auto simp: check_installation_def value_bind reads_quiet reads_world value_read_world split: if_splits)
  qed (rule assms(2))
  have re: "triple (\<lambda>d. sound m s d \<and> w_installation d = None) (wrap_err p (recover_operation m)) (\<lambda>_. quiescent m s) E"
    by (intro triple_wrap triple_conseq [OF triple_recover [of m s "\<lambda>i sl. i = None"]]) (auto intro: assms(2))
  show ?thesis
    unfolding with_lock_def
    by (rule triple_then [OF k [OF reads_ensure_root] triple_then [OF k [OF reads_touch] triple_then [OF k [OF reads_touch]
      triple_then [OF ci triple_then [OF re assms(1)]]]]])
qed

lemma quiescent_state:
  "quiescent m s d \<Longrightarrow> value_of (state_without_operation m) d = Ok s \<and> \<not> st_installation_pending s"
  using obs_settled [of d m] floored_None [of d s] obs_floored [of m d s]
  by (auto simp: sound_def) (metis slot_state.select_convs(5) slot_state.surjective slot_state.update_convs(5))

definition activated :: "slot_state \<Rightarrow> string \<Rightarrow> slot_state" where
  "activated st v = (if st_current st = v then st\<lparr>st_pending := []\<rparr>
     else st\<lparr>st_previous := st_current st, st_current := v, st_pending := [], st_minimum_version := v\<rparr>)"

definition rolled_back :: "slot_state \<Rightarrow> string \<Rightarrow> slot_state" where
  "rolled_back st floor = st\<lparr>st_current := st_previous st, st_previous := st_current st, st_pending := [],
     st_minimum_version := floor\<rparr>"

lemma floored_keep:
  "w_installation d = None \<Longrightarrow> \<not> st_installation_pending t \<Longrightarrow> floored t d = Ok t"
  by (simp add: floored_None)

text \<open>Committing an operation on a quiescent disk.\<close>

lemma triple_commit_sound:
  assumes "quiescent m s d0" and "\<not> st_installation_pending t"
    and "triple (phase d0 (the_op kind s t) (op_links d0 s t)) mutate
      (\<lambda>_. linked d0 (the_op kind s t) t) (phase d0 (the_op kind s t) (op_links d0 s t))"
  shows "triple (\<lambda>d. d = d0) (commit_operation m kind s t mutate)
    (\<lambda>_. sound m t) (\<lambda>d. sound m s d \<or> sound m t d)"
proof -
  from assms(1) have d0: "wf_disk d0" "w_operation d0 = None" "obs m d0 = Ok s" "w_installation d0 = None"
    by (simp_all add: sound_def)
  have ft: "floored t d0 = Ok t" using d0(4) assms(2) by (rule floored_keep)
  have b: "sound m s d \<or> sound m t d" if "between m d0 kind s t d" for d
    using between_obs [OF d0(1-3) that] ft by (auto simp: sound_def)
  show ?thesis
  proof (rule triple_conseq [OF triple_commit [OF assms(3), of m]])
    fix d
    assume d: "settled d0 t d \<and> value_of (validate_operation m (the_op kind s t)) d0 = Ok ()"
    then have vo: "valid_op d0 (the_op kind s t)" using value_validate_operation by blast
    then have "obs m d = floored t d0"
      using d valid_op_normal_next [OF vo] by (intro obs_settled_on) (auto simp: valid_op_def)
    with ft d wf_settled show "sound m t d" by (auto simp: sound_def)
  qed (auto dest: b)
qed

lemma swap_previous:
  "triple (phase d0 op ls) (if v \<noteq> [] then wrap_err p (swap_link Previous v) else remove_link Previous)
     (\<lambda>_ d. phase d0 op ls d \<and> w_previous d = lnk v) (phase d0 op ls)"
proof (cases "v = []")
  case True
  have "triple (phase d0 op ls) (remove_link Previous) (\<lambda>_ d. phase d0 op ls d \<and> w_previous d = lnk v) (phase d0 op ls)"
    by (rule triple_remove_link) (simp_all add: lnk_def True)
  with True show ?thesis by simp
next
  case False
  have "triple (phase d0 op ls) (swap_link Previous v) (\<lambda>_ d. phase d0 op ls d \<and> w_previous d = lnk v) (phase d0 op ls)"
    by (rule triple_swap_link) (simp_all add: lnk_def False)
  with False show ?thesis by (simp add: triple_wrap)
qed

lemma activate_links_triple:
  assumes "st_current t = v" and "st_previous t = st_current s" and "v \<noteq> []"
  shows "triple (phase d0 op (op_links d0 s t)) (activate_links s v) (\<lambda>_. linked d0 op t) (phase d0 op (op_links d0 s t))"
proof -
  have "triple (\<lambda>d. phase d0 op (op_links d0 s t) d \<and> w_previous d = lnk (st_current s)) (swap_link Current v)
      (\<lambda>_. linked d0 op t) (phase d0 op (op_links d0 s t))"
    by (rule triple_swap_link) (use assms in \<open>auto simp: lnk_def phase_def\<close>)
  then show ?thesis unfolding activate_links_def by (intro triple_then [OF swap_previous triple_wrap])
qed

lemma rollback_links_triple:
  assumes "st_current t \<noteq> []"
  shows "triple (phase d0 op (op_links d0 s t)) (rollback_links t) (\<lambda>_. linked d0 op t) (phase d0 op (op_links d0 s t))"
proof -
  let ?C = "phase d0 op {lnk (st_current t)}"
  have "triple (phase d0 op (op_links d0 s t)) (swap_link Current (st_current t)) (\<lambda>_. ?C) (phase d0 op (op_links d0 s t))"
    by (rule triple_swap_link) (use assms in \<open>auto simp: lnk_def phase_def\<close>)
  moreover have "triple ?C (if st_previous t \<noteq> [] then wrap_err p (swap_link Previous (st_previous t)) else remove_link Previous)
      (\<lambda>_. linked d0 op t) (phase d0 op (op_links d0 s t))" for p
    by (rule triple_conseq [OF swap_previous]) (auto simp: phase_def)
  ultimately show ?thesis unfolding rollback_links_def by (intro triple_then triple_wrap)
qed

text \<open>Saving a state that differs from the observed one in the pending marker only.\<close>

lemma reset_pending: "[] = st_current s \<Longrightarrow> s\<lparr>st_pending := [], st_current := []\<rparr> = s\<lparr>st_pending := []\<rparr>"
  by (cases s) simp

lemma save_pending_sound:
  assumes "quiescent m s d" and "p = [] \<or> p \<noteq> st_current s"
  shows "sound m (s\<lparr>st_pending := p\<rparr>) (d\<lparr>w_state := Some (Inr (s\<lparr>st_pending := p\<rparr>))\<rparr>)"
proof -
  let ?s = "s\<lparr>st_pending := p\<rparr>" and ?d = "d\<lparr>w_state := Some (Inr (s\<lparr>st_pending := p\<rparr>))\<rparr>"
  note st = quiescent_state [OF assms(1)]
  from assms(1) have op: "w_operation d = None" and wf: "wf_disk d" and i: "w_installation d = None" by (simp_all add: sound_def)
  from state_link(1) [OF wf op conjunct1 [OF st]] obtain c where
    c: "value_of (link_version m Current) d = Ok c" "c = Some (st_current s) \<or> c = None \<and> st_current s = []" by blast
  then have c': "value_of (link_version m Current) ?d = Ok c"
    using dependsD [OF depends_link_version [of Current m], of ?d d] by simp
  obtain q where q: "value_of (link_version m Previous) d = Ok q" "q = None \<or> q = Some (st_previous s)"
    using state_previous [OF conjunct1 [OF st]] by blast
  then have q': "value_of (link_version m Previous) ?d = Ok q"
    using dependsD [OF depends_link_version [of Previous m], of ?d d] by simp
  have "value_of (state_without_operation m) ?d = floored ?s ?d"
    using c(2) q(2) assms(2) c' q'
    by (elim disjE conjE)
      (simp_all add: reset_pending state_without_operation_def value_bind reads_quiet reads_world value_read_world reads_link_version Let_def)
  also have "\<dots> = Ok ?s" using i st by (intro floored_keep) simp_all
  finally have "obs m ?d = Ok ?s" using op by (simp add: obs_settled)
  moreover have "wf_disk ?d"
    using op c value_link_version_None [of Current d m] by (auto simp: wf_disk_def)
  ultimately show ?thesis by (simp add: sound_def)
qed

section \<open>Operations on a sound disk\<close>

definition forward :: "slot_state \<Rightarrow> string \<Rightarrow> bool" where
  "forward s v = (is_release_version v \<and>
     (\<exists>floor. upgrade_floor s = Inr floor \<and> validate_forward_upgrade v floor = Inr ()))"

lemma forwardI:
  "is_release_version v \<Longrightarrow> upgrade_floor s = Inr f \<Longrightarrow> validate_forward_upgrade v f = Inr u \<Longrightarrow> forward s v"
  by (simp add: forward_def)

definition changed :: "slot_manager \<Rightarrow> slot_state \<Rightarrow> bool \<Rightarrow> slot_state \<Rightarrow> world \<Rightarrow> bool" where
  "changed m s allowed t d = (sound m s d \<or> (allowed \<and> sound m t d))"

lemma triple_state:
  assumes "triple (quiescent m s) (f s) Q E" and "\<And>d. sound m s d \<Longrightarrow> E d"
  shows "triple (quiescent m s) (io_bind (state_without_operation m) f) Q E"
proof (rule triple_bind)
  show "triple (quiescent m s) (state_without_operation m) (\<lambda>x d. x = s \<and> quiescent m s d) E"
    by (rule triple_reads [OF reads_state_without_operation]) (auto simp: quiescent_state intro: assms(2))
  show "triple (\<lambda>d. x = s \<and> quiescent m s d) (f x) Q E" for x
    using assms(1) by (cases "x = s") (simp_all add: triple_def)
qed

lemma activate_triple:
  "triple (sound m s) (activate m v) (\<lambda>_ d. (st_current s = v \<or> forward s v) \<and> sound m (activated s v) d)
     (changed m s (st_current s = v \<or> forward s v) (activated s v))"
proof -
  let ?t = "activated s v" and ?a = "st_current s = v \<or> forward s v"
  let ?E = "changed m s ?a ?t" and ?Q = "\<lambda>_ d. ?a \<and> sound m ?t d"
  have E: "sound m s d \<Longrightarrow> ?E d" for d by (simp add: changed_def)
  have rs: "triple (quiescent m s) (require_slot v) (\<lambda>_. quiescent m s) ?E"
    by (rule triple_keep [OF reads_require_slot]) (simp add: E)
  have same: "triple (quiescent m s) (save_state m (s\<lparr>st_pending := []\<rparr>)) ?Q ?E" if "st_current s = v"
    unfolding save_state_def
    by (rule triple_write) (use that save_pending_sound [of m s _ "[]"] in \<open>auto simp: disk_def activated_def changed_def\<close>)
  have co: "triple (quiescent m s) (commit_operation m ''activate'' s ?t (activate_links s v)) ?Q ?E"
    if "st_current s \<noteq> v" "v \<noteq> []" "forward s v"
  proof (rule triple_exists)
    fix d0 assume q: "quiescent m s d0"
    have "st_current ?t = v" "st_previous ?t = st_current s" "\<not> st_installation_pending ?t"
      using that(1) quiescent_state [OF q] by (simp_all add: activated_def)
    from triple_commit_sound [OF q this(3) activate_links_triple [OF this(1,2) that(2)]]
    show "triple (\<lambda>d. d = d0) (commit_operation m ''activate'' s ?t (activate_links s v)) ?Q ?E"
      by (rule triple_conseq) (use that in \<open>auto simp: changed_def\<close>)
  qed
  have "triple (quiescent m s) (if st_current s = v then save_state m (s\<lparr>st_pending := []\<rparr>)
     else io_bind (from_result (upgrade_floor s)) (\<lambda>floor. io_then (from_result (validate_forward_upgrade v floor))
       (commit_operation m ''activate'' s
          (s\<lparr>st_previous := st_current s, st_current := v, st_pending := [], st_minimum_version := v\<rparr>)
          (activate_links s v)))) ?Q ?E" if rel: "is_release_version v"
  proof (cases "st_current s = v")
    case False
    have t: "s\<lparr>st_previous := st_current s, st_current := v, st_pending := [], st_minimum_version := v\<rparr> = ?t"
      using False by (simp add: activated_def)
    have fl: "triple (quiescent m s) (from_result (upgrade_floor s)) (\<lambda>f d. quiescent m s d \<and> upgrade_floor s = Inr f) ?E"
      by (rule triple_from_result) (auto simp: E)
    have va: "triple (\<lambda>d. quiescent m s d \<and> upgrade_floor s = Inr f) (from_result (validate_forward_upgrade v f))
        (\<lambda>_ d. quiescent m s d \<and> forward s v) ?E" for f
      using forwardI [OF rel] by (intro triple_from_result) (auto simp: E)
    have "triple (\<lambda>d. quiescent m s d \<and> forward s v) (commit_operation m ''activate'' s ?t (activate_links s v)) ?Q ?E"
      using co [OF False release_version_chars(2) [OF rel]] by (cases "forward s v") (simp_all add: triple_def)
    from triple_bind [OF fl triple_then [OF va this]] False show ?thesis by (simp only: t if_False)
  next
    case True
    with same [OF True] show ?thesis by simp
  qed
  note body = triple_then [OF rs triple_state [of m s "\<lambda>st. if st_current st = v then save_state m (st\<lparr>st_pending := []\<rparr>)
     else io_bind (from_result (upgrade_floor st)) (\<lambda>floor. io_then (from_result (validate_forward_upgrade v floor))
       (commit_operation m ''activate'' st
          (st\<lparr>st_previous := st_current st, st_current := v, st_pending := [], st_minimum_version := v\<rparr>)
          (activate_links st v)))", OF this E]]
  show ?thesis
  proof (cases "is_release_version v")
    case True
    from triple_prologue [OF body [OF True] E] True show ?thesis unfolding activate_def by simp
  next
    case False
    have "triple (quiescent m s) (io_fail (Errorf ''invalid release version'')) ?Q ?E"
      by (rule triple_fail) (simp add: E)
    from triple_prologue [OF this E] False show ?thesis unfolding activate_def by simp
  qed
qed

lemma rollback_triple:
  "triple (sound m s) (rollback m)
     (\<lambda>_ d. \<exists>floor. upgrade_floor s = Inr floor \<and> is_release_version (st_previous s) \<and> sound m (rolled_back s floor) d)
     (\<lambda>d. sound m s d \<or> (\<exists>floor. upgrade_floor s = Inr floor \<and> is_release_version (st_previous s) \<and> sound m (rolled_back s floor) d))"
proof -
  let ?rel = "is_release_version (st_previous s)"
  let ?Q = "\<lambda>d. \<exists>floor. upgrade_floor s = Inr floor \<and> ?rel \<and> sound m (rolled_back s floor) d"
  let ?E = "\<lambda>d. sound m s d \<or> ?Q d"
  let ?go = "\<lambda>st r. case r of Inl (_ :: error) \<Rightarrow> io_fail (Errorf ''previous release slot is missing'')
      | Inr (_ :: unit) \<Rightarrow> io_bind (from_result (upgrade_floor st)) (\<lambda>floor.
         (let next = st\<lparr>st_current := st_previous st, st_previous := st_current st, st_pending := [], st_minimum_version := floor\<rparr>
          in commit_operation m ''rollback'' st next (rollback_links next)))"
  have co: "triple (\<lambda>d. quiescent m s d \<and> ?rel \<and> upgrade_floor s = Inr f)
      (commit_operation m ''rollback'' s (rolled_back s f) (rollback_links (rolled_back s f))) (\<lambda>_. ?Q) ?E" for f
  proof (rule triple_exists)
    fix d0 assume a: "quiescent m s d0 \<and> ?rel \<and> upgrade_floor s = Inr f"
    have "st_current (rolled_back s f) \<noteq> []" "\<not> st_installation_pending (rolled_back s f)"
      using a quiescent_state [of m s d0] release_version_chars(2) by (auto simp: rolled_back_def)
    from triple_commit_sound [OF conjunct1 [OF a] this(2) rollback_links_triple [OF this(1)]]
    show "triple (\<lambda>d. d = d0) (commit_operation m ''rollback'' s (rolled_back s f) (rollback_links (rolled_back s f))) (\<lambda>_. ?Q) ?E"
      by (rule triple_conseq) (use a in auto)
  qed
  have fl: "triple (\<lambda>d. quiescent m s d \<and> ?rel) (from_result (upgrade_floor s))
      (\<lambda>f d. quiescent m s d \<and> ?rel \<and> upgrade_floor s = Inr f) ?E"
    by (rule triple_from_result) auto
  have go: "triple (case r of Inr _ \<Rightarrow> (\<lambda>d. quiescent m s d \<and> ?rel) | Inl _ \<Rightarrow> quiescent m s) (?go s r) (\<lambda>_. ?Q) ?E" for r
    using triple_bind [OF fl co]
    by (cases r) (auto simp: rolled_back_def [symmetric] Let_def intro: triple_fail)
  have "triple (quiescent m s) (require_slot (st_previous s)) (\<lambda>_ d. quiescent m s d \<and> ?rel) (quiescent m s)"
    by (rule triple_reads [OF reads_require_slot]) (auto simp: value_require_slot split: if_splits)
  from triple_attempt [OF this]
  have rq: "triple (quiescent m s) (attempt (require_slot (st_previous s)))
      (\<lambda>r. case r of Inr _ \<Rightarrow> (\<lambda>d. quiescent m s d \<and> ?rel) | Inl _ \<Rightarrow> quiescent m s) ?E"
    by (rule triple_conseq) auto
  have "triple (quiescent m s) (if st_previous s = [] then io_fail (Errorf ''no previous release slot is available'')
      else io_bind (attempt (require_slot (st_previous s))) (?go s)) (\<lambda>_. ?Q) ?E"
    using triple_bind [OF rq go] by (auto intro: triple_fail)
  from triple_prologue [OF triple_state [of m s "\<lambda>st. if st_previous st = [] then io_fail (Errorf ''no previous release slot is available'')
      else io_bind (attempt (require_slot (st_previous st))) (?go st)", OF this]]
  show ?thesis unfolding rollback_def by auto
qed

end
