(* ===== verification/Transition.thy ===== *)
theory Transition
  imports Main
begin

text \<open>
  Interfaces of components that change state in steps. A component gives its step relation, the invariant
  its steps keep and a measure of progress that they never lower; what holds along every run follows.
\<close>

locale invariant_steps =
  fixes step :: "'s \<Rightarrow> 's \<Rightarrow> bool" and inv :: "'s \<Rightarrow> bool"
  assumes inv_step: "step s t \<Longrightarrow> inv s \<Longrightarrow> inv t"
begin

lemma inv_run: "step\<^sup>*\<^sup>* s t \<Longrightarrow> inv s \<Longrightarrow> inv t"
  by (induction rule: rtranclp_induct) (auto intro: inv_step)

end

locale monotone_steps = invariant_steps step inv
  for step :: "'s \<Rightarrow> 's \<Rightarrow> bool" and inv :: "'s \<Rightarrow> bool" +
  fixes rank :: "'s \<Rightarrow> 'r :: preorder"
  assumes rank_step: "step s t \<Longrightarrow> inv s \<Longrightarrow> rank s \<le> rank t"
begin

lemma rank_run: "step\<^sup>*\<^sup>* s t \<Longrightarrow> inv s \<Longrightarrow> rank s \<le> rank t"
proof (induction rule: rtranclp_induct)
  case (step t u)
  then have "rank t \<le> rank u" by (intro rank_step) (auto intro: inv_run)
  with step show ?case by (blast intro: order_trans)
qed simp

end

text \<open>A component that keeps an abstract contract: each of its steps is a step of the contract.\<close>

locale simulation = invariant_steps step inv
  for step :: "'s \<Rightarrow> 's \<Rightarrow> bool" and inv :: "'s \<Rightarrow> bool" +
  fixes astep :: "'a \<Rightarrow> 'a \<Rightarrow> bool" and abs :: "'s \<Rightarrow> 'a"
  assumes sim_step: "step s t \<Longrightarrow> inv s \<Longrightarrow> astep (abs s) (abs t)"
begin

lemma sim_run: "step\<^sup>*\<^sup>* s t \<Longrightarrow> inv s \<Longrightarrow> astep\<^sup>*\<^sup>* (abs s) (abs t)"
proof (induction rule: rtranclp_induct)
  case (step t u)
  then have "astep (abs t) (abs u)" by (intro sim_step) (auto intro: inv_run)
  with step show ?case by (auto intro: rtranclp.rtrancl_into_rtrancl)
qed simp

end

end
