(* ===== verification/Slot_Steps.thy ===== *)
theory Slot_Steps
  imports Slot_Props Transition "HOL-Library.Option_ord"
begin

text \<open>
  Staging a release and opening an installation, and the sequences of slot operations. Every operation may
  be interrupted at any file-system call; the theorems speak about the state that the next process reads.
\<close>

section \<open>Adding a slot\<close>

lemma get_link_put_slot [simp]: "get_link p (put_slot v x d) = get_link p d"
  by (cases p) (simp_all add: put_slot_def)

lemma disk_put_slot: "disk (put_slot v x d) = put_slot v x (disk d)"
  by (simp add: put_slot_def disk_def)

lemma put_slot_fields [simp]:
  "w_state (put_slot v x d) = w_state d" "w_operation (put_slot v x d) = w_operation d"
  "w_installation (put_slot v x d) = w_installation d" "w_current (put_slot v x d) = w_current d"
  "w_previous (put_slot v x d) = w_previous d" "w_slots (put_slot v x d) = (w_slots d)(v := x)"
  by (simp_all add: put_slot_def)

lemma put_slot_undo: "w_slots d v = None \<Longrightarrow> put_slot v None (put_slot v x d) = d"
  by (cases d) (auto simp: put_slot_def)

lemma put_slot_state: "put_slot v x (d\<lparr>w_state := y\<rparr>) = (put_slot v x d)\<lparr>w_state := y\<rparr>"
  by (simp add: put_slot_def)

lemma value_link_slot:
  assumes "value_of (link_version m p) d = Ok (Some c)"
  shows "is_release_version c" and "w_slots d c \<noteq> None"
proof -
  have g: "get_link p (disk w) = get_link p w" for w by (cases p) simp_all
  from assms show "is_release_version c" and "w_slots d c \<noteq> None"
    by (auto simp: link_version_def value_bind_Ok reads_quiet reads_world value_read_world g Let_def
        quiet_attempt_require value_attempt value_require_slot split: link.splits if_splits sum.splits)
qed

lemma value_link_add_slot:
  assumes "value_of (link_version m p) d = Ok c" and "w_slots d v = None"
  shows "value_of (link_version m p) (put_slot v x d) = Ok c"
proof (cases c)
  case None
  have g: "get_link p (disk w) = get_link p w" for w by (cases p) simp_all
  have "get_link p d = NoLink"
    using assms(1) None
    by (auto simp: link_version_def value_bind_Ok reads_quiet reads_world value_read_world g Let_def
        quiet_attempt_require value_attempt value_require_slot split: link.splits if_splits sum.splits)
  then show ?thesis using None value_link_version_None [of p "put_slot v x d" m] by simp
next
  case (Some u)
  from value_link_slot [of m p d u] assms Some have u: "is_release_version u" "w_slots d u \<noteq> None" "u \<noteq> v" by auto
  have g: "get_link p (disk w) = get_link p w" for w by (cases p) simp_all
  have "value_of (require_slot u) (put_slot v x d) = value_of (require_slot u) d"
    using u(3) by (simp add: value_require_slot)
  with assms(1) Some u show ?thesis
    by (auto simp: link_version_def value_bind reads_quiet reads_world value_read_world g Let_def
        quiet_attempt_require value_attempt value_require_slot split: link.splits if_splits)
qed

lemma idle_put_slot:
  assumes "sound m s d" and op: "w_operation d = None" and "w_slots d v = None"
  shows "sound m s (put_slot v x d)"
proof -
  let ?d = "put_slot v x d"
  have st: "value_of (state_without_operation m) d = Ok s" using assms(1,2) by (simp add: sound_def obs_settled)
  have fl: "floored t ?d = floored t d" for t
    by (rule dependsD [OF depends_apply_installation_floor]) simp
  let ?file = "case w_state d of None \<Rightarrow> io_return default_slot_state
      | Some (Inl e) \<Rightarrow> io_fail (Wrapf ''decode update state'' e) | Some (Inr st) \<Rightarrow> io_return st"
  have same: "value_of ?file ?d = value_of ?file d" by (simp split: option.split sum.split)
  from st obtain st0 c q where r: "value_of ?file d = Ok st0" "value_of (link_version m Current) d = Ok c"
    "value_of (link_version m Previous) d = Ok q"
    and s: "floored (case q of None \<Rightarrow> (case c of None \<Rightarrow> st0
        | Some u \<Rightarrow> (if st_pending st0 = u then st0\<lparr>st_pending := []\<rparr> else st0)\<lparr>st_current := u\<rparr>)
      | Some u \<Rightarrow> (case c of None \<Rightarrow> st0
        | Some u \<Rightarrow> (if st_pending st0 = u then st0\<lparr>st_pending := []\<rparr> else st0)\<lparr>st_current := u\<rparr>)\<lparr>st_previous := u\<rparr>) d = Ok s"
    by (auto simp only: state_without_operation_def value_bind_Ok reads_quiet reads_world value_read_world
        reads_link_version state_file_quiet Let_def disk_fields res.inject)
  note l = value_link_add_slot [OF _ assms(3), of m _ _ x]
  have "value_of (state_without_operation m) ?d = Ok s"
    using s same r(1) l [OF r(2)] l [OF r(3)]
    by (simp only: state_without_operation_def value_bind reads_quiet reads_world value_read_world disk_fields
        reads_link_version state_file_quiet Let_def fl put_slot_fields res.case)
  moreover have "wf_disk ?d" using assms(1) op by (auto simp: sound_def wf_disk_def)
  ultimately show ?thesis using op by (simp add: sound_def obs_settled)
qed

lemma quiescent_put_slot:
  "quiescent m s d \<Longrightarrow> w_slots d v = None \<Longrightarrow> quiescent m s (put_slot v x d)"
  using idle_put_slot [of m s d v x] by simp

lemma quiescent_current_slot:
  assumes "quiescent m s d" and "w_slots d v = None" and "v \<noteq> []"
  shows "v \<noteq> st_current s"
proof -
  from assms(1) have "wf_disk d" "w_operation d = None" by (simp_all add: sound_def)
  from state_link(1) [OF this conjunct1 [OF quiescent_state [OF assms(1)]]]
  show ?thesis using assms(2,3) value_link_slot [of m Current d] by auto
qed

section \<open>Staging\<close>

lemma triple_copy_files: "(\<And>d. P d \<Longrightarrow> E d) \<Longrightarrow> triple P (copy_files source fs temp) (\<lambda>_. P) E"
proof (induction fs arbitrary: temp)
  case (Cons f fs)
  obtain relative h where f: "f = (relative, h)" by (cases f)
  have t: "triple P touch (\<lambda>_. P) E" by (rule triple_touch) (auto intro: Cons)
  have "triple P (case source (clean relative) of
      Some (Regular mode dg) \<Rightarrow>
        (if temp (clean relative) \<noteq> None then io_fail (Errorf ''file exists'')
         else io_then touch (io_then touch
           (copy_files source fs (temp(clean relative \<mapsto> Regular (appliance_file_mode (clean relative)) dg)))))
    | _ \<Rightarrow> io_fail (Errorf (''release file is missing or unsafe: '' @ clean relative))) (\<lambda>_. P) E"
    using Cons.prems Cons.IH [OF Cons.prems]
    by (auto intro!: triple_fail triple_then [OF t] simp del: fun_upd_apply split: option.split entry.split)
  then show ?case unfolding f copy_files.simps Let_def by (rule triple_then [OF t])
qed (auto intro: triple_return)

definition pending_on :: "slot_state \<Rightarrow> string \<Rightarrow> slot_state" where
  "pending_on s v = s\<lparr>st_pending := v\<rparr>"

lemma stage_commit_triple:
  assumes "quiescent m s d0" and "w_slots d0 v = None" and "v \<noteq> []"
  shows "triple (\<lambda>d. d = d0) (stage_commit m s v copy)
    (\<lambda>_ d. sound m (pending_on s v) d \<and> w_slots d v = Some copy)
    (\<lambda>d. sound m s d \<or> sound m (pending_on s v) d)"
proof -
  let ?E = "\<lambda>d. sound m s d \<or> sound m (pending_on s v) d"
  let ?d1 = "put_slot v (Some copy) d0" and ?x = "Some (Inr (pending_on s v))"
  have vs: "v \<noteq> st_current s" using quiescent_current_slot [OF assms] .
  have q1: "quiescent m s ?d1" by (rule quiescent_put_slot [OF assms(1,2)])
  have p: "sound m (pending_on s v) (d0\<lparr>w_state := ?x\<rparr>)" "sound m (pending_on s v) (?d1\<lparr>w_state := ?x\<rparr>)"
    using save_pending_sound [OF assms(1), of v] save_pending_sound [OF q1, of v] vs by (simp_all add: pending_on_def)
  let ?P1 = "\<lambda>d. d = ?d1" and ?P2 = "\<lambda>d. d = ?d1 \<or> d = ?d1\<lparr>w_state := ?x\<rparr>"
  have undo: "put_slot v None ?d1 = d0" "put_slot v None (?d1\<lparr>w_state := ?x\<rparr>) = d0\<lparr>w_state := ?x\<rparr>"
    using put_slot_undo [OF assms(2)] by (simp_all add: put_slot_state)
  have remove: "triple ?P2 (syscall (put_slot v None)) (\<lambda>_. ?E) ?E"
    by (rule triple_syscall) (use undo assms(1) q1 p in \<open>auto simp: disk_put_slot\<close>)
  have drop: "triple ?P2 (attempt (syscall (put_slot v None))) (\<lambda>_. ?E) ?E"
    by (rule triple_conseq [OF triple_attempt [OF remove]]) (auto split: sum.splits)
  have put: "triple (\<lambda>d. d = d0) (wrap_err pre (syscall (put_slot v (Some copy)))) (\<lambda>_. ?P1) ?E" for pre
    by (intro triple_wrap triple_syscall) (use assms(1) q1 in \<open>auto simp: disk_put_slot\<close>)
  have sync: "triple ?P1 (attempt touch) (\<lambda>_. ?P1) ?E"
    by (rule triple_attempt_touch) (use q1 in auto)
  have "triple ?P1 (save_state m (pending_on s v)) (\<lambda>_ d. d = ?d1\<lparr>w_state := ?x\<rparr>) ?P2"
    unfolding save_state_def by (rule triple_write) (auto simp: disk_def)
  then have save: "triple ?P1 (attempt (save_state m (pending_on s v)))
      (\<lambda>r. case r of Inr _ \<Rightarrow> (\<lambda>d. d = ?d1\<lparr>w_state := ?x\<rparr>) | Inl _ \<Rightarrow> ?P2) ?E"
    by (rule triple_conseq [OF triple_attempt]) (use q1 p in auto)
  have tE: "triple ?E (attempt touch) (\<lambda>_. ?E) ?E" by (rule triple_attempt_touch)
  note f = triple_fail [of ?E ?E]
  have clean: "triple ?P2 (io_bind (attempt (syscall (put_slot v None))) (\<lambda>removed. io_then (attempt touch)
      (case removed of Inl e \<Rightarrow> io_fail (g e) | Inr _ \<Rightarrow> io_fail err))) Q ?E" for g err and Q :: "unit \<Rightarrow> world \<Rightarrow> bool"
    by (rule triple_bind [OF drop], rule triple_then [OF tE]) (auto intro: f split: sum.split)
  show ?thesis unfolding stage_commit_def pending_on_def [symmetric]
  proof (rule triple_then [OF put], rule triple_bind [OF sync], goal_cases)
    case (1 r)
    have "triple ?P1 (io_then (attempt (syscall (put_slot v None))) (io_fail e)) Q ?E" for e and Q :: "unit \<Rightarrow> world \<Rightarrow> bool"
      by (rule triple_conseq [OF triple_then [OF drop f]]) auto
    moreover have "triple ?P1 (io_bind (attempt (save_state m (pending_on s v))) (\<lambda>r2. case r2 of
        Inr _ \<Rightarrow> io_return ()
      | Inl err \<Rightarrow> io_bind (attempt (syscall (put_slot v None))) (\<lambda>removed. io_then (attempt touch)
          (case removed of Inl e \<Rightarrow> io_fail (Errorf (error_text err @ newline @ ''remove uncommitted slot: '' @ error_text e))
           | Inr _ \<Rightarrow> io_fail err)))) (\<lambda>_ d. sound m (pending_on s v) d \<and> w_slots d v = Some copy) ?E"
      by (rule triple_bind [OF save]) (use clean p in \<open>auto intro: triple_return split: sum.split\<close>)
    ultimately show ?case by (cases r) (simp_all only: sum.case)
  qed
qed

definition candidate_ok :: "slot_manager \<Rightarrow> firmware_manifest \<Rightarrow> directory \<Rightarrow> bool" where
  "candidate_ok m mf d = (validate_release_candidate (sm_crypto m) d (Some mf) (sm_trusted_key m) (sm_arch m) = Inr ())"

definition staged_ok :: "slot_manager \<Rightarrow> slot_state \<Rightarrow> firmware_manifest \<Rightarrow> world \<Rightarrow> bool" where
  "staged_ok m s mf d = (forward s (fm_version mf) \<and> sound m (pending_on s (fm_version mf)) d
     \<and> (\<exists>copy. w_slots d (fm_version mf) = Some copy \<and> candidate_ok m mf copy))"

lemma stage_copy_triple:
  assumes fw: "forward s (fm_version mf)"
  shows "triple (\<lambda>d. quiescent m s d \<and> w_slots d (fm_version mf) = None) (stage_copy m source' mf s)
    (\<lambda>_. staged_ok m s mf) (changed m s (forward s (fm_version mf)) (pending_on s (fm_version mf)))"
  (is "triple ?F _ ?Q ?E")
proof -
  let ?v = "fm_version mf"
  let ?ok = "\<lambda>copy. validate_release_candidate (sm_crypto m) copy (Some mf) (sm_trusted_key m) (sm_arch m)"
  have v: "?v \<noteq> []" using fw release_version_chars(2) by (auto simp: forward_def)
  have commit: "triple (\<lambda>d. ?F d \<and> ?ok copy = Inr ()) (stage_commit m s ?v copy) ?Q ?E" for copy
  proof (rule triple_exists)
    fix d0 assume a: "?F d0 \<and> ?ok copy = Inr ()"
    then show "triple (\<lambda>d. d = d0) (stage_commit m s ?v copy) ?Q ?E"
      using v fw by (intro triple_conseq [OF stage_commit_triple [of m s d0 ?v copy]])
        (auto simp: staged_ok_def candidate_ok_def changed_def)
  qed
  have t: "triple ?F touch (\<lambda>_. ?F) ?E" by (rule triple_touch) (simp_all add: changed_def)
  have vc: "triple ?F (wrap_err p (from_result (?ok copy))) (\<lambda>_ d. ?F d \<and> ?ok copy = Inr ()) ?E" for p copy
    by (intro triple_wrap triple_from_result) (auto simp: changed_def)
  have tv: "triple (\<lambda>d. ?F d \<and> ?ok copy = Inr ()) (wrap_err p touch) (\<lambda>_ d. ?F d \<and> ?ok copy = Inr ()) ?E" for p copy
    by (intro triple_wrap triple_touch) (auto simp: changed_def)
  show ?thesis unfolding stage_copy_def
    by (intro triple_then [OF t] triple_bind [OF triple_copy_files] triple_then [OF vc triple_then [OF tv commit]])
      (simp add: changed_def)
qed

lemma stage_release_triple:
  assumes rel: "is_release_version (fm_version mf)"
  shows "triple (quiescent m s) (stage_release m source' mf s)
    (\<lambda>_. staged_ok m s mf) (changed m s (forward s (fm_version mf)) (pending_on s (fm_version mf)))"
  (is "triple _ _ ?Q ?E")
proof -
  let ?v = "fm_version mf"
  have fl: "triple (quiescent m s) (from_result (upgrade_floor s)) (\<lambda>f d. quiescent m s d \<and> upgrade_floor s = Inr f) ?E"
    by (rule triple_from_result) (auto simp: changed_def)
  have va: "triple (\<lambda>d. quiescent m s d \<and> upgrade_floor s = Inr f) (from_result (validate_forward_upgrade ?v f))
      (\<lambda>_ d. quiescent m s d \<and> forward s ?v) ?E" for f
    using forwardI [OF rel] by (intro triple_from_result) (auto simp: changed_def)
  let ?R = "\<lambda>b d. (quiescent m s d \<and> forward s ?v) \<and> b = (w_slots d ?v \<noteq> None)"
  have rd: "triple (\<lambda>d. quiescent m s d \<and> forward s ?v) (read_world (\<lambda>w. w_slots w ?v \<noteq> None)) ?R ?E"
    by (rule triple_reads [OF reads_world]) (auto simp: value_read_world changed_def)
  have "triple (?R b) (if b then io_fail e else stage_copy m source' mf s) ?Q ?E" for b e
  proof (cases "\<not> b \<and> forward s ?v")
    case True
    have "triple (?R False) (stage_copy m source' mf s) ?Q ?E"
      by (rule triple_conseq [OF stage_copy_triple]) (use True in auto)
    with True show ?thesis by simp
  next
    case False
    have "triple (?R True) (io_fail e) ?Q ?E" by (rule triple_fail) (simp add: changed_def)
    with False show ?thesis by (cases b) (simp_all, simp add: triple_def)
  qed
  then show ?thesis unfolding stage_release_def by (intro triple_bind [OF fl] triple_then [OF va] triple_bind [OF rd])
qed

lemma stage_triple:
  "triple (sound m s) (stage m source source' manifest)
     (\<lambda>_ d. \<exists>mf. manifest = Some mf \<and> staged_ok m s mf d)
     (\<lambda>d. sound m s d \<or> (\<exists>mf. manifest = Some mf \<and> forward s (fm_version mf) \<and> sound m (pending_on s (fm_version mf)) d))"
  (is "triple _ _ ?Q ?E")
  unfolding stage_def
proof (rule triple_prologue)
  let ?ok = "validate_release_candidate (sm_crypto m) source manifest (sm_trusted_key m) (sm_arch m)"
  have first: "triple (quiescent m s) (wrap_err p (from_result ?ok)) (\<lambda>_. quiescent m s) ?E" for p
    by (intro triple_wrap triple_from_result) auto
  have "triple (quiescent m s) (io_then (wrap_err p (from_result ?ok))
      (io_bind (state_without_operation m) (stage_release m source' mf))) ?Q ?E"
    if "manifest = Some mf" "is_release_version (fm_version mf)" for p mf
    by (rule triple_then [OF first triple_state [OF triple_conseq [OF stage_release_triple [OF that(2)]]]])
      (use that(1) in \<open>auto simp: changed_def\<close>)
  then show "triple (quiescent m s) (case manifest of None \<Rightarrow> io_fail (Errorf ''release version is not a safe semantic version'')
      | Some mf \<Rightarrow> (if \<not> is_release_version (fm_version mf)
          then io_fail (Errorf ''release version is not a safe semantic version'')
          else if length (sm_trusted_key m) \<noteq> PUBLIC_KEY_SIZE then io_fail (Sentinel ErrInvalidPublicKey)
          else io_then (wrap_err ''verify release source'' (from_result ?ok))
            (io_bind (state_without_operation m) (stage_release m source' mf)))) ?Q ?E"
    by (cases manifest) (auto intro: triple_fail)
qed simp

section \<open>The version floor\<close>

definition floor_of :: "slot_state \<Rightarrow> version_key option" where
  "floor_of s = (case upgrade_floor s of Inr f \<Rightarrow> release_key f | Inl _ \<Rightarrow> None)"

lemma release_has_key: "is_release_version v \<Longrightarrow> \<exists>k. release_key v = Some k"
  using release_key_None [of v] by (cases "release_key v") blast+

lemma parse_Inr_key: "parse_release_version v = Inr p \<Longrightarrow> \<exists>k. release_key v = Some k"
  using release_key_Some [of v "version_key p"] by blast

lemma key_parse: "release_key v = Some k \<Longrightarrow> \<exists>p. parse_release_version v = Inr p"
  by (auto simp: release_key_Some)

lemma upgrade_floor_key: "upgrade_floor s = Inr f \<Longrightarrow> f \<noteq> [] \<Longrightarrow> \<exists>k. release_key f = Some k"
  by (cases "parse_release_version (st_minimum_version s)")
    (auto simp: upgrade_floor_def Let_def simp del: split_paired_Ex intro: parse_Inr_key split: if_splits sum.splits)

lemma floor_above_minimum:
  assumes k: "release_key (st_minimum_version t) = Some k" and c: "st_current t = [] \<or> is_release_version (st_current t)"
  shows "Some k \<le> floor_of t"
proof -
  from k have n: "st_minimum_version t \<noteq> []" using release_key_empty by auto
  from key_parse [OF k] obtain p where p: "parse_release_version (st_minimum_version t) = Inr p" by blast
  show ?thesis
  proof (cases "is_bootstrap (st_current t) \<or> st_current t = []")
    case True
    with n p k show ?thesis by (auto simp: floor_of_def upgrade_floor_def Let_def)
  next
    case False
    with c obtain j where j: "release_key (st_current t) = Some j" using release_has_key by blast
    from key_parse [OF j] obtain q where "parse_release_version (st_current t) = Inr q" by blast
    with False n p k j compare_release_key [OF j k] show ?thesis
      by (auto simp: floor_of_def upgrade_floor_def Let_def cmp_def)
  qed
qed

lemma upgrade_floor_cong:
  "st_current t = st_current s \<Longrightarrow> st_minimum_version t = st_minimum_version s \<Longrightarrow> upgrade_floor t = upgrade_floor s"
  by (simp only: upgrade_floor_def)

lemma floor_pending: "floor_of (s\<lparr>st_pending := p\<rparr>) = floor_of s"
  unfolding floor_of_def by (subst upgrade_floor_cong [of _ s]) simp_all

lemma floor_activated:
  assumes "st_current s = v \<or> forward s v"
  shows "floor_of s \<le> floor_of (activated s v)"
proof (cases "st_current s = v")
  case True
  then show ?thesis by (simp add: activated_def floor_pending)
next
  case False
  with assms obtain f where f: "is_release_version v" "upgrade_floor s = Inr f" "validate_forward_upgrade v f = Inr ()"
    by (auto simp: forward_def)
  from release_has_key [OF f(1)] obtain k where k: "release_key v = Some k" by blast
  have "floor_of s \<le> Some k"
    using f(2,3) k by (auto simp: floor_of_def forward_upgrade_key release_key_empty)
  also have "\<dots> \<le> floor_of (activated s v)"
    by (rule floor_above_minimum) (use False k f(1) in \<open>simp_all add: activated_def\<close>)
  finally show ?thesis .
qed

lemma floor_rolled_back:
  assumes "upgrade_floor s = Inr f" and "is_release_version (st_previous s)"
  shows "floor_of s \<le> floor_of (rolled_back s f)"
proof (cases "f = []")
  case True
  then show ?thesis using assms(1) by (simp add: floor_of_def release_key_empty)
next
  case False
  from upgrade_floor_key [OF assms(1) this] obtain k where k: "release_key f = Some k" by blast
  then have "floor_of s = Some k" using assms(1) by (simp add: floor_of_def)
  also have "\<dots> \<le> floor_of (rolled_back s f)"
    by (rule floor_above_minimum) (use k assms(2) in \<open>simp_all add: rolled_back_def\<close>)
  finally show ?thesis .
qed

section \<open>Opening an installation\<close>

lemma floored_intent:
  assumes "w_installation d = Some (Inr intent)" and k: "release_key (st_minimum_version intent) = Some k"
    and j: "st_minimum_version t = [] \<or> (\<exists>j. release_key (st_minimum_version t) = Some j)"
  shows "\<exists>mn. floored t d = Ok (t\<lparr>st_installation_pending := True, st_minimum_version := mn\<rparr>)
    \<and> Some k \<le> release_key mn \<and> release_key (st_minimum_version t) \<le> release_key mn"
proof -
  let ?i = "st_minimum_version intent"
  have n: "?i \<noteq> []" using k release_key_empty by auto
  from key_parse [OF k] obtain p where p: "parse_release_version ?i = Inr p" by blast
  have fl: "floored t d = (if st_minimum_version t = [] then Ok (t\<lparr>st_installation_pending := True, st_minimum_version := ?i\<rparr>)
      else case compare_release_versions ?i (st_minimum_version t) of Inl e \<Rightarrow> Err e
        | Inr c \<Rightarrow> Ok (if c > 0 then t\<lparr>st_installation_pending := True, st_minimum_version := ?i\<rparr>
            else t\<lparr>st_installation_pending := True\<rparr>))"
    using assms(1) n p
    by (simp add: apply_installation_floor_def value_bind reads_quiet reads_world value_read_world value_from_result Let_def
        split: sum.split)
  show ?thesis
  proof (cases "st_minimum_version t = []")
    case True
    with fl k show ?thesis by (intro exI [of _ ?i]) (simp add: release_key_empty)
  next
    case False
    with j obtain j' where j': "release_key (st_minimum_version t) = Some j'" by blast
    have keep: "t\<lparr>st_installation_pending := True\<rparr> = t\<lparr>st_installation_pending := True, st_minimum_version := st_minimum_version t\<rparr>"
      by (cases t) simp
    show ?thesis
    proof (cases "j' < k")
      case True
      with fl False compare_release_key [OF k j'] k j' show ?thesis by (intro exI [of _ ?i]) simp
    next
      case nl: False
      with fl False compare_release_key [OF k j'] j' show ?thesis
        by (intro exI [of _ "st_minimum_version t"]) (simp add: keep [symmetric] cmp_def)
    qed
  qed
qed

lemma compare_key_right: "compare_release_versions l r = Inr c \<Longrightarrow> \<exists>j. release_key r = Some j"
  using compare_release_err [of l r] by (cases "release_key r") auto

lemma parse_release_error: "parse_release_version v = Inl e \<Longrightarrow> \<not> error_is ErrUnknownInstalledVersion e"
  by (auto simp: parse_release_version_def Let_def split: if_splits prod.splits)

lemma floored_minimum:
  assumes "floored t d = Ok s"
  shows "st_minimum_version t = [] \<or> st_minimum_version t = st_minimum_version s
    \<or> (\<exists>j. release_key (st_minimum_version t) = Some j)"
  using assms compare_key_right [of _ "st_minimum_version t"]
  by (auto simp: apply_installation_floor_def value_bind_Ok reads_quiet reads_world value_read_world value_from_result Let_def
      simp del: split_paired_Ex split: option.splits sum.splits if_splits)

text \<open>The state read from the disk, before the installation's floor is applied.\<close>

lemma state_unfloored:
  assumes "value_of (state_without_operation m) d = Ok s"
  shows "\<exists>t. floored t d = Ok s \<and> st_current t = st_current s \<and>
    (\<forall>i. value_of (state_without_operation m) (d\<lparr>w_installation := i\<rparr>) = floored t (d\<lparr>w_installation := i\<rparr>))"
proof -
  let ?file = "case w_state d of None \<Rightarrow> io_return default_slot_state
      | Some (Inl e) \<Rightarrow> io_fail (Wrapf ''decode update state'' e) | Some (Inr st) \<Rightarrow> io_return st"
  let ?t = "\<lambda>st0 c q. case q of None \<Rightarrow> (case c of None \<Rightarrow> st0
        | Some u \<Rightarrow> (if st_pending st0 = u then st0\<lparr>st_pending := []\<rparr> else st0)\<lparr>st_current := u\<rparr>)
      | Some u \<Rightarrow> (case c of None \<Rightarrow> st0
        | Some u \<Rightarrow> (if st_pending st0 = u then st0\<lparr>st_pending := []\<rparr> else st0)\<lparr>st_current := u\<rparr>)\<lparr>st_previous := u\<rparr>"
  from assms obtain st0 c q where r: "value_of ?file d = Ok st0" "value_of (link_version m Current) d = Ok c"
    "value_of (link_version m Previous) d = Ok q" and s: "floored (?t st0 c q) d = Ok s"
    by (auto simp only: state_without_operation_def value_bind_Ok reads_quiet reads_world value_read_world
        reads_link_version state_file_quiet Let_def disk_fields res.inject)
  have "value_of (state_without_operation m) (d\<lparr>w_installation := i\<rparr>) = floored (?t st0 c q) (d\<lparr>w_installation := i\<rparr>)" for i
  proof -
    let ?d = "d\<lparr>w_installation := i\<rparr>"
    have "get_link p ?d = get_link p d" for p by (cases p) simp_all
    then have l: "value_of (link_version m p) ?d = value_of (link_version m p) d" for p
      by (intro dependsD [OF depends_link_version]) simp
    have f: "value_of ?file ?d = value_of ?file d" by (simp split: option.split sum.split)
    have w: "w_state ?d = w_state d" by simp
    show ?thesis
      using l [of Current] l [of Previous] f r
      by (simp only: state_without_operation_def value_bind reads_quiet reads_world value_read_world disk_fields
          reads_link_version state_file_quiet Let_def w res.case)
  qed
  with s floored_fields [OF s] show ?thesis by (intro exI [of _ "?t st0 c q"]) simp
qed

lemma installation_minimum_floor:
  assumes "installation_minimum s proposed = Inr mn"
  shows "mn = [] \<and> floor_of s = None \<or> (\<exists>k. release_key mn = Some k \<and> floor_of s \<le> Some k)"
    and "st_minimum_version s = [] \<or> (\<exists>j. release_key (st_minimum_version s) = Some j)"
proof -
  have bad: "upgrade_floor s = Inl e \<Longrightarrow> st_minimum_version s \<noteq> [] \<Longrightarrow> error_is ErrUnknownInstalledVersion e \<Longrightarrow>
      \<exists>j. release_key (st_minimum_version s) = Some j" for e
    using parse_release_error [of "st_minimum_version s" e]
    by (cases "parse_release_version (st_minimum_version s)")
      (auto simp: upgrade_floor_def Let_def simp del: split_paired_Ex intro: parse_Inr_key)
  show "st_minimum_version s = [] \<or> (\<exists>j. release_key (st_minimum_version s) = Some j)"
  proof (cases "upgrade_floor s")
    case (Inl e)
    with assms bad [OF Inl] show ?thesis by (auto simp: installation_minimum_def split: if_splits)
  next
    case (Inr f)
    then show ?thesis
      by (cases "parse_release_version (st_minimum_version s)")
        (auto simp: upgrade_floor_def Let_def simp del: split_paired_Ex intro: parse_Inr_key split: if_splits)
  qed
  show "mn = [] \<and> floor_of s = None \<or> (\<exists>k. release_key mn = Some k \<and> floor_of s \<le> Some k)"
  proof (cases "upgrade_floor s")
    case (Inl e)
    with assms show ?thesis
      by (auto simp: installation_minimum_def floor_of_def simp del: split_paired_Ex intro: parse_Inr_key split: if_splits sum.splits)
  next
    case (Inr f)
    show ?thesis
    proof (cases "f = []")
      case True
      with Inr assms show ?thesis
        by (auto simp: installation_minimum_def floor_of_def release_key_empty simp del: split_paired_Ex
            intro: parse_Inr_key split: if_splits sum.splits)
    next
      case False
      from upgrade_floor_key [OF Inr False] obtain j where j: "release_key f = Some j" by blast
      from assms Inr False have p: "proposed = mn" "\<exists>q. parse_release_version mn = Inr q"
        and c: "\<exists>c. compare_release_versions mn f = Inr c \<and> \<not> c < 0"
        by (auto simp: installation_minimum_def split: if_splits sum.splits)
      from p parse_Inr_key obtain k where k: "release_key mn = Some k" by blast
      with c compare_release_key [OF k j] Inr j show ?thesis by (auto simp: floor_of_def cmp_def split: if_splits)
    qed
  qed
qed

definition intent_of :: "string \<Rightarrow> slot_state" where
  "intent_of mn = default_slot_state\<lparr>st_minimum_version := mn\<rparr>"

lemma intent_minimum [simp]: "st_minimum_version (intent_of mn) = mn"
  by (simp add: intent_of_def)

definition raised :: "slot_manager \<Rightarrow> slot_state \<Rightarrow> world \<Rightarrow> bool" where
  "raised m s d = (\<exists>t. sound m t d \<and> floor_of s \<le> floor_of t)"

lemma raised_same: "sound m s d \<Longrightarrow> raised m s d"
  by (auto simp: raised_def)

lemma state_current_release:
  assumes "wf_disk d" and "w_operation d = None" and "value_of (state_without_operation m) d = Ok s"
  shows "st_current s = [] \<or> is_release_version (st_current s)"
  using state_link(1) [OF assms] value_link_slot(1) [of m Current d "st_current s"] by auto

lemma intent_raised:
  assumes s: "sound m s d" and op: "w_operation d = None" and mn: "installation_minimum s proposed = Inr mn"
  shows "raised m s (d\<lparr>w_installation := Some (Inr (intent_of mn))\<rparr>)" (is "raised m s ?d")
proof -
  from s op have st: "value_of (state_without_operation m) d = Ok s" and wf: "wf_disk d"
    using obs_settled [of d m] by (simp_all add: sound_def)
  from state_unfloored [OF st] obtain t where t: "floored t d = Ok s" "st_current t = st_current s"
    and val: "value_of (state_without_operation m) ?d = floored t ?d" by blast
  have wf': "wf_disk ?d" using wf op by (simp add: wf_disk_def)
  have obs: "obs m ?d = floored t ?d" using op val by (simp add: obs_settled)
  note im = installation_minimum_floor [OF mn]
  from im(1) show ?thesis
  proof (elim disjE conjE exE)
    assume "mn = []" and fl: "floor_of s = None"
    then have "floored t ?d = Ok (t\<lparr>st_installation_pending := True\<rparr>)"
      by (simp add: apply_installation_floor_def value_bind reads_quiet reads_world value_read_world Let_def)
    with obs wf' fl show ?thesis by (auto simp: raised_def sound_def)
  next
    fix k assume k: "release_key mn = Some k" and le: "floor_of s \<le> Some k"
    have "st_minimum_version t = [] \<or> (\<exists>j. release_key (st_minimum_version t) = Some j)"
      using floored_minimum [OF t(1)] im(2) by metis
    then obtain x where x: "floored t ?d = Ok (t\<lparr>st_installation_pending := True, st_minimum_version := x\<rparr>)" "Some k \<le> release_key x"
      using floored_intent [of ?d "intent_of mn" k t] k by auto
    let ?t = "t\<lparr>st_installation_pending := True, st_minimum_version := x\<rparr>"
    from x(2) obtain j where j: "release_key x = Some j" "k \<le> j" by (cases "release_key x") auto
    have "Some j \<le> floor_of ?t"
      by (rule floor_above_minimum) (use j state_current_release [OF wf op st] t(2) in simp_all)
    with le j(2) have "floor_of s \<le> floor_of ?t" by (meson less_eq_option_Some order_trans)
    with x(1) obs wf' show ?thesis by (auto simp: raised_def sound_def)
  qed
qed

lemma triple_lock: "triple P c Q E \<Longrightarrow> (\<And>d. P d \<Longrightarrow> E d) \<Longrightarrow> triple P (with_lock m c) Q E"
  unfolding with_lock_def by (intro triple_then [OF triple_keep] reads_ensure_root reads_touch)

lemma begin_installation_triple:
  "triple (sound m s) (begin_installation m minimum)
     (\<lambda>_ d. raised m s d \<and> (\<exists>intent. w_installation d = Some (Inr intent))) (raised m s)"
proof -
  let ?P = "\<lambda>d. sound m s d \<and> w_operation d = None"
  have re: "triple (sound m s) (recover_operation m) (\<lambda>_. ?P) (raised m s)"
    by (rule triple_conseq [OF triple_recover [of m s "\<lambda>_ _. True"]]) (auto intro: raised_same)
  have st: "triple ?P (state_without_operation m) (\<lambda>x d. x = s \<and> ?P d) (raised m s)"
    by (rule triple_reads [OF reads_state_without_operation])
      (auto simp: sound_def obs_settled [symmetric] intro: raised_same [unfolded sound_def])
  have im: "triple (\<lambda>d. x = s \<and> ?P d) (from_result (installation_minimum x minimum))
      (\<lambda>mn d. ?P d \<and> installation_minimum s minimum = Inr mn) (raised m s)" for x
    by (rule triple_from_result) (auto intro: raised_same)
  have "triple (\<lambda>d. ?P d \<and> installation_minimum s minimum = Inr mn)
      (write_atomic_json m (\<lambda>w. w\<lparr>w_installation := Some (Inr (intent_of mn))\<rparr>))
      (\<lambda>_ d. raised m s d \<and> (\<exists>intent. w_installation d = Some (Inr intent))) (raised m s)" for mn
    by (rule triple_write) (auto simp: disk_def intro: raised_same intent_raised)
  then show ?thesis unfolding begin_installation_def intent_of_def [symmetric]
    by (intro triple_lock triple_then [OF re] triple_bind [OF st] triple_bind [OF im]) (auto intro: raised_same)
qed

section \<open>Installing a baseline\<close>

definition baseline :: "string \<Rightarrow> string \<Rightarrow> slot_state" where
  "baseline version mn = default_slot_state\<lparr>st_current := version, st_minimum_version := mn\<rparr>"

lemma baseline_fields [simp]:
  "st_current (baseline v mn) = v" "st_previous (baseline v mn) = []" "st_minimum_version (baseline v mn) = mn"
  "st_pending (baseline v mn) = []" "\<not> st_installation_pending (baseline v mn)"
  "baseline v mn\<lparr>st_installation_pending := False\<rparr> = baseline v mn"
  by (simp_all add: baseline_def default_slot_state_def)

lemma disk_installation: "disk (w\<lparr>w_installation := x\<rparr>) = (disk w)\<lparr>w_installation := x\<rparr>"
  by (simp add: disk_def)

lemma triple_swap_empty: "(\<And>d. P d \<Longrightarrow> E d) \<Longrightarrow> triple P (swap_link p []) Q E"
proof -
  assume E: "\<And>d. P d \<Longrightarrow> E d"
  have "\<not> is_release_version []" using release_version_chars(2) by blast
  then have "triple P (require_slot []) (\<lambda>_ _. False) E"
    by (intro triple_reads [OF reads_require_slot]) (auto simp: value_require_slot E)
  from triple_then [OF this] show ?thesis unfolding swap_link_def by (simp add: triple_def)
qed

lemma install_links_triple:
  "triple (phase d0 op (op_links d0 s (baseline v mn))) (io_then (remove_link Previous) (swap_link Current v))
     (\<lambda>_. linked d0 op (baseline v mn)) (phase d0 op (op_links d0 s (baseline v mn)))"
proof -
  let ?P = "phase d0 op (op_links d0 s (baseline v mn))"
  have "triple ?P (remove_link Previous) (\<lambda>_ d. ?P d \<and> w_previous d = NoLink) ?P"
    by (rule triple_remove_link) auto
  moreover have "triple (\<lambda>d. ?P d \<and> w_previous d = NoLink) (swap_link Current v) (\<lambda>_. linked d0 op (baseline v mn)) ?P"
  proof (cases "v = []")
    case True
    then show ?thesis by (auto intro: triple_swap_empty)
  next
    case False
    then show ?thesis by (intro triple_swap_link) (auto simp: lnk_def phase_def)
  qed
  ultimately show ?thesis by (rule triple_then)
qed

lemma baseline_floor:
  assumes "installation_minimum s proposed = Inr mn" and "slot_ok d v"
  shows "floor_of s \<le> floor_of (baseline v mn\<lparr>st_installation_pending := b\<rparr>)"
  using installation_minimum_floor(1) [OF assms(1)]
proof (elim disjE conjE exE)
  fix k assume k: "release_key mn = Some k" and le: "floor_of s \<le> Some k"
  have "Some k \<le> floor_of (baseline v mn\<lparr>st_installation_pending := b\<rparr>)"
    by (rule floor_above_minimum) (use k assms(2) in \<open>auto simp: slot_ok_def\<close>)
  with le show ?thesis by (rule order_trans)
qed simp

text \<open>The baseline under the floor of an installation that is still marked as incomplete.\<close>

lemma baseline_floored:
  assumes mn: "installation_minimum s proposed = Inr mn" and s: "sound m s d" and v: "slot_ok d v"
  shows "\<exists>t. floored (baseline v mn) d = Ok t \<and> floor_of s \<le> floor_of t"
proof (cases "w_installation d")
  case None
  with baseline_floor [OF mn v, of False] show ?thesis by (simp add: floored_None)
next
  case (Some r)
  have fs: "floored s d = Ok s" using s obs_floored [of m d s] by (simp add: sound_def)
  with Some obtain intent where r: "w_installation d = Some (Inr intent)"
    by (cases r) (auto simp: apply_installation_floor_def value_bind reads_quiet reads_world value_read_world Let_def)
  show ?thesis
  proof (cases "st_minimum_version intent = []")
    case True
    with r have "floored (baseline v mn) d = Ok (baseline v mn\<lparr>st_installation_pending := True\<rparr>)"
      by (simp add: apply_installation_floor_def value_bind reads_quiet reads_world value_read_world Let_def)
    with baseline_floor [OF mn v, of True] show ?thesis by blast
  next
    case False
    with fs r obtain q where "parse_release_version (st_minimum_version intent) = Inr q"
      by (cases "parse_release_version (st_minimum_version intent)")
        (auto simp: apply_installation_floor_def value_bind reads_quiet reads_world value_read_world value_from_result Let_def)
    from parse_Inr_key [OF this] obtain i where i: "release_key (st_minimum_version intent) = Some i" by blast
    note im = installation_minimum_floor(1) [OF mn]
    then have "mn = [] \<or> (\<exists>j. release_key mn = Some j)" by blast
    with floored_intent [OF r i, of "baseline v mn"] obtain x where
      x: "floored (baseline v mn) d = Ok (baseline v mn\<lparr>st_installation_pending := True, st_minimum_version := x\<rparr>)"
        "release_key mn \<le> release_key x" by auto
    have "floor_of s \<le> release_key x" using im x(2) by (auto simp: release_key_empty dest: order_trans)
    moreover have "release_key x \<le> floor_of (baseline v mn\<lparr>st_installation_pending := True, st_minimum_version := x\<rparr>)"
      using v by (cases "release_key x") (auto simp: slot_ok_def intro!: floor_above_minimum)
    ultimately show ?thesis using x(1) by (auto intro: order_trans)
  qed
qed

lemma copy_inventory_triple: "(\<And>d. P d \<Longrightarrow> E d) \<Longrightarrow> triple P (copy_inventory source fs temp) (\<lambda>_. P) E"
proof (induction fs arbitrary: temp)
  case (Cons f fs)
  obtain relative h where f: "f = (relative, h)" by (cases f)
  have "triple P (io_bind (copy_files source [(relative, h)] temp) (copy_inventory source fs)) (\<lambda>_. P) E"
    by (rule triple_bind [OF triple_copy_files Cons.IH]) (simp_all add: Cons.prems)
  with Cons.prems show ?case unfolding f by (auto intro: triple_fail)
qed (auto intro: triple_return)

text \<open>Committing the baseline and closing the installation, from a disk without operation journal.\<close>

lemma baseline_commit_triple:
  assumes mn: "installation_minimum s proposed = Inr mn"
  shows "triple (\<lambda>d. sound m s d \<and> w_operation d = None)
    (io_then (commit_operation m ''install'' s (baseline v mn) (io_then (remove_link Previous) (swap_link Current v)))
       (io_then (syscall (\<lambda>w. w\<lparr>w_installation := None\<rparr>)) touch))
    (\<lambda>_ d. sound m (baseline v mn) d \<and> raised m s d) (raised m s)"
proof (rule triple_exists)
  fix d0 assume d0: "sound m s d0 \<and> w_operation d0 = None"
  let ?t = "baseline v mn" and ?op = "the_op ''install'' s (baseline v mn)"
  have valid: "slot_ok d0 v \<and> valid_state d0 ?t" if "value_of (validate_operation m ?op) d0 = Ok ()"
    using value_validate_operation [OF that] by (simp add: valid_op_def valid_state_def)
  have bt: "raised m s d" if "between m d0 ''install'' s ?t d" for d
  proof (cases "d = d0")
    case False
    with that valid baseline_floored [OF mn, of m d0 v] d0 obtain t where
      "floored ?t d0 = Ok t" "floor_of s \<le> floor_of t" by (auto simp: between_def)
    with between_obs [of d0 m s "''install''" ?t d] that d0 show ?thesis
      by (auto simp: raised_def sound_def)
  qed (use d0 in \<open>auto intro: raised_same\<close>)
  let ?S = "\<lambda>d. settled d0 ?t d \<and> value_of (validate_operation m ?op) d0 = Ok ()"
  have closed: "sound m ?t (d\<lparr>w_installation := None\<rparr>)" if "?S d" for d
  proof -
    let ?d = "d\<lparr>w_installation := None\<rparr>"
    have "settled ?d ?t ?d" using that by (simp add: settled_def)
    moreover have "valid_state ?d ?t" using that valid by (simp add: settled_def valid_state_def slot_ok_def)
    ultimately have "obs m ?d = floored ?t ?d" by (intro obs_settled_on) (simp_all add: normal_def)
    with wf_settled [OF \<open>settled ?d ?t ?d\<close>] show ?thesis by (simp add: sound_def floored_keep)
  qed
  have S: "raised m s d" if "?S d" for d using bt [of d] that by (auto simp: between_def)
  have R: "raised m s d" if "sound m ?t d" "value_of (validate_operation m ?op) d0 = Ok ()" for d
    using baseline_floor [OF mn conjunct1 [OF valid [OF that(2)]], of False] that(1) by (auto simp: raised_def)
  have c: "triple (\<lambda>d. d = d0) (commit_operation m ''install'' s ?t (io_then (remove_link Previous) (swap_link Current v)))
      (\<lambda>_. ?S) (raised m s)"
    by (rule triple_conseq [OF triple_commit [OF install_links_triple]]) (auto intro: bt)
  let ?C = "\<lambda>d. sound m ?t d \<and> value_of (validate_operation m ?op) d0 = Ok ()"
  have "triple ?S (syscall (\<lambda>w. w\<lparr>w_installation := None\<rparr>)) (\<lambda>_. ?C) (raised m s)"
    by (rule triple_syscall) (auto simp: disk_installation intro: closed S R)
  moreover have "triple ?C touch (\<lambda>_ d. sound m ?t d \<and> raised m s d) (raised m s)" by (rule triple_touch) (auto intro: R)
  ultimately show "triple (\<lambda>d. d = d0)
    (io_then (commit_operation m ''install'' s ?t (io_then (remove_link Previous) (swap_link Current v)))
       (io_then (syscall (\<lambda>w. w\<lparr>w_installation := None\<rparr>)) touch)) (\<lambda>_ d. sound m ?t d \<and> raised m s d) (raised m s)"
    by (intro triple_then [OF c]) (rule triple_then)
qed

text \<open>Steps that keep the observed state and the absence of a journal.\<close>

abbreviation idle :: "slot_manager \<Rightarrow> slot_state \<Rightarrow> world \<Rightarrow> bool" where
  "idle m s d \<equiv> sound m s d \<and> w_operation d = None"

lemma idle_keep: "reads c \<Longrightarrow> triple (idle m s) c (\<lambda>_. idle m s) (raised m s)"
  by (rule triple_keep) (auto intro: raised_same)

lemma idle_bind:
  "triple (idle m s) c (\<lambda>_. idle m s) (raised m s) \<Longrightarrow> (\<And>x. triple (idle m s) (f x) Q (raised m s)) \<Longrightarrow>
   triple (idle m s) (io_bind c f) Q (raised m s)"
  by (rule triple_bind)

lemma idle_state:
  "triple (idle m s) (f s) Q (raised m s) \<Longrightarrow> triple (idle m s) (io_bind (state_without_operation m) f) Q (raised m s)"
proof (rule triple_bind)
  assume f: "triple (idle m s) (f s) Q (raised m s)"
  show "triple (idle m s) (state_without_operation m) (\<lambda>x d. x = s \<and> idle m s d) (raised m s)"
    by (rule triple_reads [OF reads_state_without_operation])
      (auto simp: sound_def obs_settled [symmetric] intro: raised_same [unfolded sound_def])
  show "triple (\<lambda>d. x = s \<and> idle m s d) (f x) Q (raised m s)" for x
    using f by (cases "x = s") (simp_all add: triple_def)
qed

lemma idle_recover: "triple (sound m s) (recover_operation m) (\<lambda>_. idle m s) (raised m s)"
  by (rule triple_conseq [OF triple_recover [of m s "\<lambda>_ _. True"]]) (auto intro: raised_same)

lemma copy_baseline_triple: "triple (idle m s) (copy_baseline source inventory inspect) (\<lambda>_. idle m s) (raised m s)"
  unfolding copy_baseline_def
  by (intro idle_bind copy_inventory_triple idle_keep reads_wrap reads_touch reads_from_result reads_return)
    (auto intro: raised_same)

lemma place_baseline_triple: "triple (idle m s) (place_baseline inventory inspect v copy) (\<lambda>_. idle m s) (raised m s)"
  unfolding place_baseline_def
proof (rule triple_bind)
  show "triple (idle m s) (read_world (\<lambda>w. w_slots w v)) (\<lambda>x d. idle m s d \<and> w_slots d v = x) (raised m s)"
    by (rule triple_reads [OF reads_world]) (auto simp: value_read_world intro: raised_same)
next
  fix x
  let ?slot = "\<lambda>x. case x of
      None \<Rightarrow> syscall (put_slot v (Some copy))
    | Some d \<Rightarrow> io_bind (from_result (inspect d)) (\<lambda>existing.
        if length existing \<noteq> length (manifest_files inventory)
        then io_fail (Errorf ''existing baseline contains a different file inventory'')
        else if list_ex (\<lambda>(p, h). map_of existing p \<noteq> Some h) (manifest_files inventory)
        then io_fail (Errorf ''existing baseline contents differ'') else touch)"
  have "triple (\<lambda>d. idle m s d \<and> w_slots d v = x) (?slot x) (\<lambda>_. idle m s) (raised m s)"
  proof (cases x)
    case None
    have "triple (\<lambda>d. idle m s d \<and> w_slots d v = None) (syscall (put_slot v (Some copy))) (\<lambda>_. idle m s) (raised m s)"
      by (rule triple_syscall) (auto simp: disk_put_slot intro: raised_same idle_put_slot)
    with None show ?thesis by simp
  next
    case (Some dir)
    have "triple (\<lambda>d. idle m s d \<and> w_slots d v = x) (?slot (Some dir)) (\<lambda>_. idle m s) (raised m s)"
      unfolding option.case
      by (rule triple_conseq [OF idle_bind [OF idle_keep [OF reads_from_result]]])
        (auto intro: idle_keep reads_touch)
    with Some show ?thesis by simp
  qed
  then show "triple (\<lambda>d. idle m s d \<and> w_slots d v = x) (io_then (?slot x) touch) (\<lambda>_. idle m s) (raised m s)"
    by (rule triple_then) (rule idle_keep [OF reads_touch])
qed

lemma install_baseline_triple:
  "triple (sound m s) (install_baseline m source inventory minimum version_of inspect)
     (\<lambda>_ d. \<exists>v mn. version_of = Inr v \<and> installation_minimum s minimum = Inr mn \<and> sound m (baseline v mn) d \<and> raised m s d)
     (raised m s)"
  (is "triple _ _ ?Q _")
proof -
  have result: "triple (idle m s) (f x) Q (raised m s) \<Longrightarrow> r = Inr x \<Longrightarrow> triple (idle m s) (io_bind (from_result r) f) Q (raised m s)"
    for f :: "'b \<Rightarrow> unit io" and x r Q
    by (simp add: from_result_def io_bind_def io_return_def)
  have failed: "r = Inl e \<Longrightarrow> triple (idle m s) (io_bind (from_result r) f) Q (raised m s)" for r e Q and f :: "'b \<Rightarrow> unit io"
    by (simp add: from_result_def io_bind_def io_fail_def triple_def) (blast intro: raised_same)
  let ?commit = "\<lambda>v mn. io_bind (copy_baseline source inventory inspect) (\<lambda>copy.
      io_then (place_baseline inventory inspect v copy) (commit_baseline m v mn))"
  have "triple (idle m s) (?commit v mn) ?Q (raised m s)"
    if "version_of = Inr v" "installation_minimum s minimum = Inr mn" for v mn
  proof (intro idle_bind copy_baseline_triple place_baseline_triple)
    show "triple (idle m s) (commit_baseline m v mn) ?Q (raised m s)"
      unfolding commit_baseline_def baseline_def [symmetric]
      by (rule idle_state, rule triple_conseq [OF baseline_commit_triple [OF that(2)]]) (use that in auto)
  qed
  then have "triple (idle m s) (io_bind (from_result (installation_minimum s minimum)) (\<lambda>mn.
      io_bind (from_result version_of) (\<lambda>v. ?commit v mn))) ?Q (raised m s)"
    by (cases "installation_minimum s minimum"; cases version_of) (auto intro: result failed)
  then show ?thesis unfolding install_baseline_def
    by (intro triple_lock triple_then [OF idle_recover] idle_state) (auto intro: raised_same)
qed

section \<open>Sequences of operations\<close>

text \<open>
  One process on the update directory: an operation with arbitrary arguments under an arbitrary schedule of
  faults. The next process finds the disk as the last one left it.
\<close>

inductive slot_step :: "slot_manager \<Rightarrow> world \<Rightarrow> world \<Rightarrow> bool" for m where
  stage: "slot_step m w (snd (stage m source source' manifest (w\<lparr>w_faults := fs\<rparr>)))"
| activate: "slot_step m w (snd (activate m v (w\<lparr>w_faults := fs\<rparr>)))"
| rollback: "slot_step m w (snd (rollback m (w\<lparr>w_faults := fs\<rparr>)))"
| begin_installation: "slot_step m w (snd (begin_installation m minimum (w\<lparr>w_faults := fs\<rparr>)))"
| install_baseline:
    "slot_step m w (snd (install_baseline m source inventory minimum version_of inspect (w\<lparr>w_faults := fs\<rparr>)))"
| state: "slot_step m w (snd (slots_state m (w\<lparr>w_faults := fs\<rparr>)))"

lemma tripleD:
  assumes "triple P c Q E" and "P (disk w)"
  shows "(\<exists>x. fst (c w) = Ok x \<and> Q x (disk (snd (c w)))) \<or> (\<forall>x. fst (c w) \<noteq> Ok x) \<and> E (disk (snd (c w)))"
proof -
  have "case c w of (Ok x, w') \<Rightarrow> Q x (disk w') | (Err e, w') \<Rightarrow> E (disk w') | (Halt, w') \<Rightarrow> E (disk w')"
    using assms by (simp add: triple_def)
  then show ?thesis by (cases "c w"; cases "fst (c w)") auto
qed

lemma tripleD_any:
  assumes "triple P c Q E" and "P (disk w)" and "\<And>x d. Q x d \<Longrightarrow> R d" and "\<And>d. E d \<Longrightarrow> R d"
  shows "R (disk (snd (c w)))"
  using tripleD [OF assms(1,2)] assms(3,4) by blast

lemma sound_disk [simp]: "sound m s (disk w) \<longleftrightarrow> obs m w = Ok s \<and> wf_disk w"
  by (auto simp: sound_def wf_disk_def split: option.split sum.split)

lemma step_raised: "slot_step m w w' \<Longrightarrow> sound m s (disk w) \<Longrightarrow> raised m s (disk w')"
proof (induction rule: slot_step.induct)
  case (stage w source source' manifest fs)
  have "sound m (pending_on s v) d \<Longrightarrow> raised m s d" for v d
    by (auto simp: raised_def pending_on_def floor_pending intro: exI [of _ "s\<lparr>st_pending := v\<rparr>"])
  with stage show ?case
    by (intro tripleD_any [OF stage_triple [of m s], where R = "raised m s"]) (auto simp: staged_ok_def intro: raised_same)
next
  case (activate w v fs)
  have "st_current s = v \<or> forward s v \<Longrightarrow> sound m (activated s v) d \<Longrightarrow> raised m s d" for d
    using floor_activated [of s v] by (auto simp: raised_def)
  with activate show ?case
    by (intro tripleD_any [OF activate_triple [of m s v], where R = "raised m s"]) (auto simp: changed_def intro: raised_same)
next
  case (rollback w fs)
  have "upgrade_floor s = Inr f \<Longrightarrow> is_release_version (st_previous s) \<Longrightarrow> sound m (rolled_back s f) d \<Longrightarrow> raised m s d" for f d
    using floor_rolled_back [of s f] by (auto simp: raised_def)
  with rollback show ?case
    by (intro tripleD_any [OF rollback_triple [of m s], where R = "raised m s"]) (auto intro: raised_same)
next
  case (begin_installation w minimum fs)
  then show ?case
    by (intro tripleD_any [OF begin_installation_triple [of m s minimum], where R = "raised m s"]) auto
next
  case (install_baseline w source inventory minimum version_of inspect fs)
  then show ?case
    by (intro tripleD_any [OF install_baseline_triple [of m s], where R = "raised m s"]) auto
next
  case (state w fs)
  then show ?case using readsD(1) [OF reads_slots_state, of m "w\<lparr>w_faults := fs\<rparr>"] raised_same [of m s "disk w"] by simp
qed

definition observed_floor :: "slot_manager \<Rightarrow> world \<Rightarrow> version_key option" where
  "observed_floor m w = (case obs m w of Ok s \<Rightarrow> floor_of s | _ \<Rightarrow> None)"

definition readable :: "slot_manager \<Rightarrow> world \<Rightarrow> bool" where
  "readable m w = (wf_disk w \<and> (\<exists>s. obs m w = Ok s))"

lemma step_readable:
  assumes "slot_step m w w'" and "readable m w"
  shows "readable m w' \<and> observed_floor m w \<le> observed_floor m w'"
proof -
  from assms(2) obtain s where s: "obs m w = Ok s" "wf_disk w" by (auto simp: readable_def)
  with step_raised [OF assms(1), of s] obtain t where "obs m w' = Ok t" "wf_disk w'" "floor_of s \<le> floor_of t"
    by (auto simp: raised_def)
  with s show ?thesis by (simp add: readable_def observed_floor_def)
qed

interpretation slots: monotone_steps "slot_step m" "readable m" "observed_floor m" for m
  by unfold_locales (use step_readable in blast)+

section \<open>Properties\<close>

definition witness_manager :: slot_manager where
  "witness_manager = \<lparr>sm_root = ''/var/lib/update'', sm_trusted_key = replicate 32 1,
     sm_crypto = \<lparr>hex_decode = (\<lambda>s. None), key_valid = (\<lambda>k. False), key_verify = (\<lambda>k p s. False),
       marshal_payload = (\<lambda>v b g fs. Inr []), debug_str = id\<rparr>, sm_arch = ''amd64''\<rparr>"

definition witness_state :: slot_state where
  "witness_state = default_slot_state\<lparr>st_current := ''1.1.0'', st_previous := ''1.0.0'', st_minimum_version := ''1.1.0''\<rparr>"

definition witness_world :: "fault list \<Rightarrow> world" where
  "witness_world fs = \<lparr>w_current = Link ''slots/1.1.0'', w_previous = Link ''slots/1.0.0'',
     w_state = Some (Inr witness_state), w_operation = None, w_installation = None,
     w_slots = (\<lambda>v. if v = ''1.0.0'' \<or> v = ''1.1.0'' \<or> v = ''1.2.0'' then Some Map.empty else None), w_faults = fs\<rparr>"

lemma witness_obs: "obs witness_manager (witness_world fs) = Ok witness_state" "wf_disk (witness_world fs)"
proof -
  have "obs witness_manager (witness_world []) = Ok witness_state" by code_simp
  then show "obs witness_manager (witness_world fs) = Ok witness_state" by (simp add: disk_def witness_world_def)
qed (simp add: wf_disk_def witness_world_def)

text \<open>
  C1: Activating a release is atomic. Whatever file-system call fails or stops the process, the state that the
  next process reads is the one before the call or the one with the release activated, the latter only for
  the current version or one above the version floor, and a successful call has activated it.
\<close>

theorem activate_atomic:
  assumes "obs m w = Ok s" and "wf_disk w"
  shows "\<exists>s'. obs m (snd (activate m v w)) = Ok s' \<and> wf_disk (snd (activate m v w)) \<and>
    (s' = s \<or> (st_current s = v \<or> forward s v) \<and> s' = activated s v) \<and>
    (fst (activate m v w) = Ok () \<longrightarrow> s' = activated s v)"
  using tripleD [OF activate_triple [of m s v], of w] assms by (auto simp: changed_def)

theorem activate_atomic_witness:
  "\<exists>s'. obs witness_manager (snd (activate witness_manager ''1.2.0'' (witness_world (replicate 20 Proceed @ [Crash])))) = Ok s'
     \<and> (s' = witness_state \<or> s' = activated witness_state ''1.2.0'')"
  using activate_atomic [OF witness_obs, of "''1.2.0''" "replicate 20 Proceed @ [Crash]"] by blast

text \<open>
  C6: Rolling back is atomic in the same sense, and the state after it carries the version floor of the state
  before it, so that a rollback never lets an older release than that be activated later.
\<close>

theorem rollback_atomic:
  assumes "obs m w = Ok s" and "wf_disk w"
  shows "\<exists>s'. obs m (snd (rollback m w)) = Ok s' \<and> wf_disk (snd (rollback m w)) \<and>
    (s' = s \<or> (\<exists>floor. upgrade_floor s = Inr floor \<and> s' = rolled_back s floor)) \<and>
    (fst (rollback m w) = Ok () \<longrightarrow> (\<exists>floor. upgrade_floor s = Inr floor \<and> s' = rolled_back s floor))"
  using tripleD [OF rollback_triple [of m s], of w] assms by auto

theorem rollback_atomic_witness:
  "\<exists>s'. obs witness_manager (snd (rollback witness_manager (witness_world [Proceed, Proceed, FailAfter (Errorf ''io'')]))) = Ok s'"
  using rollback_atomic [OF witness_obs, of "[Proceed, Proceed, FailAfter (Errorf ''io'')]"] by blast



text \<open>
  C4: The version floor never drops. Along every sequence of slot operations, full installations and crashes
  included, the state stays readable and the floor below which no release can be activated only rises.
\<close>

theorem version_floor_monotone:
  assumes "(slot_step m)\<^sup>*\<^sup>* w w'" and "readable m w"
  shows "readable m w' \<and> observed_floor m w \<le> observed_floor m w'"
  using slots.inv_run [OF assms] slots.rank_run [OF assms] by blast

theorem version_floor_monotone_witness:
  "observed_floor witness_manager (witness_world []) \<le>
     observed_floor witness_manager (snd (rollback witness_manager ((snd (activate witness_manager ''1.2.0''
       ((witness_world [])\<lparr>w_faults := replicate 20 Proceed @ [Crash]\<rparr>)))\<lparr>w_faults := []\<rparr>)))"
proof (rule conjunct2 [OF version_floor_monotone])
  show "readable witness_manager (witness_world [])" using witness_obs by (auto simp: readable_def)
qed (blast intro: slot_step.activate slot_step.rollback rtranclp.intros)

end
