(* ===== verification/State_Wp.thy ===== *)
theory State_Wp
  imports Prelude "HOL-Library.State_Monad"
begin

text \<open>
  Reasoning about state-passing code: \<open>wp m Q s\<close> says that running \<open>m\<close> from \<open>s\<close> ends in a result and a state that
  satisfy \<open>Q\<close>. The collection \<open>wp_simps\<close> computes it along the code, \<open>wp_mono\<close> uses the specification of a call. The
  operator \<open>?\<close> of Rust is \<open>and_then\<close>.
\<close>

named_theorems wp_simps \<open>weakest preconditions of the constructs of state-passing code\<close>

definition wp :: "('s, 'a) state \<Rightarrow> ('a \<Rightarrow> 's \<Rightarrow> bool) \<Rightarrow> 's \<Rightarrow> bool" where
  "wp m Q s = (case run_state m s of (a, t) \<Rightarrow> Q a t)"

definition and_then :: "('s, 'a result) state \<Rightarrow> ('a \<Rightarrow> ('s, 'b result) state) \<Rightarrow> ('s, 'b result) state" where
  "and_then m f = do { r \<leftarrow> m; case r of Inl e \<Rightarrow> State_Monad.return (Inl e) | Inr x \<Rightarrow> f x }"

lemma wp_return [wp_simps]: "wp (State_Monad.return a) Q = Q a"
  by (simp add: wp_def fun_eq_iff)

lemma wp_bind [wp_simps]: "wp (State_Monad.bind m f) Q = wp m (\<lambda>a. wp (f a) Q)"
  by (simp add: wp_def fun_eq_iff split: prod.splits)

lemma wp_get [wp_simps]: "wp State_Monad.get Q = (\<lambda>s. Q s s)"
  by (simp add: wp_def fun_eq_iff)

lemma wp_set [wp_simps]: "wp (State_Monad.set t) Q = (\<lambda>s. Q () t)"
  by (simp add: wp_def fun_eq_iff)

lemma wp_update [wp_simps]: "wp (State_Monad.update f) Q = (\<lambda>s. Q () (f s))"
  by (simp add: wp_def fun_eq_iff State_Monad.update_def)

lemma wp_if [wp_simps]: "wp (if b then m else n) Q = (\<lambda>s. (b \<longrightarrow> wp m Q s) \<and> (\<not> b \<longrightarrow> wp n Q s))"
  by simp

lemma wp_option [wp_simps]:
  "wp (case x of None \<Rightarrow> m | Some y \<Rightarrow> f y) Q = (\<lambda>s. (x = None \<longrightarrow> wp m Q s) \<and> (\<forall>y. x = Some y \<longrightarrow> wp (f y) Q s))"
  by (simp add: fun_eq_iff split: option.splits)

lemma wp_sum [wp_simps]:
  "wp (case x of Inl e \<Rightarrow> m e | Inr y \<Rightarrow> f y) Q = (\<lambda>s. (\<forall>e. x = Inl e \<longrightarrow> wp (m e) Q s) \<and> (\<forall>y. x = Inr y \<longrightarrow> wp (f y) Q s))"
  by (simp add: fun_eq_iff split: sum.splits)

lemma wp_prod [wp_simps]: "wp (case x of (a, b) \<Rightarrow> f a b) Q = (\<lambda>s. \<forall>a b. x = (a, b) \<longrightarrow> wp (f a b) Q s)"
  by (simp add: fun_eq_iff split: prod.splits)

lemma wp_and_then [wp_simps]:
  "wp (and_then m f) Q = wp m (\<lambda>r t. (\<forall>e. r = Inl e \<longrightarrow> Q (Inl e) t) \<and> (\<forall>x. r = Inr x \<longrightarrow> wp (f x) Q t))"
  by (simp add: and_then_def wp_def fun_eq_iff split: prod.splits sum.splits)

lemma wp_mono: "wp m P s \<Longrightarrow> (\<And>a t. P a t \<Longrightarrow> Q a t) \<Longrightarrow> wp m Q s"
  by (auto simp: wp_def)

lemma wp_conj: "wp m P s \<Longrightarrow> wp m Q s \<Longrightarrow> wp m (\<lambda>a t. P a t \<and> Q a t) s"
  by (auto simp: wp_def)

lemma wp_run: "run_state m s = (a, t) \<Longrightarrow> wp m Q s \<Longrightarrow> Q a t"
  by (simp add: wp_def)

lemma wp_total: "wp m (\<lambda>_ _. True) s"
  by (simp add: wp_def split: prod.splits)

end
