(* ===== verification/Go_Time.thy ===== *)
theory Go_Time
  imports Prelude
begin

text \<open>
  Times and durations of \<open>mr-core/src/goish/time.rs\<close>: wall clock with an optional monotonic reading,
  the text form of a duration and its reader, the \<open>15:04\<close> clock layout. A \<open>DateTime<FixedOffset>\<close> is
  its instant in nanoseconds and its offset; a duration is an \<open>i64\<close> of nanoseconds. Double arithmetic of
  the fraction of a duration is computed exactly: rounding to 53 significant bits, ties to even.
\<close>

section \<open>Durations\<close>

definition i64_min :: int where
  "i64_min = - (2 ^ 63)"

definition i64_max :: int where
  "i64_max = 2 ^ 63 - 1"

definition is_i64 :: "int \<Rightarrow> bool" where
  "is_i64 x = (i64_min \<le> x \<and> x \<le> i64_max)"

definition SECOND :: int where
  "SECOND = 1000000000"

definition MINUTE :: int where
  "MINUTE = 60 * 1000000000"

definition HOUR :: int where
  "HOUR = 3600 * 1000000000"

definition duration_hours :: "int \<Rightarrow> int" where
  "duration_hours n = n * 3600 * 1000000000"

text \<open>Rust's \<open>%\<close> on signed integers: the sign of the dividend.\<close>

definition rem_i64 :: "int \<Rightarrow> int \<Rightarrow> int" where
  "rem_i64 a b = (if a < 0 then - ((- a) mod \<bar>b\<bar>) else a mod \<bar>b\<bar>)"

definition duration_truncate :: "int \<Rightarrow> int \<Rightarrow> int" where
  "duration_truncate d m = (if m \<le> 0 then d else d - rem_i64 d m)"

definition wrap_i64 :: "int \<Rightarrow> int" where
  "wrap_i64 x = (x + 2 ^ 63) mod 2 ^ 64 - 2 ^ 63"

definition duration_round :: "int \<Rightarrow> int \<Rightarrow> int" where
  "duration_round d m =
     (if m \<le> 0 then d
      else if d < 0 then
        (let r = - rem_i64 d m
         in if wrap_i64 (r + r) < m then wrap_i64 (d + r) else wrap_i64 (wrap_i64 (d - m) + r))
      else
        (let r = rem_i64 d m
         in if wrap_i64 (r + r) < m then d - r else wrap_i64 (wrap_i64 (d + m) - r)))"

section \<open>The text of a duration\<close>

text \<open>\<open>fmt_frac\<close>: the loop over \<open>prec\<close> digits; the digits are collected in the order they are pushed.\<close>

fun frac_loop :: "nat \<Rightarrow> nat \<Rightarrow> bool \<Rightarrow> string \<Rightarrow> string \<times> bool \<times> nat" where
  "frac_loop 0 v printed digits = (digits, printed, v)"
| "frac_loop (Suc n) v printed digits =
     (let digit = v mod 10; printed' = (printed \<or> digit \<noteq> 0)
      in frac_loop n (v div 10) printed' (if printed' then digits @ [digit_char digit] else digits))"

definition fmt_frac :: "nat \<Rightarrow> nat \<Rightarrow> string \<times> nat" where
  "fmt_frac v prec =
     (let (digits, printed, v') = frac_loop prec v False []
      in (if printed then ''.'' @ rev digits else [], v'))"

text \<open>The unit with U+00B5, and the spelling with U+03BC that the reader accepts as well.\<close>

definition micro_s :: string where
  "micro_s = [CHR 0xC2, CHR 0xB5, CHR ''s'']"

definition mu_s :: string where
  "mu_s = [CHR 0xCE, CHR 0xBC, CHR ''s'']"

definition duration_body :: "nat \<Rightarrow> string" where
  "duration_body u =
     (if u < 1000000000 then
        (let (prec, un) = (if u < 1000 then (0, ''ns'') else if u < 1000000 then (3, micro_s) else (6, ''ms''));
             (frac, i) = fmt_frac u prec
         in nat_string i @ frac @ un)
      else
        (let (frac, v) = fmt_frac u 9;
             secs = v mod 60; v1 = v div 60;
             out = nat_string secs @ frac @ ''s''
         in if v1 > 0 then
              (let mins = v1 mod 60; v2 = v1 div 60; out1 = nat_string mins @ ''m'' @ out
               in if v2 > 0 then nat_string v2 @ ''h'' @ out1 else out1)
            else out))"

definition duration_string :: "int \<Rightarrow> string" where
  "duration_string d =
     (let u = nat \<bar>d\<bar>
      in if u = 0 then ''0s'' else if d < 0 then ''-'' @ duration_body u else duration_body u)"

section \<open>Reading a duration\<close>

text \<open>The value of an ASCII digit, \<open>c - b'0'\<close>.\<close>

definition byte_digit :: "char \<Rightarrow> nat" where
  "byte_digit c = of_char c - 48"

lemma byte_digit_char [simp]: "d < 10 \<Longrightarrow> byte_digit (digit_char d) = d"
  by (simp add: byte_digit_def code_digit_char)

lemma byte_digit_le: "is_ascii_digit c \<Longrightarrow> byte_digit c \<le> 9"
  by (auto simp: byte_digit_def is_ascii_digit_def)

text \<open>Rounding of the quotient of two naturals to a double, as a quotient again.\<close>

fun bit_length :: "nat \<Rightarrow> nat" where
  "bit_length n = (if n = 0 then 0 else Suc (bit_length (n div 2)))"

declare bit_length.simps [simp del]

definition round_even :: "nat \<Rightarrow> nat \<Rightarrow> nat" where
  "round_even a b =
     (let k = a div b; r = a mod b
      in if 2 * r < b \<or> 2 * r = b \<and> even k then k else k + 1)"

definition f64_at :: "int \<Rightarrow> nat \<Rightarrow> nat \<Rightarrow> nat \<times> nat" where
  "f64_at e p q =
     (if e \<ge> 0 then (round_even p (q * 2 ^ nat e) * 2 ^ nat e, 1)
      else (round_even (p * 2 ^ nat (- e)) q, 2 ^ nat (- e)))"

definition f64 :: "nat \<Rightarrow> nat \<Rightarrow> nat \<times> nat" where
  "f64 p q =
     (if p = 0 then (0, 1)
      else
        (let e = int (bit_length p) - int (bit_length q) - 53;
             large = (if e \<ge> 0 then p \<ge> q * 2 ^ nat e * 2 ^ 53 else p * 2 ^ nat (- e) \<ge> q * 2 ^ 53)
         in f64_at (if large then e + 1 else e) p q))"

text \<open>\<open>(f as f64 * (multiplier as f64 / scale)) as u64\<close>; the cast truncates and saturates.\<close>

definition frac_nanos :: "nat \<Rightarrow> nat \<Rightarrow> nat \<Rightarrow> nat" where
  "frac_nanos f multiplier scale =
     (let (fn, fd) = f64 f 1; (qn, qd) = f64 multiplier scale; (n, d) = f64 (fn * qn) (fd * qd)
      in min (n div d) (2 ^ 64 - 1))"

fun int_digits :: "nat \<Rightarrow> string \<Rightarrow> nat option" where
  "int_digits v [] = Some v"
| "int_digits v (c # cs) =
     (if v > 2 ^ 63 div 10 then None
      else
        (let v' = v * 10 + byte_digit c
         in if v' > 2 ^ 63 then None else int_digits v' cs))"

fun frac_digits :: "nat \<Rightarrow> nat \<Rightarrow> string \<Rightarrow> nat \<times> nat" where
  "frac_digits f scale [] = (f, scale)"
| "frac_digits f scale (c # cs) =
     (if f > 2 ^ 63 div 10 then (f, scale)
      else
        (let y = f * 10 + byte_digit c
         in if y > 2 ^ 63 then (f, scale) else frac_digits y (scale * 10) cs))"

definition unit_ns :: "string \<Rightarrow> nat option" where
  "unit_ns un =
     (if un = ''ns'' then Some 1
      else if un = ''us'' \<or> un = micro_s \<or> un = mu_s then Some 1000
      else if un = ''ms'' then Some 1000000
      else if un = ''s'' then Some 1000000000
      else if un = ''m'' then Some (60 * 1000000000)
      else if un = ''h'' then Some (3600 * 1000000000)
      else None)"

definition unit_char :: "char \<Rightarrow> bool" where
  "unit_char c = (c \<noteq> CHR ''.'' \<and> \<not> is_ascii_digit c)"

text \<open>The fraction after the integer part: whether it has digits, its digits and scale, the rest.\<close>

definition read_fraction :: "string \<Rightarrow> bool \<times> nat \<times> nat \<times> string" where
  "read_fraction s =
     (case s of
        c # rest \<Rightarrow>
          (if c = CHR ''.'' then
             (let ds = takeWhile is_ascii_digit rest; (f, scale) = frac_digits 0 1 ds
              in (ds \<noteq> [], f, scale, dropWhile is_ascii_digit rest))
           else (False, 0, 1, s))
      | [] \<Rightarrow> (False, 0, 1, s))"

text \<open>One term of a duration: its nanoseconds and the rest of the text, or the error.\<close>

definition read_term :: "string \<Rightarrow> string \<Rightarrow> string + nat \<times> string" where
  "read_term input s =
     (let invalid = Inl (''time: invalid duration '' @ [CHR 0x22] @ input @ [CHR 0x22])
      in if \<not> (hd s = CHR ''.'' \<or> is_ascii_digit (hd s)) then invalid
         else
           (case int_digits 0 (takeWhile is_ascii_digit s) of
              None \<Rightarrow> invalid
            | Some v \<Rightarrow>
                (let (post, f, scale, s2) = read_fraction (dropWhile is_ascii_digit s);
                     un = takeWhile unit_char s2; s3 = dropWhile unit_char s2
                 in if takeWhile is_ascii_digit s = [] \<and> \<not> post then invalid
                    else if un = [] then Inl (''time: missing unit in duration '' @ [CHR 0x22] @ input @ [CHR 0x22])
                    else
                      (case unit_ns un of
                         None \<Rightarrow> Inl (''time: unknown unit '' @ [CHR 0x22] @ un @ [CHR 0x22] @ '' in duration '' @ [CHR 0x22] @ input @ [CHR 0x22])
                       | Some multiplier \<Rightarrow>
                           (if v > 2 ^ 63 div multiplier then invalid
                            else if f > 0 then
                              (let v' = v * multiplier + frac_nanos f multiplier scale
                               in if v' > 2 ^ 63 then invalid else Inr (v', s3))
                            else Inr (v * multiplier, s3))))))"

lemma length_read_fraction: "read_fraction s = (post, f, scale, s2) \<Longrightarrow> length s2 \<le> length s"
  by (auto simp: read_fraction_def Let_def length_dropWhile_le le_SucI split: list.splits if_splits prod.splits)

lemma read_term_length:
  assumes "read_term input s = Inr (v, s')"
  shows "length s' < length s"
proof -
  obtain post f scale s2 where r: "read_fraction (dropWhile is_ascii_digit s) = (post, f, scale, s2)"
    by (cases "read_fraction (dropWhile is_ascii_digit s)") auto
  have "takeWhile unit_char s2 \<noteq> [] \<and> s' = dropWhile unit_char s2"
    using assms unfolding read_term_def r by (auto simp: Let_def split: if_splits option.splits)
  moreover have "length (takeWhile unit_char s2) + length (dropWhile unit_char s2) = length s2"
    by (metis length_append takeWhile_dropWhile_id)
  moreover have "length s2 \<le> length s"
    using length_read_fraction [OF r] length_dropWhile_le [of is_ascii_digit s] by simp
  ultimately show ?thesis by (cases "takeWhile unit_char s2") auto
qed

function duration_loop :: "string \<Rightarrow> nat \<Rightarrow> string \<Rightarrow> string + nat" where
  "duration_loop input tot s =
     (if s = [] then Inr tot
      else (case read_term input s of
              Inl e \<Rightarrow> Inl e
            | Inr (v, s') \<Rightarrow>
                (let tot' = (tot + v) mod 2 ^ 64
                 in if tot' > 2 ^ 63 then Inl (''time: invalid duration '' @ [CHR 0x22] @ input @ [CHR 0x22])
                    else duration_loop input tot' s')))"
  by pat_completeness auto
termination by (relation "measure (\<lambda>(_, _, s). length s)") (auto dest: read_term_length)

declare duration_loop.simps [simp del]

definition parse_duration :: "string \<Rightarrow> string + int" where
  "parse_duration input =
     (let invalid = Inl (''time: invalid duration '' @ [CHR 0x22] @ input @ [CHR 0x22]);
          (neg, s) = (case input of
             c # rest \<Rightarrow> if c = CHR ''-'' then (True, rest) else if c = CHR ''+'' then (False, rest) else (False, input)
           | [] \<Rightarrow> (False, input))
      in if s = ''0'' then Inr 0
         else if s = [] then invalid
         else
           (case duration_loop input 0 s of
              Inl e \<Rightarrow> Inl e
            | Inr tot \<Rightarrow>
                (if neg then Inr (- int tot)
                 else if tot > 2 ^ 63 - 1 then invalid
                 else Inr (int tot))))"

section \<open>The clock layout\<close>

definition getnum :: "string \<Rightarrow> bool \<Rightarrow> (nat \<times> string) option" where
  "getnum s fixed =
     (case s of
        [] \<Rightarrow> None
      | a # rest \<Rightarrow>
          (if \<not> is_ascii_digit a then None
           else
             (case rest of
                [] \<Rightarrow> if fixed then None else Some (byte_digit a, rest)
              | b # rest' \<Rightarrow>
                  (if \<not> is_ascii_digit b then (if fixed then None else Some (byte_digit a, rest))
                   else Some (byte_digit a * 10 + byte_digit b, rest')))))"

definition parse_clock :: "string \<Rightarrow> (nat \<times> nat) option" where
  "parse_clock value =
     (case getnum value False of
        None \<Rightarrow> None
      | Some (hour, rest) \<Rightarrow>
          (if hour \<ge> 24 then None
           else
             (case strip_prefix '':'' rest of
                None \<Rightarrow> None
              | Some rest1 \<Rightarrow>
                  (case getnum rest1 True of
                     None \<Rightarrow> None
                   | Some (minute, rest2) \<Rightarrow>
                       (if minute \<ge> 60 \<or> rest2 \<noteq> [] then None else Some (hour, minute))))))"

section \<open>Times\<close>

record time =
  tm_wall :: int
  tm_offset :: int
  tm_mono :: "int option"

definition zero_wall :: int where
  "zero_wall = - 62135596800 * 1000000000"

definition from_wall :: "int \<Rightarrow> int \<Rightarrow> time" where
  "from_wall wall offset = \<lparr>tm_wall = wall, tm_offset = offset, tm_mono = None\<rparr>"

definition zero_time :: time where
  "zero_time = from_wall zero_wall 0"

definition time_eq :: "time \<Rightarrow> time \<Rightarrow> bool" where
  "time_eq a b = (tm_wall a = tm_wall b)"

definition is_zero :: "time \<Rightarrow> bool" where
  "is_zero t = (tm_wall t div 1000000000 = zero_wall div 1000000000 \<and> tm_wall t mod 1000000000 = 0)"

definition time_utc :: "time \<Rightarrow> time" where
  "time_utc t = from_wall (tm_wall t) 0"

definition unix :: "time \<Rightarrow> int" where
  "unix t = tm_wall t div 1000000000"

definition unix_nano :: "time \<Rightarrow> int" where
  "unix_nano t = (if is_i64 (tm_wall t) then tm_wall t else i64_min)"

definition time_truncate :: "time \<Rightarrow> int \<Rightarrow> time" where
  "time_truncate t d =
     (if d \<le> 0 then from_wall (tm_wall t) (tm_offset t)
      else
        (let unix_to_zero = 62135596800 * 1000000000; abs_ns = tm_wall t + unix_to_zero
         in from_wall (abs_ns - abs_ns mod d - unix_to_zero) (tm_offset t)))"

text \<open>Differences of monotonic readings go through \<open>Duration::from_std\<close>, which saturates.\<close>

definition from_std :: "int \<Rightarrow> int" where
  "from_std ns = min ns i64_max"

definition mono_delta :: "int \<Rightarrow> int \<Rightarrow> int" where
  "mono_delta a b = (if a \<ge> b then from_std (a - b) else - from_std (b - a))"

text \<open>A reading is an \<open>i64\<close> of seconds with nanoseconds; a shift outside of that range has no result.\<close>

definition mono_shift :: "int \<Rightarrow> int \<Rightarrow> int option" where
  "mono_shift reading ns = (if is_i64 ((reading + ns) div 1000000000) then Some (reading + ns) else None)"

definition time_add :: "time \<Rightarrow> int \<Rightarrow> time" where
  "time_add t d = \<lparr>tm_wall = tm_wall t + d, tm_offset = tm_offset t,
     tm_mono = (case tm_mono t of None \<Rightarrow> None | Some r \<Rightarrow> mono_shift r d)\<rparr>"

definition time_sub :: "time \<Rightarrow> time \<Rightarrow> int" where
  "time_sub t u =
     (case (tm_mono t, tm_mono u) of
        (Some a, Some b) \<Rightarrow> mono_delta a b
      | _ \<Rightarrow>
          (let delta = tm_wall t - tm_wall u
           in if is_i64 delta then delta else if delta > 0 then i64_max else i64_min))"

definition before :: "time \<Rightarrow> time \<Rightarrow> bool" where
  "before t u = (case (tm_mono t, tm_mono u) of (Some a, Some b) \<Rightarrow> a < b | _ \<Rightarrow> tm_wall t < tm_wall u)"

definition after :: "time \<Rightarrow> time \<Rightarrow> bool" where
  "after t u = (case (tm_mono t, tm_mono u) of (Some a, Some b) \<Rightarrow> a > b | _ \<Rightarrow> tm_wall t > tm_wall u)"

section \<open>Exact doubles\<close>

lemma bit_length_upper: "n < 2 ^ bit_length n"
proof (induction n rule: bit_length.induct)
  case (1 n)
  then show ?case by (cases "n = 0") (simp_all add: bit_length.simps [of n])
qed

lemma bit_length_le: "n < 2 ^ k \<Longrightarrow> bit_length n \<le> k"
proof (induction n arbitrary: k rule: bit_length.induct)
  case (1 n)
  show ?case
  proof (cases "n = 0")
    case False
    with 1 obtain j where "k = Suc j" by (cases k) auto
    with 1 False show ?thesis by (subst bit_length.simps) auto
  qed (simp add: bit_length.simps)
qed

lemma bit_length_mult: "bit_length (a * b) \<le> bit_length a + bit_length b"
proof (rule bit_length_le)
  show "a * b < 2 ^ (bit_length a + bit_length b)"
    using bit_length_upper [of a] bit_length_upper [of b] by (simp add: power_add mult_strict_mono)
qed

lemma round_even_exact: "b > 0 \<Longrightarrow> round_even (n * b) b = n"
  by (simp add: round_even_def)

lemma f64_exact:
  assumes "q > 0" and "n < 2 ^ 52"
  shows "\<exists>d>0. f64 (n * q) q = (n * d, d)"
proof (cases "n = 0")
  case False
  define e where "e = int (bit_length (n * q)) - int (bit_length q) - 53"
  define e' where "e' = (if (if e \<ge> 0 then n * q \<ge> q * 2 ^ nat e * 2 ^ 53 else n * q * 2 ^ nat (- e) \<ge> q * 2 ^ 53) then e + 1 else e)"
  have "e \<le> - 1" using bit_length_mult [of n q] bit_length_le [OF assms(2)] by (simp add: e_def)
  then have "e' \<le> 0" by (simp add: e'_def)
  have "f64_at e' (n * q) q = (n * 2 ^ nat (- e'), 2 ^ nat (- e'))"
  proof (cases "e' = 0")
    case True
    then show ?thesis using assms(1) by (simp add: f64_at_def round_even_exact)
  next
    case neg: False
    have "n * q * 2 ^ nat (- e') = n * 2 ^ nat (- e') * q" by simp
    with neg \<open>e' \<le> 0\<close> assms(1) show ?thesis by (simp only: f64_at_def round_even_exact) simp
  qed
  moreover have "n * q \<noteq> 0" using False assms(1) by simp
  then have "f64 (n * q) q = f64_at e' (n * q) q" by (simp only: f64_def if_False Let_def e'_def e_def)
  ultimately show ?thesis by (intro exI [of _ "2 ^ nat (- e')"]) simp
qed (auto simp: f64_def)

lemma frac_nanos_exact:
  assumes "k \<le> j" and "j \<le> 9" and "f < 10 ^ k"
  shows "frac_nanos f (10 ^ j) (10 ^ k) = f * 10 ^ (j - k)"
proof -
  have p: "(10 :: nat) ^ a \<le> 1000000000" if "a \<le> 9" for a
    using power_increasing [OF that, of "10 :: nat"] by simp
  have f: "f < 2 ^ 52" using assms p [of k] by simp
  have q: "(10 :: nat) ^ (j - k) < 2 ^ 52" 
    using p [OF le_trans [OF diff_le_self assms(2)]] by (rule le_less_trans) simp
  have "f * 10 ^ (j - k) \<le> 10 ^ k * 10 ^ (j - k)" using assms(3) by simp
  also have "\<dots> = (10 :: nat) ^ j" using assms(1) by (simp flip: power_add)
  finally have fq: "f * 10 ^ (j - k) \<le> 1000000000" using p [of j] assms(2) by simp
  from f64_exact [of 1 f] f obtain d1 where d1: "d1 > 0" "f64 f 1 = (f * d1, d1)" by auto
  have e: "(10 :: nat) ^ j = 10 ^ (j - k) * 10 ^ k" using assms(1) by (simp flip: power_add)
  from f64_exact [of "10 ^ k" "10 ^ (j - k)"] q obtain d2 where d2: "d2 > 0" "f64 (10 ^ j) (10 ^ k) = (10 ^ (j - k) * d2, d2)"
    unfolding e by auto
  have m: "f * d1 * (10 ^ (j - k) * d2) = f * 10 ^ (j - k) * (d1 * d2)" by simp
  from f64_exact [of "d1 * d2" "f * 10 ^ (j - k)"] d1(1) d2(1) fq obtain d where
    d: "d > 0" "f64 (f * 10 ^ (j - k) * (d1 * d2)) (d1 * d2) = (f * 10 ^ (j - k) * d, d)" by auto
  show ?thesis unfolding frac_nanos_def Let_def d1(2) d2(2) prod.case m d(2) using d(1) fq by simp
qed

section \<open>The text of a duration is read back\<close>

definition dval :: "string \<Rightarrow> nat" where
  "dval s = foldl (\<lambda>v c. v * 10 + byte_digit c) 0 s"

lemma dval_snoc: "dval (s @ [c]) = dval s * 10 + byte_digit c"
  by (simp add: dval_def)

lemma dval_Nil [simp]: "dval [] = 0"
  by (simp add: dval_def)

lemma frac_loop_spec:
  assumes "frac_loop n v printed digits = (ds, p, w)"
  shows "w = v div 10 ^ n \<and> p = (printed \<or> v mod 10 ^ n \<noteq> 0) \<and>
    (\<exists>xs. ds = digits @ xs \<and> list_all is_ascii_digit xs \<and> length xs \<le> n \<and> (printed \<longrightarrow> length xs = n) \<and>
      (p \<longrightarrow> printed \<or> xs \<noteq> []) \<and> dval (rev xs) * 10 ^ (n - length xs) = v mod 10 ^ n)"
  using assms
proof (induction n arbitrary: v printed digits)
  case (Suc n)
  let ?d = "v mod 10" and ?p = "printed \<or> v mod 10 \<noteq> 0"
  have m: "v mod (10 * 10 ^ n) = v mod 10 + 10 * (v div 10 mod 10 ^ n)"
    by (simp add: mod_mult2_eq)
  from Suc.prems have "frac_loop n (v div 10) ?p (if ?p then digits @ [digit_char ?d] else digits) = (ds, p, w)"
    by (simp add: Let_def)
  from Suc.IH [OF this] obtain xs where w: "w = v div 10 div 10 ^ n" and p: "p = (?p \<or> v div 10 mod 10 ^ n \<noteq> 0)"
    and xs: "ds = (if ?p then digits @ [digit_char ?d] else digits) @ xs" "list_all is_ascii_digit xs" "length xs \<le> n"
      "?p \<longrightarrow> length xs = n" "p \<longrightarrow> ?p \<or> xs \<noteq> []" "dval (rev xs) * 10 ^ (n - length xs) = v div 10 mod 10 ^ n" by blast
  show ?case
  proof (cases ?p)
    case True
    with xs(4) have len: "length xs = n" by blast
    with xs(6) have "dval (rev (digit_char ?d # xs)) = v mod 10 ^ Suc n" by (simp add: dval_snoc m)
    with True len xs w p m show ?thesis
      by (intro conjI exI [of _ "digit_char ?d # xs"]) (auto simp: div_mult2_eq is_ascii_digit_digit_char)
  next
    case False
    then have "dval (rev xs) * 10 ^ (Suc n - length xs) = v mod 10 ^ Suc n"
      using xs(3,6) by (simp add: m Suc_diff_le)
    with False xs w p m show ?thesis by (intro conjI exI [of _ xs]) (auto simp: div_mult2_eq)
  qed
qed simp

lemma fmt_frac_spec:
  obtains "v mod 10 ^ n = 0" "fmt_frac v n = ([], v div 10 ^ n)"
  | xs where "v mod 10 ^ n \<noteq> 0" "fmt_frac v n = (''.'' @ xs, v div 10 ^ n)" "list_all is_ascii_digit xs" "xs \<noteq> []"
      "length xs \<le> n" "dval xs * 10 ^ (n - length xs) = v mod 10 ^ n"
proof (cases "frac_loop n v False []")
  case (fields ds p w)
  from frac_loop_spec [OF this] obtain xs where w: "w = v div 10 ^ n" and p: "p = (v mod 10 ^ n \<noteq> 0)"
    and xs: "ds = xs" "list_all is_ascii_digit xs" "length xs \<le> n" "p \<longrightarrow> xs \<noteq> []"
      "dval (rev xs) * 10 ^ (n - length xs) = v mod 10 ^ n" by auto
  show ?thesis
  proof (cases "v mod 10 ^ n = 0")
    case True
    with fields w p show ?thesis by (intro that(1)) (simp_all add: fmt_frac_def)
  next
    case False
    with fields w p xs show ?thesis by (intro that(2) [of "rev xs"]) (simp_all add: fmt_frac_def)
  qed
qed

lemma dval_less: "list_all is_ascii_digit s \<Longrightarrow> dval s < 10 ^ length s"
proof (induction s rule: rev_induct)
  case (snoc c s)
  then have "byte_digit c \<le> 9" by (simp add: byte_digit_le)
  with snoc show ?case by (simp add: dval_snoc)
qed simp

lemma int_digits_append: "int_digits v (s @ t) = (case int_digits v s of None \<Rightarrow> None | Some w \<Rightarrow> int_digits w t)"
  by (induction v s rule: int_digits.induct) (simp_all add: Let_def)

lemma int_digits_nat_string: "n \<le> 2 ^ 63 \<Longrightarrow> int_digits 0 (nat_string n) = Some n"
proof (induction n rule: nat_string.induct)
  case (1 n)
  show ?case
  proof (cases "n < 10")
    case True
    then show ?thesis by (subst nat_string.simps) simp
  next
    case False
    with 1 have "int_digits 0 (nat_string (n div 10)) = Some (n div 10)" by simp
    moreover have "nat_string n = nat_string (n div 10) @ [digit_char (n mod 10)]"
      using False by (subst nat_string.simps) simp
    ultimately show ?thesis using 1(2) by (simp add: int_digits_append)
  qed
qed

lemma frac_digits_dval:
  "list_all is_ascii_digit s \<Longrightarrow> length s \<le> 9 \<Longrightarrow> frac_digits 0 1 s = (dval s, 10 ^ length s)"
proof -
  have "list_all is_ascii_digit (p @ s) \<Longrightarrow> length (p @ s) \<le> 9 \<Longrightarrow>
      frac_digits (dval p) (10 ^ length p) s = (dval (p @ s), 10 ^ length (p @ s))" for p
  proof (induction s arbitrary: p)
    case (Cons c s)
    have "dval (p @ [c]) < 10 ^ 9"
      using dval_less [of "p @ [c]"] Cons.prems power_increasing [of "length (p @ [c])" 9 "10 :: nat"]
      by (auto simp: list_all_append intro: less_le_trans)
    moreover from this have "dval p < 10 ^ 9" by (simp add: dval_snoc)
    ultimately show ?case
      using Cons.IH [of "p @ [c]"] Cons.prems by (simp add: dval_snoc Let_def mult.commute)
  qed simp
  from this [of "[]"] show "list_all is_ascii_digit s \<Longrightarrow> length s \<le> 9 \<Longrightarrow> frac_digits 0 1 s = (dval s, 10 ^ length s)" by simp
qed

text \<open>A text of digits, a fraction and a unit, followed by the next term.\<close>

definition next_term :: "string \<Rightarrow> bool" where
  "next_term s = (s = [] \<or> is_ascii_digit (hd s))"

lemma takeWhile_stop: "list_all P xs \<Longrightarrow> ys = [] \<or> \<not> P (hd ys) \<Longrightarrow> takeWhile P (xs @ ys) = xs \<and> dropWhile P (xs @ ys) = ys"
  by (induction xs) (cases ys; auto)+

lemma next_term_unit: "next_term s \<Longrightarrow> s = [] \<or> \<not> unit_char (hd s)"
  by (auto simp: next_term_def unit_char_def)

lemma read_term_text:
  assumes un: "unit_ns un = Some (10 ^ j * c)" "un \<noteq> []" "list_all unit_char un" and rest: "next_term rest"
    and n: "n * (10 ^ j * c) + r \<le> 2 ^ 63" and j: "j \<le> 9" and r: "r < 10 ^ j" and c: "c > 0" "r > 0 \<longrightarrow> c = 1"
    and frac: "fmt_frac x j = (frac, y)" "x mod 10 ^ j = r"
  shows "read_term input (nat_string n @ frac @ un @ rest) = Inr (n * (10 ^ j * c) + r, rest)"
proof -
  have ds: "list_all is_ascii_digit (nat_string n)" "nat_string n \<noteq> []"
    using nat_string_digits nat_string_not_Nil by (auto simp: list_all_iff)
  have h: "is_ascii_digit (hd (nat_string n @ z))" for z using ds by (cases "nat_string n") auto
  have m: "10 ^ j * c > 0" using c by simp
  have le: "n \<le> 2 ^ 63 div (10 ^ j * c)" using n m by (simp add: less_eq_div_iff_mult_less_eq)
  also have "\<dots> \<le> 2 ^ 63" by simp
  finally have i: "int_digits 0 (nat_string n) = Some n" by (rule int_digits_nat_string)
  have uh: "\<not> is_ascii_digit (hd un) \<and> hd un \<noteq> CHR ''.''" using un(2,3) by (cases un) (auto simp: unit_char_def)
  have uw: "takeWhile unit_char (un @ rest) = un" "dropWhile unit_char (un @ rest) = rest"
    using takeWhile_stop [OF un(3) next_term_unit [OF rest]] by simp_all
  show ?thesis
  proof (cases rule: fmt_frac_spec [of x j])
    case 1
    with frac have fr: "frac = []" "r = 0" by simp_all
    have w: "takeWhile is_ascii_digit (nat_string n @ un @ rest) = nat_string n" "dropWhile is_ascii_digit (nat_string n @ un @ rest) = un @ rest"
      using takeWhile_stop [OF ds(1), of "un @ rest"] uh un(2) by simp_all
    have "read_fraction (un @ rest) = (False, 0, 1, un @ rest)"
      using uh un(2) by (cases un) (simp_all add: read_fraction_def)
    with fr w h [of "un @ rest"] i ds(2) uw un(1,2) le show ?thesis
      by (simp only: read_term_def Let_def append_Nil prod.case option.case simp_thms if_False if_True)
        (simp add: not_less)
  next
    case (2 xs)
    with frac have fr: "frac = ''.'' @ xs" "r > 0" by auto
    have w: "takeWhile is_ascii_digit (nat_string n @ frac @ un @ rest) = nat_string n"
      "dropWhile is_ascii_digit (nat_string n @ frac @ un @ rest) = frac @ un @ rest"
      using takeWhile_stop [OF ds(1), of "frac @ un @ rest"] fr(1) by (simp_all add: is_ascii_digit_def)
    have x: "takeWhile is_ascii_digit (xs @ un @ rest) = xs" "dropWhile is_ascii_digit (xs @ un @ rest) = un @ rest"
      using takeWhile_stop [OF 2(3), of "un @ rest"] uh un(2) by simp_all
    have "read_fraction (frac @ un @ rest) = (True, dval xs, 10 ^ length xs, un @ rest)"
      using 2 frac_digits_dval [of xs] j by (simp add: read_fraction_def fr x)
    moreover have "frac_nanos (dval xs) (10 ^ j) (10 ^ length xs) = r"
      using frac_nanos_exact [OF 2(5) j dval_less [OF 2(3)]] 2(6) frac(2) by simp
    moreover have "dval xs > 0" using 2(6) fr(2) frac(2) by (cases "dval xs") auto
    moreover have "c = 1" using c fr(2) by simp
    ultimately show ?thesis using fr w h [of "frac @ un @ rest"] i ds(2) uw un(1,2) le n
      by (simp only: read_term_def Let_def prod.case option.case simp_thms if_False if_True mult_1_right)
        (simp add: not_less)
  qed
qed

lemma fmt_frac_val: "snd (fmt_frac v n) = v div 10 ^ n"
  by (cases rule: fmt_frac_spec [of v n]) simp_all

lemma units: "unit_ns ''ns'' = Some (10 ^ 0 * 1)" "unit_ns micro_s = Some (10 ^ 3 * 1)" "unit_ns ''ms'' = Some (10 ^ 6 * 1)"
  "unit_ns ''s'' = Some (10 ^ 9 * 1)" "unit_ns ''m'' = Some (10 ^ 9 * 60)" "unit_ns ''h'' = Some (10 ^ 9 * 3600)"
  "list_all unit_char ''ns''" "list_all unit_char micro_s" "list_all unit_char ''ms''" "list_all unit_char ''s''"
  "list_all unit_char ''m''" "list_all unit_char ''h''" "micro_s \<noteq> []"
  by (simp_all add: unit_ns_def micro_s_def mu_s_def unit_char_def is_ascii_digit_def)

lemma loop_term:
  assumes "read_term input s = Inr (v, s')" and "s \<noteq> []" and "acc + v \<le> 2 ^ 63"
  shows "duration_loop input acc s = duration_loop input (acc + v) s'"
  using assms by (subst duration_loop.simps) (simp add: Let_def)

lemma loop_text:
  assumes "unit_ns un = Some (10 ^ j * c)" "un \<noteq> []" "list_all unit_char un" "next_term rest"
    and "acc + (n * (10 ^ j * c) + x mod 10 ^ j) \<le> 2 ^ 63" "j \<le> 9" "c > 0" "x mod 10 ^ j > 0 \<longrightarrow> c = 1"
    and "fmt_frac x j = (frac, y)"
  shows "duration_loop input acc (nat_string n @ frac @ un @ rest) =
    duration_loop input (acc + (n * (10 ^ j * c) + x mod 10 ^ j)) rest"
  by (rule loop_term [OF read_term_text [OF assms(1-4) _ assms(6) _ assms(7,8,9) refl]]) (use assms(5) in simp_all)

lemma loop_whole:
  assumes "unit_ns un = Some (10 ^ 9 * c)" "un \<noteq> []" "list_all unit_char un" "next_term rest"
    and "acc + n * (10 ^ 9 * c) \<le> 2 ^ 63" "c > 0"
  shows "duration_loop input acc (nat_string n @ un @ rest) = duration_loop input (acc + n * (10 ^ 9 * c)) rest"
proof -
  have "fmt_frac 0 9 = ([], 0)" by (cases rule: fmt_frac_spec [of 0 9]) simp_all
  from loop_text [OF assms(1-4) _ _ assms(6) _ this] assms(5) show ?thesis by simp
qed

lemma next_term_nat [simp]: "next_term (nat_string n @ s)"
  using nat_string_digits [of "hd (nat_string n)" n] by (cases "nat_string n") (auto simp: next_term_def)

lemma duration_loop_Nil: "duration_loop input acc [] = Inr acc"
  by (simp add: duration_loop.simps)

lemma duration_body_loop:
  assumes "u \<le> 2 ^ 63"
  shows "duration_loop input 0 (duration_body u) = Inr u"
proof -
  have nt: "next_term []" by (simp add: next_term_def)
  have small: "duration_loop input 0 (nat_string (snd (fmt_frac u j)) @ fst (fmt_frac u j) @ un) = Inr u"
    if "unit_ns un = Some (10 ^ j * 1)" "un \<noteq> []" "list_all unit_char un" "j \<le> 9" for un j
    using loop_text [OF that(1-3) nt _ that(4) _ _ surjective_pairing, of 0 "u div 10 ^ j" u] assms div_mult_mod_eq [of u "10 ^ j"]
    by (simp add: duration_loop_Nil fmt_frac_val)
  show ?thesis
  proof (cases "u < 1000000000")
    case True
    then show ?thesis
      using small [of "''ns''" 0] small [of micro_s 3] small [of "''ms''" 6] units
      by (simp add: duration_body_def Let_def case_prod_beta)
  next
    case False
    define v where "v = u div 10 ^ 9"
    define frac where "frac = fst (fmt_frac u 9)"
    have ff: "fmt_frac u 9 = (frac, v)" using fmt_frac_val [of u 9] by (simp add: frac_def v_def prod_eq_iff)
    define secs mins hours where "secs = v mod 60" and "mins = v div 60 mod 60" and "hours = v div 60 div 60"
    have "v = v div 60 * 60 + secs" "v div 60 = hours * 60 + mins"
      unfolding secs_def mins_def hours_def by (simp_all only: div_mult_mod_eq)
    then have v: "v = hours * 3600 + mins * 60 + secs" by linarith
    have u: "u = v * 10 ^ 9 + u mod 10 ^ 9" by (simp add: v_def)
    let ?out = "nat_string secs @ frac @ ''s''"
    have secs: "duration_loop input acc ?out = Inr (acc + (secs * 10 ^ 9 + u mod 10 ^ 9))"
      if "acc + (secs * 10 ^ 9 + u mod 10 ^ 9) \<le> 2 ^ 63" for acc
      using loop_text [OF units(4) _ units(10) nt _ _ _ _ ff, of acc secs] that by (simp add: duration_loop_Nil)
    have mins: "duration_loop input acc (nat_string mins @ ''m'' @ ?out) = Inr (acc + (mins * 60 * 10 ^ 9 + secs * 10 ^ 9 + u mod 10 ^ 9))"
      if "acc + (mins * 60 * 10 ^ 9 + secs * 10 ^ 9 + u mod 10 ^ 9) \<le> 2 ^ 63" for acc
      using loop_whole [OF units(5) _ units(11), of ?out acc mins] secs [of "acc + mins * (10 ^ 9 * 60)"] that
      by (simp add: algebra_simps)
    have hours: "duration_loop input 0 (nat_string hours @ ''h'' @ nat_string mins @ ''m'' @ ?out) = Inr u"
      using loop_whole [OF units(6) _ units(12), of "nat_string mins @ ''m'' @ ?out" 0 hours]
        mins [of "hours * (10 ^ 9 * 3600)"] u v assms by (simp add: algebra_simps)
    have m0: "duration_loop input 0 (nat_string mins @ ''m'' @ ?out) = Inr u" if "hours = 0"
      using mins [of 0] u v assms that by (simp add: algebra_simps)
    have s0: "duration_loop input 0 ?out = Inr u" if "v div 60 = 0"
    proof -
      have "mins = 0" "hours = 0" using that by (simp_all add: mins_def hours_def)
      then show ?thesis using secs [of 0] u v assms by (simp add: algebra_simps)
    qed
    have "duration_body u = (if v div 60 > 0 then if hours > 0 then nat_string hours @ ''h'' @ nat_string mins @ ''m'' @ ?out
        else nat_string mins @ ''m'' @ ?out else ?out)"
      using False by (simp add: duration_body_def ff Let_def secs_def mins_def hours_def)
    with hours m0 s0 show ?thesis by simp
  qed
qed

lemma duration_body_ends: "last (duration_body u) = CHR ''s''"
  by (simp add: duration_body_def Let_def case_prod_beta micro_s_def)

lemma duration_body_starts: "next_term (duration_body u) \<and> duration_body u \<noteq> []"
  by (auto simp: duration_body_def Let_def case_prod_beta)

section \<open>Properties\<close>

text \<open>
  C38: Reading the text of a duration gives the duration back, for every \<open>i64\<close> of nanoseconds, the least
  one included.
\<close>

theorem parse_duration_string:
  assumes "is_i64 d"
  shows "parse_duration (duration_string d) = Inr d"
proof (cases "d = 0")
  case False
  let ?u = "nat \<bar>d\<bar>"
  have u: "?u \<le> 2 ^ 63" "d > 0 \<Longrightarrow> ?u \<le> 2 ^ 63 - 1" using assms by (auto simp: is_i64_def i64_min_def i64_max_def)
  have ne: "duration_body ?u \<noteq> ''0''" using duration_body_ends [of ?u] by (cases "duration_body ?u = ''0''") simp_all
  obtain c cs where b: "duration_body ?u = c # cs" using duration_body_starts [of ?u] by (cases "duration_body ?u") auto
  then have c: "c \<noteq> CHR ''-''" "c \<noteq> CHR ''+''"
    using duration_body_starts [of ?u] by (auto simp: next_term_def is_ascii_digit_def)
  have loop: "duration_loop input 0 (c # cs) = Inr ?u" for input
    using duration_body_loop [OF u(1)] b by simp
  show ?thesis
  proof (cases "d < 0")
    case True
    with False ne b loop show ?thesis by (simp add: duration_string_def parse_duration_def Let_def)
  next
    case nonneg: False
    with False u(2) c ne b loop show ?thesis by (simp add: duration_string_def parse_duration_def Let_def)
  qed
qed (simp add: duration_string_def, code_simp)

theorem parse_duration_string_witness: "parse_duration (duration_string (- 5400000001500)) = Inr (- 5400000001500)"
  by (rule parse_duration_string) code_simp




end
