(* ===== verification/Config_Model.thy ===== *)
theory Config_Model
  imports Go_Time Go_Strings
begin

text \<open>
  The configuration model of \<open>mr-config/src/config/model.rs\<close>: one record per struct, fields in the order
  of the source. A \<open>List<T>\<close> is nil or a list; a \<open>BTreeMap\<close> is its entries in the order of the keys; an
  \<open>i64\<close> is an integer.
\<close>

type_synonym 'a glist = "'a list option"

definition items :: "'a glist \<Rightarrow> 'a list" where
  "items l = (case l of None \<Rightarrow> [] | Some xs \<Rightarrow> xs)"

lemma items_simps [simp]: "items None = []" "items (Some xs) = xs"
  by (simp_all add: items_def)

record wireguard_peer =
  wp_id :: string
  wp_name :: string
  wp_public_key :: string
  wp_preshared_key :: string
  wp_allowed_ips :: "string glist"
  wp_endpoint :: string
  wp_enabled :: bool

record wireguard_config =
  wg_enabled :: bool
  wg_interface :: string
  wg_private_key :: string
  wg_listen_port :: int
  wg_address :: string
  wg_peers :: "wireguard_peer glist"

record wg_client_config =
  wc_enabled :: bool
  wc_interface :: string
  wc_private_key :: string
  wc_address :: string
  wc_public_key :: string
  wc_preshared_key :: string
  wc_endpoint :: string
  wc_allowed_ips :: "string glist"
  wc_persistent_keepalive :: int

record cloudflare_config =
  cf_ddns_enabled :: bool
  cf_ddns_provider :: string
  cf_ddns_user :: string
  cf_api_token :: string
  cf_zone_id :: string
  cf_zone_name :: string
  cf_domain :: string
  cf_tunnel_enabled :: bool
  cf_tunnel_hostname :: string
  cf_tunnel_token :: string

record wifi_config =
  wf_enabled :: bool
  wf_interface :: string
  wf_ssid :: string
  wf_passphrase :: string
  wf_band :: string
  wf_channel :: int
  wf_hide_ssid :: bool

definition WIFI_BRIDGE_INTERFACE :: string where
  "WIFI_BRIDGE_INTERFACE = ''br-lan''"

record qos_config =
  qos_enabled :: bool
  qos_algorithm :: string
  qos_download_limit_mbps :: int
  qos_upload_limit_mbps :: int

record access_window =
  aw_start :: string
  aw_end :: string

record weekly_access_schedule =
  ws_day_windows :: "(string \<times> access_window glist) list"
  ws_weekday_windows :: "access_window glist"
  ws_weekend_mode :: string
  ws_weekend_windows :: "access_window glist"

record device_profile =
  dp_id :: string
  dp_name :: string
  dp_ip_addresses :: "string glist"
  dp_services :: "string glist"
  dp_schedule :: weekly_access_schedule
  dp_enabled :: bool

record filter_device_rule =
  fd_id :: string
  fd_hostname :: string
  fd_ip_address :: string
  fd_blocked_services :: "string glist"
  fd_enabled :: bool

record dns_filter_config =
  df_enabled :: bool
  df_blocklist_url :: string
  df_last_updated :: string
  df_filter_devices :: "filter_device_rule glist"
  df_device_profiles :: "device_profile glist"

record restricted_ip_item =
  ri_hostname :: string
  ri_ip_address :: string
  ri_enabled :: bool

record squid_proxy_config =
  sq_enabled :: bool
  sq_port :: int
  sq_username :: string
  sq_password :: string
  sq_restricted_ips :: "restricted_ip_item glist"

record system_settings =
  sys_hostname :: string
  sys_domain :: string
  sys_https_enabled :: bool
  sys_https_port :: int
  sys_management_access :: string

record wan_settings =
  wan_interface :: string
  wan_enabled :: bool
  wan_username :: string
  wan_password :: string
  wan_mtu :: int

record lan_settings =
  lan_interface :: string
  lan_ip_address :: string
  lan_netmask :: string
  lan_cidr :: string

record static_lease =
  sl_id :: string
  sl_hostname :: string
  sl_mac :: string
  sl_ip_address :: string

record dhcp_settings =
  dhcp_enabled :: bool
  dhcp_dns_enabled :: bool
  dhcp_range_start :: string
  dhcp_range_end :: string
  dhcp_lease_time :: string
  dhcp_dns_servers :: "string glist"
  dhcp_static_leases :: "static_lease glist"

record dns_record =
  dr_name :: string
  dr_ip :: string

record dns_settings =
  dns_records :: "dns_record glist"

record extra_lan_config =
  xl_id :: string
  xl_name :: string
  xl_interface :: string
  xl_cidr :: string
  xl_router_address :: string
  xl_dst_ip :: string
  xl_dst_port :: int
  xl_protocol :: string
  xl_allow_from :: "string glist"
  xl_enabled :: bool

record port_forward_rule =
  pf_id :: string
  pf_name :: string
  pf_protocol :: string
  pf_external_port :: int
  pf_internal_ip :: string
  pf_internal_port :: int
  pf_enabled :: bool

record firewall_rule =
  fr_id :: string
  fr_name :: string
  fr_action :: string
  fr_direction :: string
  fr_protocol :: string
  fr_src_ip :: string
  fr_dst_port :: int
  fr_enabled :: bool
  fr_scope :: string
  fr_preset_id :: string

record firewall_config =
  fw_default_wan_input_policy :: string
  fw_wan_ingress_mode :: string
  fw_stateful_firewall :: bool
  fw_port_forwards :: "port_forward_rule glist"
  fw_custom_rules :: "firewall_rule glist"
  fw_extra_lans :: "extra_lan_config glist"

record accounting_config =
  acc_enabled :: bool
  acc_retention_months :: int

record system_config =
  revision :: u64
  updated_at :: time
  system :: system_settings
  wan :: wan_settings
  lan :: lan_settings
  dhcp :: dhcp_settings
  dns :: dns_settings
  firewall :: firewall_config
  wireguard :: wireguard_config
  wg_client :: wg_client_config
  cloudflare :: cloudflare_config
  squid_proxy :: squid_proxy_config
  adguard :: dns_filter_config
  qos :: qos_config
  wifi :: wifi_config
  accounting :: accounting_config
  trusted_networks :: "string glist"

definition runtime_lan_interface :: "system_config \<Rightarrow> string" where
  "runtime_lan_interface c = (if wf_enabled (wifi c) then WIFI_BRIDGE_INTERFACE else lan_interface (lan c))"

text \<open>The default configuration, at the time \<open>now\<close>.\<close>

definition default_config :: "time \<Rightarrow> system_config" where
  "default_config now = \<lparr>
     revision = 1,
     updated_at = now,
     system = \<lparr>sys_hostname = ''minimalrouter'', sys_domain = ''lan'', sys_https_enabled = True,
       sys_https_port = 8443, sys_management_access = ''lan_and_wireguard''\<rparr>,
     wan = \<lparr>wan_interface = ''eth0'', wan_enabled = False, wan_username = [], wan_password = [], wan_mtu = 1492\<rparr>,
     lan = \<lparr>lan_interface = ''eth1'', lan_ip_address = ''192.168.1.1'', lan_netmask = ''255.255.255.0'',
       lan_cidr = ''192.168.1.1/24''\<rparr>,
     dhcp = \<lparr>dhcp_enabled = True, dhcp_dns_enabled = False, dhcp_range_start = ''192.168.1.100'',
       dhcp_range_end = ''192.168.1.200'', dhcp_lease_time = ''12h'',
       dhcp_dns_servers = Some [''1.1.1.1'', ''1.0.0.1''], dhcp_static_leases = Some []\<rparr>,
     dns = \<lparr>dns_records = None\<rparr>,
     firewall = \<lparr>fw_default_wan_input_policy = ''deny'', fw_wan_ingress_mode = ''wireguard_only'',
       fw_stateful_firewall = True, fw_port_forwards = Some [], fw_custom_rules = Some [], fw_extra_lans = None\<rparr>,
     wireguard = \<lparr>wg_enabled = False, wg_interface = ''wg0'', wg_private_key = [], wg_listen_port = 51820,
       wg_address = ''10.8.0.1/24'', wg_peers = Some []\<rparr>,
     wg_client = \<lparr>wc_enabled = False, wc_interface = ''wg1'', wc_private_key = [], wc_address = [],
       wc_public_key = [], wc_preshared_key = [], wc_endpoint = [], wc_allowed_ips = Some [],
       wc_persistent_keepalive = 25\<rparr>,
     cloudflare = \<lparr>cf_ddns_enabled = False, cf_ddns_provider = ''noip'', cf_ddns_user = [], cf_api_token = [],
       cf_zone_id = [], cf_zone_name = [], cf_domain = [], cf_tunnel_enabled = False, cf_tunnel_hostname = [],
       cf_tunnel_token = []\<rparr>,
     squid_proxy = \<lparr>sq_enabled = False, sq_port = 3128, sq_username = ''proxyadmin'', sq_password = [],
       sq_restricted_ips = Some []\<rparr>,
     adguard = \<lparr>df_enabled = False, df_blocklist_url = [], df_last_updated = ''Never'',
       df_filter_devices = Some [], df_device_profiles = Some []\<rparr>,
     qos = \<lparr>qos_enabled = False, qos_algorithm = ''cake'', qos_download_limit_mbps = 100,
       qos_upload_limit_mbps = 20\<rparr>,
     wifi = \<lparr>wf_enabled = False, wf_interface = ''wlan0'', wf_ssid = ''MinimalRouter-Home'', wf_passphrase = [],
       wf_band = ''5ghz'', wf_channel = 36, wf_hide_ssid = False\<rparr>,
     accounting = \<lparr>acc_enabled = False, acc_retention_months = 13\<rparr>,
     trusted_networks = Some [''192.168.1.0/24'']\<rparr>"

end
