(* ===== verification/Net_Addr.thy ===== *)
theory Net_Addr
  imports Prelude
begin

text \<open>
  \<open>mr-core/src/goish/net.rs\<close>, the IP addresses: their classification, printer and parser, with
  Go's rules. The Rust standard library's IPv6 reader and printer, which the file calls, are
  modelled first. The lemmas give the printer and the parser as inverses of each other.
\<close>

section \<open>The standard library's address reader and printer\<close>

text \<open>
  \<open>core::net::parser\<close>: every reader either consumes a prefix of the input and returns a value with
  the rest, or fails and consumes nothing (\<open>read_atomically\<close>), so a reader is a partial function
  from the input to a value and the rest.
\<close>

fun read_digits :: "nat \<Rightarrow> string \<Rightarrow> nat list \<times> string" where
  "read_digits radix [] = ([], [])"
| "read_digits radix (c # cs) =
     (case to_digit radix c of
        None \<Rightarrow> ([], c # cs)
      | Some d \<Rightarrow> (let (ds, r) = read_digits radix cs in (d # ds, r)))"

definition digits_nat :: "nat \<Rightarrow> nat list \<Rightarrow> nat" where
  "digits_nat radix ds = foldl (\<lambda>a d. a * radix + d) 0 ds"

definition read_number :: "nat \<Rightarrow> nat \<Rightarrow> bool \<Rightarrow> nat \<Rightarrow> string \<Rightarrow> (nat \<times> string) option" where
  "read_number radix max_digits allow_zero_prefix limit s =
     (let (ds, r) = read_digits radix s
      in if length ds > max_digits then None
         else if ds = [] then None
         else if \<not> allow_zero_prefix \<and> hd ds = 0 \<and> length ds > 1 then None
         else if digits_nat radix ds \<ge> limit then None
         else Some (digits_nat radix ds, r))"

definition read_given_char :: "char \<Rightarrow> string \<Rightarrow> string option" where
  "read_given_char c s = (case s of [] \<Rightarrow> None | x # r \<Rightarrow> if x = c then Some r else None)"

definition read_separator ::
  "char \<Rightarrow> nat \<Rightarrow> (string \<Rightarrow> ('a \<times> string) option) \<Rightarrow> string \<Rightarrow> ('a \<times> string) option" where
  "read_separator sep index inner s =
     (if index > 0 then
        (case read_given_char sep s of None \<Rightarrow> None | Some r \<Rightarrow> inner r)
      else inner s)"

definition read_v4_octet :: "nat \<Rightarrow> string \<Rightarrow> (nat \<times> string) option" where
  "read_v4_octet i = read_separator (CHR ''.'') i (read_number 10 3 False 256)"

definition read_ipv4_addr :: "string \<Rightarrow> (u8 list \<times> string) option" where
  "read_ipv4_addr s =
     (case read_v4_octet 0 s of None \<Rightarrow> None | Some (a, r1) \<Rightarrow>
      case read_v4_octet 1 r1 of None \<Rightarrow> None | Some (b, r2) \<Rightarrow>
      case read_v4_octet 2 r2 of None \<Rightarrow> None | Some (c, r3) \<Rightarrow>
      case read_v4_octet 3 r3 of None \<Rightarrow> None | Some (d, r4) \<Rightarrow>
      Some ([of_nat a, of_nat b, of_nat c, of_nat d], r4))"

text \<open>
  \<open>read_groups\<close>: the groups (each two bytes) read so far are returned with the flag for a trailing
  embedded IPv4 address; \<open>left\<close> is the number of group slots still free.
\<close>

fun read_groups :: "nat \<Rightarrow> nat \<Rightarrow> string \<Rightarrow> u8 list list \<times> bool \<times> string" where
  "read_groups i 0 s = ([], False, s)"
| "read_groups i (Suc left) s =
     (case (if left > 0 then read_separator (CHR '':'') i read_ipv4_addr s else None) of
        Some (v4, r) \<Rightarrow> ([take 2 v4, drop 2 v4], True, r)
      | None \<Rightarrow>
         (case read_separator (CHR '':'') i (read_number 16 4 True 65536) s of
            None \<Rightarrow> ([], False, s)
          | Some (g, r) \<Rightarrow>
              (let (gs, v4, r') = read_groups (Suc i) left r
               in ([of_nat (g div 256), of_nat (g mod 256)] # gs, v4, r'))))"

definition read_ipv6_addr :: "string \<Rightarrow> (u8 list \<times> string) option" where
  "read_ipv6_addr s =
     (let (head, head_ipv4, r) = read_groups 0 8 s
      in if length head = 8 then Some (concat head, r)
         else if head_ipv4 then None
         else (case read_given_char (CHR '':'') r of None \<Rightarrow> None | Some r1 \<Rightarrow>
               case read_given_char (CHR '':'') r1 of None \<Rightarrow> None | Some r2 \<Rightarrow>
                 (let (tail, _, r3) = read_groups 0 (8 - (length head + 1)) r2
                  in Some (concat (head @ replicate (8 - length head - length tail) [0, 0] @ tail), r3))))"

definition parse_ipv6 :: "string \<Rightarrow> u8 list option" where
  "parse_ipv6 s = (case read_ipv6_addr s of Some (b, []) \<Rightarrow> Some b | _ \<Rightarrow> None)"

definition ipv4_string :: "u8 list \<Rightarrow> string" where
  "ipv4_string b = join ''.'' (map (\<lambda>x. nat_string (unat x)) b)"

fun hex_string :: "nat \<Rightarrow> string" where
  "hex_string n =
     (if n < 16 then [digit_char n] else hex_string (n div 16) @ [digit_char (n mod 16)])"

declare hex_string.simps [simp del]

definition hex_byte :: "u8 \<Rightarrow> string" where
  "hex_byte b = [digit_char (unat b div 16), digit_char (unat b mod 16)]"

fun segments :: "u8 list \<Rightarrow> nat list" where
  "segments (a # b # r) = (unat a * 256 + unat b) # segments r"
| "segments r = []"

text \<open>The longest run of zero segments as (start, length); the first one wins a tie.\<close>

fun zero_span :: "nat \<Rightarrow> nat \<times> nat \<Rightarrow> nat \<times> nat \<Rightarrow> nat list \<Rightarrow> nat \<times> nat" where
  "zero_span i longest cur [] = longest"
| "zero_span i longest cur (s # ss) =
     (if s = 0 then
        (let cur' = (if snd cur = 0 then (i, 1) else (fst cur, snd cur + 1));
             longest' = (if snd cur' > snd longest then cur' else longest)
         in zero_span (Suc i) longest' cur' ss)
      else zero_span (Suc i) longest (0, 0) ss)"

definition ipv6_string :: "u8 list \<Rightarrow> string" where
  "ipv6_string b =
     (let segs = segments b; hexes = map hex_string segs; (start, len) = zero_span 0 (0, 0) (0, 0) segs
      in if take 12 b = replicate 10 0 @ [0xff, 0xff] then ''::ffff:'' @ ipv4_string (drop 12 b)
         else if len > 1 then
           join '':'' (take start hexes) @ ''::'' @ join '':'' (drop (start + len) hexes)
         else join '':'' hexes)"

section \<open>IP addresses\<close>

text \<open>A Go \<open>net.IP\<close>: 4 or 16 bytes, but the type admits any byte vector, as the Rust newtype does.\<close>

datatype ip = IP (ip_bytes: "u8 list")

definition V4_IN_V6_PREFIX :: "u8 list" where
  "V4_IN_V6_PREFIX = replicate 10 0 @ [0xff, 0xff]"

definition ip_v4 :: "u8 \<Rightarrow> u8 \<Rightarrow> u8 \<Rightarrow> u8 \<Rightarrow> ip" where
  "ip_v4 a b c d = IP (V4_IN_V6_PREFIX @ [a, b, c, d])"

definition ip_len :: "ip \<Rightarrow> nat" where
  "ip_len x = length (ip_bytes x)"

definition to4 :: "ip \<Rightarrow> ip option" where
  "to4 x = (if ip_len x = 4 then Some x
            else if ip_len x = 16 \<and> take 12 (ip_bytes x) = V4_IN_V6_PREFIX
            then Some (IP (drop 12 (ip_bytes x)))
            else None)"

definition to4_array :: "ip \<Rightarrow> u8 list option" where
  "to4_array x = map_option (\<lambda>v. [ip_bytes v ! 0, ip_bytes v ! 1, ip_bytes v ! 2, ip_bytes v ! 3]) (to4 x)"

definition to16 :: "ip \<Rightarrow> ip option" where
  "to16 x = (if ip_len x = 4 then Some (IP (V4_IN_V6_PREFIX @ ip_bytes x))
             else if ip_len x = 16 then Some x
             else None)"

definition ip_equal :: "ip \<Rightarrow> ip \<Rightarrow> bool" where
  "ip_equal x y =
     (let a = ip_bytes x; b = ip_bytes y
      in if length a = length b then a = b
         else if length a = 4 \<and> length b = 16 then take 12 b = V4_IN_V6_PREFIX \<and> a = drop 12 b
         else if length a = 16 \<and> length b = 4 then take 12 a = V4_IN_V6_PREFIX \<and> drop 12 a = b
         else False)"

definition ip_equal_opt :: "ip \<Rightarrow> ip option \<Rightarrow> bool" where
  "ip_equal_opt x other = (case other of None \<Rightarrow> False | Some y \<Rightarrow> ip_equal x y)"

definition is_unspecified :: "ip \<Rightarrow> bool" where
  "is_unspecified x = (ip_equal x (ip_v4 0 0 0 0) \<or> ip_equal x (IP (replicate 16 0)))"

definition is_loopback :: "ip \<Rightarrow> bool" where
  "is_loopback x = (case to4 x of
      Some v4 \<Rightarrow> ip_bytes v4 ! 0 = 127
    | None \<Rightarrow> ip_equal x (IP (replicate 15 0 @ [1])))"

definition is_multicast :: "ip \<Rightarrow> bool" where
  "is_multicast x = (case to4 x of
      Some v4 \<Rightarrow> ip_bytes v4 ! 0 AND 0xf0 = 0xe0
    | None \<Rightarrow> ip_len x = 16 \<and> ip_bytes x ! 0 = 0xff)"

definition is_private :: "ip \<Rightarrow> bool" where
  "is_private x = (case to4 x of
      Some v4 \<Rightarrow> (let b = ip_bytes v4
                  in b ! 0 = 10 \<or> (b ! 0 = 172 \<and> b ! 1 AND 0xf0 = 16) \<or> (b ! 0 = 192 \<and> b ! 1 = 168))
    | None \<Rightarrow> ip_len x = 16 \<and> ip_bytes x ! 0 AND 0xfe = 0xfc)"

definition is_link_local_unicast :: "ip \<Rightarrow> bool" where
  "is_link_local_unicast x = (case to4 x of
      Some v4 \<Rightarrow> ip_bytes v4 ! 0 = 169 \<and> ip_bytes v4 ! 1 = 254
    | None \<Rightarrow> ip_len x = 16 \<and> ip_bytes x ! 0 = 0xfe \<and> ip_bytes x ! 1 AND 0xc0 = 0x80)"

definition is_global_unicast :: "ip \<Rightarrow> bool" where
  "is_global_unicast x =
     ((ip_len x = 4 \<or> ip_len x = 16)
      \<and> \<not> ip_equal x (ip_v4 255 255 255 255)
      \<and> \<not> is_unspecified x
      \<and> \<not> is_loopback x
      \<and> \<not> is_multicast x
      \<and> \<not> is_link_local_unicast x)"

definition ip_string :: "ip \<Rightarrow> string" where
  "ip_string x =
     (if ip_bytes x = [] then ''<nil>''
      else (case to4_array x of
              Some v4 \<Rightarrow> ipv4_string v4
            | None \<Rightarrow>
                if ip_len x \<noteq> 16 then ''?'' @ concat (map hex_byte (ip_bytes x))
                else ipv6_string (ip_bytes x)))"

text \<open>Go's dotted-decimal reader: the loop over the pieces fills \<open>out\<close>.\<close>

definition v4_part :: "string \<Rightarrow> u8 option" where
  "v4_part part =
     (if part = [] \<or> length part > 3 \<or> \<not> list_all is_ascii_digit part then None
      else if length part > 1 \<and> hd part = CHR ''0'' then None
      else (case digits_value 10 0 part of
              None \<Rightarrow> None
            | Some n \<Rightarrow> if n > 255 then None else Some (of_nat n)))"

fun parse_v4_parts :: "u8 list \<Rightarrow> string list \<Rightarrow> u8 list option" where
  "parse_v4_parts out [] = (if length out \<noteq> 4 then None else Some out)"
| "parse_v4_parts out (p # ps) =
     (if length out = 4 then None
      else (case v4_part p of None \<Rightarrow> None | Some b \<Rightarrow> parse_v4_parts (out @ [b]) ps))"

definition parse_ipv4_strict :: "string \<Rightarrow> u8 list option" where
  "parse_ipv4_strict s = parse_v4_parts [] (split_char (CHR ''.'') s)"

definition parse_ip :: "string \<Rightarrow> ip option" where
  "parse_ip s =
     (if CHR ''%'' \<in> set s then None
      else (case parse_ipv4_strict s of
              Some o4 \<Rightarrow> Some (ip_v4 (o4 ! 0) (o4 ! 1) (o4 ! 2) (o4 ! 3))
            | None \<Rightarrow> if CHR '':'' \<in> set s then map_option IP (parse_ipv6 s) else None))"

definition parse_ipv4 :: "string \<Rightarrow> ip option" where
  "parse_ipv4 s = Option.bind (parse_ip s) to4"

section \<open>Dotted-decimal addresses\<close>

lemma v4_part_nat_string: "v4_part (nat_string (unat (b :: u8))) = Some b"
proof -
  have lt: "unat b < 256" by (rule unat_u8)
  then have len: "length (nat_string (unat b)) \<le> 3" using length_nat_string_le [of "unat b" 3] by simp
  have dig: "list_all is_ascii_digit (nat_string (unat b))" by (simp add: list_all_iff)
  show ?thesis
    using lt len dig nat_string_no_leading_zero [of "unat b"]
    by (auto simp: v4_part_def digits_value_nat_string)
qed

lemma v4_partD:
  assumes "v4_part p = Some b"
  shows "p = nat_string (unat b)"
proof -
  from assms have p: "p \<noteq> []" "list_all is_ascii_digit p" "1 < length p \<longrightarrow> hd p \<noteq> CHR ''0''"
    by (auto simp: v4_part_def split: if_splits)
  then obtain n where n: "p = nat_string n" using nat_string_surj by blast
  from assms have "n \<le> 255" "b = of_nat n"
    by (auto simp: v4_part_def n digits_value_nat_string split: if_splits)
  then show ?thesis by (simp add: n unat_of_nat)
qed

lemma v4_part_iff: "v4_part p = Some b \<longleftrightarrow> p = nat_string (unat b)"
  using v4_partD v4_part_nat_string by blast

lemma parse_v4_parts_iff:
  "length out \<le> 4 \<Longrightarrow>
   parse_v4_parts out ps = Some r \<longleftrightarrow>
     (length r = 4 \<and> (\<exists>bs. r = out @ bs \<and> ps = map (\<lambda>x. nat_string (unat x)) bs))"
proof (induction ps arbitrary: out)
  case (Cons p ps)
  show ?case
  proof (cases "length out = 4")
    case True
    then show ?thesis by auto
  next
    case False
    with Cons.prems have le: "length (out @ [b]) \<le> 4" for b by simp
    have "parse_v4_parts out (p # ps) = Some r
        \<longleftrightarrow> (\<exists>b. v4_part p = Some b \<and> parse_v4_parts (out @ [b]) ps = Some r)"
      using False by (simp split: option.splits)
    also have "\<dots> \<longleftrightarrow> (\<exists>b. p = nat_string (unat b) \<and> length r = 4
        \<and> (\<exists>bs. r = out @ b # bs \<and> ps = map (\<lambda>x. nat_string (unat x)) bs))"
      using Cons.IH [OF le] by (simp add: v4_part_iff)
    also have "\<dots> \<longleftrightarrow> length r = 4
        \<and> (\<exists>bs. r = out @ bs \<and> p # ps = map (\<lambda>x. nat_string (unat x)) bs)"
      by (auto simp: Cons_eq_map_conv)
    finally show ?thesis .
  qed
qed auto

lemma nat_string_not_mem: "\<not> is_ascii_digit c \<Longrightarrow> c \<notin> set (nat_string n)"
  using nat_string_digits by blast

lemma dot_not_digit [simp]: "\<not> is_ascii_digit (CHR ''.'')" "\<not> is_ascii_digit (CHR '':'')"
  "\<not> is_ascii_digit (CHR ''%'')" "\<not> is_ascii_digit (CHR ''/'')"
  by code_simp+

lemma parse_ipv4_strict_iff:
  "parse_ipv4_strict s = Some b \<longleftrightarrow> length b = 4 \<and> s = ipv4_string b"
proof -
  have "parse_ipv4_strict s = Some b
      \<longleftrightarrow> length b = 4 \<and> split_char (CHR ''.'') s = map (\<lambda>x. nat_string (unat x)) b"
    by (auto simp: parse_ipv4_strict_def parse_v4_parts_iff)
  also have "\<dots> \<longleftrightarrow> length b = 4 \<and> s = ipv4_string b"
  proof -
    have "length b = 4 \<Longrightarrow> split_char (CHR ''.'') (ipv4_string b) = map (\<lambda>x. nat_string (unat x)) b"
      unfolding ipv4_string_def by (rule split_char_join) (auto simp: nat_string_not_mem)
    then show ?thesis by (metis ipv4_string_def join_split_char)
  qed
  finally show ?thesis .
qed

lemma parse_ipv4_strict_string [simp]:
  "length b = 4 \<Longrightarrow> parse_ipv4_strict (ipv4_string b) = Some b"
  by (simp add: parse_ipv4_strict_iff)

lemma set_join: "set (join sep ps) \<subseteq> set sep \<union> (\<Union>p\<in>set ps. set p)"
  by (induction sep ps rule: join.induct) auto

lemma set_ipv4_string: "set (ipv4_string b) \<subseteq> {c. c = CHR ''.'' \<or> is_ascii_digit c}"
  unfolding ipv4_string_def using set_join by fastforce

lemma ipv4_string_no_colon [simp]: "CHR '':'' \<notin> set (ipv4_string b)" "CHR ''%'' \<notin> set (ipv4_string b)"
  "CHR ''/'' \<notin> set (ipv4_string b)"
  using set_ipv4_string [of b] dot_not_digit by auto

lemma parse_ipv4_strict_colon [simp]: "CHR '':'' \<in> set s \<Longrightarrow> parse_ipv4_strict s = None"
  by (metis ipv4_string_no_colon(1) not_None_eq parse_ipv4_strict_iff)

lemma length4E:
  assumes "length b = 4"
  obtains w x y z where "b = [w, x, y, z]"
  using assms by (auto simp: numeral_eq_Suc length_Suc_conv)

lemma parse_ip_ipv4_string:
  "length b = 4 \<Longrightarrow> parse_ip (ipv4_string b) = Some (IP (V4_IN_V6_PREFIX @ b))"
  by (erule length4E) (simp add: parse_ip_def ip_v4_def)

section \<open>Reading rear a printed IPv6 address\<close>

text \<open>
  A group is printed in hexadecimal without leading zeros; the reader accepts up to four digits.
\<close>

abbreviation stops :: "nat \<Rightarrow> string \<Rightarrow> bool" where
  "stops radix r \<equiv> r = [] \<or> to_digit radix (hd r) = None"

lemma read_digits_append:
  assumes "\<forall>c\<in>set p. to_digit radix c \<noteq> None" and "stops radix r"
  shows "read_digits radix (p @ r) = (map (the \<circ> to_digit radix) p, r)"
  using assms by (induction p) (cases r; auto)+

lemma read_digits_suffix: "read_digits radix s = (ds, r) \<Longrightarrow> set r \<subseteq> set s"
  by (induction s arbitrary: ds r) (fastforce split: option.splits prod.splits)+

lemma hex_string_digits: "c \<in> set (hex_string n) \<Longrightarrow> to_digit 16 c \<noteq> None"
proof (induction n rule: hex_string.induct)
  case (1 n)
  then show ?case by (cases "n < 16") (auto simp: hex_string.simps [of n])
qed

lemma hex_string_value: "digits_nat 16 (map (the \<circ> to_digit 16) (hex_string n)) = n"
proof (induction n rule: hex_string.induct)
  case (1 n)
  then show ?case
    by (cases "n < 16") (auto simp: hex_string.simps [of n] digits_nat_def)
qed

lemma hex_string_not_Nil [simp]: "hex_string n \<noteq> []"
  by (subst hex_string.simps) simp

lemma length_hex_string_le: "n < 16 ^ k \<Longrightarrow> 0 < k \<Longrightarrow> length (hex_string n) \<le> k"
proof (induction n arbitrary: k rule: hex_string.induct)
  case (1 n)
  show ?case
  proof (cases "n < 16")
    case True
    with "1.prems" show ?thesis by (simp add: hex_string.simps)
  next
    case False
    with "1.prems" have "k \<noteq> 1" by auto
    with "1.prems"(2) obtain j where j: "k = Suc j" "0 < j"
      by (cases k) auto
    from "1.prems"(1) j have "n div 16 < 16 ^ j"
      by (simp add: less_mult_imp_div_less mult.commute)
    from "1.IH" [OF False this j(2)] False j show ?thesis
      by (simp add: hex_string.simps [of n])
  qed
qed

lemma read_number_hex:
  assumes "g < 65536" and "stops 16 r"
  shows "read_number 16 4 True 65536 (hex_string g @ r) = Some (g, r)"
proof -
  have "read_digits 16 (hex_string g @ r) = (map (the \<circ> to_digit 16) (hex_string g), r)"
    using hex_string_digits assms(2) by (intro read_digits_append) auto
  moreover have "length (hex_string g) \<le> 4"
    using length_hex_string_le [of g 4] assms(1) by simp
  ultimately show ?thesis
    using assms(1) by (simp add: read_number_def hex_string_value)
qed

lemma to_digit_colon [simp]: "to_digit 16 (CHR '':'') = None" "to_digit 16 (CHR ''.'') = None"
  "to_digit 16 (CHR ''%'') = None" "to_digit 16 (CHR ''/'') = None"
  by code_simp+

lemma read_number_stop [simp]:
  "read_number radix m z l [] = None"
  "to_digit radix c = None \<Longrightarrow> read_number radix m z l (c # r) = None"
  by (simp_all add: read_number_def)

lemma read_number_suffix: "read_number radix m z l s = Some (n, r) \<Longrightarrow> set r \<subseteq> set s"
  using read_digits_suffix by (fastforce simp: read_number_def split: prod.splits if_splits)

lemma read_ipv4_addr_no_dot:
  assumes "CHR ''.'' \<notin> set s"
  shows "read_ipv4_addr s = None"
proof (cases "read_v4_octet 0 s")
  case (Some p)
  obtain a r where p: "p = (a, r)" by (cases p)
  with Some assms have "CHR ''.'' \<notin> set r"
    using read_number_suffix by (fastforce simp: read_v4_octet_def read_separator_def)
  then have "read_v4_octet 1 r = None"
    by (cases r) (auto simp: read_v4_octet_def read_separator_def read_given_char_def)
  with Some p show ?thesis by (simp add: read_ipv4_addr_def)
qed (simp add: read_ipv4_addr_def)

lemma read_separator_no_dot:
  assumes "CHR ''.'' \<notin> set s"
  shows "read_separator (CHR '':'') i read_ipv4_addr s = None"
proof (cases s)
  case (Cons c r)
  with assms read_ipv4_addr_no_dot [of r] read_ipv4_addr_no_dot [of s] show ?thesis
    by (simp add: read_separator_def read_given_char_def)
qed (simp add: read_separator_def read_given_char_def read_ipv4_addr_no_dot)

text \<open>
  \<open>groups_text i gs\<close> is the text of the groups when \<open>i\<close> groups came before them. What follows the
  groups is the end of the text or the \<open>::\<close> of a run of zeros, and in both cases the reader stops.
\<close>

definition groups_text :: "nat \<Rightarrow> nat list \<Rightarrow> string" where
  "groups_text i gs =
     (if i > 0 then concat (map (\<lambda>g. CHR '':'' # hex_string g) gs) else join '':'' (map hex_string gs))"

abbreviation group_bytes :: "nat \<Rightarrow> u8 list" where
  "group_bytes g \<equiv> [of_nat (g div 256), of_nat (g mod 256)]"

abbreviation groups_end :: "string \<Rightarrow> bool" where
  "groups_end r \<equiv> r = [] \<or> (\<exists>t. r = CHR '':'' # CHR '':'' # t)"

lemma join_Cons_concat: "join sep (p # ps) = p @ concat (map (\<lambda>q. sep @ q) ps)"
proof (induction ps arbitrary: p)
  case (Cons q qs)
  then show ?case by simp
qed simp

lemma groups_text_Cons:
  "groups_text i (g # gs) =
     (if i > 0 then '':'' else []) @ hex_string g @ groups_text (Suc i) gs"
  by (simp add: groups_text_def join_Cons_concat comp_def)

lemma groups_text_Nil [simp]: "groups_text i [] = []"
  by (simp add: groups_text_def)

lemma stops_groups: "groups_end r \<Longrightarrow> stops 16 (groups_text (Suc i) gs @ r)"
  by (cases gs) (auto simp: groups_text_def)

lemma read_groups_end:
  assumes "groups_end r" and "CHR ''.'' \<notin> set r"
  shows "read_groups i k r = ([], False, r)"
proof (cases k)
  case (Suc n)
  from assms(1) have "read_separator (CHR '':'') i (read_number 16 4 True 65536) r = None"
    by (auto simp: read_separator_def read_given_char_def)
  with Suc show ?thesis using read_separator_no_dot [OF assms(2), of i] by simp
qed simp

lemma read_groups_text:
  assumes "\<forall>g\<in>set gs. g < 65536" and "groups_end r" and "CHR ''.'' \<notin> set (groups_text i gs @ r)"
  shows "read_groups i (length gs + k) (groups_text i gs @ r) = (map group_bytes gs, False, r)"
  using assms
proof (induction gs arbitrary: i)
  case Nil
  then show ?case using read_groups_end by (simp add: groups_text_def)
next
  case (Cons g gs)
  let ?s = "groups_text i (g # gs) @ r" and ?t = "groups_text (Suc i) gs @ r"
  from Cons.prems have IH: "read_groups (Suc i) (length gs + k) ?t = (map group_bytes gs, False, r)"
    by (intro Cons.IH) (auto simp: groups_text_Cons)
  have num: "read_number 16 4 True 65536 (hex_string g @ ?t) = Some (g, ?t)"
    using Cons.prems stops_groups by (intro read_number_hex) auto
  have "read_separator (CHR '':'') i (read_number 16 4 True 65536) ?s = Some (g, ?t)"
    using num by (cases i) (simp_all add: groups_text_Cons read_separator_def read_given_char_def)
  with IH read_separator_no_dot [OF Cons.prems(3)] show ?case
    by (cases "length gs + k") (simp_all del: length_greater_0_conv)
qed

lemma zero_span_zeros:
  assumes "zero_span i longest cur ss = (st, ln)"
    and "length pre = i"
    and "\<forall>k < snd longest. fst longest + k < i \<and> pre ! (fst longest + k) = 0"
    and "snd cur > 0 \<longrightarrow> fst cur + snd cur = i"
    and "\<forall>k < snd cur. pre ! (fst cur + k) = 0"
  shows "\<forall>k < ln. st + k < i + length ss \<and> (pre @ ss) ! (st + k) = 0"
  using assms
proof (induction ss arbitrary: i longest cur pre)
  case (Cons s ss)
  define cur' where
    "cur' = (if s \<noteq> 0 then (0, 0) else if snd cur = 0 then (i, 1) else (fst cur, snd cur + 1))"
  define longest' where "longest' = (if snd cur' > snd longest then cur' else longest)"
  have step: "zero_span (Suc i) longest' cur' ss = (st, ln)"
    using Cons.prems(1) by (auto simp: cur'_def longest'_def Let_def split: if_splits)
  have cur1: "snd cur' > 0 \<longrightarrow> fst cur' + snd cur' = Suc i"
    using Cons.prems(4) by (auto simp: cur'_def)
  have cur2: "\<forall>k < snd cur'. (pre @ [s]) ! (fst cur' + k) = 0"
    using Cons.prems(2,4,5) by (auto simp: cur'_def nth_append less_Suc_eq)
  have "\<forall>k < snd longest'. fst longest' + k < Suc i \<and> (pre @ [s]) ! (fst longest' + k) = 0"
    using Cons.prems(2,3) cur1 cur2 by (auto simp: longest'_def nth_append less_Suc_eq)
  from Cons.IH [OF step _ this cur1 cur2] Cons.prems(2) show ?case by simp
qed simp

lemma zero_span_split:
  assumes "zero_span 0 (0, 0) (0, 0) gs = (st, ln)" and "0 < ln"
  shows "gs = take st gs @ replicate ln 0 @ drop (st + ln) gs" and "st + ln \<le> length gs"
proof -
  have z: "\<forall>k < ln. st + k < length gs \<and> gs ! (st + k) = 0"
    using zero_span_zeros [OF assms(1), of "[]"] by simp
  from z [rule_format, of "ln - 1"] assms(2) show le: "st + ln \<le> length gs" by linarith
  have "take ln (drop st gs) = replicate ln 0"
    using z le by (intro nth_equalityI) auto
  then show "gs = take st gs @ replicate ln 0 @ drop (st + ln) gs"
    by (metis add.commute append_take_drop_id drop_drop)
qed

lemma segments_lt: "g \<in> set (segments b) \<Longrightarrow> g < 65536"
proof (induction b rule: segments.induct)
  case (1 a b r)
  then show ?case using unat_u8 [of a] unat_u8 [of b] by auto
qed auto

lemma segments_bytes: "even (length b) \<Longrightarrow> concat (map group_bytes (segments b)) = b"
proof (induction b rule: segments.induct)
  case (1 a b r)
  then show ?case using unat_u8 [of b] by simp
qed auto

lemma length_segments: "length (segments b) = length b div 2"
  by (induction b rule: segments.induct) auto

lemma hex_text_no: "c \<in> set (groups_text i gs) \<Longrightarrow> c = CHR '':'' \<or> to_digit 16 c \<noteq> None"
  using hex_string_digits set_join [of "'':''" "map hex_string gs"]
  by (fastforce simp: groups_text_def split: if_splits)

lemma no_dot_groups_text: "CHR ''.'' \<notin> set (groups_text i gs)" "CHR ''%'' \<notin> set (groups_text i gs)"
  "CHR ''/'' \<notin> set (groups_text i gs)"
  using hex_text_no by force+

text \<open>The text of an address that is not IPv4-mapped, with and without a compressed run.\<close>

lemma ipv6_string_cases:
  assumes "length b = 16" and "take 12 b \<noteq> V4_IN_V6_PREFIX"
  obtains (full) "ipv6_string b = groups_text 0 (segments b)"
  | (run) front ln rear where "segments b = front @ replicate ln 0 @ rear" "1 < ln"
      "ipv6_string b = groups_text 0 front @ ''::'' @ groups_text 0 rear"
proof -
  obtain st ln where z: "zero_span 0 (0, 0) (0, 0) (segments b) = (st, ln)" by fastforce
  show thesis
  proof (cases "1 < ln")
    case True
    have "ipv6_string b = groups_text 0 (take st (segments b)) @ ''::''
        @ groups_text 0 (drop (st + ln) (segments b))"
      using assms True z
      by (simp add: ipv6_string_def V4_IN_V6_PREFIX_def groups_text_def take_map drop_map Let_def)
    with True show thesis by (intro run [OF zero_span_split(1) [OF z]]) simp_all
  next
    case False
    with assms z show thesis
      by (intro full) (simp add: ipv6_string_def V4_IN_V6_PREFIX_def groups_text_def)
  qed
qed

lemma parse_ipv6_full:
  assumes "length b = 16"
  shows "parse_ipv6 (groups_text 0 (segments b)) = Some b"
proof -
  have "read_groups 0 8 (groups_text 0 (segments b)) = (map group_bytes (segments b), False, [])"
    using read_groups_text [of "segments b" "[]" 0 0] assms segments_lt no_dot_groups_text
    by (simp add: length_segments)
  with assms show ?thesis
    by (simp add: parse_ipv6_def read_ipv6_addr_def length_segments segments_bytes)
qed

lemma parse_ipv6_run:
  assumes "length b = 16" and seg: "segments b = front @ replicate ln 0 @ rear" and "1 < ln"
  shows "parse_ipv6 (groups_text 0 front @ ''::'' @ groups_text 0 rear) = Some b"
proof -
  have len: "length front + ln + length rear = 8"
    using assms(1) arg_cong [OF seg, of length] by (simp add: length_segments)
  have lt: "\<forall>g\<in>set front. g < 65536" "\<forall>g\<in>set rear. g < 65536"
    using segments_lt [of _ b] seg by auto
  have h: "read_groups 0 8 (groups_text 0 front @ ''::'' @ groups_text 0 rear)
      = (map group_bytes front, False, ''::'' @ groups_text 0 rear)"
    using read_groups_text [OF lt(1), of "''::'' @ groups_text 0 rear" 0 "8 - length front"] len
      no_dot_groups_text by simp
  have k: "8 - (length front + 1) = length rear + (ln - 1)" using len assms(3) by linarith
  have t: "read_groups 0 (8 - (length front + 1)) (groups_text 0 rear) = (map group_bytes rear, False, [])"
    using read_groups_text [OF lt(2), of "[]" 0 "ln - 1"] k no_dot_groups_text by simp
  have run: "8 - length front - length rear = ln" using len by simp
  have "concat (map group_bytes front @ replicate ln [0, 0] @ map group_bytes rear) = b"
    using segments_bytes [of b] assms(1) seg by (simp add: map_replicate)
  then show ?thesis
    using h t run len assms(3)
    by (simp add: parse_ipv6_def read_ipv6_addr_def read_given_char_def)
qed

lemma parse_ipv6_string:
  assumes "length b = 16" and "take 12 b \<noteq> V4_IN_V6_PREFIX"
  shows "parse_ipv6 (ipv6_string b) = Some b"
  using assms
proof (cases b rule: ipv6_string_cases)
  case full
  then show ?thesis using parse_ipv6_full [OF assms(1)] by simp
next
  case (run front ln rear)
  then show ?thesis using parse_ipv6_run [OF assms(1)] by simp
qed

lemma groups_text_colon: "1 < length gs \<Longrightarrow> CHR '':'' \<in> set (groups_text 0 gs)"
  by (cases gs rule: remdups_adj.cases) (auto simp: groups_text_def)

lemma ipv6_string_chars:
  assumes "length b = 16" and "take 12 b \<noteq> V4_IN_V6_PREFIX"
  shows "CHR '':'' \<in> set (ipv6_string b) \<and> CHR ''%'' \<notin> set (ipv6_string b)
    \<and> CHR ''/'' \<notin> set (ipv6_string b)"
  using assms
proof (cases b rule: ipv6_string_cases)
  case full
  then show ?thesis
    using groups_text_colon [of "segments b"] no_dot_groups_text assms(1) by (simp add: length_segments)
next
  case (run front ln rear)
  then show ?thesis using no_dot_groups_text by simp
qed

section \<open>Addresses: forms, equality, round trip\<close>

abbreviation wf_ip :: "ip \<Rightarrow> bool" where
  "wf_ip x \<equiv> ip_len x = 4 \<or> ip_len x = 16"

definition short_form :: "ip \<Rightarrow> ip" where
  "short_form x = (case to4 x of Some y \<Rightarrow> y | None \<Rightarrow> x)"

lemma length_prefix [simp]: "length V4_IN_V6_PREFIX = 12"
  by (simp add: V4_IN_V6_PREFIX_def)

lemma to4_simps [simp]:
  "length b = 4 \<Longrightarrow> to4 (IP b) = Some (IP b)"
  "length b = 4 \<Longrightarrow> to4 (IP (V4_IN_V6_PREFIX @ b)) = Some (IP b)"
  "to4 (ip_v4 p q r s) = Some (IP [p, q, r, s])"
  by (simp_all add: to4_def ip_len_def ip_v4_def)

lemma to4_length: "to4 x = Some y \<Longrightarrow> length (ip_bytes y) = 4"
  by (auto simp: to4_def ip_len_def split: if_splits)

lemma to4_cases:
  assumes "to4 x = Some y"
  obtains b where "length b = 4" "y = IP b" "x = IP b \<or> x = IP (V4_IN_V6_PREFIX @ b)"
proof -
  obtain c where x: "x = IP c" by (cases x)
  show thesis
  proof (cases "length c = 4")
    case True
    with assms x that [of c] show thesis by simp
  next
    case False
    with assms x have c: "length c = 16" "take 12 c = V4_IN_V6_PREFIX" "y = IP (drop 12 c)"
      by (auto simp: to4_def ip_len_def split: if_splits)
    then have "c = V4_IN_V6_PREFIX @ drop 12 c" by (metis append_take_drop_id)
    with c x that [of "drop 12 c"] show thesis by simp
  qed
qed

lemma wf_ip_cases:
  assumes "wf_ip x"
  obtains (v4) b where "length b = 4" "x = IP b \<or> x = IP (V4_IN_V6_PREFIX @ b)" "to4 x = Some (IP b)"
  | (v6) b where "length b = 16" "x = IP b" "take 12 b \<noteq> V4_IN_V6_PREFIX" "to4 x = None"
proof (cases "to4 x")
  case None
  with assms have "length (ip_bytes x) = 16" "take 12 (ip_bytes x) \<noteq> V4_IN_V6_PREFIX"
    by (auto simp: to4_def ip_len_def split: if_splits)
  with None show thesis by (intro v6 [of "ip_bytes x"]) simp_all
next
  case (Some y)
  then obtain b where "length b = 4" "y = IP b" "x = IP b \<or> x = IP (V4_IN_V6_PREFIX @ b)"
    by (rule to4_cases)
  with Some show thesis by (intro v4 [of b]) simp_all
qed

lemma short_form_IP:
  "short_form (IP c) =
     (if length c = 16 \<and> take 12 c = V4_IN_V6_PREFIX then IP (drop 12 c) else IP c)"
  by (simp add: short_form_def to4_def ip_len_def)

lemma ip_equal_short_form: "ip_equal x y \<longleftrightarrow> short_form x = short_form y"
proof -
  obtain a b where xy: "x = IP a" "y = IP b" by (cases x, cases y)
  let ?m = "\<lambda>c. length c = 16 \<and> take 12 c = V4_IN_V6_PREFIX"
  consider "?m a" "?m b" | "?m a" "\<not> ?m b" | "\<not> ?m a" "?m b" | "\<not> ?m a" "\<not> ?m b" by blast
  then show ?thesis
  proof cases
    case 1
    then have "a = b \<longleftrightarrow> drop 12 a = drop 12 b" by (metis append_take_drop_id)
    with 1 show ?thesis by (simp add: xy ip_equal_def short_form_IP)
  next
    case 2
    then have "a \<noteq> b" "length (drop 12 a) = 4" by auto
    with 2 show ?thesis by (auto simp: xy ip_equal_def short_form_IP)
  next
    case 3
    then have "a \<noteq> b" "length (drop 12 b) = 4" by auto
    with 3 show ?thesis by (auto simp: xy ip_equal_def short_form_IP)
  next
    case 4
    then have short: "short_form x = IP a" "short_form y = IP b" by (auto simp: xy short_form_IP)
    have "ip_equal x y \<longleftrightarrow> a = b" using 4 by (cases "length a = length b") (auto simp: xy ip_equal_def)
    with short show ?thesis by simp
  qed
qed

lemma parse_ip_wf:
  assumes "wf_ip x"
  shows "parse_ip (ip_string x) = to16 x"
  using assms
proof (cases rule: wf_ip_cases)
  case (v4 b)
  then obtain p q r s where b: "b = [p, q, r, s]" by (auto elim: length4E)
  have "ip_string x = ipv4_string b"
    using v4 b by (auto simp: ip_string_def to4_array_def V4_IN_V6_PREFIX_def)
  moreover have "to16 x = Some (IP (V4_IN_V6_PREFIX @ b))"
    using v4 by (auto simp: to16_def ip_len_def)
  ultimately show ?thesis using v4(1) parse_ip_ipv4_string by simp
next
  case (v6 b)
  then have "ip_string x = ipv6_string b" "to16 x = Some x"
    by (auto simp: ip_string_def to4_array_def ip_len_def to16_def)
  with v6 show ?thesis
    using ipv6_string_chars [of b] parse_ipv6_string [of b] by (simp add: parse_ip_def)
qed

section \<open>The reader's results\<close>

lemma read_groups_lengths:
  "read_groups i k s = (gs, v4, r) \<Longrightarrow> length gs \<le> k \<and> (\<forall>g\<in>set gs. length g = 2)"
proof (induction i k s arbitrary: gs v4 r rule: read_groups.induct)
  case (2 i left s)
  show ?case
  proof (cases "if left > 0 then read_separator (CHR '':'') i read_ipv4_addr s else None")
    case (Some p)
    then obtain w t where p: "p = (w, t)" and rd: "read_separator (CHR '':'') i read_ipv4_addr s = Some (w, t)"
      and l: "left > 0" by (cases p) (auto split: if_splits)
    from rd have "length w = 4"
      by (auto simp: read_separator_def read_ipv4_addr_def split: if_splits option.splits)
    with 2(2) Some p l show ?thesis by auto
  next
    case None
    show ?thesis
    proof (cases "read_separator (CHR '':'') i (read_number 16 4 True 65536) s")
      case None': None
      with None 2(2) show ?thesis by simp
    next
      case (Some p)
      obtain g t where p: "p = (g, t)" by (cases p)
      obtain gs' v r' where rec: "read_groups (Suc i) left t = (gs', v, r')" by (cases "read_groups (Suc i) left t")
      have "length gs' \<le> left \<and> (\<forall>g\<in>set gs'. length g = 2)"
        using 2(1) [OF None Some p [symmetric] rec] .
      with 2(2) None Some p rec show ?thesis by (auto simp del: One_nat_def)
    qed
  qed
qed simp

lemma length_concat_pairs: "\<forall>g\<in>set gs. length g = 2 \<Longrightarrow> length (concat gs) = 2 * length gs"
  by (induction gs) auto

lemma read_ipv6_length:
  assumes "read_ipv6_addr s = Some (b, r)"
  shows "length b = 16"
proof -
  obtain hs hv r1 where h: "read_groups 0 8 s = (hs, hv, r1)" by (cases "read_groups 0 8 s")
  note hl = read_groups_lengths [OF h]
  show ?thesis
  proof (cases "length hs = 8")
    case True
    with assms h hl show ?thesis by (auto simp: read_ipv6_addr_def length_concat_pairs)
  next
    case False
    with assms h obtain r2 ts tv r3 where
      t: "read_groups 0 (8 - (length hs + 1)) r2 = (ts, tv, r3)" and
      b: "b = concat (hs @ replicate (8 - length hs - length ts) [0, 0] @ ts)"
      by (auto simp: read_ipv6_addr_def split: if_splits option.splits prod.splits)
    note tl = read_groups_lengths [OF t]
    have "length b = 2 * length (hs @ replicate (8 - length hs - length ts) [0, 0] @ ts)"
      unfolding b using hl tl by (intro length_concat_pairs) auto
    moreover have "length hs + length ts \<le> 8" using hl tl False by linarith
    ultimately show ?thesis by simp
  qed
qed

lemma to16_short:
  assumes "wf_ip x" and "wf_ip y"
  shows "to16 x = to16 y \<longleftrightarrow> short_form x = short_form y"
proof -
  have v: "short_form z = IP b \<and> to16 z = Some (IP (V4_IN_V6_PREFIX @ b))"
    if "length b = 4" "z = IP b \<or> z = IP (V4_IN_V6_PREFIX @ b)" for z b
    using that by (auto simp: short_form_def to16_def ip_len_def)
  have w: "short_form z = IP b \<and> to16 z = Some (IP b)" if "length b = 16" "z = IP b" "to4 z = None" for z b
    using that by (simp add: short_form_def to16_def ip_len_def)
  from assms(1) show ?thesis
  proof (cases rule: wf_ip_cases)
    case (v4 b)
    note x = v [OF v4(1,2)]
    from assms(2) show ?thesis
    proof (cases rule: wf_ip_cases)
      case y4: (v4 c)
      then show ?thesis using x v [OF y4(1,2)] by simp
    next
      case y6: (v6 c)
      then have "IP c \<noteq> IP b" "IP c \<noteq> IP (V4_IN_V6_PREFIX @ b)" using v4(1) by auto
      then show ?thesis using x w [OF y6(1,2,4)] by auto
    qed
  next
    case (v6 b)
    note x = w [OF v6(1,2,4)]
    from assms(2) show ?thesis
    proof (cases rule: wf_ip_cases)
      case y4: (v4 c)
      then have "IP b \<noteq> IP c" "IP b \<noteq> IP (V4_IN_V6_PREFIX @ c)" using v6 by auto
      then show ?thesis using x v [OF y4(1,2)] by auto
    next
      case y6: (v6 c)
      then show ?thesis using x w [OF y6(1,2,4)] by simp
    qed
  qed
qed

lemma ip_string_short:
  assumes "wf_ip x"
  shows "ip_string x = ip_string (short_form x)"
  using assms
proof (cases rule: wf_ip_cases)
  case (v4 b)
  then have "b \<noteq> []" by auto
  with v4 show ?thesis by (auto simp: ip_string_def to4_array_def short_form_def)
next
  case (v6 b)
  then show ?thesis by (simp add: short_form_def)
qed

section \<open>Properties\<close>

text \<open>
  C33: Parsing the text of any 4-byte or 16-byte address, IPv6 with its compressed runs of zeros
  included, gives the address back in its 16-byte form, and distinct addresses print differently.
\<close>

theorem parse_ip_roundtrip:
  assumes "ip_len x = 4 \<or> ip_len x = 16" and "ip_len y = 4 \<or> ip_len y = 16"
  shows "parse_ip (ip_string x) = to16 x \<and> (ip_string x = ip_string y \<longleftrightarrow> ip_equal x y)"
proof -
  have "ip_string x = ip_string y" if "to16 x = to16 y"
    using that assms by (auto simp: ip_string_short [OF assms(1)] ip_string_short [OF assms(2)] to16_short)
  then have "ip_string x = ip_string y \<longleftrightarrow> to16 x = to16 y"
    using parse_ip_wf [OF assms(1)] parse_ip_wf [OF assms(2)] by metis
  with parse_ip_wf [OF assms(1)] to16_short [OF assms] show ?thesis by (simp add: ip_equal_short_form)
qed

theorem parse_ip_roundtrip_witness:
  "parse_ip (ip_string (IP (0x20 # 0x01 # replicate 13 0 @ [1]))) = to16 (IP (0x20 # 0x01 # replicate 13 0 @ [1]))
   \<and> (ip_string (IP (0x20 # 0x01 # replicate 13 0 @ [1])) = ip_string (IP [10, 0, 0, 1])
      \<longleftrightarrow> ip_equal (IP (0x20 # 0x01 # replicate 13 0 @ [1])) (IP [10, 0, 0, 1]))"
  by (rule parse_ip_roundtrip) (simp_all add: ip_len_def)

end
