(* ===== verification/Net_Host.thy ===== *)
theory Net_Host
  imports Net_Addr
begin

text \<open>
  \<open>mr-core/src/goish/net.rs\<close>, hardware addresses and \<open>host:port\<close> strings, and the spellings'
  canonical forms of \<open>mr-core/src/network/address_identity.rs\<close>.
\<close>

section \<open>Hardware addresses\<close>

definition xtoi2 :: "string \<Rightarrow> char \<Rightarrow> u8 option" where
  "xtoi2 s sep =
     (if length s > 2 \<and> s ! 2 \<noteq> sep then None
      else if length s < 2 then None
      else (case (to_digit 16 (s ! 0), to_digit 16 (s ! 1)) of
              (Some hi, Some lo) \<Rightarrow> Some (of_nat (hi * 16 + lo))
            | _ \<Rightarrow> None))"

fun mac_pairs :: "nat \<Rightarrow> char \<Rightarrow> string \<Rightarrow> u8 list option" where
  "mac_pairs 0 sep b = Some []"
| "mac_pairs (Suc n) sep b =
     (case xtoi2 b sep of
        None \<Rightarrow> None
      | Some x \<Rightarrow> map_option (Cons x) (mac_pairs n sep (drop 3 b)))"

fun mac_quads :: "nat \<Rightarrow> char \<Rightarrow> string \<Rightarrow> u8 list option" where
  "mac_quads 0 sep b = Some []"
| "mac_quads (Suc n) sep b =
     (case (xtoi2 (take 2 b) (char_of (0 :: nat)), xtoi2 (drop 2 b) sep) of
        (Some x, Some y) \<Rightarrow> map_option (\<lambda>r. x # y # r) (mac_quads n sep (drop 5 b))
      | _ \<Rightarrow> None)"

definition parse_mac :: "string \<Rightarrow> u8 list option" where
  "parse_mac b =
     (if length b < 14 then None
      else if b ! 2 = CHR '':'' \<or> b ! 2 = CHR ''-'' then
        (if (length b + 1) mod 3 \<noteq> 0 then None
         else (let n = (length b + 1) div 3
               in if n \<noteq> 6 \<and> n \<noteq> 8 \<and> n \<noteq> 20 then None else mac_pairs n (b ! 2) b))
      else if b ! 4 = CHR ''.'' then
        (if (length b + 1) mod 5 \<noteq> 0 then None
         else (let n = 2 * (length b + 1) div 5
               in if n \<noteq> 6 \<and> n \<noteq> 8 \<and> n \<noteq> 20 then None else mac_quads (n div 2) (b ! 4) b))
      else None)"

definition mac_string :: "u8 list \<Rightarrow> string" where
  "mac_string hw = join '':'' (map hex_byte hw)"

definition ipv4_identity :: "string \<Rightarrow> string" where
  "ipv4_identity s = (case parse_ipv4 s of Some x \<Rightarrow> ip_string x | None \<Rightarrow> s)"

definition mac_identity :: "string \<Rightarrow> string" where
  "mac_identity s = (case parse_mac s of
      Some mac \<Rightarrow> if length mac = 6 then mac_string mac else s
    | None \<Rightarrow> s)"

section \<open>Host and port\<close>

definition addr_err :: "string \<Rightarrow> string \<Rightarrow> string + 'a" where
  "addr_err hostport why = Inl (''address '' @ hostport @ '': '' @ why)"

definition bracket_check :: "string \<Rightarrow> nat \<Rightarrow> nat \<Rightarrow> nat \<Rightarrow> string \<Rightarrow> string + (string \<times> string)" where
  "bracket_check hostport i j k host =
     (if CHR ''['' \<in> set (drop j hostport) then addr_err hostport ''unexpected '[' in address''
      else if CHR '']'' \<in> set (drop k hostport) then addr_err hostport ''unexpected ']' in address''
      else Inr (host, drop (i + 1) hostport))"

definition split_host_port :: "string \<Rightarrow> string + (string \<times> string)" where
  "split_host_port hostport =
     (case rfind_char (CHR '':'') hostport of
        None \<Rightarrow> addr_err hostport ''missing port in address''
      | Some i \<Rightarrow>
          (if hostport ! 0 = CHR ''['' then
             (case find_char (CHR '']'') hostport of
                None \<Rightarrow> addr_err hostport ''missing ']' in address''
              | Some end_ \<Rightarrow>
                  (if end_ + 1 = length hostport then addr_err hostport ''missing port in address''
                   else if end_ + 1 \<noteq> i then
                     (if hostport ! (end_ + 1) = CHR '':''
                      then addr_err hostport ''too many colons in address''
                      else addr_err hostport ''missing port in address'')
                   else bracket_check hostport i 1 (end_ + 1) (drop 1 (take end_ hostport))))
           else if CHR '':'' \<in> set (take i hostport)
           then addr_err hostport ''too many colons in address''
           else bracket_check hostport i 0 0 (take i hostport)))"

definition join_host_port :: "string \<Rightarrow> string \<Rightarrow> string" where
  "join_host_port host port =
     (if CHR '':'' \<in> set host then ''['' @ host @ '']:'' @ port else host @ '':'' @ port)"

section \<open>Hardware addresses: reading a printed address\<close>

lemma xtoi2_hex_byte:
  assumes "r = [] \<or> hd r = sep"
  shows "xtoi2 (hex_byte b @ r) sep = Some b"
proof -
  have lt: "unat b div 16 < 16" "unat b mod 16 < 16" using unat_u8 [of b] by auto
  have "of_nat (unat b div 16 * 16 + unat b mod 16) = b" by (simp only: div_mult_mod_eq of_nat_unat ucast_id)
  with lt assms show ?thesis by (cases r) (auto simp: xtoi2_def hex_byte_def)
qed

lemma length_hex_byte [simp]: "length (hex_byte b) = 2"
  by (simp add: hex_byte_def)

lemma mac_pairs_string:
  "hw \<noteq> [] \<Longrightarrow> mac_pairs (length hw) (CHR '':'') (mac_string hw) = Some hw"
proof (induction hw rule: induct_list012)
  case (2 b)
  then show ?case using xtoi2_hex_byte [of "[]" _ b] by (simp add: mac_string_def)
next
  case (3 b c bs)
  let ?r = "CHR '':'' # mac_string (c # bs)"
  have s: "mac_string (b # c # bs) = hex_byte b @ ?r" by (simp add: mac_string_def)
  have "drop 3 (hex_byte b @ ?r) = mac_string (c # bs)" by (simp add: numeral_3_eq_3)
  with 3 xtoi2_hex_byte [of ?r "CHR '':''" b] show ?case by (simp add: s)
qed simp

lemma length_mac_string: "hw \<noteq> [] \<Longrightarrow> length (mac_string hw) + 1 = 3 * length hw"
  by (induction hw rule: induct_list012) (auto simp: mac_string_def)

lemma mac_string_sep: "1 < length hw \<Longrightarrow> mac_string hw ! 2 = CHR '':''"
  by (cases hw rule: remdups_adj.cases) (auto simp: mac_string_def nth_append)

lemma parse_mac_string:
  assumes "length hw = 6 \<or> length hw = 8 \<or> length hw = 20"
  shows "parse_mac (mac_string hw) = Some hw"
proof -
  from assms have ne: "hw \<noteq> []" "1 < length hw" by auto
  note l = length_mac_string [OF ne(1)]
  from l assms have "\<not> length (mac_string hw) < 14" by auto
  with l assms show ?thesis
    using mac_string_sep [OF ne(2)] mac_pairs_string [OF ne(1)] by (simp add: parse_mac_def Let_def)
qed

section \<open>Canonical spellings\<close>

text \<open>
  C35: The hardware-address identity decides equality of addresses: two texts that parse as six-byte
  addresses have the same identity exactly when they denote the same address, whatever their
  spelling, and the identity is itself a spelling of the address and its own identity.
\<close>

theorem mac_identity_canonical:
  assumes "parse_mac s = Some a" and "parse_mac t = Some b" and "length a = 6" and "length b = 6"
  shows "(mac_identity s = mac_identity t \<longleftrightarrow> a = b) \<and> parse_mac (mac_identity s) = Some a
    \<and> mac_identity (mac_identity s) = mac_identity s"
proof -
  have "parse_mac (mac_string a) = Some a" "parse_mac (mac_string b) = Some b"
    using assms by (simp_all add: parse_mac_string)
  then have "mac_string a = mac_string b \<longleftrightarrow> a = b" by (metis option.inject)
  with assms parse_mac_string [of a] show ?thesis by (simp add: mac_identity_def)
qed

theorem mac_identity_canonical_witness:
  "mac_identity ''AA-BB-CC-00-11-22'' = mac_identity ''aabb.cc00.1122''
   \<and> parse_mac (mac_identity ''AA-BB-CC-00-11-22'') = Some [0xaa, 0xbb, 0xcc, 0, 0x11, 0x22]"
proof -
  have "parse_mac ''AA-BB-CC-00-11-22'' = Some [0xaa, 0xbb, 0xcc, 0, 0x11, 0x22]"
    "parse_mac ''aabb.cc00.1122'' = Some [0xaa, 0xbb, 0xcc, 0, 0x11, 0x22]" by code_simp+
  from mac_identity_canonical [OF this]
  have "(mac_identity ''AA-BB-CC-00-11-22'' = mac_identity ''aabb.cc00.1122'' \<longleftrightarrow> True)
    \<and> parse_mac (mac_identity ''AA-BB-CC-00-11-22'') = Some [0xaa, 0xbb, 0xcc, 0, 0x11, 0x22]" by force
  then show ?thesis by blast
qed

lemma parse_ipv4D:
  assumes "parse_ipv4 s = Some x"
  obtains b where "length b = 4" "x = IP b"
proof -
  from assms obtain y where "to4 y = Some x" by (auto simp: parse_ipv4_def bind_eq_Some_conv)
  from to4_length [OF this] show thesis by (intro that [of "ip_bytes x"]) simp_all
qed

lemma parse_ipv4_ip_string: "length b = 4 \<Longrightarrow> parse_ipv4 (ip_string (IP b)) = Some (IP b)"
  using parse_ip_wf [of "IP b"] by (simp add: parse_ipv4_def to16_def ip_len_def)

text \<open>
  C36: The IPv4 identity decides equality of addresses: two texts that parse as IPv4 addresses
  (dotted-decimal or IPv4-mapped) have the same identity exactly when they denote the same address.
\<close>

theorem ipv4_identity_canonical:
  assumes "parse_ipv4 s = Some a" and "parse_ipv4 t = Some b"
  shows "(ipv4_identity s = ipv4_identity t \<longleftrightarrow> a = b) \<and> parse_ipv4 (ipv4_identity s) = Some a
    \<and> ipv4_identity (ipv4_identity s) = ipv4_identity s"
proof -
  have "parse_ipv4 (ip_string a) = Some a" "parse_ipv4 (ip_string b) = Some b"
    using assms parse_ipv4D parse_ipv4_ip_string by metis+
  then have "ip_string a = ip_string b \<longleftrightarrow> a = b" by (metis option.inject)
  with assms \<open>parse_ipv4 (ip_string a) = Some a\<close> show ?thesis by (simp add: ipv4_identity_def)
qed

theorem ipv4_identity_canonical_witness:
  "ipv4_identity ''::ffff:10.0.0.1'' = ipv4_identity ''10.0.0.1''
   \<and> parse_ipv4 (ipv4_identity ''::ffff:10.0.0.1'') = Some (IP [10, 0, 0, 1])"
proof -
  have "parse_ipv4 ''::ffff:10.0.0.1'' = Some (IP [10, 0, 0, 1])"
    "parse_ipv4 ''10.0.0.1'' = Some (IP [10, 0, 0, 1])" by code_simp+
  from ipv4_identity_canonical [OF this] show ?thesis by blast
qed

section \<open>Host and port\<close>

lemma find_char_Suc: "c \<noteq> x \<Longrightarrow> find_char c (x # s) = map_option Suc (find_char c s)"
  by simp

text \<open>
  C37: Splitting a joined host and port gives them back, when neither holds a bracket and the port
  holds no colon; a host with colons (an IPv6 address) is joined in brackets.
\<close>

theorem split_join_host_port:
  assumes "CHR ''['' \<notin> set host" "CHR '']'' \<notin> set host" "CHR ''['' \<notin> set port" "CHR '']'' \<notin> set port"
    and "CHR '':'' \<notin> set port"
  shows "split_host_port (join_host_port host port) = Inr (host, port)"
proof (cases "CHR '':'' \<in> set host")
  case True
  let ?s = "''['' @ host @ '']:'' @ port"
  have "rfind_char (CHR '':'') (''['' @ host @ '']'' @ CHR '':'' # port) = Some (length (''['' @ host @ '']''))"
    using rfind_char_append [OF assms(5), of "''['' @ host @ '']''"] by simp
  moreover have "find_char (CHR '']'') (''['' @ host @ CHR '']'' # CHR '':'' # port) = Some (length (''['' @ host))"
    using find_char_append [of "CHR '']''" "''['' @ host"] assms(2) by simp
  ultimately show ?thesis
    using True assms by (simp add: join_host_port_def split_host_port_def bracket_check_def)
next
  case False
  have "rfind_char (CHR '':'') (host @ CHR '':'' # port) = Some (length host)"
    using assms(5) by simp
  moreover have "(host @ CHR '':'' # port) ! 0 \<noteq> CHR ''[''" using assms(1) by (cases host) auto
  ultimately show ?thesis
    using False assms by (simp add: join_host_port_def split_host_port_def bracket_check_def)
qed

theorem split_join_host_port_witness:
  "split_host_port (join_host_port ''fe80::1'' ''8443'') = Inr (''fe80::1'', ''8443'')"
  by (rule split_join_host_port) code_simp+

end
