(* ===== verification/Net_Cidr.thy ===== *)
theory Net_Cidr
  imports Net_Addr
begin

text \<open>
  \<open>mr-core/src/goish/net.rs\<close>, the CIDR masks and networks. A network's membership test works byte by
  byte on masked addresses; the lemmas restate it on the addresses' numeric values, from which the
  containment and overlap of networks follow.
\<close>

section \<open>Masks and networks\<close>

datatype ipmask = IPMask (mask_bytes: "u8 list")

fun cidr_bytes :: "nat \<Rightarrow> nat \<Rightarrow> u8 list" where
  "cidr_bytes 0 n = []"
| "cidr_bytes (Suc k) n =
     (if n \<ge> 8 then 0xff # cidr_bytes k (n - 8)
      else NOT (drop_bit n 0xff) # cidr_bytes k 0)"

definition ipmask_cidr :: "nat \<Rightarrow> nat \<Rightarrow> ipmask option" where
  "ipmask_cidr ones bits =
     (if (bits \<noteq> 32 \<and> bits \<noteq> 128) \<or> ones > bits then None
      else Some (IPMask (cidr_bytes (bits div 8) ones)))"

text \<open>\<open>u8::leading_ones\<close>.\<close>

definition leading_ones :: "u8 \<Rightarrow> nat" where
  "leading_ones b = length (takeWhile (\<lambda>i. bit b i) (rev [0..<8]))"

fun mask_length :: "nat \<Rightarrow> bool \<Rightarrow> u8 list \<Rightarrow> nat option" where
  "mask_length ones seen_zero [] = Some ones"
| "mask_length ones seen_zero (b # bs) =
     (if seen_zero then (if b \<noteq> 0 then None else mask_length ones True bs)
      else if b = 0xff then mask_length (ones + 8) False bs
      else if push_bit (leading_ones b) b \<noteq> 0 then None
      else mask_length (ones + leading_ones b) True bs)"

definition simple_mask_length :: "u8 list \<Rightarrow> nat option" where
  "simple_mask_length m = mask_length 0 False m"

definition mask_size :: "ipmask \<Rightarrow> nat \<times> nat" where
  "mask_size m = (case simple_mask_length (mask_bytes m) of
      Some ones \<Rightarrow> (ones, length (mask_bytes m) * 8)
    | None \<Rightarrow> (0, 0))"

definition ipmask_string :: "ipmask \<Rightarrow> string" where
  "ipmask_string m =
     (if mask_bytes m = [] then ''<nil>'' else concat (map hex_byte (mask_bytes m)))"

definition ip_mask :: "ip \<Rightarrow> ipmask \<Rightarrow> ip option" where
  "ip_mask x mk =
     (let m = (if length (mask_bytes mk) = 16 \<and> ip_len x = 4
                 \<and> list_all (\<lambda>b. b = 0xff) (take 12 (mask_bytes mk))
               then drop 12 (mask_bytes mk) else mask_bytes mk);
          b = (if length m = 4 \<and> ip_len x = 16 \<and> take 12 (ip_bytes x) = V4_IN_V6_PREFIX
               then drop 12 (ip_bytes x) else ip_bytes x)
      in if length b \<noteq> length m then None
         else Some (IP (map2 (AND) b m)))"

record ipnet =
  net_ip :: ip
  net_mask :: ipmask

definition network_number_and_mask :: "ipnet \<Rightarrow> (ip \<times> u8 list) option" where
  "network_number_and_mask n =
     (case (case to4 (net_ip n) of
              Some v4 \<Rightarrow> Some v4
            | None \<Rightarrow> if ip_len (net_ip n) \<noteq> 16 then None else Some (net_ip n)) of
        None \<Rightarrow> None
      | Some x \<Rightarrow>
          (let m = mask_bytes (net_mask n)
           in if length m = 4 then (if ip_len x \<noteq> 4 then None else Some (x, m))
              else if length m = 16 then
                (if ip_len x = 4 then Some (x, drop 12 m) else Some (x, m))
              else None))"

definition ipnet_contains :: "ipnet \<Rightarrow> ip \<Rightarrow> bool" where
  "ipnet_contains n x =
     (case network_number_and_mask n of
        None \<Rightarrow> False
      | Some (nn, m) \<Rightarrow>
          (let y = (case to4 x of Some v4 \<Rightarrow> v4 | None \<Rightarrow> x)
           in if ip_len y \<noteq> ip_len nn then False
              else list_all (\<lambda>i. ip_bytes nn ! i AND m ! i = ip_bytes y ! i AND m ! i)
                     [0..<ip_len y]))"

definition ipnet_contains_opt :: "ipnet \<Rightarrow> ip option \<Rightarrow> bool" where
  "ipnet_contains_opt n x = (case x of None \<Rightarrow> False | Some y \<Rightarrow> ipnet_contains n y)"

definition ipv4_broadcast :: "ipnet \<Rightarrow> ip option" where
  "ipv4_broadcast n =
     (case to4 (net_ip n) of
        None \<Rightarrow> None
      | Some v4 \<Rightarrow>
          (if length (mask_bytes (net_mask n)) < 4 then None
           else Some (IP (map (\<lambda>i. ip_bytes v4 ! i OR NOT (mask_bytes (net_mask n) ! i)) [0..<4]))))"

definition ipnet_string :: "ipnet \<Rightarrow> string" where
  "ipnet_string n =
     (case network_number_and_mask n of
        None \<Rightarrow> ''<nil>''
      | Some (nn, m) \<Rightarrow>
          (case simple_mask_length m of
             Some ones \<Rightarrow> ip_string nn @ ''/'' @ nat_string ones
           | None \<Rightarrow> ip_string nn @ ''/'' @ ipmask_string (IPMask m)))"

text \<open>Go's \<open>dtoi\<close>: (value, bytes consumed, ok).\<close>

definition dtoi_big :: nat where
  "dtoi_big = 0xFFFFFF"

fun dtoi_loop :: "nat \<Rightarrow> nat \<Rightarrow> string \<Rightarrow> nat \<times> nat \<times> bool" where
  "dtoi_loop n i [] = (if i = 0 then (0, 0, False) else (n, i, True))"
| "dtoi_loop n i (c # cs) =
     (if \<not> is_ascii_digit c then (if i = 0 then (0, 0, False) else (n, i, True))
      else (let n' = n * 10 + (code c - 48)
            in if n' \<ge> dtoi_big then (dtoi_big, i, False) else dtoi_loop n' (Suc i) cs))"

definition dtoi :: "string \<Rightarrow> nat \<times> nat \<times> bool" where
  "dtoi s = dtoi_loop 0 0 s"

definition parse_cidr :: "string \<Rightarrow> (ip \<times> ipnet) option" where
  "parse_cidr s =
     (case split_once (CHR ''/'') s of
        None \<Rightarrow> None
      | Some (addr, msk) \<Rightarrow>
          (if CHR ''%'' \<in> set addr then None
           else
             (case (case parse_ipv4_strict addr of
                      Some o4 \<Rightarrow> Some (ip_v4 (o4 ! 0) (o4 ! 1) (o4 ! 2) (o4 ! 3), 32)
                    | None \<Rightarrow>
                        if CHR '':'' \<in> set addr
                        then map_option (\<lambda>b. (IP b, 128)) (parse_ipv6 addr)
                        else None) of
                None \<Rightarrow> None
              | Some (ip16, bits) \<Rightarrow>
                  (let (n, i, ok) = dtoi msk
                   in if \<not> ok \<or> i \<noteq> length msk \<or> n > bits then None
                      else (case ipmask_cidr n bits of
                              None \<Rightarrow> None
                            | Some m \<Rightarrow>
                                (case ip_mask ip16 m of
                                   None \<Rightarrow> None
                                 | Some nip \<Rightarrow> Some (ip16, \<lparr>net_ip = nip, net_mask = m\<rparr>)))))))"

section \<open>Masks: size and value\<close>

lemma length_cidr_bytes [simp]: "length (cidr_bytes k n) = k"
  by (induction k arbitrary: n) auto

lemma cidr_bytes_0: "cidr_bytes k 0 = replicate k 0"
  by (induction k) auto

lemma mask_length_zeros: "mask_length n True bs = (if list_all (\<lambda>b. b = 0) bs then Some n else None)"
  by (induction bs) auto

text \<open>The eight masks of a partial byte, and what they keep of a byte.\<close>

lemma less_8_cases: "(n :: nat) < 8 \<Longrightarrow> n \<in> {0, 1, 2, 3, 4, 5, 6, 7}"
  by auto

lemma partial_mask:
  assumes "n < 8"
  shows "leading_ones (NOT (drop_bit n 0xff)) = n"
    and "NOT (drop_bit n 0xff) \<noteq> (0xff :: u8)"
    and "push_bit n (NOT (drop_bit n 0xff)) = (0 :: u8)"
proof -
  have "\<forall>n\<in>{0, 1, 2, 3, 4, 5, 6, 7}. leading_ones (NOT (drop_bit n 0xff)) = n
      \<and> NOT (drop_bit n 0xff) \<noteq> (0xff :: u8) \<and> push_bit n (NOT (drop_bit n 0xff)) = (0 :: u8)"
    by code_simp
  from bspec [OF this less_8_cases [OF assms]] show "leading_ones (NOT (drop_bit n 0xff)) = n"
    and "NOT (drop_bit n 0xff) \<noteq> (0xff :: u8)"
    and "push_bit n (NOT (drop_bit n 0xff)) = (0 :: u8)" by simp_all
qed

lemma mask_length_cidr:
  "n \<le> 8 * k \<Longrightarrow> mask_length a False (cidr_bytes k n) = Some (a + n)"
proof (induction k arbitrary: n a)
  case (Suc k)
  show ?case
  proof (cases "8 \<le> n")
    case True
    then show ?thesis using Suc by simp
  next
    case False
    then show ?thesis
      using partial_mask [of n] by (simp add: mask_length_zeros cidr_bytes_0 list_all_iff)
  qed
qed simp

lemma mask_size_cidr: "ipmask_cidr n bits = Some m \<Longrightarrow> mask_size m = (n, bits)"
  by (auto simp: ipmask_cidr_def mask_size_def simple_mask_length_def mask_length_cidr split: if_splits)

lemma drop_bit_ff: "n < 8 \<Longrightarrow> drop_bit n (0xff :: u8) = mask (8 - n)"
  using less_8_cases [of n] by (auto simp: mask_eq_exp_minus_1 drop_bit_eq_div)

lemma leading_ones_bits:
  assumes "j < leading_ones b"
  shows "j < 8" and "bit b (7 - j)"
proof -
  let ?t = "takeWhile (\<lambda>i. bit b i) (rev [0..<8])"
  have "length ?t \<le> 8" using length_takeWhile_le [of _ "rev [0..<8]"] by simp
  with assms show j: "j < 8" by (simp add: leading_ones_def)
  have "?t ! j \<in> set ?t" using assms by (simp add: leading_ones_def)
  then have "bit b (?t ! j)" by (rule set_takeWhileD [THEN conjunct2])
  moreover have "?t ! j = 7 - j"
    using assms j by (simp add: leading_ones_def takeWhile_nth rev_nth del: upt_Suc)
  ultimately show "bit b (7 - j)" by simp
qed

lemma leading_ones_mask:
  assumes "b \<noteq> 0xff" and "push_bit (leading_ones b) b = 0"
  shows "leading_ones b < 8 \<and> b = NOT (drop_bit (leading_ones b) 0xff)"
proof -
  let ?l = "leading_ones b"
  have ones: "bit b i" if "i < 8" "8 - ?l \<le> i" for i
    using leading_ones_bits(2) [of "7 - i" b] that by (cases "?l = 0") simp_all
  have zeros: "\<not> bit b i" if "i < 8 - ?l" for i
    using arg_cong [OF assms(2), of "\<lambda>w. bit w (?l + i)"] that by (simp add: bit_simps)
  have b: "bit b i \<longleftrightarrow> i < 8 \<and> 8 - ?l \<le> i" for i
    using ones zeros bit_imp_le_length [of b i] by (cases "i < 8 - ?l") auto
  have "?l < 8"
  proof (rule ccontr)
    assume "\<not> ?l < 8"
    with b have "b = - 1" by (intro bit_eqI) (simp add: bit_simps)
    moreover have "(0xff :: u8) = - 1" by code_simp
    ultimately show False using assms(1) by simp
  qed
  moreover from this have "b = NOT (mask (8 - ?l))"
    by (intro bit_eqI) (simp add: b bit_simps not_less)
  ultimately show ?thesis by (simp add: drop_bit_ff)
qed

lemma mask_lengthD:
  "mask_length a False m = Some n \<Longrightarrow>
   a \<le> n \<and> n - a \<le> 8 * length m \<and> m = cidr_bytes (length m) (n - a)"
proof (induction m arbitrary: a)
  case (Cons b bs)
  show ?case
  proof (cases "b = 0xff")
    case True
    with Cons.prems have "mask_length (a + 8) False bs = Some n" by simp
    from Cons.IH [OF this] True show ?thesis by auto
  next
    case False
    with Cons.prems have p: "push_bit (leading_ones b) b = 0" and n: "n = a + leading_ones b"
      and z: "list_all (\<lambda>b. b = 0) bs"
      by (auto simp: mask_length_zeros split: if_splits)
    from z have "bs = replicate (length bs) 0" by (simp add: list_all_iff replicate_eqI)
    with leading_ones_mask [OF False p] n show ?thesis by (simp add: cidr_bytes_0)
  qed
qed simp

lemma simple_mask_length_iff:
  "simple_mask_length m = Some n \<longleftrightarrow> n \<le> 8 * length m \<and> m = cidr_bytes (length m) n"
  using mask_lengthD [of 0 m n] mask_length_cidr [of n "length m" 0]
  by (auto simp: simple_mask_length_def)

section \<open>Membership on numeric values\<close>

text \<open>The big-endian value of an address, and what a mask of \<open>n\<close> leading ones keeps of it.\<close>

primrec bytes_val :: "u8 list \<Rightarrow> nat" where
  "bytes_val [] = 0"
| "bytes_val (b # bs) = unat b * 256 ^ length bs + bytes_val bs"

abbreviation ip_val :: "ip \<Rightarrow> nat" where
  "ip_val x \<equiv> bytes_val (ip_bytes x)"

lemma bytes_val_lt: "bytes_val bs < 256 ^ length bs"
proof (induction bs)
  case (Cons b bs)
  have "unat b * 256 ^ length bs + bytes_val bs < (unat b + 1) * 256 ^ length bs"
    using Cons.IH by simp
  also have "\<dots> \<le> 256 * 256 ^ length bs" using unat_u8 [of b] by (intro mult_right_mono) auto
  finally show ?case by simp
qed simp

lemma bytes_val_inj: "length xs = length ys \<Longrightarrow> bytes_val xs = bytes_val ys \<Longrightarrow> xs = ys"
proof (induction xs ys rule: list_induct2)
  case (Cons x xs y ys)
  have "unat x = unat y"
    using arg_cong [OF Cons.prems, of "\<lambda>v. v div 256 ^ length xs"] Cons.hyps
      bytes_val_lt [of xs] bytes_val_lt [of ys] by simp
  with Cons show ?case by (simp add: word_unat_eq_iff)
qed simp

lemma and_not_mask_eq:
  fixes x y :: u8
  shows "x AND NOT (mask m) = y AND NOT (mask m) \<longleftrightarrow> drop_bit m x = drop_bit m y"
proof
  assume eq: "x AND NOT (mask m) = y AND NOT (mask m)"
  have "bit x (m + i) = bit y (m + i)" for i
    using arg_cong [OF eq, of "\<lambda>w. bit w (m + i)"] by (auto simp: bit_simps dest: bit_imp_le_length)
  then show "drop_bit m x = drop_bit m y" by (simp add: bit_eq_iff bit_simps)
next
  assume eq: "drop_bit m x = drop_bit m y"
  have "bit x i = bit y i" if "m \<le> i" for i
    using arg_cong [OF eq, of "\<lambda>w. bit w (i - m)"] that by (simp add: bit_simps)
  then show "x AND NOT (mask m) = y AND NOT (mask m)"
    by (auto simp: bit_eq_iff bit_simps not_less)
qed

lemma byte_mask_eq:
  fixes x y :: u8
  assumes "n < 8"
  shows "x AND NOT (drop_bit n 0xff) = y AND NOT (drop_bit n 0xff)
    \<longleftrightarrow> unat x div 2 ^ (8 - n) = unat y div 2 ^ (8 - n)"
proof -
  have m: "drop_bit n (0xff :: u8) = mask (8 - n)" by (rule drop_bit_ff [OF assms])
  have "x AND NOT (mask (8 - n)) = y AND NOT (mask (8 - n)) \<longleftrightarrow> drop_bit (8 - n) x = drop_bit (8 - n) y"
    by (rule and_not_mask_eq)
  also have "\<dots> \<longleftrightarrow> unat (drop_bit (8 - n) x) = unat (drop_bit (8 - n) y)"
    by (simp add: word_unat_eq_iff)
  finally show ?thesis
    by (simp only: m unat_drop_bit_eq) (simp add: drop_bit_eq_div [where 'a = nat])
qed

lemma div_add_split:
  fixes b v p q :: nat
  assumes "v < p * q" and "0 < q"
  shows "(b * (p * q) + v) div q = b * p + v div q" and "v div q < p"
proof -
  have "(b * p * q + v) div q = b * p + v div q" using assms(2) by simp
  then show "(b * (p * q) + v) div q = b * p + v div q" by (simp add: mult.assoc)
  show "v div q < p" using assms by (simp add: less_mult_imp_div_less)
qed

lemma mult_add_inj:
  fixes a b p x y :: nat
  assumes "x < p" and "y < p"
  shows "a * p + x = b * p + y \<longleftrightarrow> a = b \<and> x = y"
proof
  assume eq: "a * p + x = b * p + y"
  from arg_cong [OF eq, of "\<lambda>v. v div p"] assms have "a = b" by simp
  with eq show "a = b \<and> x = y" by simp
qed simp

lemma masked_eq_iff:
  "length xs = k \<Longrightarrow> length ys = k \<Longrightarrow> n \<le> 8 * k \<Longrightarrow>
   map2 (AND) xs (cidr_bytes k n) = map2 (AND) ys (cidr_bytes k n)
     \<longleftrightarrow> bytes_val xs div 2 ^ (8 * k - n) = bytes_val ys div 2 ^ (8 * k - n)"
proof (induction k arbitrary: xs ys n)
  case (Suc k)
  from Suc.prems obtain x xs' y ys' where xy: "xs = x # xs'" "ys = y # ys'"
    "length xs' = k" "length ys' = k" by (auto simp: length_Suc_conv)
  have lt: "bytes_val xs' < 256 ^ k" "bytes_val ys' < 256 ^ k" using bytes_val_lt xy by metis+
  have p256: "(256 :: nat) ^ k = 2 ^ (8 * k)" by (simp add: power_mult)
  show ?case
  proof (cases "8 \<le> n")
    case True
    define m where "m = n - 8"
    have m: "m \<le> 8 * k" "8 * Suc k - n = 8 * k - m" using True Suc.prems(3) by (auto simp: m_def)
    have pq: "(256 :: nat) ^ k = 2 ^ m * 2 ^ (8 * k - m)" using m(1) by (simp add: p256 flip: power_add)
    note d = div_add_split(1) [OF lt(1) [unfolded pq], of "unat x"] div_add_split(2) [OF lt(1) [unfolded pq]]
      div_add_split(1) [OF lt(2) [unfolded pq], of "unat y"] div_add_split(2) [OF lt(2) [unfolded pq]]
    have "bytes_val xs div 2 ^ (8 * Suc k - n) = bytes_val ys div 2 ^ (8 * Suc k - n)
        \<longleftrightarrow> x = y \<and> bytes_val xs' div 2 ^ (8 * k - m) = bytes_val ys' div 2 ^ (8 * k - m)"
      unfolding m(2) using d by (simp add: xy pq mult_add_inj word_unat_eq_iff)
    moreover have "map2 (AND) xs (cidr_bytes (Suc k) n) = map2 (AND) ys (cidr_bytes (Suc k) n)
        \<longleftrightarrow> x = y \<and> map2 (AND) xs' (cidr_bytes k m) = map2 (AND) ys' (cidr_bytes k m)"
    proof -
      have "(0xff :: u8) = - 1" by code_simp
      then have "z AND 0xff = z" for z :: u8 by (simp only: and.right_neutral)
      then show ?thesis using True by (simp add: xy m_def)
    qed
    ultimately show ?thesis using Suc.IH [OF xy(3,4) m(1)] by simp
  next
    case False
    then have n: "n < 8" by simp
    have e: "(2 :: nat) ^ (8 * Suc k - n) = 256 ^ k * 2 ^ (8 - n)"
      using n by (simp add: p256 flip: power_add)
    have "bytes_val xs div 2 ^ (8 * Suc k - n) = unat x div 2 ^ (8 - n)"
      "bytes_val ys div 2 ^ (8 * Suc k - n) = unat y div 2 ^ (8 - n)"
      unfolding e div_mult2_eq using lt by (simp_all add: xy)
    moreover have "map2 (AND) xs' (cidr_bytes k 0) = map2 (AND) ys' (cidr_bytes k 0)"
      using xy(3,4) by (auto simp: cidr_bytes_0 intro: nth_equalityI)
    ultimately show ?thesis using False byte_mask_eq [OF n, of x y] by (simp add: xy)
  qed
qed simp

text \<open>
  The form in which a network decides membership: its network number (in the short form of the
  address) and the number of leading ones that count for it. An IPv4-mapped network
  \<open>::ffff:a.b.c.d/n\<close> with \<open>96 \<le> n\<close> decides as \<open>a.b.c.d/(n - 96)\<close>.
\<close>

definition net_form :: "ipnet \<Rightarrow> (ip \<times> nat) option" where
  "net_form net = (case network_number_and_mask net of
      None \<Rightarrow> None
    | Some (nn, m) \<Rightarrow> map_option (\<lambda>n. (nn, n)) (simple_mask_length m))"

lemma list_all_map2:
  "length a = k \<Longrightarrow> length b = k \<Longrightarrow> length m = k \<Longrightarrow>
   list_all (\<lambda>i. a ! i AND m ! i = b ! i AND m ! i) [0..<k] \<longleftrightarrow> map2 (AND) a m = map2 (AND) b m"
  by (simp add: list_all_iff Ball_def list_eq_iff_nth_eq [of "map2 (AND) a m"])

lemma network_number_cases:
  assumes "network_number_and_mask net = Some (nn, m)"
  shows "nn = short_form (net_ip net)" and "length m = ip_len nn" and "wf_ip nn"
proof -
  have "nn = short_form (net_ip net) \<and> length m = ip_len nn \<and> wf_ip nn"
  proof (cases "to4 (net_ip net)")
    case None
    with assms show ?thesis
      by (auto simp: network_number_and_mask_def short_form_def ip_len_def Let_def split: if_splits)
  next
    case (Some v)
    with to4_length [OF Some] assms show ?thesis
      by (auto simp: network_number_and_mask_def short_form_def ip_len_def Let_def split: if_splits)
  qed
  then show "nn = short_form (net_ip net)" and "length m = ip_len nn" and "wf_ip nn" by blast+
qed

lemma net_formD:
  assumes "net_form net = Some (nn, n)"
  shows "network_number_and_mask net = Some (nn, cidr_bytes (ip_len nn) n)"
    and "n \<le> 8 * ip_len nn" and "nn = short_form (net_ip net)" and "wf_ip nn"
proof -
  from assms obtain m where m: "network_number_and_mask net = Some (nn, m)" "simple_mask_length m = Some n"
    by (auto simp: net_form_def split: option.splits)
  with network_number_cases [OF m(1)]
  show "network_number_and_mask net = Some (nn, cidr_bytes (ip_len nn) n)"
    and "n \<le> 8 * ip_len nn" and "nn = short_form (net_ip net)" and "wf_ip nn"
    by (simp_all add: simple_mask_length_iff)
qed

text \<open>Membership is agreement of the values above the host bits.\<close>

lemma contains_iff:
  assumes "net_form net = Some (nn, n)"
  shows "ipnet_contains net x \<longleftrightarrow>
    ip_len (short_form x) = ip_len nn \<and>
    ip_val (short_form x) div 2 ^ (8 * ip_len nn - n) = ip_val nn div 2 ^ (8 * ip_len nn - n)"
proof -
  let ?k = "ip_len nn" and ?y = "short_form x"
  note form = net_formD [OF assms]
  have unf: "ipnet_contains net x \<longleftrightarrow> ip_len ?y = ?k \<and>
      list_all (\<lambda>i. ip_bytes nn ! i AND cidr_bytes ?k n ! i = ip_bytes ?y ! i AND cidr_bytes ?k n ! i) [0..<?k]"
    by (auto simp: ipnet_contains_def form(1) Let_def simp flip: short_form_def)
  show ?thesis
  proof (cases "ip_len ?y = ?k")
    case True
    then have "ipnet_contains net x \<longleftrightarrow>
        map2 (AND) (ip_bytes nn) (cidr_bytes ?k n) = map2 (AND) (ip_bytes ?y) (cidr_bytes ?k n)"
      unfolding unf by (simp add: list_all_map2 ip_len_def)
    also have "\<dots> \<longleftrightarrow> ip_val nn div 2 ^ (8 * ?k - n) = ip_val ?y div 2 ^ (8 * ?k - n)"
      using True form(2) by (intro masked_eq_iff) (simp_all add: ip_len_def)
    finally show ?thesis using True by auto
  qed (simp add: unf)
qed

lemma contains_own_number: "net_form net = Some (nn, n) \<Longrightarrow> ipnet_contains net (net_ip net)"
  using net_formD [of net nn n] by (simp add: contains_iff)

lemma div_coarser:
  fixes x y :: nat
  assumes "x div 2 ^ d = y div 2 ^ d" and "d \<le> e"
  shows "x div 2 ^ e = y div 2 ^ e"
proof -
  have "(2 :: nat) ^ e = 2 ^ d * 2 ^ (e - d)" using assms(2) by (simp flip: power_add)
  with assms(1) show ?thesis by (simp add: div_mult2_eq)
qed

lemma contains_coarser:
  assumes "net_form a = Some (p, m)" and "net_form b = Some (q, n)" and "m \<le> n"
    and "ipnet_contains a x" and "ipnet_contains b x"
  shows "ipnet_contains a (net_ip b)"
proof -
  from assms have len: "ip_len q = ip_len p" "ip_len (short_form x) = ip_len p"
    and a: "ip_val (short_form x) div 2 ^ (8 * ip_len p - m) = ip_val p div 2 ^ (8 * ip_len p - m)"
    and b: "ip_val (short_form x) div 2 ^ (8 * ip_len q - n) = ip_val q div 2 ^ (8 * ip_len q - n)"
    by (auto simp: contains_iff)
  from div_coarser [OF b, of "8 * ip_len p - m"] a len assms(3)
  have "ip_val q div 2 ^ (8 * ip_len p - m) = ip_val p div 2 ^ (8 * ip_len p - m)" by simp
  with len net_formD(3) [OF assms(2)] show ?thesis by (simp add: contains_iff [OF assms(1)])
qed

lemma overlap_iff:
  assumes "net_form a = Some (p, m)" and "net_form b = Some (q, n)"
  shows "ipnet_contains a (net_ip b) \<or> ipnet_contains b (net_ip a)
    \<longleftrightarrow> (\<exists>x. ipnet_contains a x \<and> ipnet_contains b x)"
  using contains_own_number [OF assms(1)] contains_own_number [OF assms(2)]
    contains_coarser [OF assms] contains_coarser [OF assms(2,1)] nat_le_linear [of m n] by blast

lemma subset_iff:
  assumes "net_form a = Some (p, m)" and "net_form b = Some (q, n)" and "m \<le> n"
  shows "ipnet_contains a (net_ip b) \<longleftrightarrow> (\<forall>x. ipnet_contains b x \<longrightarrow> ipnet_contains a x)"
proof
  assume "ipnet_contains a (net_ip b)"
  then have len: "ip_len q = ip_len p"
    and a: "ip_val q div 2 ^ (8 * ip_len p - m) = ip_val p div 2 ^ (8 * ip_len p - m)"
    using net_formD(3) [OF assms(2)] by (simp_all add: contains_iff [OF assms(1)])
  show "\<forall>x. ipnet_contains b x \<longrightarrow> ipnet_contains a x"
  proof (intro allI impI)
    fix x
    assume "ipnet_contains b x"
    then have "ip_len (short_form x) = ip_len p"
      "ip_val (short_form x) div 2 ^ (8 * ip_len p - n) = ip_val q div 2 ^ (8 * ip_len p - n)"
      by (simp_all add: contains_iff [OF assms(2)] len)
    with a assms(3) show "ipnet_contains a x"
      using div_coarser [of "ip_val (short_form x)" "8 * ip_len p - n" "ip_val q" "8 * ip_len p - m"]
      by (simp add: contains_iff [OF assms(1)])
  qed
qed (use contains_own_number [OF assms(2)] in blast)

section \<open>The first and the last address of a network\<close>

lemma unat_split: "unat (w :: u8) = unat (drop_bit e w) * 2 ^ e + unat (take_bit e w)"
  by (simp only: unat_drop_bit_eq unsigned_take_bit_eq drop_bit_eq_div [where 'a = nat]
      take_bit_eq_mod [where 'a = nat] div_mult_mod_eq)

lemma bit_u8: "bit (x :: u8) i \<Longrightarrow> i < 8"
  using bit_imp_le_length [of x i] by simp

lemma byte_first_last:
  fixes x :: u8
  assumes "n < 8"
  shows "unat (x AND NOT (drop_bit n 0xff)) = unat x div 2 ^ (8 - n) * 2 ^ (8 - n)"
    and "unat (x OR NOT (NOT (drop_bit n 0xff))) = unat x div 2 ^ (8 - n) * 2 ^ (8 - n) + (2 ^ (8 - n) - 1)"
proof -
  let ?e = "8 - n"
  have d: "unat (drop_bit ?e x) = unat x div 2 ^ ?e"
    by (simp add: unat_drop_bit_eq drop_bit_eq_div [where 'a = nat])
  have "take_bit ?e (x AND NOT (mask ?e)) = 0" "drop_bit ?e (x AND NOT (mask ?e)) = drop_bit ?e x"
    by (auto intro!: bit_eqI simp: bit_simps dest: bit_u8)
  then show "unat (x AND NOT (drop_bit n 0xff)) = unat x div 2 ^ ?e * 2 ^ ?e"
    using unat_split [of "x AND NOT (mask ?e)" ?e] d by (simp add: drop_bit_ff [OF assms])
  have "take_bit ?e (x OR mask ?e) = mask ?e" "drop_bit ?e (x OR mask ?e) = drop_bit ?e x"
    by (auto intro!: bit_eqI simp: bit_simps dest: bit_u8)
  moreover have "unat (mask ?e :: u8) = 2 ^ ?e - 1"
    using less_8_cases [OF assms] by (auto simp: mask_eq_exp_minus_1)
  ultimately show "unat (x OR NOT (NOT (drop_bit n 0xff))) = unat x div 2 ^ ?e * 2 ^ ?e + (2 ^ ?e - 1)"
    using unat_split [of "x OR mask ?e" ?e] d by (simp add: drop_bit_ff [OF assms])
qed

abbreviation low_bits :: "nat \<Rightarrow> nat \<Rightarrow> nat" where
  "low_bits e v \<equiv> v div 2 ^ e * 2 ^ e"

lemma bytes_val_replicate_0: "bytes_val (replicate k 0) = 0"
  by (induction k) auto

lemma bytes_val_replicate_ff: "bytes_val (replicate k 0xff) = 256 ^ k - 1"
proof (induction k)
  case (Suc k)
  have "(1 :: nat) \<le> 256 ^ k" by simp
  with Suc show ?case by simp
qed simp

lemma masked_tail:
  "length xs = k \<Longrightarrow> map2 (AND) xs (cidr_bytes k 0) = replicate k 0"
  "length xs = k \<Longrightarrow> map2 (\<lambda>a m. a OR NOT m) xs (cidr_bytes k 0) = replicate k 0xff"
proof -
  have ff: "(0xff :: u8) = - 1" by code_simp
  show "length xs = k \<Longrightarrow> map2 (AND) xs (cidr_bytes k 0) = replicate k 0"
    by (auto simp: cidr_bytes_0 intro: nth_equalityI)
  show "length xs = k \<Longrightarrow> map2 (\<lambda>a m. a OR NOT m) xs (cidr_bytes k 0) = replicate k 0xff"
    unfolding ff by (auto simp: cidr_bytes_0 intro: nth_equalityI)
qed

lemma masked_values:
  "length xs = k \<Longrightarrow> n \<le> 8 * k \<Longrightarrow>
   bytes_val (map2 (AND) xs (cidr_bytes k n)) = low_bits (8 * k - n) (bytes_val xs)
   \<and> bytes_val (map2 (\<lambda>a m. a OR NOT m) xs (cidr_bytes k n))
     = low_bits (8 * k - n) (bytes_val xs) + (2 ^ (8 * k - n) - 1)"
proof (induction k arbitrary: xs n)
  case (Suc k)
  from Suc.prems obtain x xs' where xy: "xs = x # xs'" "length xs' = k" by (auto simp: length_Suc_conv)
  have lt: "bytes_val xs' < 256 ^ k" using bytes_val_lt xy by metis
  have p256: "(256 :: nat) ^ k = 2 ^ (8 * k)" by (simp add: power_mult)
  have ff: "(0xff :: u8) = - 1" by code_simp
  show ?case
  proof (cases "8 \<le> n")
    case True
    define m where "m = n - 8"
    have m: "m \<le> 8 * k" "8 * Suc k - n = 8 * k - m" using True Suc.prems(2) by (auto simp: m_def)
    have pq: "(256 :: nat) ^ k = 2 ^ m * 2 ^ (8 * k - m)" using m(1) by (simp add: p256 flip: power_add)
    have "low_bits (8 * Suc k - n) (bytes_val xs) = unat x * 256 ^ k + low_bits (8 * k - m) (bytes_val xs')"
      unfolding m(2) using div_add_split(1) [OF lt [unfolded pq], of "unat x"]
      by (simp add: xy pq algebra_simps)
    moreover have "cidr_bytes (Suc k) n = - 1 # cidr_bytes k m" using True ff by (simp add: m_def)
    moreover have "a + (b + 2 ^ e - Suc 0) = a + b + 2 ^ e - Suc 0" for a b e :: nat
      using one_le_power [of "2 :: nat" e] by linarith
    ultimately show ?thesis
      using Suc.IH [OF xy(2) m(1)] xy(2) unfolding xy(1) m(2) by (simp del: cidr_bytes.simps)
  next
    case False
    then have n: "n < 8" by simp
    have e: "(2 :: nat) ^ (8 * Suc k - n) = 256 ^ k * 2 ^ (8 - n)"
      using n by (simp add: p256 flip: power_add)
    have d: "bytes_val xs div 2 ^ (8 * Suc k - n) = unat x div 2 ^ (8 - n)"
      unfolding e div_mult2_eq using lt by (simp add: xy)
    have c: "cidr_bytes (Suc k) n = NOT (drop_bit n 0xff) # cidr_bytes k 0" using False by simp
    have one: "(1 :: nat) \<le> 256 ^ k" "(1 :: nat) \<le> 2 ^ (8 - n)" by simp_all
    have sum: "(a + (q - 1)) * p + (p - 1) = a * p + (p * q - 1)"
      if "1 \<le> p" "1 \<le> q" for a p q :: nat
    proof -
      have "(q - 1) * p + (p - 1) = p * q - 1"
        using that by (simp add: diff_mult_distrib mult.commute [of q p])
      then show ?thesis by (simp add: algebra_simps)
    qed
    show ?thesis
      unfolding c d unfolding e
      using xy byte_first_last [OF n, of x] masked_tail [of xs' k] sum [OF one, of "low_bits (8 - n) (unat x)"]
      by (simp add: bytes_val_replicate_0 bytes_val_replicate_ff mult.commute mult.left_commute)
  qed
qed simp

section \<open>What \<open>parse_cidr\<close> returns\<close>

lemma digits_value_ge: "digits_value 10 a s = Some v \<Longrightarrow> a \<le> v"
proof (induction s arbitrary: a)
  case (Cons c s)
  then obtain d where "digits_value 10 (a * 10 + d) s = Some v" by (auto split: option.splits)
  from Cons.IH [OF this] show ?case by simp
qed simp

lemma to_digit_ascii: "is_ascii_digit c \<Longrightarrow> to_digit 10 c = Some (code c - 48)"
  by (auto simp: to_digit_def is_ascii_digit_def Let_def)

lemma dtoi_loop_digits:
  "list_all is_ascii_digit s \<Longrightarrow> digits_value 10 a s = Some v \<Longrightarrow> v < dtoi_big \<Longrightarrow> s \<noteq> [] \<or> 0 < i \<Longrightarrow>
   dtoi_loop a i s = (v, i + length s, True)"
proof (induction s arbitrary: a i)
  case (Cons c s)
  let ?a = "a * 10 + (code c - 48)"
  from Cons.prems have v: "digits_value 10 ?a s = Some v" by (simp add: to_digit_ascii)
  with Cons.prems have "?a < dtoi_big" using digits_value_ge [OF v] by simp
  with Cons.prems v Cons.IH [of ?a "Suc i"] show ?case by (simp add: Let_def not_le)
qed simp

lemma dtoi_nat_string: "n < dtoi_big \<Longrightarrow> dtoi (nat_string n) = (n, length (nat_string n), True)"
  using dtoi_loop_digits [of "nat_string n" 0 n 0]
  by (simp add: dtoi_def digits_value_nat_string list_all_iff)

lemma ip_mask_v4:
  "length b = 4 \<Longrightarrow> length m = 4 \<Longrightarrow> ip_mask (IP (V4_IN_V6_PREFIX @ b)) (IPMask m) = Some (IP (map2 (AND) b m))"
  by (simp add: ip_mask_def ip_len_def Let_def)

lemma ip_mask_v6:
  "length b = 16 \<Longrightarrow> length m = 16 \<Longrightarrow> ip_mask (IP b) (IPMask m) = Some (IP (map2 (AND) b m))"
  by (simp add: ip_mask_def ip_len_def Let_def)

abbreviation masked_net :: "nat \<Rightarrow> u8 list \<Rightarrow> nat \<Rightarrow> ipnet" where
  "masked_net k b n \<equiv>
     \<lparr>net_ip = IP (map2 (AND) b (cidr_bytes k n)), net_mask = IPMask (cidr_bytes k n)\<rparr>"

lemma parse_ipv6_length: "parse_ipv6 s = Some b \<Longrightarrow> length b = 16"
  by (auto simp: parse_ipv6_def split: option.splits prod.splits list.splits dest: read_ipv6_length)

lemma parse_cidr_cases:
  assumes "parse_cidr s = Some (x, net)"
  obtains (v4) b m n where "length b = 4" "n \<le> 32" "s = ipv4_string b @ CHR ''/'' # m"
      "dtoi m = (n, length m, True)" "x = IP (V4_IN_V6_PREFIX @ b)" "net = masked_net 4 b n"
  | (v6) a b m n where "length b = 16" "n \<le> 128" "s = a @ CHR ''/'' # m" "parse_ipv6 a = Some b"
      "CHR '':'' \<in> set a" "x = IP b" "net = masked_net 16 b n"
proof -
  from assms obtain a m where s: "split_once (CHR ''/'') s = Some (a, m)"
    by (auto simp: parse_cidr_def split: option.splits)
  then have sa: "s = a @ CHR ''/'' # m" by (simp add: split_once_Some)
  obtain n i ok where d: "dtoi m = (n, i, ok)" by (cases "dtoi m")
  show thesis
  proof (cases "parse_ipv4_strict a")
    case (Some b)
    then have b: "length b = 4" "a = ipv4_string b" by (simp_all add: parse_ipv4_strict_iff)
    then have o4: "ip_v4 (b ! 0) (b ! 1) (b ! 2) (b ! 3) = IP (V4_IN_V6_PREFIX @ b)"
      by (auto simp: ip_v4_def elim: length4E)
    from assms s Some d o4 b have n: "ok" "i = length m" "n \<le> 32"
      and net: "x = IP (V4_IN_V6_PREFIX @ b)" "net = masked_net 4 b n"
      by (simp_all add: parse_cidr_def ipmask_cidr_def ip_mask_v4 split: if_splits)
    from b(1) n(3) sa [unfolded b(2)] d [unfolded n(2)] net show thesis
      using n(1) by (intro v4) simp_all
  next
    case None
    with assms s obtain b where b: "CHR '':'' \<in> set a" "parse_ipv6 a = Some b"
      by (auto simp: parse_cidr_def split: if_splits option.splits)
    with parse_ipv6_length have l: "length b = 16" by blast
    from assms s None d b l have net: "n \<le> 128" "x = IP b" "net = masked_net 16 b n"
      by (simp_all add: parse_cidr_def ipmask_cidr_def ip_mask_v6 split: if_splits)
    from l net(1) sa b(2,1) net(2,3) show thesis by (rule v6)
  qed
qed

lemma drop_cidr_bytes: "drop j (cidr_bytes (j + k) n) = cidr_bytes k (n - 8 * j)"
proof (induction j arbitrary: n)
  case (Suc j)
  then show ?case by (simp add: cidr_bytes_0 not_le)
qed simp

lemma simple_mask_length_cidr: "n \<le> 8 * k \<Longrightarrow> simple_mask_length (cidr_bytes k n) = Some n"
  by (simp add: simple_mask_length_iff)

lemma net_form_v4:
  "length b = 4 \<Longrightarrow> n \<le> 32 \<Longrightarrow> net_form (masked_net 4 b n) = Some (IP (map2 (AND) b (cidr_bytes 4 n)), n)"
  by (simp add: net_form_def network_number_and_mask_def ip_len_def simple_mask_length_cidr Let_def)

lemma net_form_v6:
  assumes "length b = 16" and "n \<le> 128"
  shows "\<exists>nn k. net_form (masked_net 16 b n) = Some (nn, k)"
proof -
  have "simple_mask_length (drop 12 (cidr_bytes 16 n)) = Some (n - 96)"
    using drop_cidr_bytes [of 12 4 n] assms(2) by (simp add: simple_mask_length_cidr)
  moreover have "simple_mask_length (cidr_bytes 16 n) = Some n"
    using assms(2) by (simp add: simple_mask_length_cidr)
  moreover have "ip_len v = 4" if "to4 (IP (map2 (AND) b (cidr_bytes 16 n))) = Some v" for v
    using to4_length [OF that] by (simp add: ip_len_def)
  ultimately show ?thesis
    using assms(1)
    by (cases "to4 (IP (map2 (AND) b (cidr_bytes 16 n)))")
      (simp_all add: net_form_def network_number_and_mask_def ip_len_def Let_def)
qed

lemma parse_cidr_net_form:
  assumes "parse_cidr s = Some (x, net)"
  obtains nn k where "net_form net = Some (nn, k)"
  using assms
proof (cases rule: parse_cidr_cases)
  case (v4 b m n)
  then show ?thesis using that net_form_v4 by blast
next
  case (v6 a b m n)
  then show ?thesis using that net_form_v6 by blast
qed

lemma div_eq_interval:
  "(v :: nat) div 2 ^ e = w div 2 ^ e \<longleftrightarrow> low_bits e w \<le> v \<and> v \<le> low_bits e w + (2 ^ e - 1)"
proof
  assume eq: "v div 2 ^ e = w div 2 ^ e"
  have "v = low_bits e w + v mod 2 ^ e" by (simp only: eq [symmetric] div_mult_mod_eq)
  moreover have "v mod 2 ^ e < 2 ^ e" by simp
  ultimately show "low_bits e w \<le> v \<and> v \<le> low_bits e w + (2 ^ e - 1)" by (intro conjI) linarith+
next
  assume "low_bits e w \<le> v \<and> v \<le> low_bits e w + (2 ^ e - 1)"
  then have "low_bits e w \<le> v" "v < low_bits e w + 2 ^ e"
    using one_le_power [of "2 :: nat" e] by linarith+
  then show "v div 2 ^ e = w div 2 ^ e"
    by (intro div_nat_eqI) (simp_all add: mult.commute)
qed

lemma broadcast_v4:
  "length b = 4 \<Longrightarrow> ipv4_broadcast (masked_net 4 b n)
     = Some (IP (map2 (\<lambda>a m. a OR NOT m) (map2 (AND) b (cidr_bytes 4 n)) (cidr_bytes 4 n)))"
  by (simp add: ipv4_broadcast_def) (rule nth_equalityI, simp_all)

lemma ip_len_short_v4: "ip_len (short_form y) = 4 \<longleftrightarrow> (\<exists>c. to4 y = Some (IP c))"
proof (cases "to4 y")
  case None
  then show ?thesis by (auto simp: short_form_def to4_def ip_len_def split: if_splits)
next
  case (Some z)
  then show ?thesis using to4_length [OF Some] by (cases z) (simp add: short_form_def ip_len_def)
qed

lemma contains_v4_value:
  assumes "length b = 4" and "n \<le> 32"
  shows "ipnet_contains (masked_net 4 b n) y \<longleftrightarrow>
    (\<exists>c. to4 y = Some (IP c) \<and> bytes_val c div 2 ^ (32 - n) = bytes_val b div 2 ^ (32 - n))"
proof -
  have v: "bytes_val (map2 (AND) b (cidr_bytes 4 n)) = low_bits (32 - n) (bytes_val b)"
    using masked_values [of b 4 n] assms by simp
  have "ip_val (short_form y) = bytes_val c" if "to4 y = Some (IP c)" for c
    using that by (simp add: short_form_def)
  then show ?thesis
    using assms ip_len_short_v4 [of y]
    by (auto simp: contains_iff [OF net_form_v4 [OF assms]] ip_len_def v)
qed

lemma map2_and_idem:
  "length b = k \<Longrightarrow> length m = k \<Longrightarrow> map2 (AND) (map2 (AND) b m) m = map2 (AND) b (m :: u8 list)"
  by (rule nth_equalityI) (simp_all add: and.assoc)

lemma parse_cidr_v4:
  assumes "length b = 4" and "n \<le> 32"
  shows "parse_cidr (ipv4_string b @ CHR ''/'' # nat_string n)
    = Some (IP (V4_IN_V6_PREFIX @ b), masked_net 4 b n)"
proof -
  from assms(1) obtain p q r s where b: "b = [p, q, r, s]" by (rule length4E)
  have "dtoi (nat_string n) = (n, length (nat_string n), True)"
    using assms(2) by (intro dtoi_nat_string) (simp add: dtoi_big_def)
  moreover have "ip_v4 (b ! 0) (b ! 1) (b ! 2) (b ! 3) = IP (V4_IN_V6_PREFIX @ b)"
    by (simp add: b ip_v4_def)
  ultimately show ?thesis
    using assms by (simp add: parse_cidr_def split_once_append ipmask_cidr_def ip_mask_v4)
qed

lemma parse_cidr_v6:
  assumes "length b = 16" and "n \<le> 128" and "take 12 b \<noteq> V4_IN_V6_PREFIX"
  shows "parse_cidr (ipv6_string b @ CHR ''/'' # nat_string n) = Some (IP b, masked_net 16 b n)"
proof -
  have "dtoi (nat_string n) = (n, length (nat_string n), True)"
    using assms(2) by (intro dtoi_nat_string) (simp add: dtoi_big_def)
  then show ?thesis
    using assms ipv6_string_chars [OF assms(1,3)] parse_ipv6_string [OF assms(1,3)]
    by (simp add: parse_cidr_def split_once_append ipmask_cidr_def ip_mask_v6)
qed

lemma net_string_v4:
  assumes "length b = 4" and "n \<le> 32"
  shows "ipnet_string (masked_net 4 b n)
    = ipv4_string (map2 (AND) b (cidr_bytes 4 n)) @ CHR ''/'' # nat_string n"
proof -
  let ?nn = "map2 (AND) b (cidr_bytes 4 n)"
  from assms have len: "length ?nn = 4" by simp
  then obtain p q r s where nn: "?nn = [p, q, r, s]" by (rule length4E)
  have "ip_string (IP ?nn) = ipv4_string ?nn"
    unfolding nn by (simp add: ip_string_def to4_array_def)
  with assms len show ?thesis
    by (simp add: ipnet_string_def network_number_and_mask_def ip_len_def simple_mask_length_cidr Let_def)
qed

lemma net_string_v6:
  assumes "length b = 16" and "n \<le> 128" and "take 12 (map2 (AND) b (cidr_bytes 16 n)) \<noteq> V4_IN_V6_PREFIX"
  shows "ipnet_string (masked_net 16 b n)
    = ipv6_string (map2 (AND) b (cidr_bytes 16 n)) @ CHR ''/'' # nat_string n"
proof -
  let ?nn = "map2 (AND) b (cidr_bytes 16 n)"
  have none: "to4 (IP ?nn) = None" and len: "length ?nn = 16" using assms by (simp_all add: to4_def ip_len_def)
  then have ne: "?nn \<noteq> []" by (metis list.size(3) zero_neq_numeral)
  have "ip_string (IP ?nn) = ipv6_string ?nn"
    using ne none len by (simp add: ip_string_def to4_array_def ip_len_def)
  with assms none len show ?thesis
    by (simp add: ipnet_string_def network_number_and_mask_def ip_len_def simple_mask_length_cidr Let_def)
qed

section \<open>Properties\<close>

text \<open>
  C32: A network parsed from an IPv4 CIDR text contains exactly the IPv4 addresses whose value lies
  between its network number and its broadcast address, and the parsed address is one of them.
\<close>

theorem ipv4_net_interval:
  assumes "parse_cidr s = Some (x, net)" and "length (mask_bytes (net_mask net)) = 4"
  shows "\<exists>bc. ipv4_broadcast net = Some bc \<and> ipnet_contains net x \<and>
    (\<forall>y. ipnet_contains net y \<longleftrightarrow>
      (\<exists>c. to4 y = Some (IP c) \<and> ip_val (net_ip net) \<le> bytes_val c \<and> bytes_val c \<le> ip_val bc))"
  using assms(1)
proof (cases rule: parse_cidr_cases)
  case (v4 b m n)
  let ?nn = "map2 (AND) b (cidr_bytes 4 n)"
  have nn: "bytes_val ?nn = low_bits (32 - n) (bytes_val b)"
    using masked_values [of b 4 n] v4 by simp
  then have bc: "bytes_val (map2 (\<lambda>a m. a OR NOT m) ?nn (cidr_bytes 4 n))
      = low_bits (32 - n) (bytes_val b) + (2 ^ (32 - n) - 1)"
    using masked_values [of ?nn 4 n] v4 by simp
  have "ipnet_contains net x" using contains_v4_value [OF v4(1,2)] v4 by simp
  moreover have "ipnet_contains net y \<longleftrightarrow> (\<exists>c. to4 y = Some (IP c) \<and>
      ip_val (net_ip net) \<le> bytes_val c \<and> bytes_val c \<le> low_bits (32 - n) (bytes_val b) + (2 ^ (32 - n) - 1))" for y
    using v4 by (simp only: contains_v4_value [OF v4(1,2)] div_eq_interval) (simp add: nn)
  ultimately show ?thesis using broadcast_v4 [OF v4(1), of n] v4(6) bc by auto
next
  case (v6 a b m n)
  with assms(2) show ?thesis by simp
qed

theorem ipv4_net_interval_witness:
  "\<exists>x net. parse_cidr ''192.168.1.10/24'' = Some (x, net) \<and> length (mask_bytes (net_mask net)) = 4 \<and>
    (\<exists>bc. ipv4_broadcast net = Some bc \<and> ipnet_contains net x \<and>
      (\<forall>y. ipnet_contains net y \<longleftrightarrow>
        (\<exists>c. to4 y = Some (IP c) \<and> ip_val (net_ip net) \<le> bytes_val c \<and> bytes_val c \<le> ip_val bc)))"
proof -
  let ?r = "parse_cidr ''192.168.1.10/24''"
  have r: "?r \<noteq> None" "length (mask_bytes (net_mask (snd (the ?r)))) = 4" by code_simp+
  then obtain x net where "?r = Some (x, net)" "length (mask_bytes (net_mask net)) = 4" by auto
  then show ?thesis using ipv4_net_interval [of "''192.168.1.10/24''" x net] by blast
qed

text \<open>
  C34: Printing a parsed network and parsing the text again gives the same network, for every network
  but the IPv4-mapped ones, which print in dotted-decimal form.
\<close>

theorem parse_cidr_ipnet_string:
  assumes "parse_cidr s = Some (x, net)" and "length (mask_bytes (net_mask net)) = 4 \<or> to4 (net_ip net) = None"
  shows "\<exists>y. parse_cidr (ipnet_string net) = Some (y, net)"
  using assms(1)
proof (cases rule: parse_cidr_cases)
  case (v4 b m n)
  let ?nn = "map2 (AND) b (cidr_bytes 4 n)"
  have "ipnet_string net = ipv4_string ?nn @ CHR ''/'' # nat_string n"
    using v4 net_string_v4 by simp
  with parse_cidr_v4 [of ?nn n] v4 show ?thesis by (simp add: map2_and_idem)
next
  case (v6 a b m n)
  let ?nn = "map2 (AND) b (cidr_bytes 16 n)"
  from v6 assms(2) have mapped: "take 12 ?nn \<noteq> V4_IN_V6_PREFIX"
    by (simp add: to4_def ip_len_def split: if_splits)
  with v6 assms(2) have "ipnet_string net = ipv6_string ?nn @ CHR ''/'' # nat_string n"
    using net_string_v6 by simp
  with parse_cidr_v6 [of ?nn n] v6 mapped show ?thesis by (simp add: map2_and_idem)
qed

theorem parse_cidr_ipnet_string_witness:
  "\<exists>x net y. parse_cidr ''2001:db8::17/64'' = Some (x, net) \<and> to4 (net_ip net) = None \<and>
    parse_cidr (ipnet_string net) = Some (y, net)"
proof -
  let ?r = "parse_cidr ''2001:db8::17/64''"
  have r: "?r \<noteq> None" "to4 (net_ip (snd (the ?r))) = None" by code_simp+
  then obtain x net where "?r = Some (x, net)" "to4 (net_ip net) = None" by auto
  then show ?thesis using parse_cidr_ipnet_string [of "''2001:db8::17/64''" x net] by blast
qed

end
