(* ===== verification/Validation_Base.thy ===== *)
theory Validation_Base
  imports Config_Model Net_Host Net_Cidr
begin

text \<open>
  What the configuration checks share (\<open>mr-config/src/config/validation.rs\<close>): the error list, the patterns,
  the comparison of networks. The parameters are the tables of Unicode (the classes L and N of a pattern,
  lower case) and the base64 decoder.
\<close>

record env =
  letter_number :: "nat \<Rightarrow> bool"
  lowercase :: "string \<Rightarrow> string"
  base64_engine :: "string \<Rightarrow> u8 list option"

record validation_error =
  ve_field :: string
  ve_message :: string

type_synonym validation_errors = "validation_error list"

text \<open>\<open>errs.add(field, message)\<close> under a condition.\<close>

definition check :: "bool \<Rightarrow> string \<Rightarrow> string \<Rightarrow> validation_errors" where
  "check bad field message = (if bad then [\<lparr>ve_field = field, ve_message = message\<rparr>] else [])"

lemma check_Nil [simp]: "check bad field message = [] \<longleftrightarrow> \<not> bad"
  by (simp add: check_def)

lemma check_False [simp]: "check False field message = []"
  by (simp add: check_def)

definition into_result :: "validation_errors \<Rightarrow> validation_errors + unit" where
  "into_result errs = (if errs = [] then Inr () else Inl errs)"

lemma into_result_ok [simp]: "into_result errs = Inr () \<longleftrightarrow> errs = []"
  by (simp add: into_result_def)

definition validation_error_text :: "validation_error \<Rightarrow> string" where
  "validation_error_text e = ve_field e @ '': '' @ ve_message e"

definition validation_errors_text :: "validation_errors \<Rightarrow> string" where
  "validation_errors_text errs = join ''; '' (map validation_error_text errs)"

text \<open>\<open>format!("name[{}]", i)\<close>.\<close>

definition at_index :: "string \<Rightarrow> nat \<Rightarrow> string" where
  "at_index name i = name @ ''['' @ nat_string i @ '']''"

section \<open>Patterns\<close>

definition label_char :: "char \<Rightarrow> bool" where
  "label_char c = (is_ascii_alnum c \<or> c = CHR ''-'')"

definition domain_char :: "char \<Rightarrow> bool" where
  "domain_char c = (is_ascii_alnum c \<or> c = CHR ''.'' \<or> c = CHR ''-'')"

definition token_char :: "char \<Rightarrow> bool" where
  "token_char c = (is_ascii_alnum c \<or> c = CHR ''_'' \<or> c = CHR ''.'' \<or> c = CHR ''-'')"

text \<open>\<open>^[A-Za-z0-9](?:[..]{0,n}[A-Za-z0-9])?$\<close>: \<open>inner\<close> is the class in the middle.\<close>

definition edged :: "(char \<Rightarrow> bool) \<Rightarrow> nat \<Rightarrow> string \<Rightarrow> bool" where
  "edged inner n s =
     (case s of
        [] \<Rightarrow> False
      | [c] \<Rightarrow> is_ascii_alnum c
      | c # d # r \<Rightarrow> is_ascii_alnum c \<and> length r \<le> n \<and> list_all inner (butlast (d # r)) \<and> is_ascii_alnum (last (d # r)))"

text \<open>\<open>^[first][rest]{0,n}$\<close>.\<close>

definition led_by :: "('a \<Rightarrow> bool) \<Rightarrow> ('a \<Rightarrow> bool) \<Rightarrow> nat \<Rightarrow> 'a list \<Rightarrow> bool" where
  "led_by first rest n s = (case s of [] \<Rightarrow> False | c # r \<Rightarrow> first c \<and> length r \<le> n \<and> list_all rest r)"

definition INTERFACE_NAME_PATTERN :: "string \<Rightarrow> bool" where
  "INTERFACE_NAME_PATTERN s = led_by is_ascii_alnum token_char 14 s"

definition HOSTNAME_PATTERN :: "string \<Rightarrow> bool" where
  "HOSTNAME_PATTERN s = edged label_char 61 s"

definition DOMAIN_PATTERN :: "string \<Rightarrow> bool" where
  "DOMAIN_PATTERN s = edged domain_char 251 s"

definition SAFE_NAME_PATTERN :: "env \<Rightarrow> string \<Rightarrow> bool" where
  "SAFE_NAME_PATTERN v s =
     led_by (letter_number v)
       (\<lambda>n. letter_number v n \<or> n \<in> set (map of_char '' ._()/-'')) 63 (code_points s)"

definition PRESET_ID_PATTERN :: "string \<Rightarrow> bool" where
  "PRESET_ID_PATTERN s =
     led_by is_ascii_lower (\<lambda>c. is_ascii_lower c \<or> is_ascii_digit c \<or> c = CHR ''-'') 31 s"

definition CREDENTIAL_NAME_PATTERN :: "string \<Rightarrow> bool" where
  "CREDENTIAL_NAME_PATTERN s = led_by is_ascii_alnum token_char 63 s"

definition CLOUDFLARE_TOKEN_PATTERN :: "string \<Rightarrow> bool" where
  "CLOUDFLARE_TOKEN_PATTERN s =
     (20 \<le> length s \<and> length s \<le> 256 \<and> list_all (\<lambda>c. is_ascii_alnum c \<or> c = CHR ''_'' \<or> c = CHR ''-'') s)"

definition WIREGUARD_ENDPOINT_HOST_PATTERN :: "string \<Rightarrow> bool" where
  "WIREGUARD_ENDPOINT_HOST_PATTERN s = edged domain_char 251 s"

definition valid_interface_name :: "string \<Rightarrow> bool" where
  "valid_interface_name s = INTERFACE_NAME_PATTERN s"

section \<open>Addresses, networks and keys\<close>

definition be_value :: "u8 list \<Rightarrow> nat" where
  "be_value bs = foldl (\<lambda>a b. a * 256 + unat b) 0 bs"

definition ipv4_value :: "ip \<Rightarrow> nat" where
  "ipv4_value x = (case to4_array x of None \<Rightarrow> 0 | Some bs \<Rightarrow> be_value bs)"

definition networks_overlap :: "ipnet \<Rightarrow> ipnet \<Rightarrow> bool" where
  "networks_overlap a b = (ipnet_contains a (net_ip b) \<or> ipnet_contains b (net_ip a))"

definition network_contains_network :: "ipnet \<Rightarrow> ipnet \<Rightarrow> bool" where
  "network_contains_network parent child =
     (let (p, pb) = mask_size (net_mask parent); (c, cb) = mask_size (net_mask child)
      in pb = cb \<and> c \<ge> p \<and> ipnet_contains parent (net_ip child))"

definition std_decode :: "env \<Rightarrow> string \<Rightarrow> u8 list option" where
  "std_decode v text = base64_engine v (filter (\<lambda>c. c \<noteq> CHR 0x0D \<and> c \<noteq> CHR 0x0A) text)"

definition valid_wireguard_key :: "env \<Rightarrow> string \<Rightarrow> bool" where
  "valid_wireguard_key v s = (case std_decode v s of None \<Rightarrow> False | Some d \<Rightarrow> length d = 32)"

text \<open>\<open>network.ip.to4().unwrap_or_else(|| network.ip.clone())\<close>.\<close>

definition network_number :: "ipnet \<Rightarrow> ip" where
  "network_number n = (case to4 (net_ip n) of Some x \<Rightarrow> x | None \<Rightarrow> net_ip n)"

text \<open>\<open>lan_network.is_some_and(|n| p(n))\<close>.\<close>

definition is_some_and :: "'a option \<Rightarrow> ('a \<Rightarrow> bool) \<Rightarrow> bool" where
  "is_some_and x p = (case x of None \<Rightarrow> False | Some n \<Rightarrow> p n)"

lemma is_some_and_simps [simp]: "is_some_and None p = False" "is_some_and (Some n) p = p n"
  by (simp_all add: is_some_and_def)

definition wireguard_server_network :: "system_config \<Rightarrow> ipnet option" where
  "wireguard_server_network c =
     (if \<not> wg_enabled (wireguard c) \<or> wg_address (wireguard c) = [] then None
      else map_option snd (parse_cidr (wg_address (wireguard c))))"

text \<open>\<open>go_atoi\<close>: the second parse is Rust's \<open>i64\<close> reader, which fails outside of the range.\<close>

definition go_atoi :: "string \<Rightarrow> int option" where
  "go_atoi text =
     (let ds = (case text of c # r \<Rightarrow> if c = CHR ''+'' \<or> c = CHR ''-'' then r else text | [] \<Rightarrow> text)
      in if ds = [] \<or> \<not> list_all is_ascii_digit ds then None
         else
           (let n = int (dval ds); x = (if hd text = CHR ''-'' then - n else n)
            in if is_i64 x then Some x else None))"

end
