(* ===== verification/Profiles.thy ===== *)
theory Profiles
  imports Validation_Base
begin

text \<open>
  Device profiles and their access schedules (\<open>mr-config/src/config/profiles.rs\<close>).
\<close>

definition DEVICE_PROFILE_ID_PATTERN :: "string \<Rightarrow> bool" where
  "DEVICE_PROFILE_ID_PATTERN s =
     led_by is_ascii_alnum (\<lambda>c. is_ascii_alnum c \<or> c = CHR ''_'' \<or> c = CHR ''-'') 63 s"

definition SUPPORTED_PROFILE_SERVICES :: "string list" where
  "SUPPORTED_PROFILE_SERVICES =
     [''youtube'', ''steam'', ''wiki'', ''tiktok'', ''instagram'', ''facebook'', ''roblox'', ''epic'',
      ''twitch'', ''adult'', ''gaming'']"

definition SUPPORTED_SCHEDULE_DAYS :: "string list" where
  "SUPPORTED_SCHEDULE_DAYS =
     [''monday'', ''tuesday'', ''wednesday'', ''thursday'', ''friday'', ''saturday'', ''sunday'']"

text \<open>The loop over the windows: the errors, and the parsed windows in order.\<close>

fun parse_windows :: "string \<Rightarrow> nat \<Rightarrow> access_window list \<Rightarrow> validation_errors \<times> (nat \<times> nat) list" where
  "parse_windows field i [] = ([], [])"
| "parse_windows field i (w # ws) =
     (let (errs, parsed) = parse_windows field (i + 1) ws
      in case (parse_clock (aw_start w), parse_clock (aw_end w)) of
           (Some (sh, sm), Some (eh, em)) \<Rightarrow>
             (let start = sh * 60 + sm; stop = eh * 60 + em
              in if stop \<le> start
                 then (check True (at_index field i) ''end must be later than start; split midnight-spanning access'' @ errs, parsed)
                 else (errs, (start, stop) # parsed))
         | _ \<Rightarrow> (check True (at_index field i) ''must use HH:MM 24-hour times'' @ errs, parsed))"

text \<open>\<open>parsed.windows(2).any(..)\<close> on the windows sorted by their start.\<close>

fun overlapping :: "(nat \<times> nat) list \<Rightarrow> bool" where
  "overlapping (a # b # ws) = (fst b < snd a \<or> overlapping (b # ws))"
| "overlapping _ = False"

definition validate_windows :: "string \<Rightarrow> access_window list \<Rightarrow> validation_errors" where
  "validate_windows field windows =
     (if length windows > 12 then check True field ''cannot contain more than twelve windows''
      else
        (let (errs, parsed) = parse_windows field 0 windows
         in errs @ check (overlapping (sort_key fst parsed)) field ''windows must not overlap''))"

fun validate_days :: "string \<Rightarrow> (string \<times> access_window glist) list \<Rightarrow> validation_errors" where
  "validate_days field [] = []"
| "validate_days field ((day, windows) # days) =
     (if day \<notin> set SUPPORTED_SCHEDULE_DAYS
      then check True (field @ ''.day_windows.'' @ day) ''is not a supported weekday''
      else validate_windows (field @ ''.day_windows.'' @ day) (items windows)) @ validate_days field days"

definition validate_profile_schedule :: "string \<Rightarrow> weekly_access_schedule \<Rightarrow> validation_errors" where
  "validate_profile_schedule field schedule =
     (if ws_day_windows schedule \<noteq> [] then
        check (length (ws_day_windows schedule) > 7) (field @ ''.day_windows'') ''cannot contain more than seven days'' @
        check (items (ws_weekday_windows schedule) \<noteq> [] \<or> ws_weekend_mode schedule \<noteq> [] \<or> items (ws_weekend_windows schedule) \<noteq> [])
          field ''must not mix day_windows with legacy weekday/weekend fields'' @
        validate_days field (ws_day_windows schedule)
      else
        validate_windows (field @ ''.weekday_windows'') (items (ws_weekday_windows schedule)) @
        (if ws_weekend_mode schedule \<in> {''all_day'', ''blocked'', ''same_as_weekdays'', []} then
           check (items (ws_weekend_windows schedule) \<noteq> []) (field @ ''.weekend_windows'') ''must be empty unless weekend_mode is custom''
         else if ws_weekend_mode schedule = ''custom'' then
           check (items (ws_weekend_windows schedule) = []) (field @ ''.weekend_windows'') ''must contain at least one window for custom weekend mode'' @
           validate_windows (field @ ''.weekend_windows'') (items (ws_weekend_windows schedule))
         else check True (field @ ''.weekend_mode'') ''must be all_day, blocked, same_as_weekdays, or custom''))"

text \<open>The addresses of one profile; \<open>seen\<close> maps an address to the profile that lists it last.\<close>

fun validate_profile_ips ::
  "ipnet option \<Rightarrow> string \<Rightarrow> string \<Rightarrow> nat \<Rightarrow> (string \<rightharpoonup> string) \<Rightarrow> string list \<Rightarrow> validation_errors \<times> (string \<rightharpoonup> string)" where
  "validate_profile_ips lan_network path owner j seen [] = ([], seen)"
| "validate_profile_ips lan_network path owner j seen (raw_ip # ips) =
     (let x = parse_ipv4 raw_ip; field = at_index (path @ ''.ip_addresses'') j;
          errs = check (x = None \<or> is_some_and lan_network (\<lambda>n. \<not> ipnet_contains_opt n x)) field
                   ''must be a valid address in the LAN subnet'' @
                 check (is_some_and (seen raw_ip) (\<lambda>other. other \<noteq> owner)) field ''is already controlled by another profile'';
          (rest, seen') = validate_profile_ips lan_network path owner (j + 1) (seen(raw_ip \<mapsto> owner)) ips
      in (errs @ rest, seen'))"

fun validate_profile_services :: "env \<Rightarrow> string \<Rightarrow> nat \<Rightarrow> string list \<Rightarrow> string list \<Rightarrow> validation_errors" where
  "validate_profile_services v path j seen [] = []"
| "validate_profile_services v path j seen (service # ss) =
     (let field = at_index (path @ ''.services'') j
      in check (service \<noteq> to_lower (lowercase v) (trim_space service)) field ''must be a lowercase service identifier'' @
         check (service \<notin> set SUPPORTED_PROFILE_SERVICES) field ''is not a supported managed service'' @
         check (service \<in> set seen) field ''duplicates another service'' @
         validate_profile_services v path (j + 1) (service # seen) ss)"

fun validate_profiles ::
  "env \<Rightarrow> ipnet option \<Rightarrow> nat \<Rightarrow> string list \<Rightarrow> (string \<rightharpoonup> string) \<Rightarrow> device_profile list \<Rightarrow> validation_errors" where
  "validate_profiles v lan_network i seen_ids seen_ips [] = []"
| "validate_profiles v lan_network i seen_ids seen_ips (profile # ps) =
     (let path = at_index ''adguard.device_profiles'' i;
          (ip_errs, seen_ips') =
            validate_profile_ips lan_network path (dp_id profile) 0 seen_ips (items (dp_ip_addresses profile))
      in check (\<not> DEVICE_PROFILE_ID_PATTERN (dp_id profile)) (path @ ''.id'') ''must contain only letters, numbers, underscore, or hyphen'' @
         check (dp_id profile \<in> set seen_ids) (path @ ''.id'') ''duplicates another profile'' @
         check (\<not> SAFE_NAME_PATTERN v (dp_name profile) \<or> has_control (dp_name profile)) (path @ ''.name'') ''contains unsupported characters'' @
         check (items (dp_ip_addresses profile) = [] \<or> length (items (dp_ip_addresses profile)) > 32) (path @ ''.ip_addresses'')
           ''must contain between one and 32 LAN addresses'' @
         ip_errs @
         check (items (dp_services profile) = [] \<or> length (items (dp_services profile)) > length SUPPORTED_PROFILE_SERVICES)
           (path @ ''.services'') ''must contain at least one supported service'' @
         validate_profile_services v path 0 [] (items (dp_services profile)) @
         validate_profile_schedule (path @ ''.schedule'') (dp_schedule profile) @
         validate_profiles v lan_network (i + 1) (dp_id profile # seen_ids) seen_ips' ps)"

definition validate_device_profiles :: "env \<Rightarrow> system_config \<Rightarrow> ipnet option \<Rightarrow> validation_errors" where
  "validate_device_profiles v c lan_network =
     check (items (df_filter_devices (adguard c)) \<noteq> []) ''adguard.filter_devices'' ''legacy per-device rules must be migrated to device_profiles'' @
     check (length (items (df_device_profiles (adguard c))) > 64) ''adguard.device_profiles'' ''cannot contain more than 64 profiles'' @
     validate_profiles v lan_network 0 [] Map.empty (items (df_device_profiles (adguard c)))"

end
