(* ===== verification/Validation.thy ===== *)
theory Validation
  imports Profiles
begin

text \<open>
  \<open>SystemConfig::validate\<close> of \<open>mr-config/src/config/validation.rs\<close>, one definition per group of checks in the
  order of the source. A set of seen values is the list of the values inserted so far.
\<close>

section \<open>System, WAN and LAN\<close>

definition validate_system :: "system_config \<Rightarrow> validation_errors" where
  "validate_system c =
     check (\<not> HOSTNAME_PATTERN (sys_hostname (system c))) ''system.hostname'' ''must be a valid RFC-compatible hostname label'' @
     check (\<not> DOMAIN_PATTERN (sys_domain (system c)) \<or> has_control (sys_domain (system c))) ''system.domain'' ''must be a valid local DNS domain'' @
     check (sys_https_port (system c) < 1024 \<or> sys_https_port (system c) > 65535) ''system.https_port'' ''must be an unprivileged port between 1024 and 65535'' @
     check (\<not> sys_https_enabled (system c)) ''system.https_enabled'' ''management HTTPS cannot be disabled'' @
     (let access = sys_management_access (system c)
      in check (access \<noteq> [] \<and> access \<noteq> ''lan_and_wireguard'' \<and> access \<noteq> ''wireguard_only'') ''system.management_access'' ''must be lan_and_wireguard or wireguard_only'' @
         (if access = ''wireguard_only'' then
            check (\<not> wg_enabled (wireguard c)) ''system.management_access'' ''requires WireGuard to be enabled'' @
            check (\<not> list_ex wp_enabled (items (wg_peers (wireguard c)))) ''system.management_access'' ''requires at least one enabled WireGuard peer''
          else []))"

definition validate_wan :: "system_config \<Rightarrow> validation_errors" where
  "validate_wan c =
     check (\<not> valid_interface_name (wan_interface (wan c))) ''wan.interface'' ''must be a valid Linux interface name of at most 15 characters'' @
     check (\<not> valid_interface_name (lan_interface (lan c))) ''lan.interface'' ''must be a valid Linux interface name of at most 15 characters'' @
     check (wan_interface (wan c) = lan_interface (lan c)) ''wan.interface'' ''WAN interface cannot be the same as LAN interface'' @
     check (wan_mtu (wan c) < 1280 \<or> wan_mtu (wan c) > 1500) ''wan.mtu'' ''must be between 1280 and 1500'' @
     check (has_control (wan_username (wan c)) \<or> length (wan_username (wan c)) > 255) ''wan.username'' ''contains forbidden control characters or is too long'' @
     check (has_control (wan_password (wan c)) \<or> length (wan_password (wan c)) > 1024) ''wan.password'' ''contains forbidden control characters or is too long'' @
     (if wan_enabled (wan c) then
        check (trim_space (wan_username (wan c)) = []) ''wan.username'' ''is required when PPPoE is enabled'' @
        check (wan_password (wan c) = [] \<or> wan_password (wan c) = ''[REDACTED]'') ''wan.password'' ''a new PPPoE password is required when none is stored''
      else [])"

text \<open>The address of the LAN inside its network.\<close>

definition validate_lan_ip :: "ip \<Rightarrow> ip \<Rightarrow> ipnet \<Rightarrow> validation_errors" where
  "validate_lan_ip lan_ip cidr_ip network =
     check (\<not> ipnet_contains network lan_ip) ''lan.cidr'' ''must contain the configured LAN address'' @
     check (\<not> ip_equal cidr_ip lan_ip) ''lan.cidr'' ''address must exactly match lan.ip_address'' @
     check (ip_equal lan_ip (net_ip network) \<or> ip_equal_opt lan_ip (ipv4_broadcast network) \<or>
         is_unspecified lan_ip \<or> is_loopback lan_ip \<or> is_multicast lan_ip)
       ''lan.ip_address'' ''must be a usable host address, not a network, broadcast, loopback or multicast address''"

definition validate_lan :: "system_config \<Rightarrow> ip option \<Rightarrow> validation_errors \<times> ipnet option" where
  "validate_lan c lan_ip =
     (if lan_cidr (lan c) \<noteq> [] then
        (case parse_cidr (lan_cidr (lan c)) of
           None \<Rightarrow> (check True ''lan.cidr'' ''must be valid IPv4 CIDR notation'', None)
         | Some (cidr_ip, network) \<Rightarrow>
             (if to4 cidr_ip = None then (check True ''lan.cidr'' ''must contain an IPv4 address'', None)
              else
                ((case lan_ip of None \<Rightarrow> [] | Some x \<Rightarrow> validate_lan_ip x cidr_ip network) @
                 check (lan_netmask (lan c) \<noteq> ip_string (IP (mask_bytes (net_mask network)))) ''lan.netmask'' ''must match the CIDR prefix'',
                 Some network)))
      else (check True ''lan.cidr'' ''is required'', None))"

section \<open>DHCP\<close>

fun validate_dns_servers :: "ip option \<Rightarrow> nat \<Rightarrow> string list \<Rightarrow> string list \<Rightarrow> validation_errors" where
  "validate_dns_servers lan_ip i seen [] = []"
| "validate_dns_servers lan_ip i seen (server # ds) =
     (let field = at_index ''dhcp.dns_servers'' i
      in case parse_ipv4 server of
           None \<Rightarrow> check True field ''must be a valid IPv4 address'' @ validate_dns_servers lan_ip (i + 1) seen ds
         | Some x \<Rightarrow>
             (if is_unspecified x \<or> is_loopback x \<or> is_multicast x \<or> ip_equal x (ip_v4 255 255 255 255) \<or> ip_equal_opt x lan_ip
              then check True field ''must be a unicast upstream resolver, not the router's own DNS listener'' @
                   validate_dns_servers lan_ip (i + 1) seen ds
              else check (ip_string x \<in> set seen) field ''duplicates another upstream resolver'' @
                   validate_dns_servers lan_ip (i + 1) (ip_string x # seen) ds))"

definition validate_dhcp_range :: "ip \<Rightarrow> ip \<Rightarrow> ip option \<Rightarrow> ipnet option \<Rightarrow> validation_errors" where
  "validate_dhcp_range start stop lan_ip lan_network =
     check (ipv4_value start > ipv4_value stop) ''dhcp.range'' ''range start must not be after range end'' @
     (case lan_network of
        None \<Rightarrow> []
      | Some network \<Rightarrow>
          check (\<not> ipnet_contains network start \<or> \<not> ipnet_contains network stop) ''dhcp.range'' ''must be contained in the LAN subnet'' @
          check (ip_equal start (network_number network) \<or> ip_equal_opt stop (ipv4_broadcast network)) ''dhcp.range'' ''cannot include the network or broadcast address'') @
     (case lan_ip of
        None \<Rightarrow> []
      | Some x \<Rightarrow>
          check (ipv4_value start \<le> ipv4_value x \<and> ipv4_value x \<le> ipv4_value stop) ''dhcp.range'' ''cannot contain the LAN gateway address'')"

definition valid_lease_time :: "string \<Rightarrow> bool" where
  "valid_lease_time s = (case parse_duration s of Inl e \<Rightarrow> False | Inr d \<Rightarrow> d \<ge> MINUTE \<and> d \<le> duration_hours (7 * 24))"

definition validate_lease_ip ::
  "string \<Rightarrow> ip option \<Rightarrow> ip option \<Rightarrow> ipnet option \<Rightarrow> ip option \<Rightarrow> ip option \<Rightarrow> validation_errors" where
  "validate_lease_ip field x lan_ip lan_network start_ip end_ip =
     (case (x, lan_network) of
        (None, _) \<Rightarrow> check True field ''must be a valid address in the LAN subnet''
      | (Some y, Some network) \<Rightarrow>
          (if \<not> ipnet_contains network y then check True field ''must be a valid address in the LAN subnet''
           else if is_some_and lan_ip (ip_equal y) then check True field ''cannot use the router LAN address''
           else if ip_equal y (network_number network) then check True field ''cannot use the network address''
           else if ip_equal_opt y (ipv4_broadcast network) then check True field ''cannot use the broadcast address''
           else
             (case (start_ip, end_ip) of
                (Some start, Some stop) \<Rightarrow>
                  check (ipv4_value y \<ge> ipv4_value start \<and> ipv4_value y \<le> ipv4_value stop) field ''must not overlap the dynamic DHCP pool''
              | _ \<Rightarrow> []))
      | (Some y, None) \<Rightarrow> [])"

fun validate_leases ::
  "ip option \<Rightarrow> ipnet option \<Rightarrow> ip option \<Rightarrow> ip option \<Rightarrow> nat \<Rightarrow> string list \<Rightarrow> string list \<Rightarrow> static_lease list \<Rightarrow> validation_errors" where
  "validate_leases lan_ip lan_network start_ip end_ip i seen_mac seen_ip [] = []"
| "validate_leases lan_ip lan_network start_ip end_ip i seen_mac seen_ip (lease # ls) =
     (let path = at_index ''dhcp.static_leases'' i; field = path @ ''.ip_address'';
          x = parse_ipv4 (sl_ip_address lease);
          (mac_errs, seen_mac') =
            (case parse_mac (sl_mac lease) of
               Some mac \<Rightarrow>
                 (if length mac = 6
                  then (check (mac_string mac \<in> set seen_mac) (path @ ''.mac'') ''duplicates another static lease'', mac_string mac # seen_mac)
                  else (check True (path @ ''.mac'') ''must be a valid 48-bit MAC address'', seen_mac))
             | None \<Rightarrow> (check True (path @ ''.mac'') ''must be a valid 48-bit MAC address'', seen_mac));
          (dup_errs, seen_ip') =
            (case x of
               None \<Rightarrow> ([], seen_ip)
             | Some y \<Rightarrow> (check (ip_string y \<in> set seen_ip) field ''duplicates another static lease'', ip_string y # seen_ip))
      in mac_errs @
         validate_lease_ip field x lan_ip lan_network start_ip end_ip @
         dup_errs @
         check (sl_hostname lease \<noteq> [] \<and> \<not> HOSTNAME_PATTERN (sl_hostname lease)) (path @ ''.hostname'') ''must be a valid hostname'' @
         validate_leases lan_ip lan_network start_ip end_ip (i + 1) seen_mac' seen_ip' ls)"

definition validate_dhcp :: "system_config \<Rightarrow> ip option \<Rightarrow> ipnet option \<Rightarrow> validation_errors" where
  "validate_dhcp c lan_ip lan_network =
     (let start_ip = parse_ipv4 (dhcp_range_start (dhcp c)); end_ip = parse_ipv4 (dhcp_range_end (dhcp c))
      in check (start_ip = None) ''dhcp.range_start'' ''must be a valid IPv4 address'' @
         check (end_ip = None) ''dhcp.range_end'' ''must be a valid IPv4 address'' @
         (case (start_ip, end_ip) of
            (Some start, Some stop) \<Rightarrow> validate_dhcp_range start stop lan_ip lan_network
          | _ \<Rightarrow> []) @
         check (\<not> valid_lease_time (dhcp_lease_time (dhcp c))) ''dhcp.lease_time'' ''must be a duration between 1m and 168h'' @
         validate_leases lan_ip lan_network start_ip end_ip 0 [] [] (items (dhcp_static_leases (dhcp c))))"

section \<open>Firewall\<close>

text \<open>The protocol/port keys of one forward.\<close>

fun validate_forward_keys :: "string \<Rightarrow> int \<Rightarrow> string list \<Rightarrow> string list \<Rightarrow> validation_errors \<times> string list" where
  "validate_forward_keys field port seen [] = ([], seen)"
| "validate_forward_keys field port seen (protocol # ps) =
     (let key = protocol @ ''/'' @ int_string port;
          (errs, seen') = validate_forward_keys field port (key # seen) ps
      in (check (key \<in> set seen) field ''duplicates an external protocol/port'' @ errs, seen'))"

fun validate_forwards ::
  "env \<Rightarrow> system_config \<Rightarrow> ipnet option \<Rightarrow> nat \<Rightarrow> string list \<Rightarrow> port_forward_rule list \<Rightarrow> validation_errors" where
  "validate_forwards v c lan_network i seen [] = []"
| "validate_forwards v c lan_network i seen (pf # pfs) =
     (let path = at_index ''firewall.port_forwards'' i;
          protocol = to_lower (lowercase v) (pf_protocol pf);
          target_ip = parse_ipv4 (pf_internal_ip pf);
          (key_errs, seen') =
            validate_forward_keys path (pf_external_port pf) seen (if protocol = ''both'' then [''tcp'', ''udp''] else [protocol])
      in check (pf_enabled pf \<and> \<not> wg_enabled (wireguard c)) (path @ ''.enabled'')
           ''requires WireGuard: forwards are reachable only over the tunnel, never from WAN'' @
         check (\<not> SAFE_NAME_PATTERN v (pf_name pf) \<or> has_control (pf_name pf)) (path @ ''.name'') ''contains unsupported characters'' @
         check (protocol \<noteq> ''tcp'' \<and> protocol \<noteq> ''udp'' \<and> protocol \<noteq> ''both'') (path @ ''.protocol'') ''must be tcp, udp, or both'' @
         check (pf_external_port pf < 1 \<or> pf_external_port pf > 65535) (path @ ''.external_port'') ''must be between 1 and 65535'' @
         check (pf_internal_port pf < 1 \<or> pf_internal_port pf > 65535) (path @ ''.internal_port'') ''must be between 1 and 65535'' @
         check (target_ip = None \<or> is_some_and lan_network (\<lambda>n. \<not> ipnet_contains_opt n target_ip)) (path @ ''.internal_ip'')
           ''must be a valid address in the LAN subnet'' @
         check (pf_external_port pf = sys_https_port (system c) \<or> pf_external_port pf = 8443) (path @ ''.external_port'')
           ''cannot expose a router management port'' @
         key_errs @
         validate_forwards v c lan_network (i + 1) seen' pfs)"

definition validate_rule_source :: "ipnet option \<Rightarrow> string \<Rightarrow> string \<Rightarrow> validation_errors" where
  "validate_rule_source lan_network field src_ip =
     (case parse_ipv4 src_ip of
        Some x \<Rightarrow> check (is_some_and lan_network (\<lambda>n. \<not> ipnet_contains n x)) field ''must be a valid LAN source address''
      | None \<Rightarrow>
          (case parse_cidr src_ip of
             Some (_, src) \<Rightarrow>
               (if to4 (net_ip src) \<noteq> None
                then check (is_some_and lan_network (\<lambda>n. \<not> network_contains_network n src)) field ''must be contained in the LAN network''
                else check True field ''must be a valid LAN source address or IPv4 CIDR'')
           | None \<Rightarrow> check True field ''must be a valid LAN source address or IPv4 CIDR''))"

definition validate_rule :: "env \<Rightarrow> system_config \<Rightarrow> ipnet option \<Rightarrow> string \<Rightarrow> firewall_rule \<Rightarrow> validation_errors" where
  "validate_rule v c lan_network path rule =
     check (fr_scope rule \<noteq> [] \<and> fr_scope rule \<noteq> ''all'' \<and> fr_scope rule \<noteq> ''wan'') (path @ ''.scope'') ''must be all or wan'' @
     check (fr_direction rule = ''input'' \<and> fr_scope rule = ''wan'') (path @ ''.scope'') ''WAN scope is only valid for forward rules'' @
     check (fr_preset_id rule \<noteq> [] \<and> \<not> PRESET_ID_PATTERN (fr_preset_id rule)) (path @ ''.preset_id'') ''must be a short preset identifier'' @
     check (\<not> SAFE_NAME_PATTERN v (fr_name rule) \<or> has_control (fr_name rule)) (path @ ''.name'') ''contains unsupported characters'' @
     check (fr_action rule \<noteq> ''allow'' \<and> fr_action rule \<noteq> ''deny'') (path @ ''.action'') ''must be allow or deny'' @
     check (fr_direction rule \<noteq> ''input'' \<and> fr_direction rule \<noteq> ''forward'') (path @ ''.direction'') ''must be input or forward'' @
     (if fr_protocol rule = ''tcp'' \<or> fr_protocol rule = ''udp'' then
        check (fr_dst_port rule < 1 \<or> fr_dst_port rule > 65535) (path @ ''.dst_port'') ''is required for TCP/UDP and must be between 1 and 65535''
      else if fr_protocol rule = ''icmp'' \<or> fr_protocol rule = ''any'' then
        check (fr_dst_port rule \<noteq> 0) (path @ ''.dst_port'') ''must be zero for ICMP/any''
      else check True (path @ ''.protocol'') ''must be tcp, udp, icmp, or any'') @
     (if fr_src_ip rule \<noteq> [] then validate_rule_source lan_network (path @ ''.src_ip'') (fr_src_ip rule) else []) @
     check (sys_management_access (system c) = ''wireguard_only'' \<and> fr_enabled rule \<and> fr_direction rule = ''input'' \<and> fr_action rule = ''allow'')
       path ''LAN input allow rules are forbidden in wireguard_only management mode''"

fun validate_rules :: "env \<Rightarrow> system_config \<Rightarrow> ipnet option \<Rightarrow> nat \<Rightarrow> firewall_rule list \<Rightarrow> validation_errors" where
  "validate_rules v c lan_network i [] = []"
| "validate_rules v c lan_network i (rule # rs) =
     validate_rule v c lan_network (at_index ''firewall.custom_rules'' i) rule @ validate_rules v c lan_network (i + 1) rs"

definition validate_firewall :: "env \<Rightarrow> system_config \<Rightarrow> ipnet option \<Rightarrow> validation_errors" where
  "validate_firewall v c lan_network =
     check (fw_default_wan_input_policy (firewall c) \<noteq> ''deny'') ''firewall.default_wan_input_policy'' ''must remain deny'' @
     check (fw_wan_ingress_mode (firewall c) \<noteq> [] \<and> fw_wan_ingress_mode (firewall c) \<noteq> ''wireguard_only'')
       ''firewall.wan_ingress_mode'' ''must remain wireguard_only'' @
     check (\<not> fw_stateful_firewall (firewall c)) ''firewall.stateful_firewall'' ''cannot be disabled'' @
     validate_forwards v c lan_network 0 [] (items (fw_port_forwards (firewall c))) @
     validate_rules v c lan_network 0 (items (fw_custom_rules (firewall c)))"

section \<open>Extra LANs\<close>

definition validate_extra_interface :: "system_config \<Rightarrow> string \<Rightarrow> string list \<Rightarrow> extra_lan_config \<Rightarrow> validation_errors \<times> string list" where
  "validate_extra_interface c prefix seen xl =
     (let iface = xl_interface xl; field = prefix @ ''.interface''
      in if \<not> valid_interface_name iface \<or> starts_with iface ''ppp''
         then (check True field ''must be a valid non-PPP interface name'', seen)
         else
           ((if iface = wan_interface (wan c) then check True field ''must not reuse the WAN interface''
             else if iface = lan_interface (lan c) \<or> iface = WIFI_BRIDGE_INTERFACE then check True field ''must not reuse the LAN interface''
             else if wg_enabled (wireguard c) \<and> iface = wg_interface (wireguard c) then check True field ''must not reuse the WireGuard interface''
             else if wc_enabled (wg_client c) \<and> iface = wc_interface (wg_client c) then check True field ''must not reuse the WireGuard client interface''
             else check (wf_enabled (wifi c) \<and> (iface = wf_interface (wifi c) \<or> iface = WIFI_BRIDGE_INTERFACE))
               field ''must not reuse the Wi-Fi radio or its bridge'') @
            check (iface \<in> set seen) field ''duplicates another extra LAN interface'',
            iface # seen))"

definition validate_router_address :: "string \<Rightarrow> ipnet \<Rightarrow> string \<Rightarrow> validation_errors" where
  "validate_router_address field extra router_address =
     (if router_address = []
      then check True field ''is required for an enabled extra LAN so the router can reconstruct the segment''
      else
        (case parse_cidr router_address of
           Some (router_ip, router_net) \<Rightarrow>
             (if to4 router_ip = None then check True field ''must be a valid IPv4 interface CIDR''
              else if ipnet_contains extra router_ip then
                (if ip_equal router_ip (network_number extra) then check True field ''cannot use the network address''
                 else if ip_equal_opt router_ip (ipv4_broadcast extra) then check True field ''cannot use the broadcast address''
                 else check (ipnet_string router_net \<noteq> ipnet_string extra) field ''must be contained in the extra LAN subnet'')
              else check True field ''must be contained in the extra LAN subnet'')
         | None \<Rightarrow> check True field ''must be a valid IPv4 interface CIDR''))"

definition validate_extra_cidr ::
  "system_config \<Rightarrow> ipnet option \<Rightarrow> ipnet option \<Rightarrow> string \<Rightarrow> ipnet list \<Rightarrow> extra_lan_config \<Rightarrow> ipnet option
    \<Rightarrow> validation_errors \<times> ipnet list" where
  "validate_extra_cidr c lan_network wg_network prefix extra_networks xl extra_net =
     (let field = prefix @ ''.cidr''
      in case extra_net of
           None \<Rightarrow> (check True field ''must be valid IPv4 CIDR notation'', extra_networks)
         | Some extra \<Rightarrow>
             (if to4 (net_ip extra) = None then (check True field ''must be valid IPv4 CIDR notation'', extra_networks)
              else
                (check (is_some_and lan_network (\<lambda>n. networks_overlap n extra)) field ''must not overlap the LAN subnet'' @
                 check (is_some_and wg_network (\<lambda>n. networks_overlap n extra)) field ''must not overlap the WireGuard subnet'' @
                 (if wc_address (wg_client c) \<noteq> []
                  then check (is_some_and (parse_cidr (wc_address (wg_client c))) (\<lambda>p. networks_overlap (snd p) extra))
                         field ''must not overlap the WireGuard client subnet''
                  else []) @
                 concat (map (\<lambda>previous. check (networks_overlap previous extra) field ''must not overlap another extra LAN subnet'') extra_networks) @
                 validate_router_address (prefix @ ''.router_address'') extra (xl_router_address xl),
                 extra_networks @ [extra])))"

definition validate_extra_dst :: "string \<Rightarrow> extra_lan_config \<Rightarrow> ipnet option \<Rightarrow> validation_errors" where
  "validate_extra_dst prefix xl extra_net =
     (let field = prefix @ ''.dst_ip''; dst = (if xl_dst_ip xl = [] then None else parse_ipv4 (xl_dst_ip xl))
      in case (dst, extra_net) of
           (None, _) \<Rightarrow> check True field ''must be a valid IPv4 address''
         | (Some d, Some extra) \<Rightarrow>
             (if \<not> ipnet_contains extra d then check True field ''must be inside the extra LAN subnet''
              else
                check (ip_equal d (network_number extra) \<or> ip_equal_opt d (ipv4_broadcast extra)) field ''cannot use the network or broadcast address'' @
                (if xl_router_address xl \<noteq> []
                 then check (is_some_and (parse_cidr (xl_router_address xl)) (\<lambda>p. ip_equal d (fst p))) field ''cannot be the router address''
                 else []))
         | (Some d, None) \<Rightarrow> [])"

text \<open>\<open>zone.contains(&src_net.ip) && src_ones >= zone.mask.size().0\<close> for the LAN or the WireGuard network.\<close>

definition in_zone :: "ipnet \<Rightarrow> ipnet option \<Rightarrow> bool" where
  "in_zone src zone =
     is_some_and zone (\<lambda>z. ipnet_contains z (net_ip src) \<and> fst (mask_size (net_mask src)) \<ge> fst (mask_size (net_mask z)))"

text \<open>The loop over the sources stops at the first error.\<close>

fun validate_allow_from :: "ipnet option \<Rightarrow> ipnet option \<Rightarrow> string \<Rightarrow> string list \<Rightarrow> string list \<Rightarrow> validation_errors" where
  "validate_allow_from lan_network wg_network field seen [] = []"
| "validate_allow_from lan_network wg_network field seen (raw # rs) =
     (let src = trim_space raw
      in case parse_cidr src of
           None \<Rightarrow> check True field ''must be canonical CIDR notation''
         | Some (_, src_net) \<Rightarrow>
             (if \<not> (in_zone src_net lan_network \<or> in_zone src_net wg_network)
              then check True field ''only subnets of the LAN and WireGuard networks may reach an extra LAN''
              else if src \<in> set seen then check True field ''duplicates a source CIDR''
              else validate_allow_from lan_network wg_network field (src # seen) rs))"

fun validate_extra_loop ::
  "env \<Rightarrow> system_config \<Rightarrow> ipnet option \<Rightarrow> ipnet option \<Rightarrow> nat \<Rightarrow> string list \<Rightarrow> ipnet list \<Rightarrow> extra_lan_config list \<Rightarrow> validation_errors" where
  "validate_extra_loop v c lan_network wg_network i seen extra_networks [] = []"
| "validate_extra_loop v c lan_network wg_network i seen extra_networks (xl # xls) =
     (if \<not> xl_enabled xl then validate_extra_loop v c lan_network wg_network (i + 1) seen extra_networks xls
      else
        (let prefix = at_index ''firewall.extra_lans'' i;
             (iface_errs, seen') = validate_extra_interface c prefix seen xl;
             extra_net = map_option snd (parse_cidr (xl_cidr xl));
             (cidr_errs, extra_networks') = validate_extra_cidr c lan_network wg_network prefix extra_networks xl extra_net
         in check (\<not> SAFE_NAME_PATTERN v (xl_name xl) \<or> has_control (xl_name xl) \<or> length (xl_name xl) > 64) (prefix @ ''.name'')
              ''must be 1-64 safe characters and contain no control characters'' @
            check (has_control (xl_id xl) \<or> length (xl_id xl) > 64) (prefix @ ''.id'')
              ''must contain no control characters and be at most 64 characters'' @
            iface_errs @ cidr_errs @
            validate_extra_dst prefix xl extra_net @
            check (xl_dst_port xl < 1 \<or> xl_dst_port xl > 65535) (prefix @ ''.dst_port'') ''must be between 1 and 65535'' @
            check (xl_protocol xl \<noteq> [] \<and> xl_protocol xl \<noteq> ''tcp'' \<and> xl_protocol xl \<noteq> ''udp'') (prefix @ ''.protocol'') ''must be tcp, udp, or empty'' @
            check (items (xl_allow_from xl) = []) (prefix @ ''.allow_from'') ''must list at least one source CIDR'' @
            validate_allow_from lan_network wg_network (prefix @ ''.allow_from'') [] (items (xl_allow_from xl)) @
            validate_extra_loop v c lan_network wg_network (i + 1) seen' extra_networks' xls))"

definition validate_extra_lans :: "env \<Rightarrow> system_config \<Rightarrow> ipnet option \<Rightarrow> validation_errors" where
  "validate_extra_lans v c lan_network =
     (let wg_network = (if wg_enabled (wireguard c) then map_option snd (parse_cidr (wg_address (wireguard c))) else None)
      in validate_extra_loop v c lan_network wg_network 0 [] [] (items (fw_extra_lans (firewall c))))"

section \<open>WireGuard\<close>

fun validate_peer_ips :: "ipnet option \<Rightarrow> string \<Rightarrow> nat \<Rightarrow> string list \<Rightarrow> string list \<Rightarrow> validation_errors \<times> string list" where
  "validate_peer_ips wg_network path j seen [] = ([], seen)"
| "validate_peer_ips wg_network path j seen (allowed # as) =
     (let field = at_index (path @ ''.allowed_ips'') j
      in case parse_cidr allowed of
           Some (x, network) \<Rightarrow>
             (if to4 x \<noteq> None \<and> fst (mask_size (net_mask network)) = 32 \<and> \<not> is_some_and wg_network (\<lambda>n. \<not> ipnet_contains n x)
              then (let key = ipnet_string network; (errs, seen') = validate_peer_ips wg_network path (j + 1) (key # seen) as
                    in (check (key \<in> set seen) field ''duplicates another peer route'' @ errs, seen'))
              else (let (errs, seen') = validate_peer_ips wg_network path (j + 1) seen as
                    in (check True field ''must be an IPv4 /32 address inside the WireGuard subnet'' @ errs, seen')))
         | None \<Rightarrow>
             (let (errs, seen') = validate_peer_ips wg_network path (j + 1) seen as
              in (check True field ''must be an IPv4 /32 address inside the WireGuard subnet'' @ errs, seen')))"

definition static_endpoint :: "string \<Rightarrow> bool" where
  "static_endpoint endpoint =
     (case split_host_port endpoint of Inl _ \<Rightarrow> False | Inr (host, _) \<Rightarrow> parse_ip host \<noteq> None)"

fun validate_peers :: "env \<Rightarrow> ipnet option \<Rightarrow> nat \<Rightarrow> string list \<Rightarrow> wireguard_peer list \<Rightarrow> validation_errors" where
  "validate_peers v wg_network i seen [] = []"
| "validate_peers v wg_network i seen (peer # ps) =
     (if \<not> wp_enabled peer then validate_peers v wg_network (i + 1) seen ps
      else
        (let path = at_index ''wireguard.peers'' i;
             (ip_errs, seen') = validate_peer_ips wg_network path 0 seen (items (wp_allowed_ips peer))
         in check (\<not> SAFE_NAME_PATTERN v (wp_name peer)) (path @ ''.name'') ''contains unsupported characters'' @
            check (\<not> valid_wireguard_key v (wp_public_key peer)) (path @ ''.public_key'') ''must be a valid 32-byte WireGuard key'' @
            check (wp_preshared_key peer \<noteq> [] \<and> \<not> valid_wireguard_key v (wp_preshared_key peer)) (path @ ''.preshared_key'')
              ''must be a valid 32-byte WireGuard key'' @
            check (length (items (wp_allowed_ips peer)) \<noteq> 1) (path @ ''.allowed_ips'') ''must contain exactly one IPv4 /32 address'' @
            ip_errs @
            check (wp_endpoint peer \<noteq> [] \<and> \<not> static_endpoint (wp_endpoint peer)) (path @ ''.endpoint'')
              ''must be a static IPv4/IPv6 address in host:port form; hostnames are not resolved'' @
            validate_peers v wg_network (i + 1) seen' ps))"

text \<open>The address of the server interface: the errors and its network.\<close>

definition validate_wg_address :: "system_config \<Rightarrow> ip option \<Rightarrow> ipnet option \<Rightarrow> validation_errors \<times> ipnet option" where
  "validate_wg_address c lan_ip lan_network =
     (let parsed = parse_cidr (wg_address (wireguard c)); host_part = hd (split_char (CHR ''/'') (wg_address (wireguard c)));
          bad = (check True ''wireguard.address'' ''must be a valid IPv4 interface CIDR'', map_option snd parsed)
      in case parsed of
           Some (wg_ip, wg_net) \<Rightarrow>
             (if to4 wg_ip \<noteq> None \<and> is_some_and (parse_ip host_part) (ip_equal wg_ip)
              then (check (is_some_and lan_network (\<lambda>n. ipnet_contains n wg_ip) \<or> ipnet_contains_opt wg_net lan_ip \<and> lan_network \<noteq> None)
                      ''wireguard.address'' ''must not overlap the LAN subnet'',
                    Some wg_net)
              else bad)
         | None \<Rightarrow> bad)"

definition validate_wireguard :: "env \<Rightarrow> system_config \<Rightarrow> ip option \<Rightarrow> ipnet option \<Rightarrow> validation_errors" where
  "validate_wireguard v c lan_ip lan_network =
     (let (address_errs, wg_network) = validate_wg_address c lan_ip lan_network
      in check (\<not> wan_enabled (wan c)) ''wireguard.enabled'' ''requires an enabled WAN connection'' @
         check (wg_interface (wireguard c) \<noteq> ''wg0'') ''wireguard.interface'' ''must be wg0 in this appliance version'' @
         check (\<not> valid_wireguard_key v (wg_private_key (wireguard c))) ''wireguard.private_key'' ''must be a valid 32-byte WireGuard key'' @
         check (wg_listen_port (wireguard c) < 1024 \<or> wg_listen_port (wireguard c) > 65535 \<or> wg_listen_port (wireguard c) = sys_https_port (system c))
           ''wireguard.listen_port'' ''must be a non-management port between 1024 and 65535'' @
         address_errs @
         validate_peers v wg_network 0 [] (items (wg_peers (wireguard c))))"

definition validate_client_address :: "system_config \<Rightarrow> ipnet option \<Rightarrow> validation_errors \<times> ipnet option" where
  "validate_client_address c lan_network =
     (let address = wc_address (wg_client c); field = ''wg_client.address''
      in if address = [] then ([], None)
         else
           (case parse_cidr address of
              Some (client_ip, client_net) \<Rightarrow>
                (if to4 client_ip \<noteq> None then
                   ((if is_some_and lan_network (\<lambda>n. networks_overlap n client_net)
                     then check True field ''must not overlap the LAN subnet''
                     else if is_some_and (wireguard_server_network c) (\<lambda>n. networks_overlap n client_net)
                     then check True field ''must not overlap the WireGuard server subnet''
                     else check (fst (mask_size (net_mask client_net)) \<noteq> 32) field ''must be a /32 address in this appliance version''),
                    Some client_net)
                 else (check True field ''must be a valid IPv4 interface CIDR'', Some client_net))
            | None \<Rightarrow> (check True field ''must be a valid IPv4 interface CIDR'', None)))"

text \<open>\<open>str::contains\<close> of the text ''..''.\<close>

fun has_dotdot :: "string \<Rightarrow> bool" where
  "has_dotdot (a # b # s) = (a = CHR ''.'' \<and> b = CHR ''.'' \<or> has_dotdot (b # s))"
| "has_dotdot _ = False"

definition validate_client_endpoint :: "string \<Rightarrow> validation_errors" where
  "validate_client_endpoint endpoint =
     (let field = ''wg_client.endpoint'';
          malformed = check True field ''must use host:port format''
      in case split_host_port endpoint of
           Inl _ \<Rightarrow> malformed
         | Inr (host, port_text) \<Rightarrow>
             (if host = [] then malformed
              else
                (case parse_ip host of
                   Some parsed \<Rightarrow> check (to4 parsed = None) field ''IPv6 endpoints are unavailable while IPv6 is disabled''
                 | None \<Rightarrow> check (\<not> WIREGUARD_ENDPOINT_HOST_PATTERN host \<or> has_dotdot host) field ''contains an invalid hostname'') @
                check (\<not> is_some_and (go_atoi port_text) (\<lambda>port. 1 \<le> port \<and> port \<le> 65535)) field ''port must be between 1 and 65535''))"

definition endpoint_ip :: "string \<Rightarrow> ip option" where
  "endpoint_ip endpoint = (case split_host_port endpoint of Inl _ \<Rightarrow> None | Inr (host, _) \<Rightarrow> parse_ip host)"

definition dns_upstreams :: "system_config \<Rightarrow> ip list" where
  "dns_upstreams c =
     filter (\<lambda>x. to4 x \<noteq> None) (List.map_filter (\<lambda>server. parse_ip (trim_space server)) (items (dhcp_dns_servers (dhcp c))))"

text \<open>Whether an enabled extra LAN overlaps the network.\<close>

definition overlaps_extra :: "system_config \<Rightarrow> ipnet \<Rightarrow> bool" where
  "overlaps_extra c network =
     list_ex (\<lambda>xl. xl_enabled xl \<and> xl_cidr xl \<noteq> [] \<and> is_some_and (parse_cidr (xl_cidr xl)) (\<lambda>p. networks_overlap (snd p) network))
       (items (fw_extra_lans (firewall c)))"

fun validate_client_ips ::
  "system_config \<Rightarrow> ipnet option \<Rightarrow> ipnet option \<Rightarrow> nat \<Rightarrow> string list \<Rightarrow> string list \<Rightarrow> validation_errors" where
  "validate_client_ips c lan_network client_net i seen [] = []"
| "validate_client_ips c lan_network client_net i seen (entry # es) =
     (let field = at_index ''wg_client.allowed_ips'' i;
          invalid = check True field ''must be a valid IPv4 CIDR network'' @ validate_client_ips c lan_network client_net (i + 1) seen es
      in case parse_cidr (trim_space entry) of
           None \<Rightarrow> invalid
         | Some (x, network) \<Rightarrow>
             (if to4 x = None then invalid
              else
                check (fst (mask_size (net_mask network)) < 8) field
                  ''must not be broader than a /8: default-route capture (0.0.0.0/0 and /1 split tricks) is not supported'' @
                check (is_some_and (endpoint_ip (wc_endpoint (wg_client c))) (ipnet_contains network)) field
                  ''must not contain the peer endpoint address; the endpoint needs a real route outside the tunnel'' @
                check (list_ex (ipnet_contains network) (dns_upstreams c)) field
                  ''must not contain a configured DNS upstream; the resolver path needs a real route outside the tunnel'' @
                check (is_some_and lan_network (\<lambda>n. networks_overlap n network)) field ''must not overlap the LAN subnet'' @
                check (is_some_and (wireguard_server_network c) (\<lambda>n. networks_overlap n network)) field ''must not overlap the WireGuard server subnet'' @
                check (is_some_and client_net (\<lambda>n. networks_overlap n network)) field ''must not overlap the tunnel's own address'' @
                check (overlaps_extra c network) field ''must not overlap an extra LAN subnet'' @
                check (ipnet_string network \<in> set seen) field ''duplicates another allowed network'' @
                validate_client_ips c lan_network client_net (i + 1) (ipnet_string network # seen) es))"

definition validate_wg_client :: "env \<Rightarrow> system_config \<Rightarrow> ipnet option \<Rightarrow> validation_errors" where
  "validate_wg_client v c lan_network =
     (let client = wg_client c
      in if \<not> wc_enabled client then []
         else
           (let (address_errs, client_net) = validate_client_address c lan_network
            in check (wc_interface client \<noteq> ''wg1'') ''wg_client.interface'' ''must be wg1 in this appliance version'' @
               check (\<not> valid_wireguard_key v (wc_private_key client)) ''wg_client.private_key'' ''must be a valid 32-byte WireGuard key'' @
               check (\<not> valid_wireguard_key v (wc_public_key client)) ''wg_client.public_key'' ''must be a valid 32-byte WireGuard key'' @
               check (wc_private_key client \<noteq> [] \<and> wc_public_key client = wc_private_key client) ''wg_client.public_key'' ''must not match the private key'' @
               check (wc_preshared_key client \<noteq> [] \<and> \<not> valid_wireguard_key v (wc_preshared_key client)) ''wg_client.preshared_key''
                 ''must be a valid 32-byte WireGuard key'' @
               address_errs @
               validate_client_endpoint (wc_endpoint client) @
               check (items (wc_allowed_ips client) = []) ''wg_client.allowed_ips'' ''must list at least one remote network'' @
               validate_client_ips c lan_network client_net 0 [] (items (wc_allowed_ips client)) @
               check (wc_persistent_keepalive client < 0 \<or> wc_persistent_keepalive client > 65535) ''wg_client.persistent_keepalive''
                 ''must be between 0 and 65535'' @
               check (has_control (wc_endpoint client) \<or> length (wc_endpoint client) > 255) ''wg_client.endpoint''
                 ''contains forbidden characters or is too long''))"

end
