(* ===== verification/Validate.thy ===== *)
theory Validate
  imports Validation
begin

text \<open>
  The remaining groups of \<open>SystemConfig::validate\<close>, the function itself, and the comparison of the errors of two
  configurations (\<open>validate_changes_from\<close>).
\<close>

section \<open>Services\<close>

definition validate_ddns :: "env \<Rightarrow> system_config \<Rightarrow> validation_errors" where
  "validate_ddns v c =
     (let cf = cloudflare c; lower = to_lower (lowercase v) (trim_space (cf_ddns_provider cf));
          provider = (if lower = [] then ''cloudflare'' else lower)
      in check (\<not> wan_enabled (wan c)) ''cloudflare.ddns_enabled'' ''requires an enabled WAN connection'' @
         check (\<not> DOMAIN_PATTERN (cf_domain cf) \<or> CHR ''.'' \<notin> set (cf_domain cf)) ''cloudflare.domain''
           ''must be a valid fully qualified DDNS hostname'' @
         (if provider = ''noip'' then
            check (trim_space (cf_ddns_user cf) = [] \<or> length (cf_ddns_user cf) > 255 \<or> has_control (cf_ddns_user cf)) ''cloudflare.ddns_username''
              ''No-IP username or DDNS Key username is required and must not contain control characters'' @
            check (cf_api_token cf = [] \<or> cf_api_token cf = ''[REDACTED]'' \<or> length (cf_api_token cf) > 1024 \<or> has_control (cf_api_token cf))
              ''cloudflare.api_token'' ''No-IP DDNS Key/account password is required and must not contain control characters''
          else if provider = ''cloudflare'' then
            check (\<not> DOMAIN_PATTERN (cf_zone_name cf) \<or> CHR ''.'' \<notin> set (cf_zone_name cf)) ''cloudflare.zone_name''
              ''must be the Cloudflare zone name, for example example.com'' @
            check (\<not> CLOUDFLARE_TOKEN_PATTERN (cf_api_token cf)) ''cloudflare.api_token'' ''must be a valid Cloudflare API token''
          else check True ''cloudflare.ddns_provider'' ''must be noip or cloudflare''))"

definition validate_cloudflare :: "env \<Rightarrow> system_config \<Rightarrow> validation_errors" where
  "validate_cloudflare v c =
     (if cf_ddns_enabled (cloudflare c) then validate_ddns v c else []) @
     check (cf_tunnel_enabled (cloudflare c)) ''cloudflare.tunnel_enabled''
       ''is unavailable because WireGuard is the only allowed remote-entry path''"

fun validate_restricted :: "ipnet option \<Rightarrow> nat \<Rightarrow> restricted_ip_item list \<Rightarrow> validation_errors" where
  "validate_restricted lan_network i [] = []"
| "validate_restricted lan_network i (item # rest) =
     (let x = parse_ipv4 (ri_ip_address item)
      in check (x = None \<or> is_some_and lan_network (\<lambda>n. \<not> ipnet_contains_opt n x))
           (at_index ''squid_proxy.restricted_ips'' i @ ''.ip_address'') ''must be a valid LAN address'' @
         validate_restricted lan_network (i + 1) rest)"

definition validate_proxy :: "system_config \<Rightarrow> ipnet option \<Rightarrow> validation_errors" where
  "validate_proxy c lan_network =
     (let proxy = squid_proxy c
      in (if sq_enabled proxy then
            check (sq_port proxy < 1 \<or> sq_port proxy > 65535 \<or> sq_port proxy = sys_https_port (system c)) ''squid_proxy.port''
              ''must be a non-management port between 1 and 65535'' @
            check (has_control (sq_username proxy) \<or> has_control (sq_password proxy)) ''squid_proxy''
              ''credentials contain forbidden control characters'' @
            check (\<not> CREDENTIAL_NAME_PATTERN (sq_username proxy)) ''squid_proxy.username''
              ''must contain only letters, numbers, dot, underscore, or hyphen'' @
            check (rune_count (sq_password proxy) < 8 \<or> length (sq_password proxy) > 1024 \<or> sq_password proxy = ''[REDACTED]'')
              ''squid_proxy.password'' ''must contain 8-1024 characters''
          else []) @
         validate_restricted lan_network 0 (items (sq_restricted_ips proxy)))"

section \<open>Local names\<close>

text \<open>\<open>name.strip_suffix('.').unwrap_or(&name)\<close>, in lower case.\<close>

definition lower_name :: "env \<Rightarrow> string \<Rightarrow> string" where
  "lower_name v name =
     to_lower (lowercase v) (case strip_suffix ''.'' name of Some s \<Rightarrow> s | None \<Rightarrow> name)"

text \<open>The loop over the records; it returns the names seen, which the leases are compared with.\<close>

fun validate_records :: "env \<Rightarrow> nat \<Rightarrow> string list \<Rightarrow> string list \<Rightarrow> dns_record list \<Rightarrow> validation_errors \<times> string list" where
  "validate_records v i seen_names seen_ips [] = ([], seen_names)"
| "validate_records v i seen_names seen_ips (rec # rs) =
     (let lower = lower_name v (dr_name rec); path = at_index ''dns.records'' i;
          (ip_errs, seen_ips') =
            (case parse_ipv4 (dr_ip rec) of
               None \<Rightarrow> (check True (path @ ''.ip'') ''must be a valid IPv4 address'', seen_ips)
             | Some x \<Rightarrow> (check (ip_string x \<in> set seen_ips) (path @ ''.ip'') ''duplicates another record's address'', ip_string x # seen_ips));
          (errs, names) = validate_records v (i + 1) (if lower = [] then seen_names else lower # seen_names) seen_ips' rs
      in (check (\<not> DOMAIN_PATTERN (dr_name rec) \<or> has_control (dr_name rec)) (path @ ''.name'') ''must be a valid DNS hostname'' @
          check (ends_with lower ''.local'') (path @ ''.name'')
            ''.local is the mDNS namespace and conflicts with macOS/iOS resolvers; use .home.arpa instead'' @
          check (lower \<noteq> [] \<and> lower \<in> set seen_names) (path @ ''.name'') ''duplicates another record (hostnames are case-insensitive)'' @
          ip_errs @ errs,
          names))"

definition lease_fqdn :: "env \<Rightarrow> string \<Rightarrow> string \<Rightarrow> string" where
  "lease_fqdn v domain_suffix hostname =
     to_lower (lowercase v) hostname @ (if domain_suffix \<noteq> ''.'' then domain_suffix else [])"

fun validate_lease_names :: "env \<Rightarrow> string \<Rightarrow> string list \<Rightarrow> nat \<Rightarrow> static_lease list \<Rightarrow> validation_errors" where
  "validate_lease_names v domain_suffix seen_names i [] = []"
| "validate_lease_names v domain_suffix seen_names i (lease # ls) =
     (if sl_hostname lease = [] then []
      else check (lease_fqdn v domain_suffix (sl_hostname lease) \<in> set seen_names)
             (at_index ''dhcp.static_leases'' i @ ''.hostname'') ''conflicts with a static DNS record hostname'') @
     validate_lease_names v domain_suffix seen_names (i + 1) ls"

definition validate_names :: "env \<Rightarrow> system_config \<Rightarrow> validation_errors" where
  "validate_names v c =
     (let (errs, seen_names) = validate_records v 0 [] [] (items (dns_records (dns c)))
      in errs @
         validate_lease_names v (CHR ''.'' # lower_name v (sys_domain (system c))) seen_names 0 (items (dhcp_static_leases (dhcp c))))"

section \<open>Traffic shaping, Wi-Fi and trusted networks\<close>

definition validate_qos :: "system_config \<Rightarrow> validation_errors" where
  "validate_qos c =
     (let q = qos c
      in if qos_enabled q then
           check (qos_algorithm q \<noteq> ''cake'' \<and> qos_algorithm q \<noteq> ''fq_codel'') ''qos.algorithm'' ''must be cake or fq_codel'' @
           check (qos_download_limit_mbps q \<le> 0) ''qos.download_limit_mbps'' ''must be greater than zero'' @
           check (qos_upload_limit_mbps q \<le> 0) ''qos.upload_limit_mbps'' ''must be greater than zero'' @
           check (qos_download_limit_mbps q > 100000 \<or> qos_upload_limit_mbps q > 100000) ''qos'' ''limits must not exceed 100000 Mbps''
         else [])"

definition validate_wifi :: "system_config \<Rightarrow> validation_errors" where
  "validate_wifi c =
     (let w = wifi c
      in if wf_enabled w then
           check (\<not> valid_interface_name (wf_interface w)) ''wifi.interface'' ''must be a valid Linux interface name'' @
           check (wf_interface w = wan_interface (wan c) \<or> wf_interface w = lan_interface (lan c) \<or> wf_interface w = WIFI_BRIDGE_INTERFACE)
             ''wifi.interface'' ''must not reuse the WAN or LAN interface'' @
           check (wf_ssid w = [] \<or> length (wf_ssid w) > 32 \<or> has_control (wf_ssid w)) ''wifi.ssid''
             ''must contain 1-32 bytes and no control characters'' @
           check (length (wf_passphrase w) < 12 \<or> length (wf_passphrase w) > 63 \<or> has_control (wf_passphrase w)) ''wifi.passphrase''
             ''must contain 12-63 bytes and no control characters'' @
           check (wf_band w \<noteq> ''2.4ghz'' \<and> wf_band w \<noteq> ''5ghz'') ''wifi.band'' ''must be 2.4ghz or 5ghz'' @
           check (wf_band w = ''2.4ghz'' \<and> (wf_channel w < 1 \<or> wf_channel w > 11)) ''wifi.channel'' ''must be 1-11 for 2.4 GHz'' @
           check (wf_band w = ''5ghz'' \<and> wf_channel w \<notin> {36, 40, 44, 48}) ''wifi.channel''
             ''must be 36, 40, 44, or 48 for the portable 5 GHz profile''
         else [])"

definition trusted_minimum :: "ip \<Rightarrow> ipnet \<Rightarrow> nat" where
  "trusted_minimum x ip_net =
     (let (prefix, bits) = mask_size (net_mask ip_net);
          ula = (bits = 128 \<and> prefix \<ge> 7 \<and> is_some_and (parse_cidr ''fc00::/7'') (\<lambda>p. ipnet_contains (snd p) (net_ip ip_net)))
      in if bits = 32 then 8 else if to4 x \<noteq> None then 104 else if ula then 7 else 16)"

text \<open>One network: the error, or the key the duplicates are found by.\<close>

definition validate_trusted :: "string \<Rightarrow> string + string" where
  "validate_trusted network =
     (if has_control network then Inl ''must not contain control characters''
      else
        (case parse_cidr network of
           None \<Rightarrow> Inl ''must be a valid IPv4 or IPv6 CIDR network''
         | Some (x, ip_net) \<Rightarrow>
             (let (prefix, bits) = mask_size (net_mask ip_net)
              in if prefix = 0 \<or> is_unspecified x then Inl ''wildcard networks (0.0.0.0/0, ::/0) are not allowed''
                 else if prefix < trusted_minimum x ip_net \<or> is_unspecified x \<or> is_unspecified (net_ip ip_net)
                 then Inl ''trusted networks must be specific (IPv4 /8, IPv6 /16 or narrower, or a ULA subnet) and must not include the unspecified address''
                 else Inr (ip_string (net_ip ip_net) @ ''/'' @ nat_string (if bits = 128 \<and> to4 x \<noteq> None then prefix - 96 else prefix)))))"

fun validate_trusted_networks :: "nat \<Rightarrow> string list \<Rightarrow> string list \<Rightarrow> validation_errors" where
  "validate_trusted_networks i seen [] = []"
| "validate_trusted_networks i seen (network # ns) =
     (case validate_trusted network of
        Inl message \<Rightarrow> check True (at_index ''trusted_networks'' i) message @ validate_trusted_networks (i + 1) seen ns
      | Inr key \<Rightarrow>
          check (key \<in> set seen) (at_index ''trusted_networks'' i) ''must not contain duplicate networks'' @
          validate_trusted_networks (i + 1) (key # seen) ns)"

section \<open>The whole configuration\<close>

definition validation_errors_of :: "env \<Rightarrow> system_config \<Rightarrow> validation_errors" where
  "validation_errors_of v c =
     (let lan_ip = parse_ipv4 (lan_ip_address (lan c)); (lan_errs, lan_network) = validate_lan c lan_ip;
          servers = items (dhcp_dns_servers (dhcp c))
      in validate_system c @
         validate_wan c @
         check (lan_ip = None) ''lan.ip_address'' ''must be a valid IPv4 address'' @
         lan_errs @
         check (servers = [] \<or> length servers > 3) ''dhcp.dns_servers'' ''must contain between one and three explicit upstream resolvers'' @
         validate_dns_servers lan_ip 0 [] servers @
         (if dhcp_enabled (dhcp c) then validate_dhcp c lan_ip lan_network else []) @
         validate_firewall v c lan_network @
         validate_extra_lans v c lan_network @
         (if wg_enabled (wireguard c) then validate_wireguard v c lan_ip lan_network else []) @
         validate_wg_client v c lan_network @
         validate_cloudflare v c @
         validate_proxy c lan_network @
         validate_device_profiles v c lan_network @
         check (df_blocklist_url (adguard c) \<noteq> []) ''adguard.blocklist_url''
           ''external blocklist refresh is unavailable in the hardened pilot; use the built-in global list'' @
         validate_names v c @
         validate_qos c @
         check (dhcp_dns_enabled (dhcp c)) ''dhcp.dns_enabled''
           ''DNS-over-HTTPS is unavailable until a packaged and verified local resolver is installed'' @
         validate_wifi c @
         check (items (trusted_networks c) = []) ''trusted_networks'' ''must contain at least one CIDR network'' @
         validate_trusted_networks 0 [] (items (trusted_networks c)))"

definition validate :: "env \<Rightarrow> system_config \<Rightarrow> validation_errors + unit" where
  "validate v c = into_result (validation_errors_of v c)"

end
