(* ===== verification/Config_Json.thy ===== *)
theory Config_Json
  imports Config_Model
begin

text \<open>
  The encoded form of the configuration: the JSON tree that the \<open>serde\<close> attributes of
  \<open>mr-config/src/config/model.rs\<close> give each struct (fields in order, \<open>skip_serializing_if\<close>, \<open>rename\<close>), and the
  comparison of encodings of \<open>mr-core/src/goish/json.rs\<close>. The text encoder and decoder of serde_json, the
  calendar format of a time and the Unicode class Nd outside ASCII are the parameters.
\<close>

datatype json = JNull | JBool bool | JNum int | JStr string | JArr "json list" | JObj "(string \<times> json) list"

record codec =
  json_encode :: "json \<Rightarrow> string option"
  json_decode :: "string \<Rightarrow> json option"
  rfc3339_nano :: "time \<Rightarrow> string"
  unicode_digit :: "nat \<Rightarrow> bool"

section \<open>Encodings\<close>

text \<open>\<open>Serialize for List<T>\<close>: nil is \<open>null\<close>.\<close>

definition list_json :: "('a \<Rightarrow> json) \<Rightarrow> 'a glist \<Rightarrow> json" where
  "list_json f l = (case l of None \<Rightarrow> JNull | Some xs \<Rightarrow> JArr (map f xs))"

text \<open>The fields under \<open>skip_serializing_if\<close>.\<close>

definition str_field :: "string \<Rightarrow> string \<Rightarrow> (string \<times> json) list" where
  "str_field k s = (if s = [] then [] else [(k, JStr s)])"

definition list_field :: "string \<Rightarrow> ('a \<Rightarrow> json) \<Rightarrow> 'a glist \<Rightarrow> (string \<times> json) list" where
  "list_field k f l = (if items l = [] then [] else [(k, list_json f l)])"

definition num_field :: "string \<Rightarrow> int \<Rightarrow> (string \<times> json) list" where
  "num_field k n = (if n = 0 then [] else [(k, JNum n)])"

definition wireguard_peer_json :: "wireguard_peer \<Rightarrow> json" where
  "wireguard_peer_json p = JObj
     ([(''id'', JStr (wp_id p)), (''name'', JStr (wp_name p)), (''public_key'', JStr (wp_public_key p))] @
      str_field ''preshared_key'' (wp_preshared_key p) @
      [(''allowed_ips'', list_json JStr (wp_allowed_ips p))] @
      str_field ''endpoint'' (wp_endpoint p) @
      [(''enabled'', JBool (wp_enabled p))])"

definition wireguard_json :: "wireguard_config \<Rightarrow> json" where
  "wireguard_json g = JObj
     ([(''enabled'', JBool (wg_enabled g)), (''interface'', JStr (wg_interface g))] @
      str_field ''private_key'' (wg_private_key g) @
      [(''listen_port'', JNum (wg_listen_port g)), (''address'', JStr (wg_address g)),
       (''peers'', list_json wireguard_peer_json (wg_peers g))])"

definition wg_client_json :: "wg_client_config \<Rightarrow> json" where
  "wg_client_json k = JObj
     ([(''enabled'', JBool (wc_enabled k)), (''interface'', JStr (wc_interface k))] @
      str_field ''private_key'' (wc_private_key k) @
      [(''address'', JStr (wc_address k)), (''public_key'', JStr (wc_public_key k))] @
      str_field ''preshared_key'' (wc_preshared_key k) @
      [(''endpoint'', JStr (wc_endpoint k)), (''allowed_ips'', list_json JStr (wc_allowed_ips k)),
       (''persistent_keepalive'', JNum (wc_persistent_keepalive k))])"

definition cloudflare_json :: "cloudflare_config \<Rightarrow> json" where
  "cloudflare_json f = JObj
     ([(''ddns_enabled'', JBool (cf_ddns_enabled f))] @
      str_field ''ddns_provider'' (cf_ddns_provider f) @
      str_field ''ddns_username'' (cf_ddns_user f) @
      str_field ''api_token'' (cf_api_token f) @
      str_field ''zone_id'' (cf_zone_id f) @
      str_field ''zone_name'' (cf_zone_name f) @
      [(''domain'', JStr (cf_domain f)), (''tunnel_enabled'', JBool (cf_tunnel_enabled f))] @
      str_field ''tunnel_hostname'' (cf_tunnel_hostname f) @
      str_field ''tunnel_token'' (cf_tunnel_token f))"

definition wifi_json :: "wifi_config \<Rightarrow> json" where
  "wifi_json w = JObj
     ([(''enabled'', JBool (wf_enabled w)), (''interface'', JStr (wf_interface w)), (''ssid'', JStr (wf_ssid w))] @
      str_field ''passphrase'' (wf_passphrase w) @
      [(''band'', JStr (wf_band w)), (''channel'', JNum (wf_channel w)), (''hide_ssid'', JBool (wf_hide_ssid w))])"

definition qos_json :: "qos_config \<Rightarrow> json" where
  "qos_json q = JObj
     [(''enabled'', JBool (qos_enabled q)), (''algorithm'', JStr (qos_algorithm q)),
      (''download_limit_mbps'', JNum (qos_download_limit_mbps q)), (''upload_limit_mbps'', JNum (qos_upload_limit_mbps q))]"

definition access_window_json :: "access_window \<Rightarrow> json" where
  "access_window_json a = JObj [(''start'', JStr (aw_start a)), (''end'', JStr (aw_end a))]"

definition schedule_json :: "weekly_access_schedule \<Rightarrow> json" where
  "schedule_json s = JObj
     ((if ws_day_windows s = [] then []
       else [(''day_windows'', JObj (map (\<lambda>(day, ws). (day, list_json access_window_json ws)) (ws_day_windows s)))]) @
      list_field ''weekday_windows'' access_window_json (ws_weekday_windows s) @
      str_field ''weekend_mode'' (ws_weekend_mode s) @
      list_field ''weekend_windows'' access_window_json (ws_weekend_windows s))"

definition device_profile_json :: "device_profile \<Rightarrow> json" where
  "device_profile_json p = JObj
     [(''id'', JStr (dp_id p)), (''name'', JStr (dp_name p)), (''ip_addresses'', list_json JStr (dp_ip_addresses p)),
      (''services'', list_json JStr (dp_services p)), (''schedule'', schedule_json (dp_schedule p)), (''enabled'', JBool (dp_enabled p))]"

definition filter_device_json :: "filter_device_rule \<Rightarrow> json" where
  "filter_device_json f = JObj
     [(''id'', JStr (fd_id f)), (''hostname'', JStr (fd_hostname f)), (''ip_address'', JStr (fd_ip_address f)),
      (''blocked_services'', list_json JStr (fd_blocked_services f)), (''enabled'', JBool (fd_enabled f))]"

definition dns_filter_json :: "dns_filter_config \<Rightarrow> json" where
  "dns_filter_json d = JObj
     ([(''enabled'', JBool (df_enabled d)), (''blocklist_url'', JStr (df_blocklist_url d)), (''last_updated'', JStr (df_last_updated d))] @
      list_field ''filter_devices'' filter_device_json (df_filter_devices d) @
      [(''device_profiles'', list_json device_profile_json (df_device_profiles d))])"

definition restricted_json :: "restricted_ip_item \<Rightarrow> json" where
  "restricted_json r = JObj
     [(''hostname'', JStr (ri_hostname r)), (''ip_address'', JStr (ri_ip_address r)), (''enabled'', JBool (ri_enabled r))]"

definition squid_proxy_json :: "squid_proxy_config \<Rightarrow> json" where
  "squid_proxy_json s = JObj
     ([(''enabled'', JBool (sq_enabled s)), (''port'', JNum (sq_port s)), (''username'', JStr (sq_username s))] @
      str_field ''password'' (sq_password s) @
      [(''restricted_ips'', list_json restricted_json (sq_restricted_ips s))])"

definition system_settings_json :: "system_settings \<Rightarrow> json" where
  "system_settings_json s = JObj
     [(''hostname'', JStr (sys_hostname s)), (''domain'', JStr (sys_domain s)), (''https_enabled'', JBool (sys_https_enabled s)),
      (''https_port'', JNum (sys_https_port s)), (''management_access'', JStr (sys_management_access s))]"

definition wan_json :: "wan_settings \<Rightarrow> json" where
  "wan_json w = JObj
     ([(''interface'', JStr (wan_interface w)), (''enabled'', JBool (wan_enabled w)), (''username'', JStr (wan_username w))] @
      str_field ''password'' (wan_password w) @
      [(''mtu'', JNum (wan_mtu w))])"

definition lan_json :: "lan_settings \<Rightarrow> json" where
  "lan_json l = JObj
     [(''interface'', JStr (lan_interface l)), (''ip_address'', JStr (lan_ip_address l)),
      (''netmask'', JStr (lan_netmask l)), (''cidr'', JStr (lan_cidr l))]"

definition static_lease_json :: "static_lease \<Rightarrow> json" where
  "static_lease_json l = JObj
     [(''id'', JStr (sl_id l)), (''hostname'', JStr (sl_hostname l)), (''mac'', JStr (sl_mac l)), (''ip_address'', JStr (sl_ip_address l))]"

definition dhcp_json :: "dhcp_settings \<Rightarrow> json" where
  "dhcp_json d = JObj
     [(''enabled'', JBool (dhcp_enabled d)), (''dns_enabled'', JBool (dhcp_dns_enabled d)),
      (''range_start'', JStr (dhcp_range_start d)), (''range_end'', JStr (dhcp_range_end d)), (''lease_time'', JStr (dhcp_lease_time d)),
      (''dns_servers'', list_json JStr (dhcp_dns_servers d)), (''static_leases'', list_json static_lease_json (dhcp_static_leases d))]"

definition dns_record_json :: "dns_record \<Rightarrow> json" where
  "dns_record_json r = JObj [(''name'', JStr (dr_name r)), (''ip'', JStr (dr_ip r))]"

definition dns_settings_json :: "dns_settings \<Rightarrow> json" where
  "dns_settings_json d = JObj (list_field ''records'' dns_record_json (dns_records d))"

definition extra_lan_json :: "extra_lan_config \<Rightarrow> json" where
  "extra_lan_json x = JObj
     ([(''id'', JStr (xl_id x)), (''name'', JStr (xl_name x)), (''interface'', JStr (xl_interface x)), (''cidr'', JStr (xl_cidr x))] @
      str_field ''router_address'' (xl_router_address x) @
      [(''dst_ip'', JStr (xl_dst_ip x)), (''dst_port'', JNum (xl_dst_port x))] @
      str_field ''protocol'' (xl_protocol x) @
      [(''allow_from'', list_json JStr (xl_allow_from x)), (''enabled'', JBool (xl_enabled x))])"

definition port_forward_json :: "port_forward_rule \<Rightarrow> json" where
  "port_forward_json p = JObj
     [(''id'', JStr (pf_id p)), (''name'', JStr (pf_name p)), (''protocol'', JStr (pf_protocol p)),
      (''external_port'', JNum (pf_external_port p)), (''internal_ip'', JStr (pf_internal_ip p)),
      (''internal_port'', JNum (pf_internal_port p)), (''enabled'', JBool (pf_enabled p))]"

definition firewall_rule_json :: "firewall_rule \<Rightarrow> json" where
  "firewall_rule_json r = JObj
     ([(''id'', JStr (fr_id r)), (''name'', JStr (fr_name r)), (''action'', JStr (fr_action r)),
       (''direction'', JStr (fr_direction r)), (''protocol'', JStr (fr_protocol r))] @
      str_field ''src_ip'' (fr_src_ip r) @
      num_field ''dst_port'' (fr_dst_port r) @
      [(''enabled'', JBool (fr_enabled r))] @
      str_field ''scope'' (fr_scope r) @
      str_field ''preset_id'' (fr_preset_id r))"

definition firewall_json :: "firewall_config \<Rightarrow> json" where
  "firewall_json f = JObj
     ([(''default_wan_input_policy'', JStr (fw_default_wan_input_policy f)), (''wan_ingress_mode'', JStr (fw_wan_ingress_mode f)),
       (''stateful_firewall'', JBool (fw_stateful_firewall f)),
       (''port_forwards'', list_json port_forward_json (fw_port_forwards f)),
       (''custom_rules'', list_json firewall_rule_json (fw_custom_rules f))] @
      list_field ''extra_lans'' extra_lan_json (fw_extra_lans f))"

definition accounting_json :: "accounting_config \<Rightarrow> json" where
  "accounting_json a = JObj [(''enabled'', JBool (acc_enabled a)), (''retention_months'', JNum (acc_retention_months a))]"

definition config_json :: "codec \<Rightarrow> system_config \<Rightarrow> json" where
  "config_json j c = JObj
     [(''revision'', JNum (uint (revision c))), (''updated_at'', JStr (rfc3339_nano j (updated_at c))),
      (''system'', system_settings_json (system c)), (''wan'', wan_json (wan c)), (''lan'', lan_json (lan c)),
      (''dhcp'', dhcp_json (dhcp c)), (''dns'', dns_settings_json (dns c)), (''firewall'', firewall_json (firewall c)),
      (''wireguard'', wireguard_json (wireguard c)), (''wg_client'', wg_client_json (wg_client c)),
      (''cloudflare'', cloudflare_json (cloudflare c)), (''squid_proxy'', squid_proxy_json (squid_proxy c)),
      (''adguard'', dns_filter_json (adguard c)), (''qos'', qos_json (qos c)), (''wifi'', wifi_json (wifi c)),
      (''accounting'', accounting_json (accounting c)), (''trusted_networks'', list_json JStr (trusted_networks c))]"

section \<open>Comparison of encodings\<close>

definition equal_section :: "codec \<Rightarrow> json \<Rightarrow> json \<Rightarrow> bool" where
  "equal_section j a b =
     (case (json_encode j a, json_encode j b) of (Some left, Some right) \<Rightarrow> left = right | _ \<Rightarrow> False)"

text \<open>What the users of the encoder rely on for a tree: it has an encoding, and decoding it gives the tree back.\<close>

definition faithful :: "codec \<Rightarrow> json \<Rightarrow> bool" where
  "faithful j t \<longleftrightarrow> (case json_encode j t of None \<Rightarrow> False | Some text \<Rightarrow> json_decode j text = Some t)"

lemma equal_section_iff: "faithful j a \<Longrightarrow> faithful j b \<Longrightarrow> equal_section j a b \<longleftrightarrow> a = b"
  by (auto simp: faithful_def equal_section_def split: option.splits)

section \<open>Field paths\<close>

text \<open>
  A path such as \<open>firewall.custom_rules[0].name\<close>, cut by \<open>FIELD_PATH_SEGMENT\<close>: a run of other characters is a
  key, digits in brackets are an index, everything else is skipped.
\<close>

datatype segment = Key string | Index string

definition path_char :: "char \<Rightarrow> bool" where
  "path_char c = (c \<notin> {CHR ''.'', CHR ''['', CHR '']''})"

definition is_digits :: "codec \<Rightarrow> string \<Rightarrow> bool" where
  "is_digits j s = (s \<noteq> [] \<and> list_all (\<lambda>n. if n < 128 then 48 \<le> n \<and> n \<le> 57 else unicode_digit j n) (code_points s))"

function path_segments :: "codec \<Rightarrow> string \<Rightarrow> segment list" where
  "path_segments j [] = []"
| "path_segments j (c # r) =
     (if path_char c then Key (c # takeWhile path_char r) # path_segments j (dropWhile path_char r)
      else if c = CHR ''['' \<and> is_digits j (takeWhile path_char r) \<and> starts_with (dropWhile path_char r) '']''
      then Index (takeWhile path_char r) # path_segments j (tl (dropWhile path_char r))
      else path_segments j r)"
  by pat_completeness auto
termination
  by (relation "measure (\<lambda>(j, s). length s)") (simp_all add: length_dropWhile_le le_imp_less_Suc less_Suc_eq_le le_trans [OF diff_le_self])

definition parse_usize :: "string \<Rightarrow> nat option" where
  "parse_usize s = (if s \<noteq> [] \<and> list_all is_ascii_digit s \<and> dval s < 2 ^ 64 then Some (dval s) else None)"

fun resolve_segments :: "json \<Rightarrow> segment list \<Rightarrow> json option" where
  "resolve_segments node [] = Some node"
| "resolve_segments node (Key k # ss) =
     (case node of
        JObj entries \<Rightarrow> resolve_segments (case map_of entries k of Some x \<Rightarrow> x | None \<Rightarrow> JNull) ss
      | _ \<Rightarrow> None)"
| "resolve_segments node (Index ds # ss) =
     (case node of
        JArr xs \<Rightarrow>
          (case parse_usize ds of
             Some i \<Rightarrow> if i < length xs then resolve_segments (xs ! i) ss else None
           | None \<Rightarrow> None)
      | _ \<Rightarrow> None)"

definition resolve_field_path :: "codec \<Rightarrow> json \<Rightarrow> string \<Rightarrow> json option" where
  "resolve_field_path j tree field = resolve_segments tree (path_segments j field)"

definition same_field_value :: "codec \<Rightarrow> json \<Rightarrow> json \<Rightarrow> string \<Rightarrow> bool" where
  "same_field_value j candidate previous field =
     (case (resolve_field_path j candidate field, resolve_field_path j previous field) of
        (Some c, Some p) \<Rightarrow> c = p
      | _ \<Rightarrow> False)"

definition to_field_tree :: "codec \<Rightarrow> system_config \<Rightarrow> json option" where
  "to_field_tree j c = Option.bind (json_encode j (config_json j c)) (json_decode j)"

lemma to_field_tree_faithful: "faithful j (config_json j c) \<Longrightarrow> to_field_tree j c = Some (config_json j c)"
  by (simp add: faithful_def to_field_tree_def split: option.splits)

end
