(* ===== verification/Policy.thy ===== *)
theory Policy
  imports Validate Config_Json
begin

text \<open>
  The cross-component policy (\<open>mr-config/src/config/policy.rs\<close>): scope of a rule, confirmation, migration of old
  extra LANs, trusted clients, scenario safety and the admission of a live candidate. Then \<open>validate_changes_from\<close>
  of \<open>validation.rs\<close>.
\<close>

section \<open>Classification of changes\<close>

definition firewall_rule_scope :: "firewall_rule \<Rightarrow> string" where
  "firewall_rule_scope rule =
     (if fr_direction rule = ''input'' then ''router''
      else if fr_action rule = ''allow'' \<or> fr_scope rule = ''wan'' then ''wan''
      else ''all'')"

definition requires_confirmation :: "codec \<Rightarrow> system_config \<Rightarrow> system_config \<Rightarrow> bool" where
  "requires_confirmation j current candidate =
     (let wireguard_management_changed =
            ((sys_management_access (system current) = ''wireguard_only'' \<or> sys_management_access (system candidate) = ''wireguard_only'') \<and>
             \<not> equal_section j (wireguard_json (wireguard current)) (wireguard_json (wireguard candidate)));
          wifi_changed =
            (\<not> equal_section j (wifi_json (wifi current)) (wifi_json (wifi candidate)) \<and>
             (wf_enabled (wifi current) \<or> wf_enabled (wifi candidate)))
      in lan_ip_address (lan current) \<noteq> lan_ip_address (lan candidate) \<or>
         lan_cidr (lan current) \<noteq> lan_cidr (lan candidate) \<or>
         sys_management_access (system current) \<noteq> sys_management_access (system candidate) \<or>
         wifi_changed \<or>
         wireguard_management_changed \<or>
         \<not> equal_section j (wg_client_json (wg_client current)) (wg_client_json (wg_client candidate)) \<or>
         \<not> equal_section j (list_json JStr (trusted_networks current)) (list_json JStr (trusted_networks candidate)))"

section \<open>Migration\<close>

text \<open>\<open>u32::from_be_bytes\<close> and \<open>to_be_bytes\<close>.\<close>

definition u32_of :: "u8 list \<Rightarrow> u32" where
  "u32_of bs = word_of_nat (be_value bs)"

definition u32_bytes :: "u32 \<Rightarrow> u8 list" where
  "u32_bytes w = [word_of_nat (unat w div 2 ^ 24), word_of_nat (unat w div 2 ^ 16), word_of_nat (unat w div 2 ^ 8), word_of_nat (unat w)]"

definition migrated_address :: "string \<Rightarrow> string option" where
  "migrated_address cidr =
     (case parse_cidr (trim_space cidr) of
        None \<Rightarrow> None
      | Some (_, network) \<Rightarrow>
          (case to4_array (net_ip network) of
             None \<Rightarrow> None
           | Some network_v4 \<Rightarrow>
               (let (prefix, bits) = mask_size (net_mask network)
                in if bits \<noteq> 32 \<or> prefix \<ge> 31 then None
                   else
                     (let network_value = u32_of network_v4;
                          broadcast_value = network_value OR NOT (u32_of (take 4 (mask_bytes (net_mask network))));
                          gateway_value = network_value + 1
                      in if gateway_value \<ge> broadcast_value then None
                         else Some (ip_string (IP (u32_bytes gateway_value)) @ ''/'' @ nat_string prefix)))))"

definition migrate_lan :: "extra_lan_config \<Rightarrow> extra_lan_config" where
  "migrate_lan xl =
     (if \<not> xl_enabled xl \<or> trim_space (xl_router_address xl) \<noteq> [] then xl
      else (case migrated_address (xl_cidr xl) of None \<Rightarrow> xl | Some a \<Rightarrow> xl\<lparr>xl_router_address := a\<rparr>))"

definition migrate_legacy_fields :: "system_config \<Rightarrow> system_config" where
  "migrate_legacy_fields c =
     c\<lparr>firewall := (firewall c)\<lparr>fw_extra_lans := map_option (map migrate_lan) (fw_extra_lans (firewall c))\<rparr>\<rparr>"

section \<open>Trusted clients\<close>

definition parse_remote_ip :: "string \<Rightarrow> ip option" where
  "parse_remote_ip remote_addr =
     (if remote_addr = [] then None
      else (case split_host_port remote_addr of Inr (host, _) \<Rightarrow> parse_ip host | Inl _ \<Rightarrow> parse_ip (trim_space remote_addr)))"

definition is_trusted_client_address :: "system_config \<Rightarrow> string \<Rightarrow> bool" where
  "is_trusted_client_address c remote_addr =
     (case parse_remote_ip remote_addr of
        None \<Rightarrow> False
      | Some x0 \<Rightarrow>
          (let x = (case to4 x0 of Some v4 \<Rightarrow> v4 | None \<Rightarrow> x0)
           in is_loopback x \<or>
              list_ex (\<lambda>network. is_some_and (parse_cidr network) (\<lambda>p. ipnet_contains (snd p) x)) (items (trusted_networks c))))"

section \<open>Scenario safety\<close>

definition strict_label :: "string \<Rightarrow> bool" where
  "strict_label label \<longleftrightarrow>
     label \<noteq> [] \<and> length label \<le> 63 \<and> \<not> starts_with label ''-'' \<and> \<not> ends_with label ''-'' \<and>
     list_all (\<lambda>r. is_ascii_alnum r \<or> r = CHR ''-'') label"

definition valid_dns_name_strict :: "string \<Rightarrow> bool" where
  "valid_dns_name_strict text =
     (let name = trim_space text
      in if name = [] \<or> length name > 253 \<or> starts_with name ''.'' \<or> ends_with name ''.'' then False
         else list_all strict_label (split_char (CHR ''.'') name))"

definition network_contained_in :: "ipnet \<Rightarrow> ipnet \<Rightarrow> bool" where
  "network_contained_in candidate zone =
     (if to4 (net_ip candidate) = None \<or> to4 (net_ip zone) = None then False
      else
        (let (candidate_ones, candidate_bits) = mask_size (net_mask candidate); (zone_ones, zone_bits) = mask_size (net_mask zone)
         in candidate_bits = 32 \<and> zone_bits = 32 \<and> candidate_ones \<ge> zone_ones \<and> ipnet_contains zone (net_ip candidate)))"

definition is_private_site_network :: "ipnet \<Rightarrow> bool" where
  "is_private_site_network network =
     list_ex (\<lambda>p. network_contained_in network (snd p))
       (List.map_filter parse_cidr [''10.0.0.0/8'', ''172.16.0.0/12'', ''192.168.0.0/16''])"

fun record_name_errors :: "nat \<Rightarrow> dns_record list \<Rightarrow> validation_errors" where
  "record_name_errors i [] = []"
| "record_name_errors i (rec # rs) =
     check (\<not> valid_dns_name_strict (dr_name rec)) (at_index ''dns.records'' i @ ''.name'') ''must contain valid DNS labels'' @
     record_name_errors (i + 1) rs"

fun site_errors :: "nat \<Rightarrow> string list \<Rightarrow> validation_errors" where
  "site_errors i [] = []"
| "site_errors i (entry # es) =
     check (is_some_and (parse_cidr (trim_space entry)) (\<lambda>p. to4 (net_ip (snd p)) \<noteq> None \<and> \<not> is_private_site_network (snd p)))
       (at_index ''wg_client.allowed_ips'' i)
       ''must be contained in an RFC1918 private site network (10/8, 172.16/12, or 192.168/16)'' @
     site_errors (i + 1) es"

definition tunnel_errors :: "wg_client_config \<Rightarrow> validation_errors" where
  "tunnel_errors client =
     (let address = trim_space (wc_address client);
          required = check True ''wg_client.address'' ''is required and must be a valid IPv4 /32 when the outbound tunnel is enabled''
      in (case parse_cidr address of
            Some (x, network) \<Rightarrow>
              (if address \<noteq> [] \<and> to4 x \<noteq> None
               then check (fst (mask_size (net_mask network)) \<noteq> 32) ''wg_client.address'' ''must be a /32 address in this appliance version''
               else required)
          | None \<Rightarrow> required) @
         site_errors 0 (items (wc_allowed_ips client)) @
         (case split_host_port (wc_endpoint client) of
            Inr (host, _) \<Rightarrow>
              check (parse_ip host = None \<and> \<not> valid_dns_name_strict host) ''wg_client.endpoint'' ''hostname must contain valid DNS labels''
          | Inl _ \<Rightarrow> []))"

fun input_deny_errors :: "nat \<Rightarrow> firewall_rule list \<Rightarrow> validation_errors" where
  "input_deny_errors i [] = []"
| "input_deny_errors i (rule # rs) =
     check (fr_enabled rule \<and> fr_direction rule = ''input'' \<and> fr_action rule = ''deny'') (at_index ''firewall.custom_rules'' i)
       ''custom input deny rules are unavailable because they can lock out router management; use trusted networks or feature-specific access controls'' @
     input_deny_errors (i + 1) rs"

definition validate_scenario_safety :: "system_config \<Rightarrow> validation_errors + unit" where
  "validate_scenario_safety c = into_result
     (check (\<not> valid_dns_name_strict (sys_domain (system c))) ''system.domain''
        ''must contain valid DNS labels (1-63 alphanumeric/hyphen characters, no empty labels or edge hyphens)'' @
      record_name_errors 0 (items (dns_records (dns c))) @
      (if wc_enabled (wg_client c) then tunnel_errors (wg_client c) else []) @
      input_deny_errors 0 (items (fw_custom_rules (firewall c))))"

section \<open>Admission of a live candidate\<close>

text \<open>The error of the candidate itself, or the error of the baseline behind its prefix.\<close>

datatype live_error = Invalid validation_errors | Baseline string validation_errors

definition BASELINE_PREFIX :: string where
  "BASELINE_PREFIX = ''rollback baseline requires local configuration migration before live changes''"

definition validate_live_candidate :: "env \<Rightarrow> system_config \<Rightarrow> system_config option \<Rightarrow> live_error + unit" where
  "validate_live_candidate v candidate previous =
     (case validate v candidate of
        Inl e \<Rightarrow> Inl (Invalid e)
      | Inr _ \<Rightarrow>
          (case validate_scenario_safety candidate of
             Inl e \<Rightarrow> Inl (Invalid e)
           | Inr _ \<Rightarrow>
               (case previous of
                  None \<Rightarrow> Inr ()
                | Some old \<Rightarrow>
                    (case validate v old of
                       Inl e \<Rightarrow> Inl (Baseline BASELINE_PREFIX e)
                     | Inr _ \<Rightarrow>
                         (case validate_scenario_safety old of
                            Inl e \<Rightarrow> Inl (Baseline BASELINE_PREFIX e)
                          | Inr _ \<Rightarrow> Inr ())))))"

section \<open>Errors introduced by a change\<close>

definition unchanged_field :: "codec \<Rightarrow> system_config \<Rightarrow> system_config \<Rightarrow> string \<Rightarrow> bool" where
  "unchanged_field j candidate previous field =
     (case (to_field_tree j candidate, to_field_tree j previous) of
        (Some c, Some p) \<Rightarrow> same_field_value j c p field
      | _ \<Rightarrow> False)"

definition validate_changes_from :: "env \<Rightarrow> codec \<Rightarrow> system_config \<Rightarrow> system_config option \<Rightarrow> validation_errors + unit" where
  "validate_changes_from v j candidate previous =
     (case validate v candidate of
        Inr _ \<Rightarrow> Inr ()
      | Inl errs \<Rightarrow>
          (case previous of
             None \<Rightarrow> Inl errs
           | Some old \<Rightarrow>
               (let stored = (case validate v old of Inr _ \<Rightarrow> [] | Inl es \<Rightarrow> es)
                in if stored = [] then Inl errs
                   else into_result (filter (\<lambda>item. \<not> (item \<in> set stored \<and> unchanged_field j candidate old (ve_field item))) errs))))"

end
