(* ===== verification/Store.thy ===== *)
theory Store
  imports State_Wp Policy "HOL-Library.Product_Lexorder" "HOL-Library.AList"
begin

text \<open>
  The canonical store (\<open>mr-config/src/config/store.rs\<close>): the SQLite tables as a record, each statement of SQLite as a
  call that may fail, a transaction as a private copy of the tables that \<open>commit\<close> publishes. Clock readings, random
  bytes and the outcomes of statements are consumed from lists. Hashing, hexadecimal and base64 text, the calendar
  formats and the decoder of a configuration are the record \<open>storage\<close> of parameters.
\<close>

section \<open>Tables\<close>

record snapshot =
  sn_id :: string
  sn_revision :: u64
  sn_created_at :: string
  sn_checksum :: string
  sn_kind :: string
  sn_label :: string
  sn_config_json :: string

record audit_event =
  au_id :: string
  au_event_type :: string
  au_actor :: string
  au_timestamp :: string
  au_details_json :: string

record admin_row =
  ad_password_hash :: string
  ad_totp_secret :: "string option"
  ad_auth_generation :: u64
  ad_updated_at :: string

record session_row =
  se_id :: string
  se_csrf_token :: string
  se_read_only :: bool
  se_auth_generation :: u64
  se_created_at :: string
  se_last_seen :: string

text \<open>\<open>config_revisions\<close> holds the update time and the text, newest first: the key of the table only grows.\<close>

record store =
  config_revisions :: "(string \<times> string) list"
  snapshots :: "snapshot list"
  admin_credentials :: "admin_row option"
  sessions :: "session_row list"
  rate_limit_buckets :: "(string \<times> int \<times> string) list"
  audit_events :: "audit_event list"
  backup_export_status :: "string option"

definition empty_store :: store where
  "empty_store = \<lparr>config_revisions = [], snapshots = [], admin_credentials = None, sessions = [],
     rate_limit_buckets = [], audit_events = [], backup_export_status = None\<rparr>"

record storage =
  st_codec :: codec
  unmarshal_config :: "string \<Rightarrow> system_config result"
  marshal_error :: error
  sha256 :: "string \<Rightarrow> u8 list"
  hex_encode :: "u8 list \<Rightarrow> string"
  hex_decode :: "string \<Rightarrow> u8 list option"
  base64_raw_url :: "u8 list \<Rightarrow> string"
  rfc3339 :: "time \<Rightarrow> string"
  parse_rfc3339 :: "string \<Rightarrow> time option"
  go_string :: "time \<Rightarrow> string"
  debug_text :: "string \<Rightarrow> string"

record world =
  w_clock :: "time list"
  w_entropy :: "u8 list result list"
  w_sql :: "error option list"
  w_db :: store

section \<open>Effects\<close>

definition now :: "('z world_scheme, time) state" where
  "now = do { s \<leftarrow> State_Monad.get;
     case w_clock s of [] \<Rightarrow> State_Monad.return zero_time
     | t # ts \<Rightarrow> do { State_Monad.set (s\<lparr>w_clock := ts\<rparr>); State_Monad.return t } }"

definition now_utc :: "('z world_scheme, time) state" where
  "now_utc = do { t \<leftarrow> now; State_Monad.return (time_utc t) }"

definition rand_bytes :: "nat \<Rightarrow> ('z world_scheme, u8 list result) state" where
  "rand_bytes n = do { s \<leftarrow> State_Monad.get;
     case w_entropy s of [] \<Rightarrow> State_Monad.return (Inr (replicate n 0))
     | e # es \<Rightarrow> do { State_Monad.set (s\<lparr>w_entropy := es\<rparr>); State_Monad.return e } }"

text \<open>One statement of SQLite: it fails with an error or succeeds.\<close>

definition sql :: "('z world_scheme, unit result) state" where
  "sql = do { s \<leftarrow> State_Monad.get;
     case w_sql s of [] \<Rightarrow> State_Monad.return (Inr ())
     | f # fs \<Rightarrow> do { State_Monad.set (s\<lparr>w_sql := fs\<rparr>);
         State_Monad.return (case f of None \<Rightarrow> Inr () | Some e \<Rightarrow> Inl e) } }"

definition wrapped :: "string \<Rightarrow> ('s, 'a result) state \<Rightarrow> ('s, 'a result) state" where
  "wrapped p m = do { r \<leftarrow> m; State_Monad.return (map_err (Wrapf p) r) }"

definition query :: "(store \<Rightarrow> 'a result) \<Rightarrow> ('z world_scheme, 'a result) state" where
  "query f = and_then sql (\<lambda>_. do { s \<leftarrow> State_Monad.get; State_Monad.return (f (w_db s)) })"

text \<open>A statement outside of a transaction takes effect at once; inside it works on the private copy.\<close>

definition execute :: "(store \<Rightarrow> store result) \<Rightarrow> ('z world_scheme, unit result) state" where
  "execute f = and_then sql (\<lambda>_. do { s \<leftarrow> State_Monad.get;
     case f (w_db s) of Inl e \<Rightarrow> State_Monad.return (Inl e)
     | Inr d \<Rightarrow> do { State_Monad.set (s\<lparr>w_db := d\<rparr>); State_Monad.return (Inr ()) } })"

definition begin_tx :: "('z world_scheme, store result) state" where
  "begin_tx = query Inr"

definition tx_execute :: "(store \<Rightarrow> store result) \<Rightarrow> store \<Rightarrow> ('z world_scheme, store result) state" where
  "tx_execute f d = and_then sql (\<lambda>_. State_Monad.return (f d))"

definition commit_tx :: "store \<Rightarrow> ('z world_scheme, unit result) state" where
  "commit_tx d = execute (\<lambda>_. Inr d)"

section \<open>Retention\<close>

definition SNAPSHOT_KIND_AUTOMATIC :: string where
  "SNAPSHOT_KIND_AUTOMATIC = ''automatic''"

definition SNAPSHOT_KIND_MANUAL :: string where
  "SNAPSHOT_KIND_MANUAL = ''manual''"

definition SNAPSHOT_RETENTION_PER_KIND :: nat where
  "SNAPSHOT_RETENTION_PER_KIND = 20"

definition AUDIT_RETENTION :: nat where
  "AUDIT_RETENTION = 5000"

definition HIGH_VOLUME_AUDIT_RETENTION :: nat where
  "HIGH_VOLUME_AUDIT_RETENTION = 1000"

definition HIGH_VOLUME_AUDIT_EVENT_TYPES :: "string list" where
  "HIGH_VOLUME_AUDIT_EVENT_TYPES = [''access.trusted_network_rejected'', ''auth.unauthorized'', ''auth.login_rate_limited'',
     ''auth.cross_site_rejected'', ''auth.origin_rejected'', ''auth.csrf_rejected'', ''auth.read_only_rejected'']"

definition is_high_volume_audit_event :: "string \<Rightarrow> bool" where
  "is_high_volume_audit_event event_type \<longleftrightarrow> event_type \<in> set HIGH_VOLUME_AUDIT_EVENT_TYPES"

text \<open>
  \<open>DELETE \<dots> WHERE pool AND id NOT IN (SELECT id \<dots> WHERE pool ORDER BY key DESC LIMIT n)\<close>.
\<close>

definition prune :: "('r \<Rightarrow> bool) \<Rightarrow> ('r \<Rightarrow> 'k :: linorder) \<Rightarrow> ('r \<Rightarrow> string) \<Rightarrow> nat \<Rightarrow> 'r list \<Rightarrow> 'r list" where
  "prune pool key ident n rows =
     (let kept = set (map ident (take n (rev (sort_key key (filter pool rows)))))
      in filter (\<lambda>r. \<not> pool r \<or> ident r \<in> kept) rows)"

definition snapshot_key :: "snapshot \<Rightarrow> int \<times> string \<times> string" where
  "snapshot_key r = (sint (sn_revision r), sn_created_at r, sn_id r)"

definition prune_snapshots :: "string \<Rightarrow> snapshot list \<Rightarrow> snapshot list" where
  "prune_snapshots kind =
     prune (\<lambda>r. if kind = SNAPSHOT_KIND_MANUAL then sn_kind r = SNAPSHOT_KIND_MANUAL else sn_kind r \<noteq> SNAPSHOT_KIND_MANUAL)
       snapshot_key sn_id SNAPSHOT_RETENTION_PER_KIND"

definition audit_key :: "audit_event \<Rightarrow> string \<times> string" where
  "audit_key r = (au_timestamp r, au_id r)"

definition prune_audit :: "audit_event list \<Rightarrow> audit_event list" where
  "prune_audit = prune (\<lambda>_. True) audit_key au_id AUDIT_RETENTION"

definition prune_high_volume_audit :: "audit_event list \<Rightarrow> audit_event list" where
  "prune_high_volume_audit =
     prune (\<lambda>r. is_high_volume_audit_event (au_event_type r)) audit_key au_id HIGH_VOLUME_AUDIT_RETENTION"

section \<open>Configuration\<close>

definition marshal_config :: "storage \<Rightarrow> system_config \<Rightarrow> string result" where
  "marshal_config k c =
     (case json_encode (st_codec k) (config_json (st_codec k) c) of None \<Rightarrow> Inl (marshal_error k) | Some text \<Rightarrow> Inr text)"

definition latest_text :: "store \<Rightarrow> string option" where
  "latest_text d = (case config_revisions d of [] \<Rightarrow> None | (_, text) # _ \<Rightarrow> Some text)"

definition checked_next :: "u64 \<Rightarrow> u64 option" where
  "checked_next r = (if r = - 1 then None else Some (r + 1))"

definition config_errors :: "env \<Rightarrow> system_config \<Rightarrow> unit result" where
  "config_errors v c = (case validate v c of Inl es \<Rightarrow> Inl (Errorf (validation_errors_text es)) | Inr _ \<Rightarrow> Inr ())"

definition get_latest_config :: "env \<Rightarrow> storage \<Rightarrow> ('z world_scheme, system_config result) state" where
  "get_latest_config v k =
     and_then (wrapped ''failed to read latest config''
       (query (\<lambda>d. case latest_text d of None \<Rightarrow> Inl (Sentinel ErrNoRows) | Some text \<Rightarrow> Inr text))) (\<lambda>text.
     case unmarshal_config k text of
       Inl e \<Rightarrow> State_Monad.return (Inl (Wrapf ''failed to parse config JSON'' e))
     | Inr c0 \<Rightarrow>
         (let c = migrate_legacy_fields c0
          in case config_errors v c of
               Inl e \<Rightarrow> State_Monad.return (Inl (Wrapf ''stored configuration failed validation'' e))
             | Inr _ \<Rightarrow> State_Monad.return (Inr c)))"

text \<open>The revision must follow the stored one; an undecodable row never does.\<close>

definition advances :: "storage \<Rightarrow> u64 \<Rightarrow> string option \<Rightarrow> unit result" where
  "advances k rev_no current =
     (case current of
        Some text \<Rightarrow>
          (case unmarshal_config k text of
             Inr c \<Rightarrow> (if checked_next (system_config.revision c) = Some rev_no then Inr ()
                      else Inl (Errorf ''configuration revision must advance exactly once''))
           | Inl _ \<Rightarrow> Inl (Errorf ''configuration revision must advance exactly once''))
      | None \<Rightarrow> (if rev_no \<noteq> 1 then Inl (Errorf ''initial configuration revision must be 1'') else Inr ()))"

definition insert_revision :: "storage \<Rightarrow> system_config \<Rightarrow> string \<Rightarrow> store \<Rightarrow> store" where
  "insert_revision k cfg text d =
     d\<lparr>config_revisions := (rfc3339 k (updated_at cfg), text) # config_revisions d\<rparr>"

definition prune_revisions :: "store \<Rightarrow> store" where
  "prune_revisions d = d\<lparr>config_revisions := take 100 (config_revisions d)\<rparr>"

definition save_config :: "env \<Rightarrow> storage \<Rightarrow> system_config \<Rightarrow> ('z world_scheme, unit result) state" where
  "save_config v k cfg =
     (case config_errors v cfg of
        Inl e \<Rightarrow> State_Monad.return (Inl (Wrapf ''refusing to persist invalid configuration'' e))
      | Inr _ \<Rightarrow>
          and_then (wrapped ''failed to inspect current revision'' (query (\<lambda>d. Inr (latest_text d)))) (\<lambda>current.
          case advances k (system_config.revision cfg) current of
            Inl e \<Rightarrow> State_Monad.return (Inl e)
          | Inr _ \<Rightarrow>
              (case marshal_config k cfg of
                 Inl e \<Rightarrow> State_Monad.return (Inl (Wrapf ''failed to serialize config'' e))
               | Inr text \<Rightarrow>
                   and_then (wrapped ''failed to begin transaction'' begin_tx) (\<lambda>d.
                   and_then (wrapped ''failed to insert config revision'' (tx_execute (\<lambda>d. Inr (insert_revision k cfg text d)) d)) (\<lambda>d.
                   and_then (wrapped ''failed to prune config revisions'' (tx_execute (\<lambda>d. Inr (prune_revisions d)) d)) (\<lambda>d.
                   wrapped ''failed to commit config transaction'' (commit_tx d)))))))"


text \<open>\<open>SQLiteStore::new\<close> after the migrations: the first start stores the default configuration.\<close>

definition initialise :: "env \<Rightarrow> storage \<Rightarrow> ('z world_scheme, unit result) state" where
  "initialise v k =
     and_then (wrapped ''failed to query config_revisions'' (query (\<lambda>d. Inr (length (config_revisions d))))) (\<lambda>count.
     if count = 0
     then do { t \<leftarrow> now; wrapped ''failed to initialize default config'' (save_config v k (default_config t)) }
     else State_Monad.return (Inr ()))"

section \<open>Snapshots\<close>

text \<open>A primary key that is taken fails the insertion.\<close>

definition constraint_failed :: error where
  "constraint_failed = Errorf ''UNIQUE constraint failed''"

definition insert_snapshot :: "snapshot \<Rightarrow> store \<Rightarrow> store result" where
  "insert_snapshot r d =
     (if sn_id r \<in> set (map sn_id (snapshots d)) then Inl constraint_failed else Inr (d\<lparr>snapshots := snapshots d @ [r]\<rparr>))"

definition create_snapshot_kind :: "storage \<Rightarrow> system_config \<Rightarrow> string \<Rightarrow> string \<Rightarrow> ('z world_scheme, snapshot result) state" where
  "create_snapshot_kind k cfg kind label =
     (case marshal_config k cfg of
        Inl e \<Rightarrow> State_Monad.return (Inl (Wrapf ''failed to marshal config for snapshot'' e))
      | Inr data \<Rightarrow>
          and_then (wrapped ''generate snapshot ID'' (rand_bytes 4)) (\<lambda>entropy. do {
            t \<leftarrow> now;
            created \<leftarrow> now_utc;
            (let row = \<lparr>sn_id = ''snap-'' @ int_string (unix_nano t) @ ''-'' @ hex_encode k entropy,
                   sn_revision = system_config.revision cfg, sn_created_at = rfc3339 k created,
                   sn_checksum = hex_encode k (sha256 k data), sn_kind = kind, sn_label = label, sn_config_json = data\<rparr>
             in and_then (wrapped ''failed to begin snapshot transaction'' begin_tx) (\<lambda>d.
                if unat (system_config.revision cfg) \<ge> 2 ^ 63
                then State_Monad.return (Inl (Errorf ''snapshot revision exceeds SQLite range''))
                else
                  and_then (wrapped ''failed to insert snapshot'' (tx_execute (insert_snapshot row) d)) (\<lambda>d.
                  and_then (wrapped ''failed to prune snapshots''
                    (tx_execute (\<lambda>d. Inr (d\<lparr>snapshots := prune_snapshots kind (snapshots d)\<rparr>)) d)) (\<lambda>d.
                  and_then (wrapped ''failed to commit snapshot'' (commit_tx d)) (\<lambda>_.
                  State_Monad.return (Inr (row\<lparr>sn_config_json := []\<rparr>))))))) }))"

definition create_snapshot :: "storage \<Rightarrow> system_config \<Rightarrow> ('z world_scheme, snapshot result) state" where
  "create_snapshot k cfg = create_snapshot_kind k cfg SNAPSHOT_KIND_AUTOMATIC []"

definition list_snapshots :: "('z world_scheme, snapshot list result) state" where
  "list_snapshots =
     and_then (wrapped ''failed to query snapshots'' (query (\<lambda>d. Inr (rev (sort_key snapshot_key (snapshots d)))))) (\<lambda>rows.
     State_Monad.return (Inr (map (\<lambda>r. r\<lparr>sn_config_json := []\<rparr>) rows)))"

definition delete_snapshot :: "string \<Rightarrow> ('z world_scheme, unit result) state" where
  "delete_snapshot ident = do {
     s \<leftarrow> State_Monad.get;
     r \<leftarrow> wrapped ''failed to delete snapshot'' (execute (\<lambda>d. Inr (d\<lparr>snapshots := filter (\<lambda>r. sn_id r \<noteq> ident) (snapshots d)\<rparr>)));
     State_Monad.return (case r of Inl e \<Rightarrow> Inl e
       | Inr _ \<Rightarrow> if ident \<in> set (map sn_id (snapshots (w_db s))) then Inr () else Inl (Sentinel ErrSnapshotNotFound)) }"

definition snapshot_intact :: "storage \<Rightarrow> snapshot \<Rightarrow> bool" where
  "snapshot_intact k r =
     (case hex_decode k (sn_checksum r) of
        None \<Rightarrow> False
      | Some expected \<Rightarrow> length expected = 32 \<and> sha256 k (sn_config_json r) = expected)"

definition get_snapshot :: "storage \<Rightarrow> string \<Rightarrow> ('z world_scheme, snapshot result) state" where
  "get_snapshot k ident = do {
     q \<leftarrow> wrapped ''snapshot storage unavailable'' (query (\<lambda>d. Inr (find (\<lambda>r. sn_id r = ident) (snapshots d))));
     State_Monad.return (case q of
         Inl e \<Rightarrow> Inl e
       | Inr None \<Rightarrow> Inl (Sentinel ErrSnapshotNotFound)
       | Inr (Some r) \<Rightarrow> if snapshot_intact k r then Inr r else Inl (Sentinel ErrSnapshotCorrupt)) }"

section \<open>Audit log\<close>

text \<open>\<open>details\<close> is a \<open>BTreeMap\<close>: a list of pairs with increasing keys.\<close>

definition marshal_details :: "storage \<Rightarrow> (string \<times> string) list \<Rightarrow> string option" where
  "marshal_details k details = json_encode (st_codec k) (JObj (map (\<lambda>(key, x). (key, JStr x)) details))"

definition insert_audit :: "audit_event \<Rightarrow> store \<Rightarrow> store result" where
  "insert_audit r d =
     (if au_id r \<in> set (map au_id (audit_events d)) then Inl constraint_failed else Inr (d\<lparr>audit_events := audit_events d @ [r]\<rparr>))"

definition is_backup_export :: "string \<Rightarrow> (string \<times> string) list \<Rightarrow> bool" where
  "is_backup_export event_type details \<longleftrightarrow>
     event_type = ''api.mutation'' \<and> map_of details ''path'' = Some ''/api/v1/backup/export'' \<and>
     is_some_and (map_of details ''status'') (\<lambda>x. starts_with x ''2'')"

definition append_audit_event :: "storage \<Rightarrow> string \<Rightarrow> string \<Rightarrow> (string \<times> string) list \<Rightarrow> ('z world_scheme, unit result) state" where
  "append_audit_event k event_type actor details =
     (if event_type = [] \<or> length event_type > 96 \<or> actor = [] \<or> length actor > 255
      then State_Monad.return (Inl (Errorf ''invalid audit event metadata''))
      else case marshal_details k details of
        None \<Rightarrow> State_Monad.return (Inl (Errorf ''invalid audit event details''))
      | Some text \<Rightarrow>
          (if length text > 4096 then State_Monad.return (Inl (Errorf ''invalid audit event details''))
           else
             and_then (wrapped ''generate audit event ID'' (rand_bytes 18)) (\<lambda>id_bytes.
             and_then (wrapped ''begin audit event'' begin_tx) (\<lambda>d. do {
               t \<leftarrow> now_utc;
               (let row = \<lparr>au_id = ''audit-'' @ base64_raw_url k id_bytes, au_event_type = event_type, au_actor = actor,
                      au_timestamp = go_string k t, au_details_json = text\<rparr>
                in and_then (wrapped ''insert audit event'' (tx_execute (insert_audit row) d)) (\<lambda>d.
                   and_then
                     (if is_backup_export event_type details
                      then do { t2 \<leftarrow> now_utc;
                        wrapped ''record backup export'' (tx_execute (\<lambda>d. Inr (d\<lparr>backup_export_status := Some (go_string k t2)\<rparr>)) d) }
                      else State_Monad.return (Inr d)) (\<lambda>d.
                   and_then
                     (if is_high_volume_audit_event event_type
                      then wrapped ''prune high-volume audit events''
                        (tx_execute (\<lambda>d. Inr (d\<lparr>audit_events := prune_high_volume_audit (audit_events d)\<rparr>)) d)
                      else State_Monad.return (Inr d)) (\<lambda>d.
                   and_then (wrapped ''prune audit events''
                     (tx_execute (\<lambda>d. Inr (d\<lparr>audit_events := prune_audit (audit_events d)\<rparr>)) d)) (\<lambda>d.
                   wrapped ''commit audit event'' (commit_tx d)))))) }))))"


section \<open>Administrator credential\<close>

definition delete_all_sessions :: "('z world_scheme, unit result) state" where
  "delete_all_sessions = execute (\<lambda>d. Inr (d\<lparr>sessions := []\<rparr>))"

definition auth_generation_of :: "store \<Rightarrow> u64 result" where
  "auth_generation_of d =
     (case admin_credentials d of None \<Rightarrow> Inl (Sentinel ErrNoRows) | Some a \<Rightarrow> Inr (ad_auth_generation a))"

definition get_auth_generation :: "('z world_scheme, u64 result) state" where
  "get_auth_generation = query auth_generation_of"

definition get_admin_auth_state :: "('z world_scheme, (string \<times> u64) result) state" where
  "get_admin_auth_state =
     query (\<lambda>d. case admin_credentials d of None \<Rightarrow> Inl (Sentinel ErrNoRows)
                | Some a \<Rightarrow> Inr (ad_password_hash a, ad_auth_generation a))"

definition get_admin_hash :: "('z world_scheme, string result) state" where
  "get_admin_hash =
     query (\<lambda>d. case admin_credentials d of None \<Rightarrow> Inl (Sentinel ErrNoRows) | Some a \<Rightarrow> Inr (ad_password_hash a))"

definition get_admin_totp_secret :: "('z world_scheme, string result) state" where
  "get_admin_totp_secret =
     query (\<lambda>d. case admin_credentials d of None \<Rightarrow> Inl (Sentinel ErrNoRows)
                | Some a \<Rightarrow> Inr (case ad_totp_secret a of None \<Rightarrow> [] | Some x \<Rightarrow> x))"

definition update_authentication :: "storage \<Rightarrow> (u64 \<Rightarrow> string \<Rightarrow> store \<Rightarrow> store result) \<Rightarrow> ('z world_scheme, unit result) state" where
  "update_authentication k change =
     and_then begin_tx (\<lambda>d.
     and_then (tx_execute Inr d) (\<lambda>d.
     (let generation = (case auth_generation_of d of Inl _ \<Rightarrow> 0 | Inr g \<Rightarrow> g)
      in if generation = - 1 then State_Monad.return (Inl (Errorf ''authentication generation exhausted''))
         else do {
           t \<leftarrow> now_utc;
           and_then (tx_execute (change (if generation + 1 = 0 then 1 else generation + 1) (rfc3339 k t)) d) (\<lambda>d.
           and_then (tx_execute (\<lambda>d. Inr (d\<lparr>sessions := []\<rparr>)) d) (\<lambda>d.
           commit_tx d)) })))"

definition upsert_admin :: "string \<Rightarrow> u64 \<Rightarrow> string \<Rightarrow> store \<Rightarrow> store result" where
  "upsert_admin hash next stamp d = Inr (d\<lparr>admin_credentials := Some
     (case admin_credentials d of
        None \<Rightarrow> \<lparr>ad_password_hash = hash, ad_totp_secret = None, ad_auth_generation = next, ad_updated_at = stamp\<rparr>
      | Some a \<Rightarrow> a\<lparr>ad_password_hash := hash, ad_auth_generation := next, ad_updated_at := stamp\<rparr>)\<rparr>)"

definition set_admin_hash :: "storage \<Rightarrow> string \<Rightarrow> ('z world_scheme, unit result) state" where
  "set_admin_hash k hash = update_authentication k (upsert_admin hash)"

definition update_totp :: "string option \<Rightarrow> u64 \<Rightarrow> string \<Rightarrow> store \<Rightarrow> store result" where
  "update_totp secret next stamp d =
     (case admin_credentials d of
        None \<Rightarrow> Inl (Sentinel ErrNoRows)
      | Some a \<Rightarrow> Inr (d\<lparr>admin_credentials := Some (a\<lparr>ad_totp_secret := secret, ad_auth_generation := next, ad_updated_at := stamp\<rparr>)\<rparr>))"

definition set_admin_totp_secret :: "storage \<Rightarrow> string \<Rightarrow> ('z world_scheme, unit result) state" where
  "set_admin_totp_secret k secret = update_authentication k (update_totp (Some secret))"

definition clear_admin_totp_secret :: "storage \<Rightarrow> ('z world_scheme, unit result) state" where
  "clear_admin_totp_secret k = update_authentication k (update_totp None)"

text \<open>The first configuration and the credential are stored in one transaction, with a time of its own.\<close>

definition insert_setup :: "string \<Rightarrow> string \<Rightarrow> store \<Rightarrow> store result" where
  "insert_setup hash stamp d =
     (if admin_credentials d \<noteq> None then Inl constraint_failed
      else Inr (d\<lparr>admin_credentials :=
        Some \<lparr>ad_password_hash = hash, ad_totp_secret = None, ad_auth_generation = 1, ad_updated_at = stamp\<rparr>\<rparr>))"

definition setup_tx :: "storage \<Rightarrow> system_config \<Rightarrow> string \<Rightarrow> store \<Rightarrow> ('z world_scheme, unit result) state" where
  "setup_tx k cfg0 hash d = do {
     t \<leftarrow> now_utc;
     (let cfg = cfg0\<lparr>updated_at := t\<rparr>
      in case marshal_config k cfg of
           Inl e \<Rightarrow> State_Monad.return (Inl e)
         | Inr text \<Rightarrow>
             and_then (tx_execute (\<lambda>d. Inr (insert_revision k cfg text d)) d) (\<lambda>d.
             and_then (tx_execute (insert_setup hash (rfc3339 k t)) d) (\<lambda>d.
             and_then (tx_execute (\<lambda>d. Inr (d\<lparr>sessions := []\<rparr>)) d) (\<lambda>d.
             commit_tx d)))) }"

definition commit_initial_setup :: "env \<Rightarrow> storage \<Rightarrow> string \<Rightarrow> system_config \<Rightarrow> ('z world_scheme, unit result) state" where
  "commit_initial_setup v k hash cfg =
     (case config_errors v cfg of
        Inl e \<Rightarrow> State_Monad.return (Inl (Wrapf ''refusing invalid initial configuration'' e))
      | Inr _ \<Rightarrow>
          and_then begin_tx (\<lambda>d.
          and_then (tx_execute Inr d) (\<lambda>d.
          if admin_credentials d \<noteq> None then State_Monad.return (Inl (Errorf ''administrator is already configured''))
          else
            and_then (tx_execute Inr d) (\<lambda>d.
            case latest_text d of
              None \<Rightarrow> State_Monad.return (Inl (Sentinel ErrNoRows))
            | Some current_json \<Rightarrow>
                (case unmarshal_config k current_json of
                   Inl e \<Rightarrow> State_Monad.return (Inl e)
                 | Inr current \<Rightarrow>
                     (if checked_next (system_config.revision current) \<noteq> Some (system_config.revision cfg)
                      then State_Monad.return (Inl (Errorf ''initial configuration revision must advance exactly once''))
                      else setup_tx k cfg hash d))))))"

section \<open>Sessions and rate limits\<close>

definition session_lookup_key :: "storage \<Rightarrow> string \<Rightarrow> string" where
  "session_lookup_key k token = ''sha256:'' @ hex_encode k (sha256 k (''minimalrouter-session-v1:'' @ token))"

definition insert_session :: "session_row \<Rightarrow> store \<Rightarrow> store result" where
  "insert_session r d =
     (if se_id r \<in> set (map se_id (sessions d)) then Inl constraint_failed else Inr (d\<lparr>sessions := sessions d @ [r]\<rparr>))"

definition session_of :: "storage \<Rightarrow> string \<Rightarrow> string \<Rightarrow> bool \<Rightarrow> u64 \<Rightarrow> time \<Rightarrow> time \<Rightarrow> session_row" where
  "session_of k session_id csrf_token read_only generation created last_seen =
     \<lparr>se_id = session_lookup_key k session_id, se_csrf_token = csrf_token, se_read_only = read_only,
      se_auth_generation = generation, se_created_at = rfc3339 k created, se_last_seen = rfc3339 k last_seen\<rparr>"

definition create_session ::
  "storage \<Rightarrow> string \<Rightarrow> string \<Rightarrow> bool \<Rightarrow> u64 \<Rightarrow> time \<Rightarrow> time \<Rightarrow> ('z world_scheme, unit result) state" where
  "create_session k session_id csrf_token read_only generation created last_seen =
     execute (insert_session (session_of k session_id csrf_token read_only generation created last_seen))"

definition create_session_if_generation_current ::
  "storage \<Rightarrow> string \<Rightarrow> string \<Rightarrow> bool \<Rightarrow> u64 \<Rightarrow> time \<Rightarrow> time \<Rightarrow> ('z world_scheme, bool result) state" where
  "create_session_if_generation_current k session_id csrf_token read_only expected created last_seen =
     and_then begin_tx (\<lambda>d.
     and_then (tx_execute Inr d) (\<lambda>d.
     case auth_generation_of d of
       Inl e \<Rightarrow> State_Monad.return (Inl e)
     | Inr current \<Rightarrow>
         (if current \<noteq> expected then State_Monad.return (Inr False)
          else
            and_then (tx_execute (insert_session (session_of k session_id csrf_token read_only expected created last_seen)) d) (\<lambda>d.
            and_then (commit_tx d) (\<lambda>_. State_Monad.return (Inr True))))))"

definition get_session :: "storage \<Rightarrow> string \<Rightarrow> ('z world_scheme, (string \<times> bool \<times> u64 \<times> time \<times> time) result) state" where
  "get_session k session_id =
     query (\<lambda>d. case find (\<lambda>r. se_id r = session_lookup_key k session_id) (sessions d) of
         None \<Rightarrow> Inl (Sentinel ErrNoRows)
       | Some r \<Rightarrow>
           (case parse_rfc3339 k (se_created_at r) of
              None \<Rightarrow> Inl (Errorf (''parsing time '' @ debug_text k (se_created_at r) @ '' as RFC3339''))
            | Some created \<Rightarrow>
                (case parse_rfc3339 k (se_last_seen r) of
                   None \<Rightarrow> Inl (Errorf (''parsing time '' @ debug_text k (se_last_seen r) @ '' as RFC3339''))
                 | Some last_seen \<Rightarrow>
                     Inr (se_csrf_token r, se_read_only r, se_auth_generation r, created, last_seen))))"

definition update_session_last_seen :: "storage \<Rightarrow> string \<Rightarrow> time \<Rightarrow> ('z world_scheme, unit result) state" where
  "update_session_last_seen k session_id last_seen =
     execute (\<lambda>d. Inr (d\<lparr>sessions := map (\<lambda>r. if se_id r = session_lookup_key k session_id
       then r\<lparr>se_last_seen := rfc3339 k last_seen\<rparr> else r) (sessions d)\<rparr>))"

definition delete_session :: "storage \<Rightarrow> string \<Rightarrow> ('z world_scheme, unit result) state" where
  "delete_session k session_id =
     execute (\<lambda>d. Inr (d\<lparr>sessions := filter (\<lambda>r. se_id r \<noteq> session_lookup_key k session_id) (sessions d)\<rparr>))"

definition clean_expired_sessions :: "storage \<Rightarrow> int \<Rightarrow> int \<Rightarrow> ('z world_scheme, unit result) state" where
  "clean_expired_sessions k idle_timeout absolute_timeout = do {
     t \<leftarrow> now;
     (let idle_cutoff = rfc3339 k (time_add t (- idle_timeout)); abs_cutoff = rfc3339 k (time_add t (- absolute_timeout))
      in execute (\<lambda>d. Inr (d\<lparr>sessions := filter (\<lambda>r. \<not> (se_last_seen r < idle_cutoff \<or> se_created_at r < abs_cutoff)) (sessions d)\<rparr>))) }"

definition get_rate_limit_bucket :: "storage \<Rightarrow> string \<Rightarrow> ('z world_scheme, (int \<times> time) result) state" where
  "get_rate_limit_bucket k ip_text =
     query (\<lambda>d. case map_of (rate_limit_buckets d) ip_text of
         None \<Rightarrow> Inl (Sentinel ErrNoRows)
       | Some (attempts, window) \<Rightarrow> Inr (attempts, case parse_rfc3339 k window of None \<Rightarrow> zero_time | Some t \<Rightarrow> t))"

definition set_rate_limit_bucket :: "storage \<Rightarrow> string \<Rightarrow> int \<Rightarrow> time \<Rightarrow> ('z world_scheme, unit result) state" where
  "set_rate_limit_bucket k ip_text attempts window_start =
     execute (\<lambda>d. Inr (d\<lparr>rate_limit_buckets := AList.update ip_text (attempts, rfc3339 k window_start) (rate_limit_buckets d)\<rparr>))"

definition clean_expired_rate_limit_buckets :: "storage \<Rightarrow> int \<Rightarrow> ('z world_scheme, unit result) state" where
  "clean_expired_rate_limit_buckets k window = do {
     t \<leftarrow> now;
     (let cutoff = rfc3339 k (time_add t (- window))
      in execute (\<lambda>d. Inr (d\<lparr>rate_limit_buckets := filter (\<lambda>(_, _, start). \<not> start < cutoff) (rate_limit_buckets d)\<rparr>))) }"

end
