(* ===== verification/Validation_Props.thy ===== *)
theory Validation_Props
  imports Policy
begin

text \<open>
  What an accepted configuration guarantees. The checks of \<open>validation.rs\<close> that look for duplicates are loops
  with a set of the values seen; \<open>seen_loop\<close> is their contract, and its lemma turns an accepted list into facts
  about every element and about every pair of elements.
\<close>

section \<open>Loops with a set of seen values\<close>

locale seen_loop =
  fixes loop :: "nat \<Rightarrow> 's \<Rightarrow> 'a list \<Rightarrow> validation_errors"
    and seen :: "'s \<Rightarrow> 'k set"
    and upd :: "'s \<Rightarrow> 'a \<Rightarrow> 's"
    and key :: "'a \<Rightarrow> 'k list"
    and ok :: "'a \<Rightarrow> bool"
    and clash :: "'k \<Rightarrow> 'k \<Rightarrow> bool"
  assumes rest: "loop i s (x # xs) = [] \<Longrightarrow> loop (i + 1) (upd s x) xs = []"
    and head: "loop i s (x # xs) = [] \<Longrightarrow> ok x \<and> sorted_wrt (\<lambda>a b. \<not> clash a b) (key x)"
    and fresh: "loop i s (x # xs) = [] \<Longrightarrow> p \<in> seen s \<Longrightarrow> k \<in> set (key x) \<Longrightarrow> \<not> clash p k"
    and grows: "loop i s (x # xs) = [] \<Longrightarrow> seen s \<union> set (key x) \<subseteq> seen (upd s x)"
begin

lemma accepted:
  "loop i s xs = [] \<Longrightarrow>
    (\<forall>x\<in>set xs. ok x) \<and> sorted_wrt (\<lambda>a b. \<not> clash a b) (concat (map key xs)) \<and>
    (\<forall>p\<in>seen s. \<forall>k\<in>set (concat (map key xs)). \<not> clash p k)"
proof (induction xs arbitrary: i s)
  case (Cons x xs)
  note here = head [OF Cons.prems] fresh [OF Cons.prems] grows [OF Cons.prems]
  from Cons.IH [OF rest [OF Cons.prems]] here show ?case
    by (simp add: sorted_wrt_append) blast
qed simp

lemma all_ok: "loop i s xs = [] \<Longrightarrow> x \<in> set xs \<Longrightarrow> ok x"
  using accepted by blast

lemma no_clash:
  assumes "loop i s xs = []" and "m < n" and "n < length xs" and "a \<in> set (key (xs ! m))" and "b \<in> set (key (xs ! n))"
  shows "\<not> clash a b"
proof -
  from assms(2,3) have split: "xs = take n xs @ xs ! n # drop (Suc n) xs" by (simp add: id_take_nth_drop)
  have "sorted_wrt (\<lambda>a b. \<not> clash a b) (concat (map key (take n xs)) @ key (xs ! n) @ concat (map key (drop (Suc n) xs)))"
    using accepted [OF assms(1)] split by (metis concat.simps(2) concat_append list.simps(9) map_append)
  moreover have "a \<in> set (concat (map key (take n xs)))"
    using assms(2-4) by (force simp: in_set_conv_nth intro!: bexI [of _ "xs ! m"])
  ultimately show ?thesis using assms(5) unfolding sorted_wrt_append by auto
qed

end

text \<open>The messages are long texts: the equations of the loops are used only through the lemmas on acceptance.\<close>

lemma sorted_wrt_neq [simp]: "sorted_wrt (\<lambda>a b. a \<noteq> b) xs \<longleftrightarrow> distinct xs"
  by (induction xs) auto

lemma if_Nil: "(if b then xs else ys) = [] \<longleftrightarrow> b \<and> xs = [] \<or> \<not> b \<and> ys = []"
  by simp

lemmas accept_simps = if_Nil Let_def append_is_Nil_conv check_Nil prod.case option.case sum.case simp_thms option.inject option.distinct

declare validate_dns_servers.simps(2) [simp del] validate_leases.simps(2) [simp del] validate_forward_keys.simps(2) [simp del]
  validate_forwards.simps(2) [simp del] validate_rules.simps(2) [simp del] validate_allow_from.simps(2) [simp del]
  validate_extra_loop.simps(2) [simp del] validate_peer_ips.simps(2) [simp del] validate_peers.simps(2) [simp del]
  validate_client_ips.simps(2) [simp del] validate_restricted.simps(2) [simp del] validate_records.simps(2) [simp del]
  validate_lease_names.simps(2) [simp del] validate_trusted_networks.simps(2) [simp del]

lemma dns_server_accepted:
  "validate_dns_servers lan_ip i s (server # ds) = [] \<longleftrightarrow>
    (\<exists>x. parse_ipv4 server = Some x \<and>
      \<not> (is_unspecified x \<or> is_loopback x \<or> is_multicast x \<or> ip_equal x (ip_v4 255 255 255 255) \<or> ip_equal_opt x lan_ip) \<and>
      ip_string x \<notin> set s \<and> validate_dns_servers lan_ip (i + 1) (ip_string x # s) ds = [])"
  by (cases "parse_ipv4 server") (auto simp only: validate_dns_servers.simps accept_simps split: if_splits)

interpretation dns: seen_loop "validate_dns_servers lan_ip" set
  "\<lambda>s server. ip_string (the (parse_ipv4 server)) # s"
  "\<lambda>server. [ip_string (the (parse_ipv4 server))]"
  "\<lambda>server. \<exists>x. parse_ipv4 server = Some x \<and> \<not> is_unspecified x \<and> \<not> is_loopback x \<and> \<not> is_multicast x \<and> \<not> ip_equal_opt x lan_ip"
  "(=)" for lan_ip
  by unfold_locales (auto simp: dns_server_accepted)

section \<open>Leases and forwards\<close>

lemma lease_ip_field:
  "validate_lease_ip field x lan_ip net start stop = [] \<longleftrightarrow> validate_lease_ip [] x lan_ip net start stop = []"
  by (cases x; cases net; cases start; cases stop) (simp_all only: validate_lease_ip_def accept_simps)

lemma lease_accepted:
  "validate_leases lan_ip net start stop i sm si (lease # ls) = [] \<longleftrightarrow>
    (\<exists>mac y. parse_mac (sl_mac lease) = Some mac \<and> length mac = 6 \<and> parse_ipv4 (sl_ip_address lease) = Some y \<and>
      mac_string mac \<notin> set sm \<and> ip_string y \<notin> set si \<and>
      validate_lease_ip [] (Some y) lan_ip net start stop = [] \<and>
      \<not> (sl_hostname lease \<noteq> [] \<and> \<not> HOSTNAME_PATTERN (sl_hostname lease)) \<and>
      validate_leases lan_ip net start stop (i + 1) (mac_string mac # sm) (ip_string y # si) ls = [])"
proof (cases "parse_ipv4 (sl_ip_address lease)")
  case None
  have "validate_lease_ip f None lan_ip net start stop \<noteq> []" for f
    by (simp only: validate_lease_ip_def accept_simps not_False_eq_True)
  with None show ?thesis
    by (auto simp only: validate_leases.simps accept_simps split: option.splits if_splits)
next
  case (Some y)
  then show ?thesis
    by (cases "parse_mac (sl_mac lease)")
      (auto simp only: validate_leases.simps accept_simps lease_ip_field [of "at_index ''dhcp.static_leases'' i @ ''.ip_address''"] split: if_splits)
qed

lemma lease_ip_accepted:
  "validate_lease_ip field (Some y) lan_ip (Some net) (Some start) (Some stop) = [] \<longleftrightarrow>
    ipnet_contains net y \<and> \<not> is_some_and lan_ip (ip_equal y) \<and> \<not> ip_equal y (network_number net) \<and>
    \<not> ip_equal_opt y (ipv4_broadcast net) \<and> \<not> (ipv4_value start \<le> ipv4_value y \<and> ipv4_value y \<le> ipv4_value stop)"
  by (simp only: validate_lease_ip_def accept_simps)

interpretation lease_macs: seen_loop "\<lambda>i (sm, si). validate_leases lan_ip net start stop i sm si" "\<lambda>(sm, si). set sm"
  "\<lambda>(sm, si) lease. (mac_string (the (parse_mac (sl_mac lease))) # sm, ip_string (the (parse_ipv4 (sl_ip_address lease))) # si)"
  "\<lambda>lease. [mac_string (the (parse_mac (sl_mac lease)))]"
  "\<lambda>lease. \<exists>mac. parse_mac (sl_mac lease) = Some mac \<and> length mac = 6" "(=)" for lan_ip net start stop
  by unfold_locales (auto simp: lease_accepted)

interpretation lease_ips: seen_loop "\<lambda>i (sm, si). validate_leases lan_ip net start stop i sm si" "\<lambda>(sm, si). set si"
  "\<lambda>(sm, si) lease. (mac_string (the (parse_mac (sl_mac lease))) # sm, ip_string (the (parse_ipv4 (sl_ip_address lease))) # si)"
  "\<lambda>lease. [ip_string (the (parse_ipv4 (sl_ip_address lease)))]"
  "\<lambda>lease. \<exists>y. parse_ipv4 (sl_ip_address lease) = Some y \<and> validate_lease_ip [] (Some y) lan_ip net start stop = []"
  "(=)" for lan_ip net start stop
  by unfold_locales (auto simp: lease_accepted)

text \<open>The protocol and port pairs that a forward claims.\<close>

definition forward_protocols :: "env \<Rightarrow> port_forward_rule \<Rightarrow> string list" where
  "forward_protocols v pf =
     (let protocol = to_lower (lowercase v) (pf_protocol pf) in if protocol = ''both'' then [''tcp'', ''udp''] else [protocol])"

definition forward_keys :: "env \<Rightarrow> port_forward_rule \<Rightarrow> string list" where
  "forward_keys v pf = map (\<lambda>p. p @ ''/'' @ int_string (pf_external_port pf)) (forward_protocols v pf)"

lemma forward_keys_accepted:
  "validate_forward_keys field port s ps = (errs, s') \<Longrightarrow>
    s' = rev (map (\<lambda>p. p @ ''/'' @ int_string port) ps) @ s \<and>
    (errs = [] \<longleftrightarrow> distinct (map (\<lambda>p. p @ ''/'' @ int_string port) ps) \<and>
      set (map (\<lambda>p. p @ ''/'' @ int_string port) ps) \<inter> set s = {})"
proof (induction ps arbitrary: s errs s')
  case (Cons p ps)
  obtain e t where r: "validate_forward_keys field port ((p @ ''/'' @ int_string port) # s) ps = (e, t)" by fastforce
  from Cons.prems r Cons.IH [OF r] show ?case
    by (auto simp: validate_forward_keys.simps Let_def)
qed simp

lemma forward_accepted:
  "validate_forwards v c net i s (pf # pfs) = [] \<longleftrightarrow>
    (pf_enabled pf \<longrightarrow> wg_enabled (wireguard c)) \<and> SAFE_NAME_PATTERN v (pf_name pf) \<and> \<not> has_control (pf_name pf) \<and>
    set (forward_protocols v pf) \<subseteq> {''tcp'', ''udp''} \<and>
    1 \<le> pf_external_port pf \<and> pf_external_port pf \<le> 65535 \<and> 1 \<le> pf_internal_port pf \<and> pf_internal_port pf \<le> 65535 \<and>
    (\<exists>x. parse_ipv4 (pf_internal_ip pf) = Some x \<and> \<not> is_some_and net (\<lambda>n. \<not> ipnet_contains n x)) \<and>
    pf_external_port pf \<noteq> sys_https_port (system c) \<and> pf_external_port pf \<noteq> 8443 \<and>
    distinct (forward_keys v pf) \<and> set (forward_keys v pf) \<inter> set s = {} \<and>
    validate_forwards v c net (i + 1) (rev (forward_keys v pf) @ s) pfs = []"
proof -
  let ?f = "at_index ''firewall.port_forwards'' i" and ?p = "to_lower (lowercase v) (pf_protocol pf)"
  obtain e t where r: "validate_forward_keys ?f (pf_external_port pf) s (forward_protocols v pf) = (e, t)" by fastforce
  have keys: "t = rev (forward_keys v pf) @ s" "e = [] \<longleftrightarrow> distinct (forward_keys v pf) \<and> set (forward_keys v pf) \<inter> set s = {}"
    using forward_keys_accepted [OF r] by (simp_all only: forward_keys_def)
  have target: "(x = None \<or> is_some_and net (\<lambda>n. \<not> ipnet_contains_opt n x)) \<longleftrightarrow>
      \<not> (\<exists>y. x = Some y \<and> \<not> is_some_and net (\<lambda>n. \<not> ipnet_contains n y))" for x
    by (cases x; cases net) (simp_all add: ipnet_contains_opt_def)
  have proto: "(?p \<noteq> ''tcp'' \<and> ?p \<noteq> ''udp'' \<and> ?p \<noteq> ''both'') \<longleftrightarrow> \<not> set (forward_protocols v pf) \<subseteq> {''tcp'', ''udp''}"
    by (auto simp only: forward_protocols_def Let_def list.set split: if_splits)
  have port: "(n < 1 \<or> n > 65535) \<longleftrightarrow> \<not> (1 \<le> n \<and> n \<le> 65535)" for n :: int by linarith
  show ?thesis
    using keys(2) unfolding keys(1) [symmetric]
    by (simp only: validate_forwards.simps Let_def r [unfolded forward_protocols_def Let_def] prod.case append_is_Nil_conv check_Nil
        target proto port not_not de_Morgan_disj de_Morgan_conj) blast
qed

interpretation forwards: seen_loop "validate_forwards v c net" set "\<lambda>s pf. rev (forward_keys v pf) @ s" "forward_keys v"
  "\<lambda>pf. set (forward_protocols v pf) \<subseteq> {''tcp'', ''udp''} \<and> pf_external_port pf \<noteq> sys_https_port (system c) \<and> pf_external_port pf \<noteq> 8443 \<and>
     (\<exists>x. parse_ipv4 (pf_internal_ip pf) = Some x \<and> \<not> is_some_and net (\<lambda>n. \<not> ipnet_contains n x))"
  "(=)" for v c net
  by unfold_locales (auto simp: forward_accepted)

section \<open>Extra LANs\<close>

lemma extra_interface_accepted:
  "validate_extra_interface c prefix s xl = ([], s') \<Longrightarrow>
    s' = xl_interface xl # s \<and> xl_interface xl \<notin> set s \<and> valid_interface_name (xl_interface xl) \<and>
    xl_interface xl \<noteq> wan_interface (wan c) \<and> xl_interface xl \<noteq> lan_interface (lan c) \<and>
    (wg_enabled (wireguard c) \<longrightarrow> xl_interface xl \<noteq> wg_interface (wireguard c))"
  by (auto simp only: validate_extra_interface_def accept_simps prod.inject split: if_splits)

lemma extra_cidr_accepted:
  "validate_extra_cidr c lan_net wg_net prefix nets xl en = ([], nets') \<Longrightarrow>
    \<exists>extra. en = Some extra \<and> nets' = nets @ [extra] \<and> to4 (net_ip extra) \<noteq> None \<and>
      \<not> is_some_and lan_net (\<lambda>n. networks_overlap n extra) \<and> \<not> is_some_and wg_net (\<lambda>n. networks_overlap n extra) \<and>
      (\<forall>p\<in>set nets. \<not> networks_overlap p extra) \<and>
      validate_router_address (prefix @ ''.router_address'') extra (xl_router_address xl) = []"
  by (cases en)
    (auto simp only: validate_extra_cidr_def accept_simps prod.inject concat_eq_Nil_conv set_map ball_simps split: if_splits)

definition extra_net_of :: "extra_lan_config \<Rightarrow> ipnet" where
  "extra_net_of xl = snd (the (parse_cidr (xl_cidr xl)))"

lemma extra_accepted:
  assumes "validate_extra_loop v c lan_net wg_net i s nets (xl # xls) = []"
  shows "if xl_enabled xl
    then xl_interface xl \<notin> set s \<and> (\<forall>p\<in>set nets. \<not> networks_overlap p (extra_net_of xl)) \<and>
      validate_extra_loop v c lan_net wg_net (i + 1) (xl_interface xl # s) (nets @ [extra_net_of xl]) xls = [] \<and>
      xl_interface xl \<noteq> wan_interface (wan c) \<and> xl_interface xl \<noteq> lan_interface (lan c) \<and>
      (\<exists>x. parse_cidr (xl_cidr xl) = Some (x, extra_net_of xl)) \<and> to4 (net_ip (extra_net_of xl)) \<noteq> None \<and>
      \<not> is_some_and lan_net (\<lambda>n. networks_overlap n (extra_net_of xl)) \<and>
      \<not> is_some_and wg_net (\<lambda>n. networks_overlap n (extra_net_of xl)) \<and>
      (\<exists>f. validate_router_address f (extra_net_of xl) (xl_router_address xl) = [])
    else validate_extra_loop v c lan_net wg_net (i + 1) s nets xls = []"
proof (cases "xl_enabled xl")
  case True
  let ?p = "at_index ''firewall.extra_lans'' i" and ?n = "map_option snd (parse_cidr (xl_cidr xl))"
  obtain e s' where iface: "validate_extra_interface c ?p s xl = (e, s')" by fastforce
  obtain e' nets' where cidr: "validate_extra_cidr c lan_net wg_net ?p nets xl ?n = (e', nets')" by fastforce
  have parts: "e = []" "e' = []" "validate_extra_loop v c lan_net wg_net (i + 1) s' nets' xls = []"
    using assms by (simp_all only: validate_extra_loop.simps True iface cidr accept_simps)
  from extra_cidr_accepted [OF cidr [unfolded parts(2)]] obtain extra where extra: "?n = Some extra"
    "nets' = nets @ [extra]" "to4 (net_ip extra) \<noteq> None" "\<not> is_some_and lan_net (\<lambda>n. networks_overlap n extra)"
    "\<not> is_some_and wg_net (\<lambda>n. networks_overlap n extra)" "\<forall>p\<in>set nets. \<not> networks_overlap p extra"
    "validate_router_address (?p @ ''.router_address'') extra (xl_router_address xl) = []" by blast
  then have "extra_net_of xl = extra" "\<exists>x. parse_cidr (xl_cidr xl) = Some (x, extra)" by (auto simp: extra_net_of_def)
  with extra extra_interface_accepted [OF iface [unfolded parts(1)]] parts(3) True show ?thesis by auto
next
  case False
  with assms show ?thesis by (simp only: validate_extra_loop.simps simp_thms if_True if_False)
qed

interpretation extra_ifaces: seen_loop "\<lambda>i (s, nets). validate_extra_loop v c lan_net wg_net i s nets" "\<lambda>(s, nets). set s"
  "\<lambda>(s, nets) xl. if xl_enabled xl then (xl_interface xl # s, nets @ [extra_net_of xl]) else (s, nets)"
  "\<lambda>xl. if xl_enabled xl then [xl_interface xl] else []"
  "\<lambda>xl. xl_enabled xl \<longrightarrow> xl_interface xl \<noteq> wan_interface (wan c) \<and> xl_interface xl \<noteq> lan_interface (lan c)"
  "(=)" for v c lan_net wg_net
  by unfold_locales (auto dest!: extra_accepted split: if_splits)

interpretation extra_nets: seen_loop "\<lambda>i (s, nets). validate_extra_loop v c lan_net wg_net i s nets" "\<lambda>(s, nets). set nets"
  "\<lambda>(s, nets) xl. if xl_enabled xl then (xl_interface xl # s, nets @ [extra_net_of xl]) else (s, nets)"
  "\<lambda>xl. if xl_enabled xl then [extra_net_of xl] else []"
  "\<lambda>xl. xl_enabled xl \<longrightarrow> (\<exists>x. parse_cidr (xl_cidr xl) = Some (x, extra_net_of xl)) \<and>
     \<not> is_some_and lan_net (\<lambda>n. networks_overlap n (extra_net_of xl)) \<and> \<not> is_some_and wg_net (\<lambda>n. networks_overlap n (extra_net_of xl)) \<and>
     (\<exists>f. validate_router_address f (extra_net_of xl) (xl_router_address xl) = [])"
  networks_overlap for v c lan_net wg_net
  by unfold_locales (auto dest!: extra_accepted split: if_splits)

section \<open>WireGuard peers and trusted networks\<close>

definition peer_routes :: "wireguard_peer \<Rightarrow> string list" where
  "peer_routes peer = (if wp_enabled peer then map (\<lambda>a. ipnet_string (snd (the (parse_cidr a)))) (items (wp_allowed_ips peer)) else [])"

lemma peer_ips_accepted:
  "validate_peer_ips wg_net path j s ips = ([], s') \<Longrightarrow>
    s' = rev (map (\<lambda>a. ipnet_string (snd (the (parse_cidr a)))) ips) @ s \<and>
    distinct (map (\<lambda>a. ipnet_string (snd (the (parse_cidr a)))) ips) \<and>
    set (map (\<lambda>a. ipnet_string (snd (the (parse_cidr a)))) ips) \<inter> set s = {} \<and>
    (\<forall>a\<in>set ips. \<exists>x net. parse_cidr a = Some (x, net) \<and> to4 x \<noteq> None \<and> fst (mask_size (net_mask net)) = 32 \<and>
       \<not> is_some_and wg_net (\<lambda>n. \<not> ipnet_contains n x))"
proof (induction ips arbitrary: j s s')
  case (Cons a ips)
  show ?case
  proof (cases "parse_cidr a")
    case None
    with Cons.prems show ?thesis by (simp only: validate_peer_ips.simps accept_simps split: prod.splits) simp
  next
    case (Some p)
    obtain x net where p: "p = (x, net)" by (cases p)
    let ?ok = "to4 x \<noteq> None \<and> fst (mask_size (net_mask net)) = 32 \<and> \<not> is_some_and wg_net (\<lambda>n. \<not> ipnet_contains n x)"
    obtain e t where r: "validate_peer_ips wg_net path (j + 1) (ipnet_string net # s) ips = (e, t)" by fastforce
    have ok: ?ok using Cons.prems Some p
      by (auto simp: validate_peer_ips.simps Let_def split: if_splits prod.splits)
    with Cons.prems Some p r have "e = []" "t = s'" "ipnet_string net \<notin> set s"
      by (simp_all add: validate_peer_ips.simps Let_def)
    with Cons.IH [of "j + 1" "ipnet_string net # s" s'] r ok Some p show ?thesis by auto
  qed
qed simp

lemma peer_accepted:
  assumes "validate_peers v wg_net i s (peer # ps) = []"
  shows "validate_peers v wg_net (i + 1) (rev (peer_routes peer) @ s) ps = [] \<and> distinct (peer_routes peer) \<and>
    set (peer_routes peer) \<inter> set s = {} \<and>
    (wp_enabled peer \<longrightarrow> valid_wireguard_key v (wp_public_key peer) \<and>
      (\<exists>a x net. items (wp_allowed_ips peer) = [a] \<and> parse_cidr a = Some (x, net) \<and> to4 x \<noteq> None \<and>
        fst (mask_size (net_mask net)) = 32 \<and> \<not> is_some_and wg_net (\<lambda>n. \<not> ipnet_contains n x)))"
proof (cases "wp_enabled peer")
  case True
  let ?path = "at_index ''wireguard.peers'' i"
  obtain e s' where r: "validate_peer_ips wg_net ?path 0 s (items (wp_allowed_ips peer)) = (e, s')" by fastforce
  have parts: "e = []" "validate_peers v wg_net (i + 1) s' ps = []" "length (items (wp_allowed_ips peer)) = 1"
    "valid_wireguard_key v (wp_public_key peer)"
    using assms by (simp_all only: validate_peers.simps True r accept_simps)
  from parts(3) obtain a where "items (wp_allowed_ips peer) = [a]" by (auto simp: length_Suc_conv)
  with peer_ips_accepted [OF r [unfolded parts(1)]] parts True show ?thesis by (auto simp: peer_routes_def)
next
  case False
  with assms show ?thesis by (simp add: validate_peers.simps peer_routes_def)
qed

interpretation peers: seen_loop "validate_peers v wg_net" set "\<lambda>s peer. rev (peer_routes peer) @ s" peer_routes
  "\<lambda>peer. wp_enabled peer \<longrightarrow> valid_wireguard_key v (wp_public_key peer) \<and>
     (\<exists>a x net. items (wp_allowed_ips peer) = [a] \<and> parse_cidr a = Some (x, net) \<and> to4 x \<noteq> None \<and>
       fst (mask_size (net_mask net)) = 32 \<and> \<not> is_some_and wg_net (\<lambda>n. \<not> ipnet_contains n x))"
  "(=)" for v wg_net
  by unfold_locales (auto dest!: peer_accepted)

lemma trusted_accepted:
  "validate_trusted_networks i s (network # ns) = [] \<longleftrightarrow>
    (\<exists>key. validate_trusted network = Inr key \<and> key \<notin> set s \<and> validate_trusted_networks (i + 1) (key # s) ns = [])"
  by (cases "validate_trusted network") (auto simp: validate_trusted_networks.simps)

interpretation trusted: seen_loop validate_trusted_networks set "\<lambda>s network. projr (validate_trusted network) # s"
  "\<lambda>network. [projr (validate_trusted network)]" "\<lambda>network. \<exists>key. validate_trusted network = Inr key" "(=)"
  by unfold_locales (auto simp: trusted_accepted)

end
