(* ===== verification/Config_Sample.thy ===== *)
theory Config_Sample
  imports Validation_Props
begin

text \<open>A configuration that uses most of the features, accepted by \<open>validate\<close>: the witnesses are about it.\<close>

definition sample_env :: env where
  "sample_env = \<lparr>letter_number = (\<lambda>n. 65 \<le> n \<and> n \<le> 122), lowercase = id,
     base64_engine = (\<lambda>s. if length s = 44 then Some (replicate 32 0) else None)\<rparr>"

definition sample_key :: "string \<Rightarrow> string" where
  "sample_key s = s @ replicate (43 - length s) (CHR ''A'') @ ''=''"

definition sample_lease :: "string \<Rightarrow> string \<Rightarrow> static_lease" where
  "sample_lease mac address = \<lparr>sl_id = ''1'', sl_hostname = [], sl_mac = mac, sl_ip_address = address\<rparr>"

definition sample_forward :: "string \<Rightarrow> int \<Rightarrow> port_forward_rule" where
  "sample_forward protocol port = \<lparr>pf_id = ''1'', pf_name = ''web'', pf_protocol = protocol, pf_external_port = port,
     pf_internal_ip = ''192.168.1.10'', pf_internal_port = 80, pf_enabled = True\<rparr>"

definition sample_lan :: "string \<Rightarrow> string \<Rightarrow> string \<Rightarrow> string \<Rightarrow> extra_lan_config" where
  "sample_lan iface cidr router dst = \<lparr>xl_id = ''1'', xl_name = ''lab'', xl_interface = iface, xl_cidr = cidr,
     xl_router_address = router, xl_dst_ip = dst, xl_dst_port = 443, xl_protocol = ''tcp'',
     xl_allow_from = Some [''192.168.1.0/24''], xl_enabled = True\<rparr>"

definition sample_peer :: "string \<Rightarrow> wireguard_peer" where
  "sample_peer address = \<lparr>wp_id = ''1'', wp_name = ''phone'', wp_public_key = sample_key ''k'', wp_preshared_key = [],
     wp_allowed_ips = Some [address], wp_endpoint = [], wp_enabled = True\<rparr>"

definition sample_config :: system_config where
  "sample_config =
     (let c = default_config zero_time
      in c\<lparr>wan := (wan c)\<lparr>wan_enabled := True, wan_username := ''user'', wan_password := ''secret''\<rparr>,
           dhcp := (dhcp c)\<lparr>dhcp_static_leases := Some [sample_lease ''02:00:00:00:00:01'' ''192.168.1.10'', sample_lease ''02:00:00:00:00:02'' ''192.168.1.11'']\<rparr>,
           firewall := (firewall c)\<lparr>
             fw_port_forwards := Some [sample_forward ''tcp'' 80, sample_forward ''both'' 81],
             fw_extra_lans := Some [sample_lan ''eth2'' ''10.1.0.0/24'' ''10.1.0.1/24'' ''10.1.0.5'', sample_lan ''eth3'' ''10.2.0.0/24'' ''10.2.0.1/24'' ''10.2.0.5'']\<rparr>,
           wireguard := (wireguard c)\<lparr>wg_enabled := True, wg_private_key := sample_key ''p'',
             wg_peers := Some [sample_peer ''10.8.0.2/32'', sample_peer ''10.8.0.3/32'']\<rparr>,
           wg_client := (wg_client c)\<lparr>wc_enabled := True, wc_private_key := sample_key ''q'', wc_public_key := sample_key ''r'',
             wc_address := ''10.9.0.2/32'', wc_endpoint := ''198.51.100.7:51820'', wc_allowed_ips := Some [''172.16.5.0/24'']\<rparr>\<rparr>)"

lemma sample_config_valid: "validate sample_env sample_config = Inr ()"
  by code_simp

end
