(* ===== verification/Config_Props.thy ===== *)
theory Config_Props
  imports Config_Sample
begin

text \<open>
  What \<open>SystemConfig::validate\<close> guarantees of a configuration it accepts: the LAN and its DHCP pool, leases,
  forwards, extra LANs, WireGuard peers.
\<close>

section \<open>Values of IPv4 addresses\<close>

lemma be_value_bytes: "be_value bs = bytes_val bs"
proof -
  have "foldl (\<lambda>a b. a * 256 + unat b) n bs = n * 256 ^ length bs + bytes_val bs" for n
    by (induction bs arbitrary: n) (simp_all add: algebra_simps)
  from this [of 0] show ?thesis by (simp add: be_value_def)
qed

lemma ipv4_value_to4: "to4 y = Some (IP c) \<Longrightarrow> ipv4_value y = bytes_val c"
  by (auto simp: ipv4_value_def to4_array_def be_value_bytes dest!: to4_length elim!: length4E)

lemma to4E:
  assumes "to4 y \<noteq> None"
  obtains c where "length c = 4" "to4 y = Some (IP c)" "ipv4_value y = bytes_val c"
proof -
  from assms obtain z where z: "to4 y = Some z" by auto
  obtain c where "z = IP c" by (cases z)
  with z to4_length [OF z] ipv4_value_to4 [of y c] that [of c] show thesis by simp
qed

lemma ip_equal_value: "to4 x \<noteq> None \<Longrightarrow> to4 y \<noteq> None \<Longrightarrow> ip_equal x y \<longleftrightarrow> ipv4_value x = ipv4_value y"
  by (elim to4E) (auto simp: ip_equal_short_form short_form_def intro: bytes_val_inj)

lemma parse_ipv4_to4: "parse_ipv4 s = Some x \<Longrightarrow> to4 x = Some x"
  by (auto simp: parse_ipv4_def bind_eq_Some_conv to4_def ip_len_def split: if_splits)

text \<open>A network with a mask of four bytes is an interval of values.\<close>

lemma v4_network:
  assumes "parse_cidr s = Some (x, net)" and "length (mask_bytes (net_mask net)) = 4"
  obtains bc where "ipv4_broadcast net = Some bc" "to4 bc \<noteq> None" "to4 (net_ip net) = Some (net_ip net)"
    "\<And>y. ipnet_contains net y \<longleftrightarrow> to4 y \<noteq> None \<and> ipv4_value (net_ip net) \<le> ipv4_value y \<and> ipv4_value y \<le> ipv4_value bc"
  using assms(1)
proof (cases rule: parse_cidr_cases)
  case (v4 b m n)
  let ?nn = "map2 (AND) b (cidr_bytes 4 n)"
  let ?bc = "map2 (\<lambda>a m. a OR NOT m) ?nn (cidr_bytes 4 n)"
  have nn: "bytes_val ?nn = low_bits (32 - n) (bytes_val b)" using masked_values [of b 4 n] v4 by simp
  then have bc: "bytes_val ?bc = low_bits (32 - n) (bytes_val b) + (2 ^ (32 - n) - 1)"
    using masked_values [of ?nn 4 n] v4 by simp
  have len: "length ?nn = 4" "length ?bc = 4" using v4 by simp_all
  have val: "ipv4_value (IP ?nn) = bytes_val ?nn" "ipv4_value (IP ?bc) = bytes_val ?bc"
    using len by (simp_all only: ipv4_value_to4 to4_simps)
  have "ipnet_contains net y \<longleftrightarrow> to4 y \<noteq> None \<and> ipv4_value (IP ?nn) \<le> ipv4_value y \<and> ipv4_value y \<le> ipv4_value (IP ?bc)" for y
    unfolding v4(6) contains_v4_value [OF v4(1,2)] div_eq_interval val nn bc
    by (cases "to4 y = None", simp) (erule to4E, simp)
  with that [of "IP ?bc"] broadcast_v4 [OF v4(1), of n] v4(6) len show ?thesis by simp
next
  case (v6 a b m n)
  with assms(2) show ?thesis by simp
qed

lemma network_number_v4: "to4 (net_ip net) = Some (net_ip net) \<Longrightarrow> network_number net = net_ip net"
  by (simp add: network_number_def)

section \<open>The parts of an accepted configuration\<close>

lemma validate_partsE:
  assumes "validate v c = Inr ()"
  obtains router x net where "parse_ipv4 (lan_ip_address (lan c)) = Some router" "parse_cidr (lan_cidr (lan c)) = Some (x, net)"
    "to4 x \<noteq> None" "validate_lan_ip router x net = []" "validate_wan c = []"
    "dhcp_enabled (dhcp c) \<longrightarrow> validate_dhcp c (Some router) (Some net) = []" "validate_firewall v c (Some net) = []"
    "validate_extra_lans v c (Some net) = []" "wg_enabled (wireguard c) \<longrightarrow> validate_wireguard v c (Some router) (Some net) = []"
    "validate_wg_client v c (Some net) = []" "validate_device_profiles v c (Some net) = []"
    "validate_trusted_networks 0 [] (items (trusted_networks c)) = []"
proof -
  obtain errs net' where lan: "validate_lan c (parse_ipv4 (lan_ip_address (lan c))) = (errs, net')" by fastforce
  have errs: "validation_errors_of v c = []" using assms by (simp add: validate_def)
  then have ip: "parse_ipv4 (lan_ip_address (lan c)) \<noteq> None" and e: "errs = []"
    by (simp_all only: validation_errors_of_def Let_def lan prod.case append_is_Nil_conv check_Nil simp_thms)
  then obtain router where router: "parse_ipv4 (lan_ip_address (lan c)) = Some router" by blast
  have "\<exists>x net. parse_cidr (lan_cidr (lan c)) = Some (x, net) \<and> to4 x \<noteq> None \<and> validate_lan_ip router x net = [] \<and> net' = Some net"
    using lan unfolding router e
    by (auto simp only: validate_lan_def option.case append_is_Nil_conv check_Nil prod.inject split: if_splits option.splits prod.splits)
  then obtain x net where net: "parse_cidr (lan_cidr (lan c)) = Some (x, net)" "to4 x \<noteq> None" "validate_lan_ip router x net = []" "net' = Some net"
    by blast
  show thesis
    by (rule that [OF router net(1-3)], insert errs,
        simp_all only: validation_errors_of_def Let_def lan [unfolded router net(4)] prod.case append_is_Nil_conv check_Nil router if_Nil simp_thms)
      blast+
qed

section \<open>Properties\<close>

lemma dhcp_accepted:
  assumes "validate_dhcp c lan_ip lan_net = []"
  obtains start stop where "parse_ipv4 (dhcp_range_start (dhcp c)) = Some start" "parse_ipv4 (dhcp_range_end (dhcp c)) = Some stop"
    "validate_dhcp_range start stop lan_ip lan_net = []" "valid_lease_time (dhcp_lease_time (dhcp c))"
    "validate_leases lan_ip lan_net (Some start) (Some stop) 0 [] [] (items (dhcp_static_leases (dhcp c))) = []"
proof -
  note parts = assms [unfolded validate_dhcp_def Let_def append_is_Nil_conv check_Nil]
  from parts obtain start stop where r: "parse_ipv4 (dhcp_range_start (dhcp c)) = Some start" "parse_ipv4 (dhcp_range_end (dhcp c)) = Some stop"
    by blast
  from parts show thesis unfolding r by (intro that [OF r]) simp_all
qed

lemma range_accepted:
  "validate_dhcp_range start stop (Some router) (Some net) = [] \<longleftrightarrow>
    ipv4_value start \<le> ipv4_value stop \<and> ipnet_contains net start \<and> ipnet_contains net stop \<and>
    \<not> ip_equal start (network_number net) \<and> \<not> ip_equal_opt stop (ipv4_broadcast net) \<and>
    \<not> (ipv4_value start \<le> ipv4_value router \<and> ipv4_value router \<le> ipv4_value stop)"
  by (simp only: validate_dhcp_range_def option.case append_is_Nil_conv check_Nil not_less de_Morgan_disj not_not conj_assoc)



text \<open>
  C20: The static leases of an accepted configuration are pairwise distinct, in the hardware address and in the IPv4
  address, and each one is an address of the LAN that is neither the router nor part of the dynamic pool.
\<close>

theorem accepted_leases:
  assumes "validate v c = Inr ()" and "dhcp_enabled (dhcp c)" and "leases = items (dhcp_static_leases (dhcp c))" and "n < length leases"
  shows "\<exists>mac a. parse_mac (sl_mac (leases ! n)) = Some mac \<and> parse_ipv4 (sl_ip_address (leases ! n)) = Some a \<and>
    (\<forall>m < n. parse_mac (sl_mac (leases ! m)) \<noteq> Some mac \<and> (\<forall>b. parse_ipv4 (sl_ip_address (leases ! m)) = Some b \<longrightarrow> \<not> ip_equal b a)) \<and>
    (\<exists>router x net start stop. parse_ipv4 (lan_ip_address (lan c)) = Some router \<and> parse_cidr (lan_cidr (lan c)) = Some (x, net) \<and>
      parse_ipv4 (dhcp_range_start (dhcp c)) = Some start \<and> parse_ipv4 (dhcp_range_end (dhcp c)) = Some stop \<and>
      ipnet_contains net a \<and> \<not> ip_equal a router \<and> \<not> (ipv4_value start \<le> ipv4_value a \<and> ipv4_value a \<le> ipv4_value stop))"
proof -
  from validate_partsE [OF assms(1)] assms(2) obtain router x net where lan: "parse_ipv4 (lan_ip_address (lan c)) = Some router"
    "parse_cidr (lan_cidr (lan c)) = Some (x, net)" "validate_dhcp c (Some router) (Some net) = []" by blast
  from dhcp_accepted [OF lan(3)] obtain start stop where pool: "parse_ipv4 (dhcp_range_start (dhcp c)) = Some start"
    "parse_ipv4 (dhcp_range_end (dhcp c)) = Some stop"
    and loop: "validate_leases (Some router) (Some net) (Some start) (Some stop) 0 [] [] leases = []"
    unfolding assms(3) by blast
  have mem: "leases ! n \<in> set leases" using assms(4) by simp
  from lease_macs.all_ok [where s = "([], [])"] loop mem obtain mac where mac: "parse_mac (sl_mac (leases ! n)) = Some mac" by fastforce
  from lease_ips.all_ok [where s = "([], [])"] loop mem obtain a where a: "parse_ipv4 (sl_ip_address (leases ! n)) = Some a"
    "validate_lease_ip [] (Some a) (Some router) (Some net) (Some start) (Some stop) = []" by fastforce
  have "parse_mac (sl_mac (leases ! m)) \<noteq> Some mac \<and> (\<forall>b. parse_ipv4 (sl_ip_address (leases ! m)) = Some b \<longrightarrow> \<not> ip_equal b a)"
    if "m < n" for m
  proof -
    have "\<not> ip_equal b a" if b: "parse_ipv4 (sl_ip_address (leases ! m)) = Some b" for b
    proof -
      have "ip_string b \<noteq> ip_string a"
        using lease_ips.no_clash [where s = "([], [])" and m = m and n = n] loop \<open>m < n\<close> assms(4) a b by fastforce
      then show ?thesis
        using parse_ipv4_to4 [OF a(1)] parse_ipv4_to4 [OF b] by (auto simp: ip_equal_short_form short_form_def)
    qed
    moreover have "parse_mac (sl_mac (leases ! m)) \<noteq> Some mac"
      using lease_macs.no_clash [where s = "([], [])" and m = m and n = n] loop that assms(4) mac by fastforce
    ultimately show ?thesis by blast
  qed
  with mac a(1) lan(1,2) pool a(2) [unfolded lease_ip_accepted] show ?thesis by simp
qed

theorem accepted_leases_witness:
  "\<exists>a. parse_ipv4 (sl_ip_address (items (dhcp_static_leases (dhcp sample_config)) ! 1)) = Some a \<and>
    \<not> ip_equal (the (parse_ipv4 ''192.168.1.10'')) a"
proof -
  have s: "dhcp_enabled (dhcp sample_config)" "1 < length (items (dhcp_static_leases (dhcp sample_config)))"
    "parse_ipv4 (sl_ip_address (items (dhcp_static_leases (dhcp sample_config)) ! 0)) = parse_ipv4 ''192.168.1.10''"
    "parse_ipv4 ''192.168.1.10'' \<noteq> None" by code_simp+
  from accepted_leases [OF sample_config_valid s(1) refl s(2)] s(3,4) show ?thesis by auto
qed

text \<open>
  C21: No two forwards of an accepted configuration claim the same protocol on the same external port, every target
  is an address of the LAN, and no forward exposes the management port.
\<close>

theorem accepted_forwards:
  assumes "validate v c = Inr ()" and "forwards = items (fw_port_forwards (firewall c))" and "n < length forwards"
  shows "(\<forall>m < n. pf_external_port (forwards ! m) = pf_external_port (forwards ! n) \<longrightarrow>
      set (forward_protocols v (forwards ! m)) \<inter> set (forward_protocols v (forwards ! n)) = {}) \<and>
    pf_external_port (forwards ! n) \<noteq> sys_https_port (system c) \<and> set (forward_protocols v (forwards ! n)) \<subseteq> {''tcp'', ''udp''} \<and>
    (\<exists>x net a. parse_cidr (lan_cidr (lan c)) = Some (x, net) \<and> parse_ipv4 (pf_internal_ip (forwards ! n)) = Some a \<and> ipnet_contains net a)"
proof -
  from validate_partsE [OF assms(1)] obtain x net where lan: "parse_cidr (lan_cidr (lan c)) = Some (x, net)"
    and fw: "validate_firewall v c (Some net) = []" by blast
  then have loop: "validate_forwards v c (Some net) 0 [] forwards = []"
    unfolding assms(2) by (simp only: validate_firewall_def append_is_Nil_conv)
  have mem: "forwards ! n \<in> set forwards" using assms(3) by simp
  have "set (forward_protocols v (forwards ! m)) \<inter> set (forward_protocols v (forwards ! n)) = {}"
    if "m < n" "pf_external_port (forwards ! m) = pf_external_port (forwards ! n)" for m
    using forwards.no_clash [OF loop that(1) assms(3)] that(2) by (auto simp: forward_keys_def)
  with forwards.all_ok [OF loop mem] lan show ?thesis by auto
qed

theorem accepted_forwards_witness:
  "\<exists>x net a. parse_cidr (lan_cidr (lan sample_config)) = Some (x, net) \<and>
    parse_ipv4 (pf_internal_ip (items (fw_port_forwards (firewall sample_config)) ! 1)) = Some a \<and> ipnet_contains net a"
proof -
  have "1 < length (items (fw_port_forwards (firewall sample_config)))" by code_simp
  from accepted_forwards [OF sample_config_valid refl this] show ?thesis by blast
qed

lemma networks_overlap_iff:
  assumes "parse_cidr s = Some (x, a)" and "parse_cidr t = Some (y, b)"
  shows "networks_overlap a b \<longleftrightarrow> (\<exists>z. ipnet_contains a z \<and> ipnet_contains b z)"
proof -
  from parse_cidr_net_form [OF assms(1)] parse_cidr_net_form [OF assms(2)] obtain p m q n
    where "net_form a = Some (p, m)" "net_form b = Some (q, n)" by metis
  from overlap_iff [OF this] show ?thesis by (simp add: networks_overlap_def)
qed



section \<open>WireGuard peers\<close>

lemma wg_address_accepted:
  "validate_wg_address c lan_ip lan_net = ([], w) \<Longrightarrow>
    \<exists>wx wg_net. parse_cidr (wg_address (wireguard c)) = Some (wx, wg_net) \<and> to4 wx \<noteq> None \<and> w = Some wg_net"
  by (auto simp only: validate_wg_address_def accept_simps prod.inject split: option.splits if_splits prod.splits)

lemma v4_host_route:
  assumes "parse_cidr s = Some (x, a)" and "parse_cidr t = Some (y, b)"
    and "mask_size (net_mask a) = (32, 32)" and "mask_size (net_mask b) = (32, 32)" and "ip_equal x y"
  shows "a = b"
proof -
  have form: "\<exists>bs. length bs = 4 \<and> z = IP (V4_IN_V6_PREFIX @ bs) \<and> net = masked_net 4 bs 32"
    if "parse_cidr r = Some (z, net)" "mask_size (net_mask net) = (32, 32)" for r z net
    using that(1)
  proof (cases rule: parse_cidr_cases)
    case (v4 bs m n)
    with that(2) mask_size_cidr [of n 32 "net_mask net"] have "n = 32" by (simp add: ipmask_cidr_def)
    with v4 show ?thesis by blast
  next
    case (v6 r' bs m n)
    with that(2) mask_size_cidr [of n 128 "net_mask net"] show ?thesis by (simp add: ipmask_cidr_def)
  qed
  from form [OF assms(1,3)] form [OF assms(2,4)] assms(5) show ?thesis by (auto simp: ip_equal_def)
qed



end
