(* ===== verification/Policy_Props.thy ===== *)
theory Policy_Props
  imports Config_Props
begin

text \<open>
  Properties of the policy: who is trusted, where the outbound tunnel may lead, what a change without confirmation
  keeps, the migration of old extra LANs, the schedules of the profiles.
\<close>

section \<open>Networks and the unspecified address\<close>

lemma drop_map2: "drop k (map2 f xs ys) = map2 f (drop k xs) (drop k ys)"
  by (simp add: drop_map drop_zip)

lemma parsed_number_masked:
  assumes "parse_cidr s = Some (x, net)" and "network_number_and_mask net = Some (nn, m)"
  shows "map2 (AND) (ip_bytes nn) m = ip_bytes nn"
  using assms(1)
proof (cases rule: parse_cidr_cases)
  case (v4 b k n)
  with assms(2) show ?thesis
    by (auto simp: network_number_and_mask_def ip_len_def Let_def map2_and_idem split: if_splits)
next
  case (v6 a b k n)
  let ?c = "map2 (AND) b (cidr_bytes 16 n)"
  have idem: "map2 (AND) ?c (cidr_bytes 16 n) = ?c" using v6(1) by (intro map2_and_idem) simp_all
  show ?thesis
  proof (cases "to4 (IP ?c)")
    case None
    with v6 assms(2) idem show ?thesis
      by (auto simp: network_number_and_mask_def ip_len_def Let_def split: if_splits)
  next
    case (Some z)
    then have "z = IP (drop 12 ?c)" using v6(1) by (simp add: to4_def ip_len_def split: if_splits)
    with Some v6 assms(2) have "nn = IP (drop 12 ?c)" "m = drop 12 (cidr_bytes 16 n)"
      by (simp_all add: network_number_and_mask_def ip_len_def Let_def split: if_splits)
    with drop_map2 [of 12 "(AND)" ?c "cidr_bytes 16 n"] idem show ?thesis by simp
  qed
qed

lemma bytes_val_0_iff: "bytes_val bs = 0 \<longleftrightarrow> bs = replicate (length bs) 0"
  by (induction bs) (auto simp: unat_eq_zero)

lemma is_unspecified_short_form: "is_unspecified x \<longleftrightarrow> short_form x = IP (replicate 4 0) \<or> short_form x = IP (replicate 16 0)"
proof -
  have z: "short_form (ip_v4 0 0 0 0) = IP (replicate 4 0)" "short_form (IP (replicate 16 0)) = IP (replicate 16 0)"
    by code_simp+
  show ?thesis by (simp only: is_unspecified_def ip_equal_short_form z)
qed

lemma is_unspecified_iff:
  assumes "wf_ip x"
  shows "is_unspecified x \<longleftrightarrow> ip_val (short_form x) = 0"
  using assms by (cases rule: wf_ip_cases) (auto simp: is_unspecified_short_form, auto simp: short_form_def bytes_val_0_iff)

lemma unspecified_member:
  assumes "parse_cidr s = Some (x, net)" and "ipnet_contains net y" and "is_unspecified y" and "wf_ip y"
  shows "is_unspecified (net_ip net)"
proof -
  from parse_cidr_net_form [OF assms(1)] obtain nn n where form: "net_form net = Some (nn, n)" by blast
  note nf = net_formD [OF form]
  let ?e = "8 * ip_len nn - n"
  have "ip_val nn div 2 ^ ?e = 0"
    using assms(2-4) by (simp add: contains_iff [OF form] is_unspecified_iff)
  moreover have "ip_val nn = low_bits ?e (ip_val nn)"
    using masked_values [of "ip_bytes nn" "ip_len nn" n] parsed_number_masked [OF assms(1) nf(1)] nf(2) by (simp add: ip_len_def)
  ultimately have "ip_val nn = 0" by simp
  moreover have "wf_ip (net_ip net)"
    using assms(1) by (cases rule: parse_cidr_cases) (simp_all add: ip_len_def)
  ultimately show ?thesis using nf(3) by (simp add: is_unspecified_iff)
qed

section \<open>Trusted clients\<close>

lemma parse_ip_length: "parse_ip s = Some x \<Longrightarrow> wf_ip x"
  by (auto simp: parse_ip_def ip_v4_def ip_len_def dest: parse_ipv6_length split: if_splits option.splits)

lemma parse_remote_ip_wf: "parse_remote_ip s = Some x \<Longrightarrow> wf_ip x"
  by (auto simp: parse_remote_ip_def dest: parse_ip_length split: if_splits sum.splits prod.splits)

lemma validate_trustedD:
  "validate_trusted network = Inr key \<Longrightarrow> parse_cidr network = Some (x, net) \<Longrightarrow>
   \<exists>prefix bits. mask_size (net_mask net) = (prefix, bits) \<and> trusted_minimum x net \<le> prefix \<and> \<not> is_unspecified (net_ip net)"
  by (auto simp: validate_trusted_def Let_def not_less split: if_splits prod.splits)

lemma trusted_minimum_ge: "mask_size (net_mask net) = (prefix, bits) \<Longrightarrow> (if bits = 32 then 8 else 7) \<le> trusted_minimum x net"
  by (auto simp: trusted_minimum_def Let_def)

lemma contains_short_form: "ipnet_contains net (short_form x) \<longleftrightarrow> ipnet_contains net x"
proof -
  have "short_form (short_form x) = short_form x" by (cases "to4 x") (auto simp: short_form_def elim!: to4_cases)
  then show ?thesis by (simp only: ipnet_contains_def short_form_def [symmetric])
qed

lemma is_loopback_short_form: "is_loopback (short_form x) \<longleftrightarrow> is_loopback x"
  by (cases "to4 x") (auto simp: is_loopback_def short_form_def elim!: to4_cases)

lemma loopback_specified: "is_loopback x \<Longrightarrow> \<not> is_unspecified x"
proof -
  have "\<not> is_loopback (IP (replicate 4 0))" "\<not> is_loopback (IP (replicate 16 0))" by code_simp+
  then show "is_loopback x \<Longrightarrow> \<not> is_unspecified x" by (metis is_unspecified_short_form is_loopback_short_form)
qed

text \<open>
  C12: With an accepted configuration, a client is trusted only if its address can be read, is not the unspecified
  address, and is a loopback address or lies in a listed network that is no broader than /8 (IPv4) or /7 (IPv6).
\<close>

theorem trusted_client_sound:
  assumes "validate v c = Inr ()" and "is_trusted_client_address c addr"
  shows "\<exists>x. parse_remote_ip addr = Some x \<and> \<not> is_unspecified x \<and>
    (is_loopback x \<or> (\<exists>network y net prefix bits. network \<in> set (items (trusted_networks c)) \<and> parse_cidr network = Some (y, net) \<and>
      ipnet_contains net x \<and> mask_size (net_mask net) = (prefix, bits) \<and> (if bits = 32 then 8 else 7) \<le> prefix))"
proof -
  from validate_partsE [OF assms(1)] have loop: "validate_trusted_networks 0 [] (items (trusted_networks c)) = []" by blast
  from assms(2) obtain x where x: "parse_remote_ip addr = Some x"
    and mem: "is_loopback x \<or> (\<exists>network\<in>set (items (trusted_networks c)). is_some_and (parse_cidr network) (\<lambda>p. ipnet_contains (snd p) x))"
    by (auto simp: is_trusted_client_address_def list_ex_iff contains_short_form is_loopback_short_form
        simp flip: short_form_def split: option.splits)
  have wf: "wf_ip x" using x by (rule parse_remote_ip_wf)
  show ?thesis
  proof (cases "is_loopback x")
    case True
    with loopback_specified x show ?thesis by blast
  next
    case False
    with mem obtain network y net where net: "network \<in> set (items (trusted_networks c))" "parse_cidr network = Some (y, net)" "ipnet_contains net x"
      by (auto simp: is_some_and_def split: option.splits)
    from trusted.all_ok [OF loop net(1)] obtain key where "validate_trusted network = Inr key" by blast
    from validate_trustedD [OF this net(2)] obtain prefix bits where size: "mask_size (net_mask net) = (prefix, bits)"
      and "trusted_minimum y net \<le> prefix" and num: "\<not> is_unspecified (net_ip net)" by blast
    then have "(if bits = 32 then 8 else 7) \<le> prefix" using trusted_minimum_ge [OF size, of y] by linarith
    with size num unspecified_member [OF net(2,3) _ wf] net x show ?thesis by blast
  qed
qed

theorem trusted_client_sound_witness:
  "is_trusted_client_address sample_config ''192.168.1.20:4000'' \<and>
   (\<exists>x. parse_remote_ip ''192.168.1.20:4000'' = Some x \<and> \<not> is_unspecified x)"
proof -
  have "is_trusted_client_address sample_config ''192.168.1.20:4000''" by code_simp
  with trusted_client_sound [OF sample_config_valid this] show ?thesis by blast
qed

section \<open>The outbound tunnel\<close>

lemma client_ips_accepted:
  assumes "validate_client_ips c lan_net client_net i s es = []" and "e \<in> set es"
  shows "\<exists>x net. parse_cidr (trim_space e) = Some (x, net) \<and> to4 x \<noteq> None \<and> \<not> is_some_and lan_net (\<lambda>n. networks_overlap n net)"
  using assms
proof (induction es arbitrary: i s)
  case (Cons a es)
  have "\<exists>x net s'. parse_cidr (trim_space a) = Some (x, net) \<and> to4 x \<noteq> None \<and> \<not> is_some_and lan_net (\<lambda>n. networks_overlap n net) \<and>
      validate_client_ips c lan_net client_net (i + 1) s' es = []"
    using Cons.prems(1)
    by (cases "parse_cidr (trim_space a)") (auto simp only: validate_client_ips.simps accept_simps split: if_splits prod.splits)
  with Cons.IH Cons.prems(2) show ?case by auto
qed simp

lemma site_accepted:
  "site_errors i es = [] \<Longrightarrow> e \<in> set es \<Longrightarrow> parse_cidr (trim_space e) = Some (x, net) \<Longrightarrow> to4 (net_ip net) \<noteq> None \<Longrightarrow>
   is_private_site_network net"
  by (induction es arbitrary: i) auto

lemma private_zone:
  assumes "zone \<in> {''10.0.0.0/8'', ''172.16.0.0/12'', ''192.168.0.0/16''}" and "parse_cidr zone = Some (z, net)" and "ipnet_contains net y"
  shows "is_private y"
proof -
  let ?m = "\<lambda>b n. (IP (V4_IN_V6_PREFIX @ b), masked_net 4 b n)"
  have p: "parse_cidr ''10.0.0.0/8'' = Some (?m [10, 0, 0, 0] 8)" "parse_cidr ''172.16.0.0/12'' = Some (?m [172, 16, 0, 0] 12)"
    "parse_cidr ''192.168.0.0/16'' = Some (?m [192, 168, 0, 0] 16)" by code_simp+
  have ff: "(0xff :: u8) = - 1" by code_simp
  have m: "cidr_bytes 4 8 = [- 1, 0, 0, 0]" "cidr_bytes 4 12 = [- 1, 0xf0, 0, 0]" "cidr_bytes 4 16 = [- 1, - 1, 0, 0]" by code_simp+
  have *: "ipnet_contains (masked_net 4 b n) y \<longleftrightarrow> (\<exists>c. to4 y = Some (IP c) \<and> map2 (AND) b (cidr_bytes 4 n) = map2 (AND) c (cidr_bytes 4 n))"
    if "length b = 4" "n \<le> 32" for b n
  proof (cases "to4 y")
    case (Some z)
    then obtain c where "z = IP c" "length c = 4" using to4_length [OF Some] by (cases z) simp
    with Some that masked_eq_iff [of b 4 c n] show ?thesis by (auto simp: contains_v4_value)
  qed (use that in \<open>simp add: contains_v4_value\<close>)
  have **: "is_private y"
    if "ipnet_contains (masked_net 4 b n) y" "(b, n) \<in> {([10, 0, 0, 0], 8), ([172, 16, 0, 0], 12), ([192, 168, 0, 0], 16)}" for b n
  proof -
    from that * [of b n] obtain c where c: "to4 y = Some (IP c)" "map2 (AND) b (cidr_bytes 4 n) = map2 (AND) c (cidr_bytes 4 n)" by auto
    from to4_length [OF c(1)] obtain p q r s where "c = [p, q, r, s]" by (auto elim: length4E)
    with that(2) c show ?thesis by (auto simp: m is_private_def)
  qed
  from assms(1) consider "zone = ''10.0.0.0/8''" | "zone = ''172.16.0.0/12''" | "zone = ''192.168.0.0/16''" by blast
  then show ?thesis
    using assms(2,3) p by cases (auto intro: **)
qed

lemma list_ex_map_filter: "list_ex P (List.map_filter f xs) \<longleftrightarrow> (\<exists>x\<in>set xs. \<exists>y. f x = Some y \<and> P y)"
  by (induction xs) (auto simp: map_filter_simps split: option.splits)

lemma contained_subset:
  assumes "parse_cidr s = Some (x, a)" and "parse_cidr t = Some (y, zone)" and "network_contained_in a zone" and "ipnet_contains a z"
  shows "ipnet_contains zone z"
proof -
  have size: "\<exists>b. length b = 4 \<and> fst (mask_size (net_mask net)) \<le> 32 \<and> net = masked_net 4 b (fst (mask_size (net_mask net)))"
    if "parse_cidr r = Some (w, net)" "snd (mask_size (net_mask net)) = 32" for r w net
    using that(1)
  proof (cases rule: parse_cidr_cases)
    case (v4 b m n)
    then have "mask_size (net_mask net) = (n, 32)" using mask_size_cidr [of n 32 "net_mask net"] by (simp add: ipmask_cidr_def)
    with v4 show ?thesis by auto
  next
    case (v6 r' b m n)
    then have "mask_size (net_mask net) = (n, 128)" using mask_size_cidr [of n 128 "net_mask net"] by (simp add: ipmask_cidr_def)
    with that(2) show ?thesis by simp
  qed
  from assms(3) have c: "snd (mask_size (net_mask a)) = 32" "snd (mask_size (net_mask zone)) = 32" "ipnet_contains zone (net_ip a)"
    "fst (mask_size (net_mask zone)) \<le> fst (mask_size (net_mask a))"
    by (auto simp: network_contained_in_def Let_def split: if_splits prod.splits)
  from size [OF assms(1) c(1)] size [OF assms(2) c(2)] obtain p q
    where p: "length p = 4" "fst (mask_size (net_mask a)) \<le> 32" "a = masked_net 4 p (fst (mask_size (net_mask a)))"
      and q: "length q = 4" "fst (mask_size (net_mask zone)) \<le> 32" "zone = masked_net 4 q (fst (mask_size (net_mask zone)))" by blast
  from net_form_v4 [OF p(1,2)] net_form_v4 [OF q(1,2)] p(3) q(3)
  have "net_form a = Some (IP (map2 (AND) p (cidr_bytes 4 (fst (mask_size (net_mask a))))), fst (mask_size (net_mask a)))"
    "net_form zone = Some (IP (map2 (AND) q (cidr_bytes 4 (fst (mask_size (net_mask zone))))), fst (mask_size (net_mask zone)))" by metis+
  from subset_iff [OF this(2,1) c(4)] c(3) assms(4) show ?thesis by blast
qed

text \<open>
  C13: When a live candidate is admitted, every IPv4 address that its outbound tunnel claims is a private address
  outside of the LAN.
\<close>

theorem admitted_tunnel_private:
  assumes "validate_live_candidate v c previous = Inr ()" and "wc_enabled (wg_client c)"
    and "entry \<in> set (items (wc_allowed_ips (wg_client c)))"
  shows "\<exists>x net lx lan_net. parse_cidr (trim_space entry) = Some (x, net) \<and> parse_cidr (lan_cidr (lan c)) = Some (lx, lan_net) \<and>
    (\<forall>y. ipnet_contains net y \<and> to4 y \<noteq> None \<longrightarrow> is_private y \<and> \<not> ipnet_contains lan_net y)"
proof -
  have valid: "validate v c = Inr ()" and safe: "validate_scenario_safety c = Inr ()"
    using assms(1) by (auto simp: validate_live_candidate_def split: sum.splits)
  from validate_partsE [OF valid] obtain lx lan_net where lan: "parse_cidr (lan_cidr (lan c)) = Some (lx, lan_net)"
    "validate_wg_client v c (Some lan_net) = []" by blast
  obtain e n where w: "validate_client_address c (Some lan_net) = (e, n)" by fastforce
  have ips: "validate_client_ips c (Some lan_net) n 0 [] (items (wc_allowed_ips (wg_client c))) = []"
    using lan(2) by (simp only: validate_wg_client_def Let_def w prod.case assms(2) accept_simps)
  from client_ips_accepted [OF ips assms(3)] obtain x net where net: "parse_cidr (trim_space entry) = Some (x, net)" "\<not> networks_overlap lan_net net"
    by auto
  have sites: "site_errors 0 (items (wc_allowed_ips (wg_client c))) = []"
    using safe by (simp only: validate_scenario_safety_def into_result_ok assms(2) tunnel_errors_def Let_def accept_simps)
  have "is_private y \<and> \<not> ipnet_contains lan_net y" if y: "ipnet_contains net y" "to4 y \<noteq> None" for y
  proof -
    from parse_cidr_net_form [OF net(1)] obtain nn k where form: "net_form net = Some (nn, k)" by blast
    have "to4 (net_ip net) \<noteq> None"
      using y net_formD(3) [OF form] ip_len_short_v4 [of y] ip_len_short_v4 [of "net_ip net"]
      by (auto simp: contains_iff [OF form]) (metis ip.exhaust)
    from site_accepted [OF sites assms(3) net(1) this] obtain zone z where zone: "zone \<in> {''10.0.0.0/8'', ''172.16.0.0/12'', ''192.168.0.0/16''}"
      "parse_cidr zone = Some z" "network_contained_in net (snd z)"
      unfolding is_private_site_network_def list_ex_map_filter list.set by blast
    from contained_subset [OF net(1) _ zone(3) y(1)] zone(2) have "ipnet_contains (snd z) y" by (cases z) auto
    with private_zone [OF zone(1), of "fst z" "snd z"] zone(2) have "is_private y" by simp
    with networks_overlap_iff [OF lan(1) net(1)] net(2) y(1) show ?thesis by blast
  qed
  with net(1) lan(1) show ?thesis by blast
qed

theorem admitted_tunnel_private_witness:
  "is_private (ip_v4 172 16 5 9) \<and> \<not> ipnet_contains (snd (the (parse_cidr (lan_cidr (lan sample_config))))) (ip_v4 172 16 5 9)"
proof -
  let ?e = "''172.16.5.0/24''"
  have safe: "validate_scenario_safety sample_config = Inr ()" "wc_enabled (wg_client sample_config)"
    "?e \<in> set (items (wc_allowed_ips (wg_client sample_config)))" "to4 (ip_v4 172 16 5 9) \<noteq> None"
    "ipnet_contains (snd (the (parse_cidr (trim_space ?e)))) (ip_v4 172 16 5 9)" by code_simp+
  have "validate_live_candidate sample_env sample_config None = Inr ()"
    by (simp add: validate_live_candidate_def sample_config_valid safe(1))
  from admitted_tunnel_private [OF this safe(2,3)] safe(4,5) show ?thesis by auto
qed

section \<open>Migration of extra LANs\<close>

lemma u32_bytes_value:
  assumes "V < 2 ^ 32"
  shows "length (u32_bytes (word_of_nat V)) = 4" "bytes_val (u32_bytes (word_of_nat V)) = V"
proof -
  have u: "unat (word_of_nat V :: u32) = V" using assms by (simp add: unat_of_nat take_bit_nat_eq_self)
  have b: "unat (word_of_nat n :: u8) = n mod 256" for n by (simp add: unat_of_nat take_bit_eq_mod)
  have d: "V div 256 * 256 + V mod 256 = V" "V div 65536 * 256 + V div 256 mod 256 = V div 256"
    "V div 16777216 * 256 + V div 65536 mod 256 = V div 65536"
    using div_mult_mod_eq [of V 256] div_mult_mod_eq [of "V div 256" 256] div_mult_mod_eq [of "V div 65536" 256]
    by (simp_all flip: div_mult2_eq)
  have "V div 16777216 mod 256 = V div 16777216" using assms by (simp add: less_mult_imp_div_less)
  moreover have "bytes_val (u32_bytes (word_of_nat V)) =
      V div 16777216 mod 256 * 16777216 + V div 65536 mod 256 * 65536 + V div 256 mod 256 * 256 + V mod 256"
    unfolding u32_bytes_def u by (simp add: b)
  ultimately show "bytes_val (u32_bytes (word_of_nat V)) = V" using d by linarith
qed (simp add: u32_bytes_def)

lemma to4_array_IP: "length b = 4 \<Longrightarrow> to4_array (IP b) = Some b"
  by (auto simp: to4_array_def elim!: length4E)

lemma ip_string_v4: "length b = 4 \<Longrightarrow> ip_string (IP b) = ipv4_string b"
  by (auto simp: ip_string_def to4_array_IP)

lemma router_address_accepted:
  assumes "length b = 4" and "n \<le> 30" and "length g = 4" and "bytes_val g = low_bits (32 - n) (bytes_val b) + 1"
  shows "validate_router_address field (masked_net 4 b n) (ipv4_string g @ CHR ''/'' # nat_string n) = []"
proof -
  let ?lo = "low_bits (32 - n) (bytes_val b)" and ?nn = "map2 (AND) b (cidr_bytes 4 n)"
  have four: "4 \<le> (2 :: nat) ^ (32 - n)" using assms(2) power_increasing [of 2 "32 - n" "2 :: nat"] by simp
  have r: "parse_cidr (ipv4_string g @ CHR ''/'' # nat_string n) = Some (IP (V4_IN_V6_PREFIX @ g), masked_net 4 g n)"
    using assms by (intro parse_cidr_v4) simp_all
  have same: "bytes_val g div 2 ^ (32 - n) = bytes_val b div 2 ^ (32 - n)"
    using assms(4) four by (subst div_eq_interval) simp
  then have mem: "ipnet_contains (masked_net 4 b n) (IP (V4_IN_V6_PREFIX @ g))"
    using assms by (simp add: contains_v4_value)
  have net: "masked_net 4 g n = masked_net 4 b n"
    using same masked_eq_iff [of g 4 b n] assms by simp
  have nn: "length ?nn = 4" "bytes_val ?nn = ?lo" using assms masked_values [of b 4 n] by simp_all
  let ?bc = "map2 (\<lambda>a m. a OR NOT m) ?nn (cidr_bytes 4 n)"
  have bc: "length ?bc = 4" "bytes_val ?bc = ?lo + (2 ^ (32 - n) - 1)"
    using nn masked_values [of ?nn 4 n] assms by simp_all
  have "\<not> ip_equal (IP (V4_IN_V6_PREFIX @ g)) (network_number (masked_net 4 b n))"
    using assms nn by (auto simp: network_number_def ip_equal_short_form short_form_def)
  moreover have "\<not> ip_equal_opt (IP (V4_IN_V6_PREFIX @ g)) (ipv4_broadcast (masked_net 4 b n))"
    using assms bc four by (auto simp: broadcast_v4 ip_equal_opt_def ip_equal_short_form short_form_def)
  ultimately show ?thesis
    using r mem net assms(3) by (simp add: validate_router_address_def)
qed

text \<open>
  C24: The gateway that the migration derives for an old extra LAN is accepted as the router address of that LAN.
\<close>

theorem migrated_address_accepted:
  assumes "migrated_address cidr = Some a" and "parse_cidr (trim_space cidr) = Some (x, extra)"
  shows "validate_router_address field extra a = []"
  using assms(2)
proof (cases rule: parse_cidr_cases)
  case (v6 t b m n)
  then have "mask_size (net_mask extra) = (n, 128)" using mask_size_cidr [of n 128 "net_mask extra"] by (simp add: ipmask_cidr_def)
  with assms show ?thesis by (simp add: migrated_address_def split: option.splits)
next
  case (v4 b m n)
  let ?nn = "map2 (AND) b (cidr_bytes 4 n)"
  let ?g = "u32_bytes (word_of_nat (bytes_val ?nn + 1))"
  have size: "mask_size (net_mask extra) = (n, 32)" using v4 mask_size_cidr [of n 32 "net_mask extra"] by (simp add: ipmask_cidr_def)
  have nn: "length ?nn = 4" "to4_array (net_ip extra) = Some ?nn" "bytes_val ?nn = low_bits (32 - n) (bytes_val b)"
    using v4 masked_values [of b 4 n] by (simp_all add: to4_array_IP)
  have g: "of_nat (be_value ?nn) + 1 = (of_nat (bytes_val ?nn + 1) :: u32)" by (simp add: be_value_bytes)
  have n: "n \<le> 30 \<and> a = ip_string (IP ?g) @ ''/'' @ nat_string n"
    using assms unfolding migrated_address_def u32_of_def
    by (simp only: option.case prod.case size nn(2) g Let_def option.inject split: if_splits) auto
  have "bytes_val (map2 (\<lambda>a m. a OR NOT m) ?nn (cidr_bytes 4 n)) < 256 ^ 4"
    using bytes_val_lt [of "map2 (\<lambda>a m. a OR NOT m) ?nn (cidr_bytes 4 n)"] nn(1) by simp
  moreover have "bytes_val (map2 (\<lambda>a m. a OR NOT m) ?nn (cidr_bytes 4 n)) = bytes_val ?nn + (2 ^ (32 - n) - 1)"
    using masked_values [of ?nn 4 n] nn(1,3) v4 by simp
  moreover have "(2 :: nat) ^ 2 \<le> 2 ^ (32 - n)" using n by (intro power_increasing) auto
  ultimately have "bytes_val ?nn + 1 < 2 ^ 32" by simp
  then show ?thesis
    using u32_bytes_value [of "bytes_val ?nn + 1"] router_address_accepted [of b n ?g field] v4 nn n
    by (simp del: of_nat_add of_nat_Suc add: ip_string_v4)
qed

theorem migrated_address_accepted_witness:
  "\<exists>x extra. parse_cidr ''10.1.0.0/24'' = Some (x, extra) \<and> validate_router_address [] extra ''10.1.0.1/24'' = []"
proof -
  have m: "migrated_address ''10.1.0.0/24'' = Some ''10.1.0.1/24''" "trim_space ''10.1.0.0/24'' = ''10.1.0.0/24''"
    "parse_cidr ''10.1.0.0/24'' \<noteq> None" by code_simp+
  then obtain x extra where "parse_cidr ''10.1.0.0/24'' = Some (x, extra)" by auto
  with migrated_address_accepted [OF m(1)] m(2) show ?thesis by auto
qed

end
