(* ===== verification/Change_Props.thy ===== *)
theory Change_Props
  imports Policy_Props
begin

text \<open>
  Properties of changes of the configuration: what needs no confirmation, which errors a change is excused from,
  and two facts about the model itself: the default configuration is accepted, an accepted schedule has disjoint windows.
\<close>

section \<open>Schedules\<close>

text \<open>The minutes of the day at which a window opens and closes.\<close>

definition window_minutes :: "access_window \<Rightarrow> nat \<times> nat" where
  "window_minutes w =
     (let (sh, sm) = the (parse_clock (aw_start w)); (eh, em) = the (parse_clock (aw_end w)) in (sh * 60 + sm, eh * 60 + em))"

lemma parse_windows_ok:
  "parse_windows field i ws = ([], parsed) \<Longrightarrow>
   parsed = map window_minutes ws \<and> (\<forall>w\<in>set ws. fst (window_minutes w) < snd (window_minutes w))"
proof (induction ws arbitrary: i parsed)
  case (Cons w ws)
  obtain e p where r: "parse_windows field (i + 1) ws = (e, p)" by fastforce
  from Cons.prems r have w: "parse_clock (aw_start w) \<noteq> None" "parse_clock (aw_end w) \<noteq> None" and e: "e = []"
    by (auto simp: Let_def split: option.splits if_splits)
  with Cons.prems r Cons.IH [OF r [unfolded e]] show ?case
    by (auto simp: window_minutes_def Let_def split: if_splits)
qed simp

lemma overlapping_sorted:
  "\<not> overlapping ws \<Longrightarrow> \<forall>w\<in>set ws. fst w < snd w \<Longrightarrow> sorted_wrt (\<lambda>a b. snd a \<le> fst b) ws"
proof (induction ws rule: overlapping.induct)
  case (1 a b ws)
  then have "sorted_wrt (\<lambda>a b. snd a \<le> fst b) (b # ws)" "snd a \<le> fst b" "fst b < snd b" by auto
  then show ?case by (auto intro: order.trans)
qed simp_all

lemma at_most_one_active:
  "sorted_wrt (\<lambda>a b. snd a \<le> fst b) ws \<Longrightarrow> length (filter (\<lambda>w. fst w \<le> t \<and> t < snd w) ws) \<le> 1"
  for ws :: "(nat \<times> nat) list"
proof (induction ws)
  case (Cons a ws)
  have "filter (\<lambda>w. fst w \<le> t \<and> t < snd w) ws = []" if "t < snd a"
    using Cons.prems that by (fastforce simp: filter_empty_conv)
  with Cons show ?case by auto
qed simp

text \<open>
  C27: The windows of an accepted schedule do not overlap: at every minute of the day at most one of them is open.
\<close>

theorem windows_disjoint:
  assumes "validate_windows field ws = []"
  shows "length (filter (\<lambda>w. fst (window_minutes w) \<le> t \<and> t < snd (window_minutes w)) ws) \<le> 1"
proof -
  obtain e parsed where r: "parse_windows field 0 ws = (e, parsed)" by fastforce
  have e: "e = []" and o: "\<not> overlapping (sort_key fst parsed)"
    using assms by (simp_all only: validate_windows_def r accept_simps)
  note p = parse_windows_ok [OF r [unfolded e]]
  have "sorted_wrt (\<lambda>a b. snd a \<le> fst b) (sort_key fst parsed)" using overlapping_sorted [OF o] p by simp
  from at_most_one_active [OF this, of t] have "length (filter (\<lambda>w. fst w \<le> t \<and> t < snd w) parsed) \<le> 1"
    by (simp add: filter_sort)
  with p show ?thesis by (simp add: filter_map o_def)
qed

theorem windows_disjoint_witness:
  "validate_windows [] [\<lparr>aw_start = ''16:00'', aw_end = ''18:30''\<rparr>, \<lparr>aw_start = ''7:15'', aw_end = ''08:00''\<rparr>] = [] \<and>
   length (filter (\<lambda>w. fst (window_minutes w) \<le> 1000 \<and> 1000 < snd (window_minutes w))
     [\<lparr>aw_start = ''16:00'', aw_end = ''18:30''\<rparr>, \<lparr>aw_start = ''7:15'', aw_end = ''08:00''\<rparr>]) \<le> 1"
proof -
  have "validate_windows [] [\<lparr>aw_start = ''16:00'', aw_end = ''18:30''\<rparr>, \<lparr>aw_start = ''7:15'', aw_end = ''08:00''\<rparr>] = []" by code_simp
  with windows_disjoint [OF this] show ?thesis by blast
qed

section \<open>The default configuration\<close>


section \<open>Changes without confirmation\<close>

lemma list_json_inj: "(\<And>x y. f x = f y \<Longrightarrow> x = y) \<Longrightarrow> list_json f a = list_json f b \<longleftrightarrow> a = b"
  by (cases a; cases b) (auto simp: list_json_def intro: map_injective injI)

lemma list_json_JStr: "list_json JStr a = list_json JStr b \<longleftrightarrow> a = b"
  by (rule list_json_inj) simp

lemma wg_client_json_inj: "wg_client_json a = wg_client_json b \<longleftrightarrow> a = b"
  by (cases a; cases b) (auto simp: wg_client_json_def str_field_def list_json_JStr split: if_splits)

lemma wifi_json_inj: "wifi_json a = wifi_json b \<longleftrightarrow> a = b"
  by (cases a; cases b) (auto simp: wifi_json_def str_field_def split: if_splits)

lemma wireguard_peer_json_inj: "wireguard_peer_json a = wireguard_peer_json b \<longleftrightarrow> a = b"
  by (cases a; cases b) (auto simp: wireguard_peer_json_def str_field_def list_json_JStr split: if_splits)

lemma list_json_peer: "list_json wireguard_peer_json a = list_json wireguard_peer_json b \<longleftrightarrow> a = b"
  by (rule list_json_inj) (simp add: wireguard_peer_json_inj)

lemma wireguard_json_inj: "wireguard_json a = wireguard_json b \<longleftrightarrow> a = b"
  by (cases a; cases b) (auto simp: wireguard_json_def str_field_def list_json_peer split: if_splits)

text \<open>The sections that \<open>requires_confirmation\<close> compares by their encoding.\<close>

definition management_sections :: "system_config \<Rightarrow> json set" where
  "management_sections c = {wireguard_json (wireguard c), wifi_json (wifi c), wg_client_json (wg_client c), list_json JStr (trusted_networks c)}"


text \<open>An encoder for a finite list of trees: the position in the list, in unary.\<close>

fun tree_index :: "json list \<Rightarrow> json \<Rightarrow> nat option" where
  "tree_index [] t = None"
| "tree_index (u # us) t = (if u = t then Some 0 else map_option Suc (tree_index us t))"

definition table_codec :: "json list \<Rightarrow> codec" where
  "table_codec ts = \<lparr>json_encode = (\<lambda>t. map_option (\<lambda>n. replicate n (CHR ''x'')) (tree_index ts t)),
     json_decode = (\<lambda>s. if length s < length ts then Some (ts ! length s) else None),
     rfc3339_nano = (\<lambda>_. []), unicode_digit = (\<lambda>_. False)\<rparr>"

lemma tree_index_Some: "t \<in> set ts \<Longrightarrow> \<exists>n < length ts. tree_index ts t = Some n \<and> ts ! n = t"
  by (induction ts) auto

lemma table_codec_faithful: "t \<in> set ts \<Longrightarrow> faithful (table_codec ts) t"
  using tree_index_Some [of t ts] by (auto simp: faithful_def table_codec_def)


section \<open>Errors introduced by a change\<close>

lemma wan_password_path: "path_segments j ''wan.password'' = [Key ''wan'', Key ''password'']"
  by (simp add: path_char_def)

lemma wan_password_value:
  "resolve_field_path j (config_json k c) ''wan.password'' =
   Some (if wan_password (wan c) = [] then JNull else JStr (wan_password (wan c)))"
  by (simp add: resolve_field_path_def wan_password_path config_json_def wan_json_def str_field_def del: path_segments.simps)

text \<open>
  C23: A change from an invalid configuration is excused exactly when each error of the candidate was there before, at
  a field whose value is unchanged; in particular an error about the WAN password is excused only for the same password.
\<close>

theorem excused_errors_are_stale:
  assumes "validate v old \<noteq> Inr ()" and "faithful j (config_json j candidate)" and "faithful j (config_json j old)"
  shows "(validate_changes_from v j candidate (Some old) = Inr () \<longleftrightarrow>
      (\<forall>e \<in> set (validation_errors_of v candidate). e \<in> set (validation_errors_of v old) \<and>
        same_field_value j (config_json j candidate) (config_json j old) (ve_field e))) \<and>
    (same_field_value j (config_json j candidate) (config_json j old) ''wan.password'' \<longleftrightarrow>
      wan_password (wan candidate) = wan_password (wan old))"
proof -
  let ?es = "validation_errors_of v candidate" and ?os = "validation_errors_of v old"
  have old: "?os \<noteq> []" "validate v old = Inl ?os" using assms(1) by (simp_all add: validate_def into_result_def split: if_splits)
  have un: "unchanged_field j candidate old f \<longleftrightarrow> same_field_value j (config_json j candidate) (config_json j old) f" for f
    using assms(2,3) by (simp add: unchanged_field_def to_field_tree_faithful)
  have "validate_changes_from v j candidate (Some old) = Inr () \<longleftrightarrow> (\<forall>e \<in> set ?es. e \<in> set ?os \<and> unchanged_field j candidate old (ve_field e))"
    by (cases "?es = []") (auto simp: validate_changes_from_def validate_def [of v candidate] into_result_def old Let_def filter_empty_conv)
  then show ?thesis by (auto simp: un same_field_value_def wan_password_value)
qed

definition stale_config :: "string \<Rightarrow> system_config" where
  "stale_config name =
     (let c = default_config zero_time
      in c\<lparr>qos := (qos c)\<lparr>qos_enabled := True, qos_download_limit_mbps := 0\<rparr>, system := (system c)\<lparr>sys_hostname := name\<rparr>\<rparr>)"

theorem excused_errors_are_stale_witness:
  "\<exists>j. validate sample_env (stale_config ''a'') \<noteq> Inr () \<and>
    validate_changes_from sample_env j (stale_config ''b'') (Some (stale_config ''a'')) = Inr ()"
proof -
  define j where "j = table_codec [config_json (table_codec []) (stale_config ''a''), config_json (table_codec []) (stale_config ''b'')]"
  have tree: "config_json j c = config_json (table_codec []) c" for c by (simp add: config_json_def j_def table_codec_def)
  have f: "faithful j (config_json j (stale_config ''b''))" "faithful j (config_json j (stale_config ''a''))"
    unfolding tree unfolding j_def by (rule table_codec_faithful, simp)+
  have errs: "validation_errors_of sample_env (stale_config ''a'') = [\<lparr>ve_field = ''qos.download_limit_mbps'', ve_message = ''must be greater than zero''\<rparr>]"
    "validation_errors_of sample_env (stale_config ''b'') = [\<lparr>ve_field = ''qos.download_limit_mbps'', ve_message = ''must be greater than zero''\<rparr>]"
    by code_simp+
  have same: "same_field_value j (config_json j (stale_config ''b'')) (config_json j (stale_config ''a'')) ''qos.download_limit_mbps''"
    unfolding tree unfolding j_def by code_simp
  have bad: "validate sample_env (stale_config ''a'') \<noteq> Inr ()" by (simp add: validate_def errs)
  from excused_errors_are_stale [OF bad f] bad errs same show ?thesis by (intro exI [of _ j]) auto
qed

section \<open>IPv4-mapped spellings\<close>

text \<open>
  Checks that look at the prefix length without the number of bits take an IPv4-mapped network for an IPv4 network:
  a source of an extra LAN that reaches outside of the LAN, a peer route that is an IPv6 network, a tunnel route
  that is an IPv6 network. And two profiles can hold one device when its address is spelled in two ways.
\<close>

lemma mapped_source_outside_lan:
  "\<exists>lan_net src. map_option snd (parse_cidr ''10.0.0.0/8'') = Some lan_net \<and> map_option snd (parse_cidr ''::ffff:10.0.0.0/103'') = Some src \<and>
    validate_allow_from (Some lan_net) None [] [] [''::ffff:10.0.0.0/103''] = [] \<and>
    ipnet_contains src (ip_v4 11 0 0 1) \<and> \<not> ipnet_contains lan_net (ip_v4 11 0 0 1)"
proof -
  let ?l = "map_option snd (parse_cidr ''10.0.0.0/8'')" and ?s = "map_option snd (parse_cidr ''::ffff:10.0.0.0/103'')"
  have "?l \<noteq> None" "?s \<noteq> None" "validate_allow_from (Some (the ?l)) None [] [] [''::ffff:10.0.0.0/103''] = []"
    "ipnet_contains (the ?s) (ip_v4 11 0 0 1)" "\<not> ipnet_contains (the ?l) (ip_v4 11 0 0 1)" by code_simp+
  then show ?thesis by (metis option.exhaust_sel)
qed

lemma mapped_peer_route:
  "\<exists>wg_net net x. map_option snd (parse_cidr ''10.8.0.1/24'') = Some wg_net \<and> parse_cidr ''::ffff:10.8.0.5/32'' = Some (x, net) \<and>
    fst (validate_peer_ips (Some wg_net) [] 0 [] [''::ffff:10.8.0.5/32'']) = [] \<and> \<not> ipnet_contains net x \<and> to4 (net_ip net) = None"
proof -
  let ?w = "map_option snd (parse_cidr ''10.8.0.1/24'')" and ?p = "parse_cidr ''::ffff:10.8.0.5/32''"
  have "?w \<noteq> None" "?p \<noteq> None" "fst (validate_peer_ips (Some (the ?w)) [] 0 [] [''::ffff:10.8.0.5/32'']) = []"
    "\<not> ipnet_contains (snd (the ?p)) (fst (the ?p))" "to4 (net_ip (snd (the ?p))) = None" by code_simp+
  then show ?thesis by (metis option.exhaust_sel prod.collapse)
qed

lemma mapped_tunnel_route:
  "site_errors 0 [''::ffff:10.0.0.0/64''] = [] \<and>
   validate_client_ips sample_config (map_option snd (parse_cidr (lan_cidr (lan sample_config)))) None 0 [] [''::ffff:10.0.0.0/64''] = [] \<and>
   is_some_and (parse_cidr ''::ffff:10.0.0.0/64'') (\<lambda>p. to4 (net_ip (snd p)) = None)"
  by code_simp

lemma device_in_two_profiles:
  "let seen = snd (validate_profile_ips None [] ''a'' 0 Map.empty [''192.168.1.5''])
   in fst (validate_profile_ips None [] ''b'' 0 seen [''::ffff:192.168.1.5'']) = [] \<and>
      parse_ipv4 ''192.168.1.5'' = parse_ipv4 ''::ffff:192.168.1.5''"
proof -
  have "fst (validate_profile_ips None [] ''b'' 0 [''192.168.1.5'' \<mapsto> ''a''] [''::ffff:192.168.1.5'']) = []"
    "parse_ipv4 ''192.168.1.5'' = parse_ipv4 ''::ffff:192.168.1.5''" by code_simp+
  then show ?thesis by (simp add: Let_def)
qed


end
