(* ===== verification/Store_Props.thy ===== *)
theory Store_Props
  imports Store Change_Props
begin

text \<open>
  Specifications of the store. \<open>adv c e q d s\<close> is the world \<open>s\<close> after an operation that consumed clock readings, random
  bytes and statement outcomes and left the tables \<open>d\<close>; the rules run one effect each, and what it consumes becomes
  arbitrary. A commit publishes its tables or leaves the old ones.
\<close>

section \<open>Effects\<close>

definition adv :: "time list \<Rightarrow> u8 list result list \<Rightarrow> error option list \<Rightarrow> store \<Rightarrow> 'z world_scheme \<Rightarrow> 'z world_scheme" where
  "adv c e q d s = s\<lparr>w_clock := c, w_entropy := e, w_sql := q, w_db := d\<rparr>"

lemma adv_adv [simp]: "adv c e q d (adv c' e' q' d' s) = adv c e q d s"
  by (simp add: adv_def)

lemma adv_db [simp]: "w_db (adv c e q d s) = d"
  by (simp add: adv_def)

lemma adv_more [simp]: "world.more (adv c e q d s) = world.more s"
  by (simp add: adv_def)

lemma adv_self: "adv (w_clock s) (w_entropy s) (w_sql s) (w_db s) s = s"
  by (simp add: adv_def)

lemma as_adv:
  "s\<lparr>w_clock := c\<rparr> = adv c (w_entropy s) (w_sql s) (w_db s) s"
  "s\<lparr>w_entropy := e\<rparr> = adv (w_clock s) e (w_sql s) (w_db s) s"
  "s\<lparr>w_sql := q\<rparr> = adv (w_clock s) (w_entropy s) q (w_db s) s"
  "s\<lparr>w_db := d\<rparr> = adv (w_clock s) (w_entropy s) (w_sql s) d s"
  by (simp_all add: adv_def)

section \<open>Rules\<close>

lemma wp_now: "(\<And>a c e q. Q a (adv c e q (w_db s) s)) \<Longrightarrow> wp now Q s"
  using adv_self [of s] by (auto simp: now_def wp_simps as_adv split: list.splits) metis

lemma wp_now_utc: "(\<And>a c e q. Q (time_utc a) (adv c e q (w_db s) s)) \<Longrightarrow> wp now_utc Q s"
  unfolding now_utc_def wp_simps by (rule wp_now) (simp add: wp_simps)

lemma wp_rand_bytes: "(\<And>r c e q. Q r (adv c e q (w_db s) s)) \<Longrightarrow> wp (rand_bytes n) Q s"
  using adv_self [of s] by (auto simp: rand_bytes_def wp_simps as_adv split: list.splits) metis

lemma wp_sql: "(\<And>r c e q. Q r (adv c e q (w_db s) s)) \<Longrightarrow> wp sql Q s"
  using adv_self [of s] by (auto simp: sql_def wp_simps as_adv split: list.splits) metis

lemma wp_query:
  assumes "\<And>x c e q. Q (Inl x) (adv c e q (w_db s) s)" and "\<And>c e q. Q (f (w_db s)) (adv c e q (w_db s) s)"
  shows "wp (query f) Q s"
  unfolding query_def wp_simps by (rule wp_sql) (auto simp: wp_simps assms)

lemma wp_execute:
  assumes "\<And>x c e q. Q (Inl x) (adv c e q (w_db s) s)" and "\<And>c e q d. f (w_db s) = Inr d \<Longrightarrow> Q (Inr ()) (adv c e q d s)"
  shows "wp (execute f) Q s"
  unfolding execute_def wp_simps by (rule wp_sql) (auto simp: wp_simps as_adv intro!: assms)

lemma wp_begin_tx:
  assumes "\<And>x c e q. Q (Inl x) (adv c e q (w_db s) s)" and "\<And>c e q. Q (Inr (w_db s)) (adv c e q (w_db s) s)"
  shows "wp begin_tx Q s"
  unfolding begin_tx_def by (rule wp_query) (auto intro: assms)

lemma wp_tx_execute:
  assumes "\<And>x c e q. Q (Inl x) (adv c e q (w_db s) s)" and "\<And>c e q d'. f d = Inr d' \<Longrightarrow> Q (Inr d') (adv c e q (w_db s) s)"
  shows "wp (tx_execute f d) Q s"
  unfolding tx_execute_def wp_simps by (cases "f d"; rule wp_sql) (auto simp: wp_simps assms)

lemma wp_commit_tx:
  assumes "\<And>x c e q. Q (Inl x) (adv c e q (w_db s) s)" and "\<And>c e q. Q (Inr ()) (adv c e q d s)"
  shows "wp (commit_tx d) Q s"
  unfolding commit_tx_def by (rule wp_execute) (auto intro: assms)

lemmas wp_effects = wp_now wp_now_utc wp_rand_bytes wp_query wp_execute wp_begin_tx wp_tx_execute wp_commit_tx

lemma wp_wrapped [wp_simps]: "wp (wrapped p m) Q = wp m (\<lambda>r. Q (map_err (Wrapf p) r))"
  by (simp add: wrapped_def wp_simps)

section \<open>Saving a configuration\<close>

definition saved :: "storage \<Rightarrow> system_config \<Rightarrow> string \<Rightarrow> store \<Rightarrow> store" where
  "saved k cfg data d = prune_revisions (insert_revision k cfg data d)"

lemma latest_saved [simp]: "latest_text (saved k cfg data d) = Some data"
  by (simp add: saved_def latest_text_def prune_revisions_def insert_revision_def)

lemma config_errors_ok: "config_errors v cfg = Inr u \<longleftrightarrow> validate v cfg = Inr ()"
  by (simp add: config_errors_def split: sum.splits)

lemma wp_save_config:
  assumes "\<And>x c e q. Q (Inl x) (adv c e q (w_db s) s)"
    and "\<And>data c e q. validate v cfg = Inr () \<Longrightarrow> advances k (system_config.revision cfg) (latest_text (w_db s)) = Inr () \<Longrightarrow>
      marshal_config k cfg = Inr data \<Longrightarrow> Q (Inr ()) (adv c e q (saved k cfg data (w_db s)) s)"
  shows "wp (save_config v k cfg) Q s"
  unfolding save_config_def wp_simps using assms(1) [of _ "w_clock s" "w_entropy s" "w_sql s"]
  by (auto simp: wp_simps adv_self config_errors_ok saved_def [symmetric] intro!: wp_effects assms)


section \<open>Snapshots and the audit log\<close>

lemma prune_distinct: "distinct (map f rows) \<Longrightarrow> distinct (map f (prune pool key ident n rows))"
  by (simp add: prune_def Let_def distinct_map_filter)

lemma wp_create_snapshot:
  assumes "\<And>x c e q. Q (Inl x) (adv c e q (w_db s) s)"
    and "\<And>r ss c e q. Q (Inr r) (adv c e q ((w_db s)\<lparr>snapshots := ss\<rparr>) s)"
  shows "wp (create_snapshot k cfg) Q s"
  unfolding create_snapshot_def create_snapshot_kind_def wp_simps
  using assms(1) [of _ "w_clock s" "w_entropy s" "w_sql s"]
  by (auto simp: wp_simps adv_self Let_def insert_snapshot_def intro!: wp_effects assms split: if_splits)

lemma store_swap: "d\<lparr>backup_export_status := b, audit_events := as\<rparr> = d\<lparr>audit_events := as, backup_export_status := b\<rparr>"
  by (cases d) simp

abbreviation high :: "audit_event \<Rightarrow> bool" where
  "high r \<equiv> is_high_volume_audit_event (au_event_type r)"

definition audited :: "audit_event \<Rightarrow> audit_event list \<Rightarrow> audit_event list" where
  "audited row rows = prune_audit ((if high row then prune_high_volume_audit else id) (rows @ [row]))"

lemma wp_append_audit_ok:
  assumes "\<And>x c e q. Q (Inl x) (adv c e q (w_db s) s)"
    and "\<And>row b c e q. au_event_type row = event_type \<Longrightarrow> au_id row \<notin> set (map au_id (audit_events (w_db s))) \<Longrightarrow>
      Q (Inr ()) (adv c e q ((w_db s)\<lparr>audit_events := audited row (audit_events (w_db s)), backup_export_status := b\<rparr>) s)"
  shows "wp (append_audit_event k event_type actor details) Q s"
proof -
  let ?as = "audit_events (w_db s)"
  have ok: "Q (Inr ()) (adv c e q ((w_db s)\<lparr>audit_events := rows, backup_export_status := b\<rparr>) s)"
    if "audited row ?as = rows" "au_event_type row = event_type" "au_id row \<notin> set (map au_id ?as)" for rows row b c e q
    using assms(2) [OF that(2,3), of c e q b] that(1) by simp
  have high: "Q (Inr ()) (adv c e q ((w_db s)\<lparr>audit_events := prune_audit (prune_high_volume_audit (?as @ [row]))\<rparr>) s)"
    "Q (Inr ()) (adv c e q ((w_db s)\<lparr>backup_export_status := b, audit_events := prune_audit (prune_high_volume_audit (?as @ [row]))\<rparr>) s)"
    if "is_high_volume_audit_event event_type" "au_event_type row = event_type" "au_id row \<notin> set (map au_id ?as)" for row b c e q
    using ok [OF _ that(2,3), of _ c e q "backup_export_status (w_db s)"] ok [OF _ that(2,3), of _ c e q b] that(1,2)
    by (simp_all add: audited_def store_swap)
  have low: "Q (Inr ()) (adv c e q ((w_db s)\<lparr>audit_events := prune_audit (?as @ [row])\<rparr>) s)"
    "Q (Inr ()) (adv c e q ((w_db s)\<lparr>backup_export_status := b, audit_events := prune_audit (?as @ [row])\<rparr>) s)"
    if "\<not> is_high_volume_audit_event event_type" "au_event_type row = event_type" "au_id row \<notin> set (map au_id ?as)" for row b c e q
    using ok [OF _ that(2,3), of _ c e q "backup_export_status (w_db s)"] ok [OF _ that(2,3), of _ c e q b] that(1,2)
    by (simp_all add: audited_def store_swap)
  show ?thesis unfolding append_audit_event_def wp_simps
    using assms(1) [of _ "w_clock s" "w_entropy s" "w_sql s"]
    by (auto simp: wp_simps adv_self Let_def insert_audit_def intro!: wp_effects assms(1) high low split: if_splits)
qed

lemma wp_append_audit_event:
  assumes "\<And>x c e q. Q (Inl x) (adv c e q (w_db s) s)"
    and "\<And>as b c e q. Q (Inr ()) (adv c e q ((w_db s)\<lparr>audit_events := as, backup_export_status := b\<rparr>) s)"
  shows "wp (append_audit_event k event_type actor details) Q s"
  by (rule wp_append_audit_ok) (auto intro: assms)

section \<open>Initial setup\<close>

text \<open>The tables after \<open>commit_initial_setup\<close>; the stored text carries the time of the commit.\<close>

definition setup_done :: "storage \<Rightarrow> string \<Rightarrow> system_config \<Rightarrow> time \<Rightarrow> string \<Rightarrow> store \<Rightarrow> store" where
  "setup_done k hash cfg at data d =
     (insert_revision k (cfg\<lparr>updated_at := at\<rparr>) data d)\<lparr>
        admin_credentials := Some \<lparr>ad_password_hash = hash, ad_totp_secret = None, ad_auth_generation = 1, ad_updated_at = rfc3339 k at\<rparr>,
        sessions := []\<rparr>"

lemma latest_setup_done [simp]: "latest_text (setup_done k hash cfg at data d) = Some data"
  by (simp add: setup_done_def latest_text_def insert_revision_def)

lemma wp_setup_tx:
  assumes "\<And>x c e q. Q (Inl x) (adv c e q (w_db s) s)"
    and "\<And>at data c e q. marshal_config k (cfg\<lparr>updated_at := at\<rparr>) = Inr data \<Longrightarrow> Q (Inr ()) (adv c e q (setup_done k hash cfg at data d) s)"
  shows "wp (setup_tx k cfg hash d) Q s"
proof -
  have ok: "Q (Inr ()) (adv c e q ((insert_revision k (cfg\<lparr>updated_at := time_utc a\<rparr>) data d)\<lparr>admin_credentials := Some \<lparr>ad_password_hash = hash,
      ad_totp_secret = None, ad_auth_generation = 1, ad_updated_at = rfc3339 k (time_utc a)\<rparr>, sessions := []\<rparr>) s)"
    if "marshal_config k (cfg\<lparr>updated_at := time_utc a\<rparr>) = Inr data" for a data c e q
    using assms(2) [OF that, of c e q] by (simp add: setup_done_def)
  show ?thesis unfolding setup_tx_def wp_simps
    by (auto simp: wp_simps Let_def insert_setup_def intro!: wp_effects assms(1) ok split: if_splits)
qed

lemma wp_commit_initial_setup:
  assumes "\<And>x c e q. Q (Inl x) (adv c e q (w_db s) s)"
    and "\<And>at data c e q. validate v cfg = Inr () \<Longrightarrow> admin_credentials (w_db s) = None \<Longrightarrow>
      marshal_config k (cfg\<lparr>updated_at := at\<rparr>) = Inr data \<Longrightarrow> Q (Inr ()) (adv c e q (setup_done k hash cfg at data (w_db s)) s)"
  shows "wp (commit_initial_setup v k hash cfg) Q s"
  unfolding commit_initial_setup_def wp_simps using assms(1) [of _ "w_clock s" "w_entropy s" "w_sql s"]
  by (auto simp: wp_simps adv_self config_errors_ok intro!: wp_effects wp_setup_tx assms)


section \<open>A concrete environment\<close>

text \<open>An encoder that keeps only the revision of a configuration, and simple stand-ins for the other parameters.\<close>

definition sample_codec :: codec where
  "sample_codec = \<lparr>json_encode = (\<lambda>t. case t of JObj ((_, JNum r) # _) \<Rightarrow> Some (int_string r) | _ \<Rightarrow> Some ''{}''),
     json_decode = (\<lambda>_. None), rfc3339_nano = (\<lambda>_. []), unicode_digit = (\<lambda>_. False)\<rparr>"

definition sample_storage :: storage where
  "sample_storage = \<lparr>st_codec = sample_codec,
     unmarshal_config = (\<lambda>s. case digits_value 10 0 s of None \<Rightarrow> Inl (Errorf ''invalid'')
       | Some n \<Rightarrow> Inr (sample_config\<lparr>system_config.revision := of_nat n\<rparr>)),
     marshal_error = Errorf ''invalid'', sha256 = (\<lambda>s. [of_nat (length s)]), hex_encode = (\<lambda>_. ''00''),
     hex_decode = (\<lambda>_. None), base64_raw_url = (\<lambda>bs. nat_string (length bs)), rfc3339 = (\<lambda>t. int_string (unix t)),
     parse_rfc3339 = (\<lambda>_. None), go_string = (\<lambda>t. int_string (unix t)), debug_text = id\<rparr>"

definition sample_world :: "store \<Rightarrow> world" where
  "sample_world d = \<lparr>w_clock = [], w_entropy = [], w_sql = [], w_db = d\<rparr>"

end
