(* ===== verification/Store_Audit.thy ===== *)
theory Store_Audit
  imports Store_Props
begin

text \<open>
  Retention: what pruning keeps, and the share of the audit log that rejected requests can take.
\<close>

section \<open>Pruning\<close>

lemma prune_other: "filter (\<lambda>r. \<not> pool r) (prune pool key ident n rows) = filter (\<lambda>r. \<not> pool r) rows"
  by (auto simp: prune_def Let_def intro: filter_cong)

lemma filter_member_length:
  "distinct (map f xs) \<Longrightarrow> set ys \<subseteq> set xs \<Longrightarrow> distinct ys \<Longrightarrow> length (filter (\<lambda>x. f x \<in> f ` set ys) xs) = length ys"
proof -
  assume d: "distinct (map f xs)" and sub: "set ys \<subseteq> set xs" and dy: "distinct ys"
  have inj: "inj_on f (set xs)" using d by (simp add: distinct_map)
  have "set (filter (\<lambda>x. f x \<in> f ` set ys) xs) = set ys"
    using sub inj by (auto dest: inj_onD)
  moreover have "distinct (filter (\<lambda>x. f x \<in> f ` set ys) xs)" using d by (simp add: distinct_map)
  ultimately show ?thesis using dy by (metis distinct_card)
qed

lemma prune_pool:
  assumes "distinct (map ident rows)"
  shows "length (filter pool (prune pool key ident n rows)) = min n (length (filter pool rows))"
proof -
  let ?p = "filter pool rows" and ?k = "take n (rev (sort_key key (filter pool rows)))"
  have d: "distinct (map ident ?p)" using assms by (rule distinct_map_filter)
  then have "distinct (sort_key key ?p)" by (simp add: distinct_map)
  then have k: "distinct ?k" by simp
  have sub: "set ?k \<subseteq> set ?p" by (metis set_take_subset set_rev set_sort)
  have "filter pool (prune pool key ident n rows) = filter (\<lambda>r. ident r \<in> ident ` set ?k) ?p"
    by (auto simp: prune_def Let_def intro: filter_cong)
  also have "length \<dots> = length ?k" using d sub k by (rule filter_member_length)
  finally show ?thesis by simp
qed

lemma prune_few:
  assumes "distinct (map ident rows)" and "length (filter pool rows) \<le> n"
  shows "prune pool key ident n rows = rows"
proof -
  have "\<forall>r\<in>set rows. pool r \<longrightarrow> ident r \<in> ident ` set (take n (rev (sort_key key (filter pool rows))))"
    using assms(2) by (simp add: image_iff) force
  then show ?thesis by (auto simp: prune_def Let_def filter_id_conv)
qed

lemma filter_filter_length: "length (filter p (filter q xs)) \<le> length (filter p xs)"
  by (induction xs) auto

lemma filter_prune_length: "length (filter p (prune pool key ident n rows)) \<le> length (filter p rows)"
  unfolding prune_def Let_def by (rule filter_filter_length)

section \<open>The audit log\<close>

text \<open>
  C16: Rejected requests cannot flood the audit log: after a high-volume event at most 5000 events are kept, at most
  1000 of them high-volume, and of the other events at least 4000 or all of them. In a log that is full of other
  events, though, a new high-volume event takes the place of one of them.
\<close>

theorem audit_flood_bounded:
  assumes run: "run_state (append_audit_event k event_type actor details) s = (Inr (), t)"
    and high: "is_high_volume_audit_event event_type"
    and ids: "distinct (map au_id (audit_events (w_db s)))"
  shows "length (audit_events (w_db t)) \<le> 5000 \<and>
    length (filter (\<lambda>r. is_high_volume_audit_event (au_event_type r)) (audit_events (w_db t))) \<le> 1000 \<and>
    min 4000 (length (filter (\<lambda>r. \<not> is_high_volume_audit_event (au_event_type r)) (audit_events (w_db s))))
      \<le> length (filter (\<lambda>r. \<not> is_high_volume_audit_event (au_event_type r)) (audit_events (w_db t))) \<and>
    (length (filter (\<lambda>r. \<not> is_high_volume_audit_event (au_event_type r)) (audit_events (w_db s))) \<le> 4000 \<longrightarrow>
      filter (\<lambda>r. \<not> is_high_volume_audit_event (au_event_type r)) (audit_events (w_db t)) =
      filter (\<lambda>r. \<not> is_high_volume_audit_event (au_event_type r)) (audit_events (w_db s))) \<and>
    (length (audit_events (w_db s)) = 5000 \<and> list_all (\<lambda>r. \<not> is_high_volume_audit_event (au_event_type r)) (audit_events (w_db s)) \<and>
     list_ex (\<lambda>r. is_high_volume_audit_event (au_event_type r)) (audit_events (w_db t)) \<longrightarrow>
      length (filter (\<lambda>r. \<not> is_high_volume_audit_event (au_event_type r)) (audit_events (w_db t))) = 4999)"
proof -
  let ?as = "audit_events (w_db s)" and ?bs = "audit_events (w_db t)"
  let ?P = "\<lambda>r u. r = Inr () \<longrightarrow> (\<exists>row. au_event_type row = event_type \<and> au_id row \<notin> set (map au_id ?as) \<and> audit_events (w_db u) = audited row ?as)"
  have "wp (append_audit_event k event_type actor details) ?P s" by (rule wp_append_audit_ok) auto
  from wp_run [OF run this] obtain row where row: "au_event_type row = event_type" "au_id row \<notin> set (map au_id ?as)"
    "?bs = audited row ?as" by blast
  define mid where "mid = prune_high_volume_audit (?as @ [row])"
  have bs: "?bs = prune_audit mid" using row high by (simp add: audited_def mid_def)
  have d0: "distinct (map au_id (?as @ [row]))" using ids row(2) by simp
  then have d1: "distinct (map au_id mid)" by (simp add: mid_def prune_high_volume_audit_def prune_distinct)
  have hi: "length (filter high mid) = min 1000 (Suc (length (filter high ?as)))"
    unfolding mid_def prune_high_volume_audit_def HIGH_VOLUME_AUDIT_RETENTION_def prune_pool [OF d0] using row high by simp
  have lo: "filter (\<lambda>r. \<not> high r) mid = filter (\<lambda>r. \<not> high r) ?as"
    using row high by (simp add: mid_def prune_high_volume_audit_def prune_other)
  have len: "length xs = length (filter high xs) + length (filter (\<lambda>r. \<not> high r) xs)" for xs
    by (rule sum_length_filter_compl [symmetric])
  have total: "length ?bs = min 5000 (length mid)"
    using prune_pool [OF d1, where pool = "\<lambda>_. True"] by (simp add: bs prune_audit_def AUDIT_RETENTION_def)
  have hb: "length (filter high ?bs) \<le> length (filter high mid)"
    and lb: "length (filter (\<lambda>r. \<not> high r) ?bs) \<le> length (filter (\<lambda>r. \<not> high r) mid)"
    by (simp_all add: bs prune_audit_def filter_prune_length)
  have few: "length (filter (\<lambda>r. \<not> high r) ?as) \<le> 4000 \<Longrightarrow> ?bs = mid"
    using hi lo len [of mid] by (simp add: bs prune_audit_def prune_few [OF d1] AUDIT_RETENTION_def)
  have full: "length (filter (\<lambda>r. \<not> high r) ?bs) = 4999"
    if "length ?as = 5000" "list_all (\<lambda>r. \<not> high r) ?as" "list_ex high ?bs"
  proof -
    have "filter high ?as = []" "length (filter (\<lambda>r. \<not> high r) ?as) = 5000" using that(1,2)
      by (simp_all add: filter_empty_conv list_all_iff)
    moreover have "filter high ?bs \<noteq> []" using that(3) by (auto simp: list_ex_iff filter_empty_conv)
    then have "1 \<le> length (filter high ?bs)" by (cases "filter high ?bs") simp_all
    ultimately show ?thesis using hi lo hb total len [of mid] len [of ?bs] by simp
  qed
  show ?thesis using total hi lo hb lb few full len [of mid] len [of ?bs] by (intro conjI impI) simp_all
qed


definition sample_audit :: store where
  "sample_audit = empty_store\<lparr>audit_events :=
     [\<lparr>au_id = ''audit-a'', au_event_type = ''config.transaction'', au_actor = ''local'', au_timestamp = ''0'', au_details_json = ''{}''\<rparr>]\<rparr>"

theorem audit_flood_bounded_witness:
  "\<exists>t. run_state (append_audit_event sample_storage ''auth.unauthorized'' ''local'' []) (sample_world sample_audit) = (Inr (), t) \<and>
    filter (\<lambda>r. \<not> is_high_volume_audit_event (au_event_type r)) (audit_events (w_db t)) = audit_events sample_audit"
proof -
  let ?r = "run_state (append_audit_event sample_storage ''auth.unauthorized'' ''local'' []) (sample_world sample_audit)"
  have "fst ?r = Inr ()" by code_simp
  then have run: "?r = (Inr (), snd ?r)" by (metis prod.collapse)
  have high: "is_high_volume_audit_event ''auth.unauthorized''" by code_simp
  have ids: "distinct (map au_id (audit_events (w_db (sample_world sample_audit))))" by code_simp
  have few: "filter (\<lambda>r. \<not> is_high_volume_audit_event (au_event_type r)) (audit_events (w_db (sample_world sample_audit))) =
    audit_events sample_audit" "length (audit_events sample_audit) \<le> 4000" by code_simp+
  from audit_flood_bounded [OF run high ids] few run show ?thesis by auto
qed

end
