(* ===== verification/Apply_Ipc.thy ===== *)
theory Apply_Ipc
  imports Store
begin

text \<open>
  The local protocol between the daemon and the privileged helper (\<open>mr-services/src/apply/ipc.rs\<close>): requests, responses,
  the outcomes that a response may report, and the client's use of one connection. What the socket returns (a failure,
  or the bytes of an answer already decoded) is given from outside.
\<close>

section \<open>Operations and requests\<close>

definition op_apply_all :: string where "op_apply_all = ''APPLY_ALL''"
definition op_confirm :: string where "op_confirm = ''CONFIRM''"
definition op_commit_confirmed :: string where "op_commit_confirmed = ''COMMIT_CONFIRMED''"
definition op_reconcile :: string where "op_reconcile = ''RECONCILE''"
definition op_load_nftables :: string where "op_load_nftables = ''LOAD_NFTABLES''"
definition op_reload_service :: string where "op_reload_service = ''RELOAD_SERVICE''"
definition op_restore_snapshot :: string where "op_restore_snapshot = ''RESTORE_SNAPSHOT''"
definition op_wg_tunnel_status :: string where "op_wg_tunnel_status = ''WG_TUNNEL_STATUS''"
definition op_firewall_counters :: string where "op_firewall_counters = ''FIREWALL_COUNTERS''"

definition PROTOCOL_VERSION :: int where "PROTOCOL_VERSION = 1"

record apply_request =
  rq_version :: int
  rq_id :: string
  rq_op :: string
  rq_revision :: u64
  rq_config :: system_config
  rq_nftables :: string
  rq_pppoe_peer :: string
  rq_pppoe_secret :: string
  rq_dnsmasq :: string
  rq_hostapd :: string
  rq_wireguard :: string
  rq_service_name :: string
  rq_require_confirmation :: bool
  rq_verify_wg_client :: bool
  rq_tunnel_interface :: string
  rq_defer_last_good :: bool
  rq_skip_wan_verify :: bool

text \<open>
  \<open>ApplyRequest { id, op, config, ..Default::default() }\<close>. Every request of the engine names its configuration, so the
  default configuration of the derived \<open>Default\<close> is never sent.
\<close>

definition request_for :: "string \<Rightarrow> string \<Rightarrow> system_config \<Rightarrow> apply_request" where
  "request_for ident op cfg = \<lparr>rq_version = 0, rq_id = ident, rq_op = op, rq_revision = 0, rq_config = cfg, rq_nftables = [],
     rq_pppoe_peer = [], rq_pppoe_secret = [], rq_dnsmasq = [], rq_hostapd = [], rq_wireguard = [], rq_service_name = [],
     rq_require_confirmation = False, rq_verify_wg_client = False, rq_tunnel_interface = [], rq_defer_last_good = False,
     rq_skip_wan_verify = False\<rparr>"

section \<open>Responses\<close>

record tunnel_peer_status =
  tp_public_key :: string
  tp_endpoint :: string
  tp_last_handshake :: int
  tp_rx_bytes :: int
  tp_tx_bytes :: int

record tunnel_status =
  ts_interface :: string
  ts_endpoint :: string
  ts_last_handshake :: int
  ts_rx_bytes :: int
  ts_tx_bytes :: int
  ts_peers :: "tunnel_peer_status list"

record firewall_counters =
  fc_seen :: u64
  fc_accepted :: u64
  fc_generation :: string
  fc_observed_at :: time
  fc_policies :: "(string \<times> string) list"
  fc_loaded_revision :: "u64 option"
  fc_rule_packets :: "(string \<times> u64) list"

record apply_response =
  rs_id :: string
  rs_success :: bool
  rs_error :: string
  rs_logs :: string
  rs_verified :: bool
  rs_rolled_back :: bool
  rs_recovery_required :: bool
  rs_timestamp :: int
  rs_tunnel_status :: "tunnel_status option"
  rs_firewall_counters :: "firewall_counters option"

definition response_validate :: "apply_response \<Rightarrow> unit result" where
  "response_validate r =
     (if rs_success r then
        (if \<not> rs_verified r then Inl (Errorf ''successful response is not verified'')
         else if rs_rolled_back r then Inl (Errorf ''successful response also reports rollback'')
         else if rs_recovery_required r then Inl (Errorf ''successful response also requires recovery'')
         else Inr ())
      else if rs_verified r then Inl (Errorf ''failed response cannot report verified success'')
      else if rs_rolled_back r \<and> rs_recovery_required r
        then Inl (Errorf ''response cannot report both rollback and recovery required'')
      else Inr ())"

section \<open>One call\<close>

text \<open>What a connection gives: a failure of the transport with its message, trailing data, or one decoded response.\<close>

datatype reply = Transport error | Trailing | Reply apply_response

definition client_apply :: "apply_request \<Rightarrow> reply \<Rightarrow> apply_response result" where
  "client_apply req answer =
     (case answer of
        Transport e \<Rightarrow> Inl e
      | Trailing \<Rightarrow> Inl (Errorf ''router-applyd returned trailing data'')
      | Reply resp \<Rightarrow> if rs_id resp \<noteq> rq_id req then Inl (Errorf ''router-applyd response ID mismatch'') else Inr resp)"

lemma client_apply_ok: "client_apply req answer = Inr resp \<longleftrightarrow> answer = Reply resp \<and> rs_id resp = rq_id req"
  by (auto simp: client_apply_def split: reply.splits)

text \<open>The four outcomes of a response: a verified candidate, a rejection, a verified rollback, a need for recovery.\<close>

lemma response_outcomes:
  "response_validate r = Inr () \<longleftrightarrow>
   (rs_success r, rs_verified r, rs_rolled_back r, rs_recovery_required r) \<in>
     {(True, True, False, False), (False, False, False, False), (False, False, True, False), (False, False, False, True)}"
  by (cases "rs_success r"; cases "rs_verified r"; cases "rs_rolled_back r"; cases "rs_recovery_required r")
    (simp_all add: response_validate_def)

end
