(* ===== verification/Apply_Safety.thy ===== *)
theory Apply_Safety
  imports Apply_Ipc
begin

text \<open>
  Admission of a change (\<open>mr-services/src/apply/safety.rs\<close> and the pure functions of \<open>engine.rs\<close>): comparison of networks,
  safety of a transition, collisions with observed leases, the preview of a change, and the check of a tunnel
  handshake. The descriptions of changes by \<open>services\<close> are parameters, as is the observed lease table.
\<close>

section \<open>Networks\<close>

definition same_ipv4_network :: "string \<Rightarrow> string \<Rightarrow> bool" where
  "same_ipv4_network a b =
     (case (parse_cidr a, parse_cidr b) of
        (Some (_, an), Some (_, bn)) \<Rightarrow>
          (if to4 (net_ip an) \<noteq> None \<and> to4 (net_ip bn) \<noteq> None
           then (let (a_ones, a_bits) = mask_size (net_mask an); (b_ones, b_bits) = mask_size (net_mask bn)
                 in a_bits = 32 \<and> b_bits = 32 \<and> a_ones = b_ones \<and> ip_equal (net_ip an) (net_ip bn))
           else False)
      | _ \<Rightarrow> False)"

definition cidr_contained_by_any :: "string \<Rightarrow> string list \<Rightarrow> bool" where
  "cidr_contained_by_any candidate zones =
     (case parse_cidr candidate of
        None \<Rightarrow> False
      | Some (_, candidate_net) \<Rightarrow>
          (if to4 (net_ip candidate_net) = None then False
           else (let (candidate_ones, candidate_bits) = mask_size (net_mask candidate_net)
                 in if candidate_bits \<noteq> 32 then False
                    else list_ex (\<lambda>(_, zone). let (zone_ones, zone_bits) = mask_size (net_mask zone)
                           in to4 (net_ip zone) \<noteq> None \<and> zone_bits = 32 \<and> candidate_ones \<ge> zone_ones \<and>
                              ipnet_contains zone (net_ip candidate_net))
                         (List.map_filter parse_cidr zones))))"

definition validate_transition_safety :: "system_config \<Rightarrow> system_config \<Rightarrow> unit result" where
  "validate_transition_safety current candidate =
     (if lan_cidr (lan current) = lan_cidr (lan candidate) then Inr ()
      else case (parse_cidr (lan_cidr (lan current)), parse_cidr (lan_cidr (lan candidate))) of
        (Some (_, old_net), Some (_, new_net)) \<Rightarrow>
          (if to4 (net_ip old_net) = None \<or> to4 (net_ip new_net) = None \<or> ipnet_string old_net = ipnet_string new_net then Inr ()
           else
             (let new_network = ipnet_string new_net
              in if \<not> cidr_contained_by_any new_network (items (trusted_networks current))
                 then Inl (Errorf (''LAN subnet migration requires the new subnet '' @ new_network @
                   '' to be added to trusted_networks in a separate confirmed transaction first''))
                 else if \<not> cidr_contained_by_any new_network (items (trusted_networks candidate))
                 then Inl (Errorf (''LAN subnet migration candidate must retain trusted management access for the new subnet '' @ new_network))
                 else Inr ()))
      | _ \<Rightarrow> Inr ())"

section \<open>Observed leases\<close>

record dhcp_lease =
  dl_expires_at :: int
  dl_mac :: string
  dl_ip_address :: string
  dl_hostname :: string

record dhcp_lease_snapshot =
  ds_available :: bool
  ds_collected_at :: time
  ds_truncated :: bool
  ds_rejected_entries :: int
  ds_error :: string
  ds_leases :: "dhcp_lease list"

text \<open>A later entry with the same key replaces an earlier one in both \<open>HashMap\<close>s.\<close>

definition previous_by_id :: "static_lease list \<Rightarrow> string \<Rightarrow> static_lease option" where
  "previous_by_id leases = map_of (rev (map (\<lambda>r. (sl_id r, r)) leases))"

definition reservation_unchanged :: "static_lease list \<Rightarrow> static_lease \<Rightarrow> bool" where
  "reservation_unchanged old r = is_some_and (previous_by_id old (sl_id r))
     (\<lambda>p. ipv4_identity (sl_ip_address p) = ipv4_identity (sl_ip_address r) \<and> mac_identity (sl_mac p) = mac_identity (sl_mac r))"

definition changed_by_ip :: "static_lease list \<Rightarrow> static_lease list \<Rightarrow> string \<Rightarrow> string option" where
  "changed_by_ip old new =
     map_of (rev (map (\<lambda>r. (ipv4_identity (sl_ip_address r), mac_identity (sl_mac r))) (filter (\<lambda>r. \<not> reservation_unchanged old r) new)))"

fun lease_collision :: "string \<Rightarrow> string \<Rightarrow> (string \<Rightarrow> string option) \<Rightarrow> dhcp_lease list \<Rightarrow> unit result" where
  "lease_collision current_gateway candidate_gateway changed [] = Inr ()"
| "lease_collision current_gateway candidate_gateway changed (lease # ls) =
     (let lease_ip = ipv4_identity (dl_ip_address lease)
      in if candidate_gateway \<noteq> current_gateway \<and> candidate_gateway = lease_ip
         then Inl (Errorf (''new LAN gateway is currently leased to '' @ dl_mac lease))
         else if is_some_and (changed lease_ip) (\<lambda>mac. mac \<noteq> mac_identity (dl_mac lease))
         then Inl (Errorf (''reserved address '' @ dl_ip_address lease @ '' is currently leased to '' @ dl_mac lease))
         else lease_collision current_gateway candidate_gateway changed ls)"

definition inspect_lan_observation :: "system_config \<Rightarrow> system_config \<Rightarrow> dhcp_lease_snapshot \<Rightarrow> string list result" where
  "inspect_lan_observation current candidate observed =
     (case lease_collision (ipv4_identity (lan_ip_address (lan current))) (ipv4_identity (lan_ip_address (lan candidate)))
             (changed_by_ip (items (dhcp_static_leases (dhcp current))) (items (dhcp_static_leases (dhcp candidate)))) (ds_leases observed) of
        Inl e \<Rightarrow> Inl e
      | Inr _ \<Rightarrow>
          (if \<not> ds_available observed \<or> ds_truncated observed \<or> ds_rejected_entries observed > 0
           then Inr [''DHCP observation is unavailable or incomplete; check for address conflicts before applying.'']
           else Inr [''Only known DHCP collisions were checked. Manually configured devices may not be observed.'']))"

definition inspect_lan_change :: "codec \<Rightarrow> dhcp_lease_snapshot \<Rightarrow> system_config \<Rightarrow> system_config \<Rightarrow> string list result" where
  "inspect_lan_change j observed current candidate =
     (if lan_ip_address (lan current) = lan_ip_address (lan candidate) \<and>
         equal_section j (list_json static_lease_json (dhcp_static_leases (dhcp current)))
           (list_json static_lease_json (dhcp_static_leases (dhcp candidate)))
      then Inr []
      else inspect_lan_observation current candidate observed)"

section \<open>Preview\<close>

record change_preview =
  cp_changes :: "string list"
  cp_risk :: string
  cp_requires_confirmation :: bool
  cp_rollback_seconds :: int
  cp_expected_interruption :: string
  cp_firewall_changes :: "string list"
  cp_firewall_warnings :: "string list"
  cp_network_changes :: "string list"
  cp_network_warnings :: "string list"

record describers =
  describe_firewall_changes :: "firewall_config \<Rightarrow> firewall_config \<Rightarrow> string list"
  firewall_warnings :: "system_config \<Rightarrow> string list"
  describe_network_changes :: "system_config \<Rightarrow> system_config \<Rightarrow> string list"

definition CONFIRMATION_TIMEOUT_SECS :: int where
  "CONFIRMATION_TIMEOUT_SECS = 90"

definition section_equalities :: "codec \<Rightarrow> system_config \<Rightarrow> system_config \<Rightarrow> (string \<times> bool) list" where
  "section_equalities j c n =
     [(''System / management'', equal_section j (system_settings_json (system c)) (system_settings_json (system n))),
      (''WAN / PPPoE'', equal_section j (wan_json (wan c)) (wan_json (wan n))),
      (''LAN'', equal_section j (lan_json (lan c)) (lan_json (lan n))),
      (''DHCP / DNS'', equal_section j (dhcp_json (dhcp c)) (dhcp_json (dhcp n)) \<and> equal_section j (dns_settings_json (dns c)) (dns_settings_json (dns n))),
      (''Firewall'', equal_section j (firewall_json (firewall c)) (firewall_json (firewall n))),
      (''WireGuard'', equal_section j (wireguard_json (wireguard c)) (wireguard_json (wireguard n)) \<and>
         equal_section j (wg_client_json (wg_client c)) (wg_client_json (wg_client n))),
      (''Dynamic DNS / tunnel'', equal_section j (cloudflare_json (cloudflare c)) (cloudflare_json (cloudflare n))),
      (''Squid proxy'', equal_section j (squid_proxy_json (squid_proxy c)) (squid_proxy_json (squid_proxy n))),
      (''DNS filtering / device profiles'', equal_section j (dns_filter_json (adguard c)) (dns_filter_json (adguard n))),
      (''QoS'', equal_section j (qos_json (qos c)) (qos_json (qos n))),
      (''Traffic accounting'', equal_section j (accounting_json (accounting c)) (accounting_json (accounting n))),
      (''Wi-Fi'', equal_section j (wifi_json (wifi c)) (wifi_json (wifi n))),
      (''Trusted management networks'', equal_section j (list_json JStr (trusted_networks c)) (list_json JStr (trusted_networks n)))]"

definition changed_sections :: "codec \<Rightarrow> system_config \<Rightarrow> system_config \<Rightarrow> string list" where
  "changed_sections j c n = map fst (filter (\<lambda>(_, equal). \<not> equal) (section_equalities j c n))"

fun live_error_error :: "live_error \<Rightarrow> error" where
  "live_error_error (Invalid es) = Errorf (validation_errors_text es)"
| "live_error_error (Baseline p es) = Wrapf p (Errorf (validation_errors_text es))"

definition live_candidate :: "env \<Rightarrow> system_config \<Rightarrow> system_config \<Rightarrow> unit result" where
  "live_candidate v candidate current =
     (case validate_live_candidate v candidate (Some current) of Inl e \<Rightarrow> Inl (live_error_error e) | Inr _ \<Rightarrow> Inr ())"

definition preview_result :: "codec \<Rightarrow> describers \<Rightarrow> system_config \<Rightarrow> system_config \<Rightarrow> string list \<Rightarrow> change_preview" where
  "preview_result j x current candidate warnings =
     (let changes = changed_sections j current candidate;
          confirmation = requires_confirmation j current candidate
      in \<lparr>cp_changes = changes,
          cp_risk = (if confirmation then ''high''
            else if list_ex (\<lambda>c. c \<in> set [''WAN / PPPoE'', ''Firewall'', ''WireGuard'', ''DHCP / DNS'', ''QoS'']) changes then ''medium''
            else ''low''),
          cp_requires_confirmation = confirmation,
          cp_rollback_seconds = (if confirmation then CONFIRMATION_TIMEOUT_SECS else 0),
          cp_expected_interruption =
            (if changes = [] then ''No effective configuration changes detected.''
             else if confirmation then ''Management connectivity may change. The candidate is provisional until confirmed.''
             else ''No management interruption expected. Affected services may restart briefly.''),
          cp_firewall_changes = describe_firewall_changes x (firewall current) (firewall candidate),
          cp_firewall_warnings = firewall_warnings x candidate,
          cp_network_changes = describe_network_changes x current candidate,
          cp_network_warnings = warnings\<rparr>)"

definition preview_transition ::
  "env \<Rightarrow> codec \<Rightarrow> describers \<Rightarrow> dhcp_lease_snapshot \<Rightarrow> system_config \<Rightarrow> system_config \<Rightarrow> change_preview result" where
  "preview_transition v j x observed current candidate =
     (if revision candidate \<noteq> revision current
      then Inl (Errorf (''stale revision: expected '' @ nat_string (unat (revision current)) @ '', received '' @ nat_string (unat (revision candidate))))
      else if lan_interface (lan candidate) \<noteq> lan_interface (lan current)
      then Inl (Errorf ''live LAN interface changes are unsupported; use the local recovery console'')
      else if \<not> same_ipv4_network (lan_cidr (lan current)) (lan_cidr (lan candidate))
      then Inl (Errorf ''live LAN subnet changes are unsupported; use the local recovery console'')
      else if sys_https_port (system candidate) \<noteq> sys_https_port (system current)
      then Inl (Errorf ''live management-port changes are unsupported'')
      else if sys_management_access (system candidate) = ''wireguard_only'' \<and> sys_management_access (system current) \<noteq> ''wireguard_only'' \<and>
              \<not> wg_enabled (wireguard current)
      then Inl (Errorf ''enable and verify WireGuard in a separate transaction before restricting management access'')
      else case map_err (Wrapf ''validation failed'') (live_candidate v candidate current) of
        Inl e \<Rightarrow> Inl e
      | Inr _ \<Rightarrow>
          (case map_err (Wrapf ''transition safety validation failed'') (validate_transition_safety current candidate) of
             Inl e \<Rightarrow> Inl e
           | Inr _ \<Rightarrow>
               (case inspect_lan_change j observed current candidate of
                  Inl e \<Rightarrow> Inl e
                | Inr warnings \<Rightarrow> Inr (preview_result j x current candidate warnings))))"

section \<open>Handshakes\<close>

definition sat_i64 :: "int \<Rightarrow> int" where
  "sat_i64 n = max i64_min (min i64_max n)"

definition verify_wg_client_handshake :: "int \<Rightarrow> int \<Rightarrow> int option \<Rightarrow> int \<Rightarrow> unit result" where
  "verify_wg_client_handshake last_handshake keepalive not_before t =
     (if last_handshake \<le> 0 then Inl (Errorf ''WireGuard client tunnel has no completed handshake'')
      else if last_handshake > sat_i64 (t + 30) then Inl (Errorf ''WireGuard client handshake timestamp is in the future'')
      else if is_some_and not_before (\<lambda>start. start \<le> 0 \<or> last_handshake < start)
      then Inl (Errorf ''WireGuard client requires a new handshake after configuration activation'')
      else if (keepalive > 0 \<or> not_before \<noteq> None) \<and> sat_i64 (t - last_handshake) > max 180 (sat_i64 (keepalive * 3))
      then Inl (Errorf ''WireGuard client handshake is stale'')
      else Inr ())"

end
