(* ===== verification/Engine.thy ===== *)
theory Engine
  imports Apply_Safety
begin

text \<open>
  The configuration transaction engine (\<open>mr-services/src/apply/engine.rs\<close>). Transactions and timers are shared objects and
  live in lists of the state; \<open>active_tx\<close> and the pending change refer to them by position. The answers of the
  privileged helper are consumed from a list; every request is recorded together with the tables of the store at that
  moment. The operation mutex makes each public operation one step. The generators of service files are parameters.
\<close>

section \<open>State\<close>

datatype tx_state = Received | Planned | Generated | Snapshotted | Applied | Verified | AwaitingConfirmation
  | Committed | RolledBack | RecoveryRequired | Rejected

fun tx_state_str :: "tx_state \<Rightarrow> string" where
  "tx_state_str Received = ''Received''"
| "tx_state_str Planned = ''Planned''"
| "tx_state_str Generated = ''Generated''"
| "tx_state_str Snapshotted = ''Snapshotted''"
| "tx_state_str Applied = ''Applied''"
| "tx_state_str Verified = ''Verified''"
| "tx_state_str AwaitingConfirmation = ''AwaitingConfirmation''"
| "tx_state_str Committed = ''Committed''"
| "tx_state_str RolledBack = ''RolledBack''"
| "tx_state_str RecoveryRequired = ''RecoveryRequired''"
| "tx_state_str Rejected = ''Rejected''"

record transaction =
  tx_id :: string
  tx_current_state :: tx_state
  tx_config :: system_config
  tx_diff :: string
  tx_error :: string
  tx_created_at :: time
  tx_confirmed_at :: "time option"
  tx_confirmation_deadline :: "time option"
  tx_firewall_changed :: bool

record timer =
  ti_tx_id :: string
  ti_delay :: nat
  ti_cancelled :: bool

record pending_change =
  pc_tx :: nat
  pc_handshake_not_before :: int
  pc_previous :: system_config
  pc_timer :: "nat option"
  pc_rollback_attempts :: nat
  pc_commit_attempts :: nat
  pc_canonical_committed :: bool

datatype attempt = Expired | Attempt reply

record engine = world +
  e_active_tx :: "nat option"
  e_applying :: bool
  e_current_config :: system_config
  e_pending :: "pending_change option"
  e_recovery_required :: bool
  e_recovery_reason :: string
  e_has_store :: bool
  e_txs :: "transaction list"
  e_timers :: "timer list"
  e_leases :: dhcp_lease_snapshot
  e_answers :: "attempt list"
  e_requests :: "(apply_request \<times> store) list"

record generators =
  generate_nftables :: "system_config \<Rightarrow> string result"
  generate_pppoe :: "system_config \<Rightarrow> (string \<times> string) result"
  generate_dnsmasq :: "system_config \<Rightarrow> string result"
  generate_hostapd :: "system_config \<Rightarrow> string result"
  generate_wireguard :: "wireguard_config \<Rightarrow> string result"

record deps =
  dp_env :: env
  dp_storage :: storage
  dp_generators :: generators

definition CONFIRMATION_TIMEOUT :: nat where "CONFIRMATION_TIMEOUT = 90"
definition ROLLBACK_RETRY_DELAY :: nat where "ROLLBACK_RETRY_DELAY = 10"
definition MAXIMUM_ROLLBACK_ATTEMPTS :: nat where "MAXIMUM_ROLLBACK_ATTEMPTS = 5"
definition PRIVILEGED_APPLY_ATTEMPTS :: nat where "PRIVILEGED_APPLY_ATTEMPTS = 2"

definition with_client :: "engine \<Rightarrow> system_config \<Rightarrow> bool \<Rightarrow> engine" where
  "with_client s initial has_store = s\<lparr>e_active_tx := None, e_applying := False, e_current_config := initial,
     e_pending := None, e_recovery_required := False, e_recovery_reason := [], e_has_store := has_store,
     e_txs := [], e_timers := [], e_requests := []\<rparr>"

section \<open>Small operations\<close>

definition modify_tx :: "nat \<Rightarrow> (transaction \<Rightarrow> transaction) \<Rightarrow> (engine, unit) state" where
  "modify_tx r f = State_Monad.update (\<lambda>s. s\<lparr>e_txs := (e_txs s)[r := f (e_txs s ! r)]\<rparr>)"

definition set_tx :: "nat \<Rightarrow> tx_state \<Rightarrow> string option \<Rightarrow> (engine, unit) state" where
  "set_tx r st err = modify_tx r (\<lambda>t. t\<lparr>tx_current_state := st, tx_error := (case err of None \<Rightarrow> tx_error t | Some m \<Rightarrow> m)\<rparr>)"

definition require_recovery :: "string \<Rightarrow> (engine, unit) state" where
  "require_recovery reason = State_Monad.update (\<lambda>s. s\<lparr>e_recovery_required := True, e_recovery_reason := reason\<rparr>)"

definition clear_recovery :: "(engine, unit) state" where
  "clear_recovery = State_Monad.update (\<lambda>s. s\<lparr>e_recovery_required := False, e_recovery_reason := []\<rparr>)"

definition timer_after :: "nat \<Rightarrow> string \<Rightarrow> (engine, nat) state" where
  "timer_after delay ident = do {
     s \<leftarrow> State_Monad.get;
     State_Monad.set (s\<lparr>e_timers := e_timers s @ [\<lparr>ti_tx_id = ident, ti_delay = delay, ti_cancelled = False\<rparr>]\<rparr>);
     State_Monad.return (length (e_timers s)) }"

definition timer_stop :: "nat option \<Rightarrow> (engine, unit) state" where
  "timer_stop timer = (case timer of None \<Rightarrow> State_Monad.return ()
     | Some i \<Rightarrow> State_Monad.update (\<lambda>s. s\<lparr>e_timers := (e_timers s)[i := (e_timers s ! i)\<lparr>ti_cancelled := True\<rparr>]\<rparr>))"

definition modify_pending :: "(pending_change \<Rightarrow> pending_change) \<Rightarrow> (engine, unit) state" where
  "modify_pending f = State_Monad.update (\<lambda>s. s\<lparr>e_pending := map_option f (e_pending s)\<rparr>)"

section \<open>The privileged helper\<close>

definition next_attempt :: "(engine, attempt) state" where
  "next_attempt = do { s \<leftarrow> State_Monad.get;
     case e_answers s of [] \<Rightarrow> State_Monad.return Expired
     | a # as \<Rightarrow> do { State_Monad.set (s\<lparr>e_answers := as\<rparr>); State_Monad.return a } }"

definition log_request :: "apply_request \<Rightarrow> (engine, unit) state" where
  "log_request req = State_Monad.update (\<lambda>s. s\<lparr>e_requests := e_requests s @ [(req\<lparr>rq_version := PROTOCOL_VERSION\<rparr>, w_db s)]\<rparr>)"

primrec apply_attempts :: "nat \<Rightarrow> error option \<Rightarrow> apply_request \<Rightarrow> (engine, apply_response result) state" where
  "apply_attempts 0 last_err req =
     State_Monad.return (Inl (case last_err of Some e \<Rightarrow> e | None \<Rightarrow> Errorf ''router-applyd returned an empty response''))"
| "apply_attempts (Suc n) last_err req = do {
     a \<leftarrow> next_attempt;
     case a of
       Expired \<Rightarrow> State_Monad.return (Inl (case last_err of Some e \<Rightarrow> e | None \<Rightarrow> Errorf ''context deadline exceeded''))
     | Attempt answer \<Rightarrow> do {
         log_request req;
         case client_apply req answer of
           Inr resp \<Rightarrow> State_Monad.return (case response_validate resp of
               Inl e \<Rightarrow> Inl (Wrapf ''router-applyd returned an invalid outcome'' e)
             | Inr _ \<Rightarrow> Inr resp)
         | Inl e \<Rightarrow> apply_attempts n (Some e) req } }"

definition apply_privileged :: "apply_request \<Rightarrow> (engine, apply_response result) state" where
  "apply_privileged req = apply_attempts PRIVILEGED_APPLY_ATTEMPTS None req"

definition privileged :: "apply_request \<Rightarrow> (engine, apply_response result) state" where
  "privileged req = do {
     State_Monad.update (\<lambda>s. s\<lparr>e_applying := True\<rparr>);
     r \<leftarrow> apply_privileged req;
     State_Monad.update (\<lambda>s. s\<lparr>e_applying := False\<rparr>);
     State_Monad.return r }"

definition build_apply_request :: "generators \<Rightarrow> string \<Rightarrow> system_config \<Rightarrow> (string \<times> error) + apply_request" where
  "build_apply_request g ident cfg =
     (case generate_nftables g cfg of Inl e \<Rightarrow> Inl (''nftables'', e) | Inr nftables \<Rightarrow>
     (case generate_pppoe g cfg of Inl e \<Rightarrow> Inl (''pppd'', e) | Inr (peer_config, chap_secrets) \<Rightarrow>
     (case generate_dnsmasq g cfg of Inl e \<Rightarrow> Inl (''dnsmasq'', e) | Inr dnsmasq \<Rightarrow>
     (case generate_hostapd g cfg of Inl e \<Rightarrow> Inl (''hostapd'', e) | Inr hostapd \<Rightarrow>
     (case generate_wireguard g (wireguard cfg) of Inl e \<Rightarrow> Inl (''WireGuard'', e) | Inr wg \<Rightarrow>
       Inr ((request_for ident op_apply_all cfg)\<lparr>rq_revision := revision cfg, rq_nftables := nftables, rq_pppoe_peer := peer_config,
         rq_pppoe_secret := chap_secrets, rq_dnsmasq := dnsmasq, rq_hostapd := hostapd, rq_wireguard := wg\<rparr>))))))"

section \<open>Audit\<close>

definition audit_reason :: "tx_state \<Rightarrow> string \<Rightarrow> string" where
  "audit_reason st phase =
     (if phase = ''timeout_rollback'' then ''confirmation_deadline_expired''
      else case st of
        Committed \<Rightarrow> ''configuration_committed''
      | AwaitingConfirmation \<Rightarrow> ''confirmation_required''
      | Rejected \<Rightarrow> ''configuration_rejected''
      | RolledBack \<Rightarrow> ''previous_configuration_restored''
      | RecoveryRequired \<Rightarrow> ''recovery_required''
      | _ \<Rightarrow> ''state_recorded'')"

definition audit_details :: "transaction \<Rightarrow> u64 \<Rightarrow> string \<Rightarrow> bool \<Rightarrow> (string \<times> string) list" where
  "audit_details t previous phase outcome =
     [(''candidate_revision'', nat_string (unat (revision (tx_config t))))] @
     (if outcome then [(''has_error'', if tx_error t \<noteq> [] then ''true'' else ''false'')] else []) @
     [(''phase'', phase), (''previous_revision'', nat_string (unat previous)), (''reason'', audit_reason (tx_current_state t) phase),
      (''state'', tx_state_str (tx_current_state t)), (''transaction_id'', tx_id t)]"

definition audit_transaction :: "storage \<Rightarrow> nat \<Rightarrow> u64 \<Rightarrow> string \<Rightarrow> (engine, unit) state" where
  "audit_transaction k r previous phase = do {
     s \<leftarrow> State_Monad.get;
     if \<not> e_has_store s then State_Monad.return ()
     else (let t = e_txs s ! r in do {
       (if tx_firewall_changed t
        then do { _ \<leftarrow> append_audit_event k ''firewall.transaction'' ''local'' (audit_details t previous phase False); State_Monad.return () }
        else State_Monad.return ());
       _ \<leftarrow> append_audit_event k ''config.transaction'' ''local'' (audit_details t previous phase True);
       State_Monad.return () }) }"


section \<open>Applying a change\<close>

type_synonym commit_fn = "system_config \<Rightarrow> (engine, unit result) state"

text \<open>The guards before anything is sent: the state and message for the transaction, and the error of the call.\<close>

definition reject :: "tx_state \<Rightarrow> string \<Rightarrow> (tx_state \<times> string \<times> error) + 'a" where
  "reject st msg = Inl (st, msg, Errorf msg)"

definition admission :: "deps \<Rightarrow> engine \<Rightarrow> system_config \<Rightarrow> bool \<Rightarrow> (tx_state \<times> string \<times> error) + unit" where
  "admission x s new_cfg allow_interface_change =
     (let current = e_current_config s; j = st_codec (dp_storage x)
      in if e_recovery_required s
         then reject RecoveryRequired (''configuration changes are blocked until canonical reconciliation succeeds'' @
           (if e_recovery_reason s \<noteq> [] then '': '' @ e_recovery_reason s else []))
         else if e_pending s \<noteq> None then reject Rejected ''another configuration is awaiting confirmation''
         else if revision new_cfg \<noteq> revision current
         then reject Rejected (''stale revision: expected '' @ nat_string (unat (revision current)) @ '', received '' @ nat_string (unat (revision new_cfg)))
         else if \<not> allow_interface_change \<and> lan_interface (lan new_cfg) \<noteq> lan_interface (lan current)
         then reject Rejected ''live LAN interface changes are unsupported; use the local recovery console''
         else if \<not> allow_interface_change \<and> \<not> same_ipv4_network (lan_cidr (lan current)) (lan_cidr (lan new_cfg))
         then reject Rejected ''live LAN subnet changes are unsupported; use the local recovery console''
         else if sys_https_port (system new_cfg) \<noteq> sys_https_port (system current)
         then reject Rejected ''live management-port changes are unsupported''
         else if sys_management_access (system new_cfg) = ''wireguard_only'' \<and> sys_management_access (system current) \<noteq> ''wireguard_only'' \<and>
                 \<not> wg_enabled (wireguard current)
         then reject Rejected ''enable and verify WireGuard in a separate transaction before restricting management access''
         else case live_candidate (dp_env x) new_cfg current of
           Inl err \<Rightarrow> Inl (Rejected, ''Validation failed: '' @ error_text err, err)
         | Inr _ \<Rightarrow>
             (if allow_interface_change then Inr ()
              else case inspect_lan_change j (e_leases s) current new_cfg of
                Inl err \<Rightarrow> Inl (Rejected, error_text err, err)
              | Inr _ \<Rightarrow>
                  (case validate_transition_safety current new_cfg of
                     Inl err \<Rightarrow> Inl (Rejected, ''Transition safety validation failed: '' @ error_text err, err)
                   | Inr _ \<Rightarrow> Inr ())))"

text \<open>\<open>checked_add(1)\<close> within the range of SQLite.\<close>

definition next_revision :: "u64 \<Rightarrow> u64 option" where
  "next_revision r = (case checked_next r of Some n \<Rightarrow> if unat n \<le> 2 ^ 63 - 1 then Some n else None | None \<Rightarrow> None)"

definition commit_config :: "deps \<Rightarrow> commit_fn option \<Rightarrow> bool \<Rightarrow> commit_fn option" where
  "commit_config x commit has_store =
     (case commit of Some c \<Rightarrow> Some c
      | None \<Rightarrow> if has_store then Some (save_config (dp_env x) (dp_storage x)) else None)"

text \<open>The answer did not verify the candidate: the transaction fails, and an unknown outcome blocks the engine.\<close>

definition fail_tx :: "nat \<Rightarrow> tx_state \<Rightarrow> string \<Rightarrow> error \<Rightarrow> (engine, 'a result) state" where
  "fail_tx r st msg err = do {
     set_tx r st (Some msg);
     (if st = RecoveryRequired then require_recovery msg else State_Monad.return ());
     State_Monad.return (Inl err) }"

definition await_confirmation :: "nat \<Rightarrow> string \<Rightarrow> system_config \<Rightarrow> int \<Rightarrow> (engine, unit result) state" where
  "await_confirmation r ident current handshake_not_before = do {
     t \<leftarrow> now;
     modify_tx r (\<lambda>tx. tx\<lparr>tx_current_state := AwaitingConfirmation,
       tx_confirmation_deadline := Some (time_add t (from_std (int CONFIRMATION_TIMEOUT * SECOND)))\<rparr>);
     timer \<leftarrow> timer_after CONFIRMATION_TIMEOUT ident;
     State_Monad.update (\<lambda>s. s\<lparr>e_pending := Some \<lparr>pc_tx = r, pc_handshake_not_before = handshake_not_before, pc_previous = current,
       pc_timer = Some timer, pc_rollback_attempts = 0, pc_commit_attempts = 0, pc_canonical_committed = False\<rparr>\<rparr>);
     State_Monad.return (Inr ()) }"

definition verified_restore :: "apply_response result \<Rightarrow> bool" where
  "verified_restore res = (case res of Inr r \<Rightarrow> rs_success r \<and> rs_verified r \<and> \<not> rs_recovery_required r | Inl _ \<Rightarrow> False)"

text \<open>The store refused the verified candidate: the helper is asked to restore the current configuration.\<close>

definition undo_apply :: "deps \<Rightarrow> nat \<Rightarrow> string \<Rightarrow> error \<Rightarrow> (engine, unit result) state" where
  "undo_apply x r ident err = do {
     s \<leftarrow> State_Monad.get;
     (let msg = ''failed to commit config store: '' @ error_text err
      in case build_apply_request (dp_generators x) (ident @ ''-rollback'') (e_current_config s) of
        Inl _ \<Rightarrow> fail_tx r RecoveryRequired (msg @ ''; rollback request could not be generated and recovery is required'') err
      | Inr req \<Rightarrow> do {
          res \<leftarrow> privileged req;
          if verified_restore res
          then fail_tx r RolledBack (msg @ ''; previous configuration was verified restored'') err
          else fail_tx r RecoveryRequired (msg @ ''; rollback could not be verified and recovery is required'') err }) }"

text \<open>The helper's acknowledgement of a configuration that is already stored.\<close>

definition ack_failure :: "string \<Rightarrow> string \<Rightarrow> apply_response result \<Rightarrow> string option" where
  "ack_failure unknown failed res =
     (case res of
        Inl e \<Rightarrow> Some (unknown @ error_text e)
      | Inr r \<Rightarrow> if \<not> rs_success r \<or> \<not> rs_verified r then Some (failed @ rs_error r) else None)"

definition commit_request :: "string \<Rightarrow> system_config \<Rightarrow> apply_request" where
  "commit_request ident cfg = (request_for ident op_commit_confirmed cfg)\<lparr>rq_revision := revision cfg, rq_skip_wan_verify := True\<rparr>"

definition acknowledge :: "nat \<Rightarrow> string \<Rightarrow> system_config \<Rightarrow> (engine, unit result) state" where
  "acknowledge r ident new_cfg = do {
     res \<leftarrow> privileged (commit_request (ident @ ''-commit-canonical-0'') new_cfg);
     case ack_failure ''canonical configuration was committed but helper last-good acknowledgement is unknown: ''
            ''canonical configuration was committed but the helper last-good acknowledgement failed: '' res of
       Some msg \<Rightarrow> fail_tx r RecoveryRequired msg (Errorf ''helper commit acknowledgement failed'')
     | None \<Rightarrow> State_Monad.return (Inr ()) }"

definition finish_commit :: "nat \<Rightarrow> system_config \<Rightarrow> (engine, unit result) state" where
  "finish_commit r new_cfg = do {
     set_tx r Committed None;
     State_Monad.update (\<lambda>s. s\<lparr>e_current_config := new_cfg\<rparr>);
     State_Monad.return (Inr ()) }"

definition commit_verified :: "deps \<Rightarrow> nat \<Rightarrow> string \<Rightarrow> system_config \<Rightarrow> bool \<Rightarrow> commit_fn option \<Rightarrow> (engine, unit result) state" where
  "commit_verified x r ident new_cfg defer_last_good commit =
     (case commit of
        None \<Rightarrow> finish_commit r new_cfg
      | Some c \<Rightarrow> do {
          res \<leftarrow> c new_cfg;
          case res of
            Inl err \<Rightarrow> undo_apply x r ident err
          | Inr _ \<Rightarrow> do {
              State_Monad.update (\<lambda>s. s\<lparr>e_current_config := new_cfg\<rparr>);
              and_then (if defer_last_good then acknowledge r ident new_cfg else State_Monad.return (Inr ()))
                (\<lambda>_. finish_commit r new_cfg) } })"

definition activate_candidate ::
  "deps \<Rightarrow> nat \<Rightarrow> string \<Rightarrow> system_config \<Rightarrow> system_config \<Rightarrow> apply_request \<Rightarrow> bool \<Rightarrow> commit_fn option \<Rightarrow> (engine, unit result) state" where
  "activate_candidate x r ident current new_cfg request allow_interface_change commit =
     (let confirm = \<not> allow_interface_change \<and> requires_confirmation (st_codec (dp_storage x)) current new_cfg;
          apply_req = request\<lparr>rq_require_confirmation := confirm, rq_defer_last_good := \<not> confirm \<and> commit \<noteq> None\<rparr>
      in do {
        t \<leftarrow> now;
        res \<leftarrow> privileged apply_req;
        case res of
          Inl err \<Rightarrow>
            (let msg = ''privileged apply outcome remained unknown after retry; recovery or reboot reconciliation is required: '' @ error_text err
             in fail_tx r RecoveryRequired msg (Errorf msg))
        | Inr resp \<Rightarrow>
            (if \<not> rs_success resp then
               fail_tx r (if rs_recovery_required resp then RecoveryRequired else if rs_rolled_back resp then RolledBack else Rejected)
                 (''privileged apply failed: '' @ rs_error resp) (Errorf (''apply rejected by router-applyd: '' @ rs_error resp))
             else do {
               set_tx r Applied None;
               if \<not> rs_verified resp then
                 (let msg = ''router-applyd did not verify the active configuration; recovery is required''
                  in fail_tx r RecoveryRequired msg (Errorf msg))
               else do {
                 modify_tx r (\<lambda>tx. tx\<lparr>tx_current_state := Verified, tx_config := new_cfg\<rparr>);
                 if confirm then await_confirmation r ident current (unix t)
                 else commit_verified x r ident new_cfg (rq_defer_last_good apply_req) commit } }) })"

definition pre_apply_snapshot :: "deps \<Rightarrow> system_config \<Rightarrow> (engine, unit result) state" where
  "pre_apply_snapshot x current = and_then (create_snapshot (dp_storage x) current) (\<lambda>_. State_Monad.return (Inr ()))"

definition snapshot_and_activate ::
  "deps \<Rightarrow> nat \<Rightarrow> string \<Rightarrow> system_config \<Rightarrow> system_config \<Rightarrow> apply_request \<Rightarrow> bool \<Rightarrow> commit_fn option \<Rightarrow> (engine, unit result) state" where
  "snapshot_and_activate x r ident current new_cfg request allow_interface_change commit = do {
     s \<leftarrow> State_Monad.get;
     snap \<leftarrow> (if e_has_store s then pre_apply_snapshot x current else State_Monad.return (Inr ()));
     case snap of
       Inl err \<Rightarrow> fail_tx r Rejected (''Pre-apply snapshot creation failed: '' @ error_text err) err
     | Inr _ \<Rightarrow> do {
         set_tx r Snapshotted None;
         activate_candidate x r ident current new_cfg request allow_interface_change commit } }"

definition prepare_candidate ::
  "deps \<Rightarrow> nat \<Rightarrow> string \<Rightarrow> system_config \<Rightarrow> system_config \<Rightarrow> u64 \<Rightarrow> bool \<Rightarrow> commit_fn option \<Rightarrow> (engine, unit result) state" where
  "prepare_candidate x r ident current new_cfg0 rev_no allow_interface_change commit = do {
     t \<leftarrow> now;
     (let new_cfg = new_cfg0\<lparr>revision := rev_no, updated_at := t\<rparr> in do {
       modify_tx r (\<lambda>tx. tx\<lparr>tx_config := new_cfg, tx_current_state := Planned\<rparr>);
       case build_apply_request (dp_generators x) ident new_cfg of
         Inl (what, err) \<Rightarrow> fail_tx r Rejected (what @ '' generator failed: '' @ error_text err) err
       | Inr request \<Rightarrow> do {
           set_tx r Generated None;
           snapshot_and_activate x r ident current new_cfg request allow_interface_change commit } }) }"

definition process_locked ::
  "deps \<Rightarrow> nat \<Rightarrow> string \<Rightarrow> system_config \<Rightarrow> bool \<Rightarrow> commit_fn option \<Rightarrow> (engine, unit result) state" where
  "process_locked x r ident new_cfg allow_interface_change commit = do {
     s \<leftarrow> State_Monad.get;
     case admission x s new_cfg allow_interface_change of
       Inl (st, msg, err) \<Rightarrow> do { set_tx r st (Some msg); State_Monad.return (Inl err) }
     | Inr _ \<Rightarrow>
         (case next_revision (revision (e_current_config s)) of
            None \<Rightarrow> fail_tx r Rejected ''configuration revision limit reached'' (Errorf ''configuration revision limit reached'')
          | Some rev_no \<Rightarrow> prepare_candidate x r ident (e_current_config s) new_cfg rev_no allow_interface_change
              (commit_config x commit (e_has_store s))) }"

definition process :: "deps \<Rightarrow> string \<Rightarrow> system_config \<Rightarrow> bool \<Rightarrow> commit_fn option \<Rightarrow> (engine, transaction \<times> unit result) state" where
  "process x ident new_cfg allow_interface_change commit = do {
     t \<leftarrow> now;
     s \<leftarrow> State_Monad.get;
     (let r = length (e_txs s);
          tx = \<lparr>tx_id = ident, tx_current_state = Received, tx_config = new_cfg, tx_diff = [], tx_error = [], tx_created_at = t,
            tx_confirmed_at = None, tx_confirmation_deadline = None,
            tx_firewall_changed = (\<not> equal_section (st_codec (dp_storage x)) (firewall_json (firewall (e_current_config s))) (firewall_json (firewall new_cfg)))\<rparr>
      in do {
        State_Monad.set (s\<lparr>e_txs := e_txs s @ [tx], e_active_tx := Some r\<rparr>);
        res \<leftarrow> process_locked x r ident new_cfg allow_interface_change commit;
        audit_transaction (dp_storage x) r (revision (e_current_config s)) ''apply'';
        t \<leftarrow> State_Monad.get;
        State_Monad.return (e_txs t ! r, res) }) }"

definition process_transaction :: "deps \<Rightarrow> string \<Rightarrow> system_config \<Rightarrow> (engine, transaction \<times> unit result) state" where
  "process_transaction x ident new_cfg = process x ident new_cfg False None"

definition process_initial_setup :: "deps \<Rightarrow> string \<Rightarrow> system_config \<Rightarrow> commit_fn \<Rightarrow> (engine, transaction \<times> unit result) state" where
  "process_initial_setup x ident new_cfg commit = process x ident new_cfg True (Some commit)"


section \<open>Confirmation\<close>

definition get_pending_transaction :: "engine \<Rightarrow> transaction option" where
  "get_pending_transaction s = map_option (\<lambda>p. e_txs s ! pc_tx p) (e_pending s)"

text \<open>A failed confirmation before the store is written leaves the change pending.\<close>

definition confirm_error :: "nat \<Rightarrow> string \<Rightarrow> error \<Rightarrow> (engine, unit result) state" where
  "confirm_error r msg err = do {
     modify_tx r (\<lambda>tx. tx\<lparr>tx_error := msg\<rparr>);
     State_Monad.return (Inl err) }"

definition confirm_tunnel :: "nat \<Rightarrow> string \<Rightarrow> pending_change \<Rightarrow> system_config \<Rightarrow> (engine, unit result) state" where
  "confirm_tunnel r ident p candidate = do {
     status \<leftarrow> privileged ((request_for (ident @ ''-wg1-status'') op_wg_tunnel_status candidate)
       \<lparr>rq_tunnel_interface := wc_interface (wg_client candidate)\<rparr>);
     case (case status of Inr r \<Rightarrow> if rs_success r then rs_tunnel_status r else None | Inl _ \<Rightarrow> None) of
       None \<Rightarrow>
         (let msg = ''WireGuard client confirmation failed: tunnel status is unavailable'' in confirm_error r msg (Errorf msg))
     | Some tunnel \<Rightarrow> do {
         t \<leftarrow> now;
         case verify_wg_client_handshake (ts_last_handshake tunnel) (wc_persistent_keepalive (wg_client candidate))
                (Some (pc_handshake_not_before p)) (unix t) of
           Inl err \<Rightarrow> confirm_error r (''WireGuard client confirmation failed: '' @ error_text err) err
         | Inr _ \<Rightarrow> State_Monad.return (Inr ()) } }"

definition confirm_store :: "deps \<Rightarrow> nat \<Rightarrow> pending_change \<Rightarrow> system_config \<Rightarrow> (engine, unit result) state" where
  "confirm_store x r p candidate = do {
     s \<leftarrow> State_Monad.get;
     res \<leftarrow> (if e_has_store s then save_config (dp_env x) (dp_storage x) candidate else State_Monad.return (Inr ()));
     case res of
       Inl err \<Rightarrow> do {
         modify_tx r (\<lambda>tx. tx\<lparr>tx_current_state := RecoveryRequired,
           tx_error := ''management-path confirmation succeeded but canonical configuration could not be committed; retry confirmation or allow verified rollback''\<rparr>);
         State_Monad.return (Inl (Wrapf ''failed to commit confirmed configuration'' err)) }
     | Inr _ \<Rightarrow> do {
         modify_pending (\<lambda>p. p\<lparr>pc_canonical_committed := True\<rparr>);
         timer_stop (pc_timer p);
         State_Monad.update (\<lambda>s. s\<lparr>e_current_config := candidate\<rparr>);
         State_Monad.return (Inr ()) } }"

definition confirm_ack :: "nat \<Rightarrow> string \<Rightarrow> pending_change \<Rightarrow> system_config \<Rightarrow> (engine, unit result) state" where
  "confirm_ack r ident p candidate = do {
     modify_pending (\<lambda>p. p\<lparr>pc_commit_attempts := pc_commit_attempts p + 1\<rparr>);
     res \<leftarrow> privileged (commit_request (ident @ ''-commit-confirmed-'' @ nat_string (pc_commit_attempts p + 1)) candidate);
     case ack_failure ''canonical configuration was committed but helper last-good acknowledgement is unknown: ''
            ''canonical configuration was committed but helper last-good acknowledgement failed: '' res of
       Some msg \<Rightarrow> fail_tx r RecoveryRequired msg (Errorf ''confirmed helper commit failed'')
     | None \<Rightarrow> State_Monad.return (Inr ()) }"

definition finalize_lan :: "deps \<Rightarrow> nat \<Rightarrow> string \<Rightarrow> pending_change \<Rightarrow> system_config \<Rightarrow> (engine, unit result) state" where
  "finalize_lan x r ident p candidate =
     (if lan_ip_address (lan (pc_previous p)) \<noteq> lan_ip_address (lan candidate) \<or> lan_cidr (lan (pc_previous p)) \<noteq> lan_cidr (lan candidate)
      then case build_apply_request (dp_generators x) (ident @ ''-finalize-lan'') candidate of
        Inl (_, err) \<Rightarrow> fail_tx r RecoveryRequired
          (''canonical LAN configuration was committed but final federation request could not be generated: '' @ error_text err) err
      | Inr req \<Rightarrow> do {
          res \<leftarrow> privileged (req\<lparr>rq_op := op_reconcile\<rparr>);
          case ack_failure ''canonical LAN configuration was committed but final runtime reconciliation is unknown: ''
                 ''canonical LAN configuration was committed but final runtime reconciliation failed: '' res of
            Some msg \<Rightarrow> fail_tx r RecoveryRequired msg (Errorf ''LAN runtime finalization failed'')
          | None \<Rightarrow> State_Monad.return (Inr ()) }
      else State_Monad.return (Inr ()))"

definition confirm_done :: "nat \<Rightarrow> system_config \<Rightarrow> (engine, unit result) state" where
  "confirm_done r candidate = do {
     t \<leftarrow> now;
     modify_tx r (\<lambda>tx. tx\<lparr>tx_confirmed_at := Some t, tx_current_state := Committed\<rparr>);
     State_Monad.update (\<lambda>s. s\<lparr>e_current_config := candidate, e_pending := None, e_active_tx := Some r\<rparr>);
     clear_recovery;
     State_Monad.return (Inr ()) }"

definition confirm_locked :: "deps \<Rightarrow> nat \<Rightarrow> string \<Rightarrow> pending_change \<Rightarrow> (engine, unit result) state" where
  "confirm_locked x r ident p = do {
     s \<leftarrow> State_Monad.get;
     (let candidate = tx_config (e_txs s ! r)
      in and_then
           (if pc_canonical_committed p then State_Monad.return (Inr ())
            else and_then
              (if \<not> equal_section (st_codec (dp_storage x)) (wg_client_json (wg_client (pc_previous p))) (wg_client_json (wg_client candidate)) \<and>
                  wc_enabled (wg_client candidate)
               then confirm_tunnel r ident p candidate else State_Monad.return (Inr ()))
              (\<lambda>_. confirm_store x r p candidate))
           (\<lambda>_. and_then (confirm_ack r ident p candidate)
           (\<lambda>_. and_then (finalize_lan x r ident p candidate)
           (\<lambda>_. confirm_done r candidate)))) }"

definition confirm_transaction :: "deps \<Rightarrow> string \<Rightarrow> (engine, transaction option \<times> unit result) state" where
  "confirm_transaction x ident = do {
     s \<leftarrow> State_Monad.get;
     case e_pending s of
       None \<Rightarrow> State_Monad.return (None, Inl (Errorf ''transaction is not awaiting confirmation''))
     | Some p \<Rightarrow>
         (if tx_id (e_txs s ! pc_tx p) \<noteq> ident
          then State_Monad.return (None, Inl (Errorf ''transaction is not awaiting confirmation''))
          else do {
            res \<leftarrow> confirm_locked x (pc_tx p) ident p;
            audit_transaction (dp_storage x) (pc_tx p) (revision (pc_previous p)) ''confirm'';
            t \<leftarrow> State_Monad.get;
            State_Monad.return (Some (e_txs t ! pc_tx p), res) }) }"

section \<open>Expiry\<close>

definition rollback_error :: "nat \<Rightarrow> string \<Rightarrow> (engine, unit) state" where
  "rollback_error r msg = set_tx r RecoveryRequired (Some msg)"

definition retry_rollback :: "string \<Rightarrow> nat \<Rightarrow> (engine, unit) state" where
  "retry_rollback ident attempts = do {
     timer \<leftarrow> timer_after (ROLLBACK_RETRY_DELAY * 2 ^ (attempts - 1)) ident;
     modify_pending (\<lambda>p. p\<lparr>pc_timer := Some timer\<rparr>) }"

definition rollback_done :: "nat \<Rightarrow> pending_change \<Rightarrow> (engine, unit) state" where
  "rollback_done r p = do {
     set_tx r RolledBack (Some ''confirmation deadline expired; previous configuration restored'');
     timer_stop (pc_timer p);
     State_Monad.update (\<lambda>s. s\<lparr>e_pending := None\<rparr>);
     clear_recovery }"

definition verified_answer :: "apply_response result \<Rightarrow> bool" where
  "verified_answer res = (case res of Inr r \<Rightarrow> rs_success r \<and> rs_verified r | Inl _ \<Rightarrow> False)"

definition rollback_attempt :: "deps \<Rightarrow> nat \<Rightarrow> string \<Rightarrow> pending_change \<Rightarrow> nat \<Rightarrow> (engine, unit) state" where
  "rollback_attempt x r ident p attempts =
     (case build_apply_request (dp_generators x) (ident @ ''-timeout-rollback-'' @ nat_string attempts) (pc_previous p) of
        Inr req \<Rightarrow> do {
          res \<leftarrow> privileged req;
          if verified_answer res then rollback_done r p
          else do {
            rollback_error r ''confirmation deadline expired and privileged rollback failed; retry scheduled while candidate access remains available'';
            retry_rollback ident attempts } }
      | Inl _ \<Rightarrow> do {
          rollback_error r ''confirmation deadline expired and rollback generation failed; retry scheduled while candidate access remains available'';
          retry_rollback ident attempts })"

definition rollback_exhausted :: "nat \<Rightarrow> (engine, unit) state" where
  "rollback_exhausted r =
     (let msg = ''confirmation deadline expired and automatic rollback attempts were exhausted'' in do {
        rollback_error r msg;
        require_recovery msg;
        State_Monad.update (\<lambda>s. s\<lparr>e_pending := None\<rparr>) })"

definition rollback_expired :: "deps \<Rightarrow> string \<Rightarrow> (engine, unit) state" where
  "rollback_expired x ident = do {
     s \<leftarrow> State_Monad.get;
     case e_pending s of
       None \<Rightarrow> State_Monad.return ()
     | Some p \<Rightarrow>
         (if tx_id (e_txs s ! pc_tx p) \<noteq> ident \<or> pc_canonical_committed p then State_Monad.return ()
          else (let attempts = pc_rollback_attempts p + 1 in do {
            modify_pending (\<lambda>p. p\<lparr>pc_rollback_attempts := attempts\<rparr>);
            (if attempts > MAXIMUM_ROLLBACK_ATTEMPTS then rollback_exhausted (pc_tx p)
             else rollback_attempt x (pc_tx p) ident p attempts);
            audit_transaction (dp_storage x) (pc_tx p) (revision (pc_previous p)) ''timeout_rollback'' })) }"

section \<open>Reconciliation\<close>

definition reconcile_pending :: "(engine, unit) state" where
  "reconcile_pending = do {
     s \<leftarrow> State_Monad.get;
     case e_pending s of
       None \<Rightarrow> State_Monad.return ()
     | Some p \<Rightarrow> do {
         State_Monad.update (\<lambda>s. s\<lparr>e_pending := None\<rparr>);
         timer_stop (pc_timer p);
         (if pc_canonical_committed p then do {
            t \<leftarrow> now;
            modify_tx (pc_tx p) (\<lambda>tx. tx\<lparr>tx_confirmation_deadline := None, tx_confirmed_at := Some t, tx_current_state := Committed, tx_error := []\<rparr>) }
          else modify_tx (pc_tx p) (\<lambda>tx. tx\<lparr>tx_confirmation_deadline := None, tx_current_state := RolledBack,
                 tx_error := ''unconfirmed candidate discarded; canonical configuration restored''\<rparr>));
         State_Monad.update (\<lambda>s. s\<lparr>e_active_tx := Some (pc_tx p)\<rparr>) } }"

definition reconcile :: "deps \<Rightarrow> (engine, unit result) state" where
  "reconcile x = do {
     t \<leftarrow> now;
     s \<leftarrow> State_Monad.get;
     case build_apply_request (dp_generators x) (''boot-reconcile-'' @ int_string (unix_nano t)) (e_current_config s) of
       Inl (_, err) \<Rightarrow> State_Monad.return (Inl err)
     | Inr req \<Rightarrow> do {
         res \<leftarrow> privileged (req\<lparr>rq_op := op_reconcile\<rparr>);
         case res of
           Inl err \<Rightarrow>
             (let reason = ''boot reconciliation failed: '' @ error_text err
              in do { require_recovery reason; State_Monad.return (Inl (Errorf reason)) })
         | Inr resp \<Rightarrow>
             (if \<not> rs_success resp \<or> \<not> rs_verified resp \<or> rs_recovery_required resp then
                (let reason = ''boot reconciliation was not verified: '' @ rs_error resp
                 in do { require_recovery reason; State_Monad.return (Inl (Errorf reason)) })
              else do {
                reconcile_pending;
                clear_recovery;
                State_Monad.return (Inr ()) }) } }"

section \<open>Status and the temporary bypass of traffic shaping\<close>

record engine_status =
  es_applying :: bool
  es_recovery_required :: bool
  es_recovery_reason :: string
  es_active_transaction_id :: string
  es_active_state :: "tx_state option"

definition get_status :: "engine \<Rightarrow> engine_status" where
  "get_status s = \<lparr>es_applying = e_applying s, es_recovery_required = e_recovery_required s, es_recovery_reason = e_recovery_reason s,
     es_active_transaction_id = (case e_active_tx s of None \<Rightarrow> [] | Some r \<Rightarrow> tx_id (e_txs s ! r)),
     es_active_state = map_option (\<lambda>r. tx_current_state (e_txs s ! r)) (e_active_tx s)\<rparr>"

definition action_allowed :: "engine \<Rightarrow> bool" where
  "action_allowed s \<longleftrightarrow> \<not> e_applying s \<and> \<not> e_recovery_required s \<and> e_pending s = None"

definition apply_temporary_runtime :: "apply_request \<Rightarrow> (engine, unit result) state" where
  "apply_temporary_runtime req = and_then (privileged req) (\<lambda>resp.
     State_Monad.return
       (if \<not> rs_success resp \<or> \<not> rs_verified resp then
          (if rs_error resp \<noteq> [] then Inl (Errorf (''router-applyd rejected temporary runtime: '' @ rs_error resp))
           else Inl (Errorf ''router-applyd did not verify temporary runtime''))
        else Inr ()))"

definition err_of :: "'a result \<Rightarrow> error option" where
  "err_of r = (case r of Inl e \<Rightarrow> Some e | Inr _ \<Rightarrow> None)"

definition restore_qos :: "deps \<Rightarrow> system_config \<Rightarrow> (engine, unit result) state" where
  "restore_qos x canonical = do {
     t \<leftarrow> now;
     case build_apply_request (dp_generators x) (''speedtest-qos-restore-'' @ int_string (unix_nano t)) canonical of
       Inl (_, e) \<Rightarrow> State_Monad.return (Inl (Wrapf ''build canonical QoS restore'' e))
     | Inr req \<Rightarrow> wrapped ''restore canonical QoS runtime''
         (apply_temporary_runtime (req\<lparr>rq_op := op_reconcile, rq_require_confirmation := False, rq_defer_last_good := False\<rparr>)) }"

text \<open>\<open>measured\<close> is the result of the callback \<open>f\<close>, which runs under the operation mutex and cannot change the engine.\<close>

definition with_qos_bypassed :: "deps \<Rightarrow> unit result \<Rightarrow> (engine, unit result) state" where
  "with_qos_bypassed x measured = do {
     s \<leftarrow> State_Monad.get;
     (let canonical = e_current_config s
      in if e_recovery_required s then State_Monad.return (Inl (Errorf (''temporary QoS bypass is blocked while recovery is required'' @
             (if e_recovery_reason s = [] then [] else '': '' @ e_recovery_reason s))))
         else if e_pending s \<noteq> None then
           State_Monad.return (Inl (Errorf ''temporary QoS bypass is blocked while a configuration change awaits confirmation''))
         else if \<not> qos_enabled (qos canonical) then State_Monad.return measured
         else do {
           t \<leftarrow> now;
           case build_apply_request (dp_generators x) (''speedtest-qos-bypass-'' @ int_string (unix_nano t))
                  (canonical\<lparr>qos := (qos canonical)\<lparr>qos_enabled := False\<rparr>\<rparr>) of
             Inl (_, e) \<Rightarrow> State_Monad.return (Inl (Wrapf ''build temporary QoS bypass'' e))
           | Inr req \<Rightarrow> do {
               bypass \<leftarrow> wrapped ''activate temporary QoS bypass''
                 (apply_temporary_runtime (req\<lparr>rq_require_confirmation := False, rq_defer_last_good := True\<rparr>));
               restore \<leftarrow> restore_qos x canonical;
               (case restore of Inr _ \<Rightarrow> State_Monad.return ()
                | Inl err \<Rightarrow> require_recovery (''temporary QoS bypass could not restore the canonical runtime: '' @ error_text err));
               (let joined = map error_text (List.map_filter id
                      [err_of bypass, if is_ok bypass then err_of measured else None, err_of restore])
                in State_Monad.return (if joined = [] then Inr () else Inl (Errorf (join [CHR 0x0A] joined)))) } }) }"

end
