(* ===== verification/Store_Auth.thy ===== *)
theory Store_Auth
  imports Store_Props Transition
begin

text \<open>
  The authentication epoch: every operation of the store keeps the keys of its tables unique and never lowers the
  epoch, a change of the credential raises it and revokes the sessions, so a login that was checked against the old
  credential gets no session however the operations interleave.
\<close>

section \<open>Steps of the store\<close>

inductive store_step :: "env \<Rightarrow> storage \<Rightarrow> 'z world_scheme \<Rightarrow> 'z world_scheme \<Rightarrow> bool" for v k where
  step_save: "store_step v k s (snd (run_state (save_config v k cfg) s))"
| step_setup: "store_step v k s (snd (run_state (commit_initial_setup v k hash cfg) s))"
| step_snapshot: "store_step v k s (snd (run_state (create_snapshot_kind k cfg kind label) s))"
| step_delete_snapshot: "store_step v k s (snd (run_state (delete_snapshot ident) s))"
| step_audit: "store_step v k s (snd (run_state (append_audit_event k event_type actor details) s))"
| step_hash: "store_step v k s (snd (run_state (set_admin_hash k hash) s))"
| step_totp: "store_step v k s (snd (run_state (set_admin_totp_secret k secret) s))"
| step_clear_totp: "store_step v k s (snd (run_state (clear_admin_totp_secret k) s))"
| step_revoke: "store_step v k s (snd (run_state delete_all_sessions s))"
| step_session: "store_step v k s (snd (run_state (create_session k sid csrf read_only g created seen) s))"
| step_login: "store_step v k s (snd (run_state (create_session_if_generation_current k sid csrf read_only g created seen) s))"
| step_seen: "store_step v k s (snd (run_state (update_session_last_seen k sid seen) s))"
| step_logout: "store_step v k s (snd (run_state (delete_session k sid) s))"
| step_expire: "store_step v k s (snd (run_state (clean_expired_sessions k idle absolute) s))"
| step_limit: "store_step v k s (snd (run_state (set_rate_limit_bucket k ip_text attempts start) s))"
| step_limits: "store_step v k s (snd (run_state (clean_expired_rate_limit_buckets k window) s))"

definition tables_ok :: "store \<Rightarrow> bool" where
  "tables_ok d \<longleftrightarrow> distinct (map sn_id (snapshots d)) \<and> distinct (map au_id (audit_events d)) \<and> distinct (map se_id (sessions d))"

definition epoch :: "store \<Rightarrow> nat" where
  "epoch d = (case admin_credentials d of None \<Rightarrow> 0 | Some a \<Rightarrow> unat (ad_auth_generation a))"

text \<open>What a step does to the tables: the keys stay unique and the epoch does not fall.\<close>

definition keeps :: "store \<Rightarrow> store \<Rightarrow> bool" where
  "keeps d d' \<longleftrightarrow> (tables_ok d \<longrightarrow> tables_ok d') \<and> epoch d \<le> epoch d'"

lemma epoch_sessions [simp]: "epoch (d\<lparr>sessions := x\<rparr>) = epoch d"
  by (simp add: epoch_def)

lemma keeps_refl [simp]: "keeps d d"
  by (simp add: keeps_def)

lemma keeps_snd: "wp m (\<lambda>_ t. keeps (w_db s) (w_db t)) s \<Longrightarrow> keeps (w_db s) (w_db (snd (run_state m s)))"
  by (simp add: wp_def split: prod.splits)

lemma keeps_update:
  "keeps d (d\<lparr>config_revisions := x\<rparr>)" "keeps d (d\<lparr>rate_limit_buckets := y\<rparr>)" "keeps d (d\<lparr>sessions := []\<rparr>)"
  "keeps d (d\<lparr>sessions := filter p (sessions d)\<rparr>)" "keeps d (d\<lparr>snapshots := filter q (snapshots d)\<rparr>)"
  by (simp_all add: keeps_def tables_ok_def epoch_def distinct_map_filter)

lemma keeps_saved: "keeps d (saved k cfg data d)"
  by (simp add: saved_def prune_revisions_def insert_revision_def keeps_def tables_ok_def epoch_def)

lemma keeps_setup_done: "admin_credentials d = None \<Longrightarrow> keeps d (setup_done k hash cfg at data d)"
  by (simp add: setup_done_def insert_revision_def keeps_def tables_ok_def epoch_def)

lemma keeps_audited:
  "au_id row \<notin> au_id ` set (audit_events d) \<Longrightarrow> keeps d (d\<lparr>audit_events := audited row (audit_events d), backup_export_status := b\<rparr>)"
  by (simp add: keeps_def tables_ok_def epoch_def audited_def prune_audit_def prune_high_volume_audit_def prune_distinct)

lemma keeps_snapshot:
  "insert_snapshot row d = Inr d' \<Longrightarrow> keeps d (d'\<lparr>snapshots := prune_snapshots kind (snapshots d')\<rparr>)"
  by (auto simp: insert_snapshot_def keeps_def tables_ok_def epoch_def prune_snapshots_def prune_distinct split: if_splits)

lemma keeps_session: "insert_session row d = Inr d' \<Longrightarrow> keeps d d'"
  by (auto simp: insert_session_def keeps_def tables_ok_def epoch_def split: if_splits)

lemma keeps_seen: "keeps d (d\<lparr>sessions := map (\<lambda>r. if se_id r = i then r\<lparr>se_last_seen := x\<rparr> else r) (sessions d)\<rparr>)"
proof -
  have "map se_id (map (\<lambda>r. if se_id r = i then r\<lparr>se_last_seen := x\<rparr> else r) (sessions d)) = map se_id (sessions d)" by simp
  then show ?thesis by (simp add: keeps_def tables_ok_def epoch_def del: map_map)
qed


section \<open>The epoch\<close>

definition generation_of :: "store \<Rightarrow> u64" where
  "generation_of d = (case auth_generation_of d of Inl _ \<Rightarrow> 0 | Inr g \<Rightarrow> g)"

lemma epoch_generation: "epoch d = unat (generation_of d)"
  by (simp add: epoch_def generation_of_def auth_generation_of_def split: option.splits)

lemma next_generation: "g \<noteq> - 1 \<Longrightarrow> g + 1 \<noteq> 0 \<and> unat (g + 1) = unat g + 1" for g :: u64
proof -
  assume "g \<noteq> - 1"
  then have "g + 1 \<noteq> 0" by (metis add.right_inverse add_left_cancel add.commute)
  then show ?thesis by (simp add: unat_plus_simple [THEN iffD1] unatSuc add.commute)
qed

lemma wp_update_authentication:
  assumes "\<And>x c e q. Q (Inl x) (adv c e q (w_db s) s)"
    and "\<And>stamp d c e q. generation_of (w_db s) \<noteq> - 1 \<Longrightarrow> change (generation_of (w_db s) + 1) stamp (w_db s) = Inr d \<Longrightarrow>
      Q (Inr ()) (adv c e q (d\<lparr>sessions := []\<rparr>) s)"
  shows "wp (update_authentication k change) Q s"
  unfolding update_authentication_def wp_simps
  by (auto simp: wp_simps generation_of_def [symmetric] Let_def next_generation intro!: wp_effects assms)

lemma keeps_admin:
  assumes "generation_of d \<noteq> - 1" and "upsert_admin hash (generation_of d + 1) stamp d = Inr d'"
  shows "keeps d (d'\<lparr>sessions := []\<rparr>) \<and> epoch d' = epoch d + 1 \<and> map_option ad_password_hash (admin_credentials d') = Some hash"
  using assms next_generation [OF assms(1)]
  by (auto simp: upsert_admin_def keeps_def tables_ok_def epoch_generation generation_of_def auth_generation_of_def split: option.splits)

lemma keeps_totp:
  assumes "generation_of d \<noteq> - 1" and "update_totp secret (generation_of d + 1) stamp d = Inr d'"
  shows "keeps d (d'\<lparr>sessions := []\<rparr>)"
  using assms next_generation [OF assms(1)]
  by (auto simp: update_totp_def keeps_def tables_ok_def epoch_generation generation_of_def auth_generation_of_def split: option.splits)


section \<open>Every step keeps the tables\<close>

lemmas keeps_intros = keeps_update keeps_saved keeps_setup_done keeps_audited keeps_snapshot keeps_session keeps_seen

lemma keeps_create_snapshot_kind: "wp (create_snapshot_kind k cfg kind label) (\<lambda>_ t. keeps (w_db s) (w_db t)) s"
  unfolding create_snapshot_kind_def wp_simps
  by (auto simp: wp_simps Let_def intro!: wp_effects elim!: keeps_snapshot)

lemma keeps_store_step: "store_step v k s t \<Longrightarrow> keeps (w_db s) (w_db t)"
proof (induction rule: store_step.induct)
  case (step_save s cfg)
  show ?case by (rule keeps_snd, rule wp_save_config) (simp_all add: keeps_intros)
next
  case (step_setup s hash cfg)
  show ?case by (rule keeps_snd, rule wp_commit_initial_setup) (simp_all add: keeps_intros)
next
  case (step_snapshot s cfg kind label)
  show ?case by (rule keeps_snd, rule keeps_create_snapshot_kind)
next
  case (step_delete_snapshot s ident)
  show ?case by (rule keeps_snd) (auto simp: delete_snapshot_def wp_simps keeps_intros intro!: wp_effects)
next
  case (step_audit s event_type actor details)
  show ?case by (rule keeps_snd, rule wp_append_audit_ok) (simp_all add: keeps_intros)
next
  case (step_hash s hash)
  show ?case unfolding set_admin_hash_def by (rule keeps_snd, rule wp_update_authentication) (auto dest: keeps_admin)
next
  case (step_totp s secret)
  show ?case unfolding set_admin_totp_secret_def by (rule keeps_snd, rule wp_update_authentication) (auto dest: keeps_totp)
next
  case (step_clear_totp s)
  show ?case unfolding clear_admin_totp_secret_def by (rule keeps_snd, rule wp_update_authentication) (auto dest: keeps_totp)
next
  case (step_login s sid csrf read_only g created seen)
  show ?case by (rule keeps_snd) (auto simp: create_session_if_generation_current_def wp_simps intro!: wp_effects intro: keeps_intros)
next
  case (step_expire s idle absolute)
  show ?case by (rule keeps_snd) (auto simp: clean_expired_sessions_def wp_simps Let_def intro!: wp_effects intro: keeps_intros)
next
  case (step_limit s ip_text attempts start)
  show ?case by (rule keeps_snd) (auto simp: set_rate_limit_bucket_def wp_simps intro!: wp_effects intro: keeps_intros)
next
  case (step_limits s window)
  show ?case by (rule keeps_snd) (auto simp: clean_expired_rate_limit_buckets_def wp_simps Let_def intro!: wp_effects intro: keeps_intros)
qed (rule keeps_snd, auto simp: delete_all_sessions_def create_session_def update_session_last_seen_def delete_session_def
  wp_simps intro!: wp_effects intro: keeps_intros)+

interpretation tables: monotone_steps "store_step v k" "\<lambda>s. tables_ok (w_db s)" "\<lambda>s. epoch (w_db s)" for v k
  by unfold_locales (auto dest: keeps_store_step simp: keeps_def)

section \<open>Logins\<close>

lemma login_epoch:
  assumes "run_state (create_session_if_generation_current k sid csrf read_only g created seen) s = (r, t)"
    and "unat g < epoch (w_db s)"
  shows "r \<noteq> Inr True \<and> w_db t = w_db s"
proof -
  have "wp (create_session_if_generation_current k sid csrf read_only g created seen) (\<lambda>r t. r \<noteq> Inr True \<and> w_db t = w_db s) s"
    using assms(2) by (auto simp: create_session_if_generation_current_def epoch_generation generation_of_def wp_simps intro!: wp_effects)
  from wp_run [OF assms(1) this] show ?thesis .
qed

text \<open>
  C15: A change of the administrator's password revokes every session, and a login that read the credential before
  the change gets no session after it, whatever the store does in between: before the change, or after it.
\<close>

theorem stale_login_refused:
  assumes "tables_ok (w_db s0)" and "run_state get_admin_auth_state s0 = (Inr (old_hash, g), s1)"
    and "(store_step v k)\<^sup>*\<^sup>* s1 s2" and "run_state (set_admin_hash k new_hash) s2 = (Inr (), s3)"
    and "(store_step v k)\<^sup>*\<^sup>* s3 s4"
    and "run_state (create_session_if_generation_current k sid csrf read_only g created seen) s4 = (r, s5)"
  shows "sessions (w_db s3) = [] \<and> map_option ad_password_hash (admin_credentials (w_db s3)) = Some new_hash \<and>
    r \<noteq> Inr True \<and> w_db s5 = w_db s4"
proof -
  have "wp get_admin_auth_state (\<lambda>r t. w_db t = w_db s0 \<and> (\<forall>h g. r = Inr (h, g) \<longrightarrow> unat g = epoch (w_db s0))) s0"
    by (auto simp: get_admin_auth_state_def epoch_def intro!: wp_effects split: option.splits)
  from wp_run [OF assms(2) this] have s1: "w_db s1 = w_db s0" "unat g = epoch (w_db s1)" by auto
  have ok: "tables_ok (w_db s2)" "epoch (w_db s1) \<le> epoch (w_db s2)"
    using tables.inv_run [OF assms(3)] tables.rank_run [OF assms(3)] s1 assms(1) by simp_all
  let ?P = "\<lambda>r t. r = Inr () \<longrightarrow> tables_ok (w_db t) \<and> epoch (w_db t) = epoch (w_db s2) + 1 \<and> sessions (w_db t) = [] \<and>
    map_option ad_password_hash (admin_credentials (w_db t)) = Some new_hash"
  have "wp (set_admin_hash k new_hash) ?P s2" unfolding set_admin_hash_def
    using ok(1) by (intro wp_update_authentication) (auto dest!: keeps_admin simp: keeps_def)
  from wp_run [OF assms(4) this] have s3: "tables_ok (w_db s3)" "epoch (w_db s3) = epoch (w_db s2) + 1" "sessions (w_db s3) = []"
    "map_option ad_password_hash (admin_credentials (w_db s3)) = Some new_hash" by auto
  have "unat g < epoch (w_db s4)" using tables.rank_run [OF assms(5) s3(1)] s3(2) ok(2) s1(2) by simp
  from login_epoch [OF assms(6) this] s3 show ?thesis by simp
qed


definition sample_admin :: store where
  "sample_admin = empty_store\<lparr>admin_credentials :=
     Some \<lparr>ad_password_hash = ''old'', ad_totp_secret = None, ad_auth_generation = 3, ad_updated_at = []\<rparr>\<rparr>"

theorem stale_login_refused_witness:
  "\<exists>s1 s3 r s5. run_state get_admin_auth_state (sample_world sample_admin) = (Inr (''old'', 3), s1) \<and>
    run_state (set_admin_hash sample_storage ''new'') s1 = (Inr (), s3) \<and>
    run_state (create_session_if_generation_current sample_storage ''t'' ''c'' False 3 zero_time zero_time) s3 = (r, s5) \<and>
    r \<noteq> Inr True \<and> sessions (w_db s5) = []"
proof -
  let ?s0 = "sample_world sample_admin"
  let ?a = "run_state get_admin_auth_state ?s0"
  let ?b = "run_state (set_admin_hash sample_storage ''new'') (snd ?a)"
  let ?c = "run_state (create_session_if_generation_current sample_storage ''t'' ''c'' False 3 zero_time zero_time) (snd ?b)"
  have "fst ?a = Inr (''old'', 3)" "fst ?b = Inr ()" by code_simp+
  then have a: "?a = (Inr (''old'', 3), snd ?a)" and b: "?b = (Inr (), snd ?b)" by (metis prod.collapse)+
  have c: "?c = (fst ?c, snd ?c)" by simp
  have "tables_ok (w_db ?s0)" by code_simp
  from stale_login_refused [OF this a rtranclp.rtrancl_refl b rtranclp.rtrancl_refl c] a b c show ?thesis by metis
qed

end
