(* ===== verification/Config_Stamp.thy ===== *)
theory Config_Stamp
  imports Change_Props
begin

text \<open>
  The revision and the time of a configuration are no part of what is validated: a stamped configuration is accepted
  exactly when the original is.
\<close>

definition stamp :: "u64 \<Rightarrow> time \<Rightarrow> system_config \<Rightarrow> system_config" where
  "stamp r t c = c\<lparr>revision := r, updated_at := t\<rparr>"

named_theorems stamp_simps \<open>functions of a configuration that do not look at its stamp\<close>

lemma stamp_fields [stamp_simps]:
  "system (stamp r t c) = system c" "wan (stamp r t c) = wan c" "lan (stamp r t c) = lan c" "dhcp (stamp r t c) = dhcp c"
  "dns (stamp r t c) = dns c" "firewall (stamp r t c) = firewall c" "wireguard (stamp r t c) = wireguard c"
  "wg_client (stamp r t c) = wg_client c" "cloudflare (stamp r t c) = cloudflare c" "squid_proxy (stamp r t c) = squid_proxy c"
  "adguard (stamp r t c) = adguard c" "qos (stamp r t c) = qos c" "wifi (stamp r t c) = wifi c"
  "accounting (stamp r t c) = accounting c" "trusted_networks (stamp r t c) = trusted_networks c"
  by (simp_all add: stamp_def)

lemma stamp_runtime_lan_interface [stamp_simps]: "runtime_lan_interface (stamp r t c) = runtime_lan_interface c"
  by (simp only: runtime_lan_interface_def stamp_simps)

lemma stamp_wireguard_server_network [stamp_simps]: "wireguard_server_network (stamp r t c) = wireguard_server_network c"
  by (simp only: wireguard_server_network_def stamp_simps)

lemma stamp_validate_system [stamp_simps]: "validate_system (stamp r t c) = validate_system c"
  by (simp only: validate_system_def stamp_simps)

lemma stamp_validate_wan [stamp_simps]: "validate_wan (stamp r t c) = validate_wan c"
  by (simp only: validate_wan_def stamp_simps)

lemma stamp_validate_lan [stamp_simps]: "validate_lan (stamp r t c) x0 = validate_lan c x0"
  by (simp only: validate_lan_def stamp_simps)

lemma stamp_validate_dhcp [stamp_simps]: "validate_dhcp (stamp r t c) x0 x1 = validate_dhcp c x0 x1"
  by (simp only: validate_dhcp_def stamp_simps)

lemma stamp_validate_forwards [stamp_simps]: "validate_forwards v (stamp r t c) n i seen pfs = validate_forwards v c n i seen pfs"
  by (induction pfs arbitrary: i seen) (simp_all only: validate_forwards.simps stamp_simps)

lemma stamp_validate_rule [stamp_simps]: "validate_rule v (stamp r t c) x0 x1 x2 = validate_rule v c x0 x1 x2"
  by (simp only: validate_rule_def stamp_simps)

lemma stamp_validate_rules [stamp_simps]: "validate_rules v (stamp r t c) n i rs = validate_rules v c n i rs"
  by (induction rs arbitrary: i) (simp_all only: validate_rules.simps stamp_simps)

lemma stamp_validate_firewall [stamp_simps]: "validate_firewall v (stamp r t c) x0 = validate_firewall v c x0"
  by (simp only: validate_firewall_def stamp_simps)

lemma stamp_validate_extra_interface [stamp_simps]: "validate_extra_interface (stamp r t c) x0 x1 x2 = validate_extra_interface c x0 x1 x2"
  by (simp only: validate_extra_interface_def stamp_simps)

lemma stamp_validate_extra_cidr [stamp_simps]: "validate_extra_cidr (stamp r t c) x0 x1 x2 x3 x4 x5 = validate_extra_cidr c x0 x1 x2 x3 x4 x5"
  by (simp only: validate_extra_cidr_def stamp_simps)

lemma stamp_validate_extra_loop [stamp_simps]: "validate_extra_loop v (stamp r t c) n w i seen nets xls = validate_extra_loop v c n w i seen nets xls"
  by (induction xls arbitrary: i seen nets) (simp_all only: validate_extra_loop.simps stamp_simps)

lemma stamp_validate_extra_lans [stamp_simps]: "validate_extra_lans v (stamp r t c) x0 = validate_extra_lans v c x0"
  by (simp only: validate_extra_lans_def stamp_simps)

lemma stamp_validate_wg_address [stamp_simps]: "validate_wg_address (stamp r t c) x0 x1 = validate_wg_address c x0 x1"
  by (simp only: validate_wg_address_def stamp_simps)

lemma stamp_validate_wireguard [stamp_simps]: "validate_wireguard v (stamp r t c) x0 x1 = validate_wireguard v c x0 x1"
  by (simp only: validate_wireguard_def stamp_simps)

lemma stamp_validate_client_address [stamp_simps]: "validate_client_address (stamp r t c) x0 = validate_client_address c x0"
  by (simp only: validate_client_address_def stamp_simps)

lemma stamp_dns_upstreams [stamp_simps]: "dns_upstreams (stamp r t c) = dns_upstreams c"
  by (simp only: dns_upstreams_def stamp_simps)

lemma stamp_overlaps_extra [stamp_simps]: "overlaps_extra (stamp r t c) x0 = overlaps_extra c x0"
  by (simp only: overlaps_extra_def stamp_simps)

lemma stamp_validate_client_ips [stamp_simps]: "validate_client_ips (stamp r t c) n w i seen es = validate_client_ips c n w i seen es"
  by (induction es arbitrary: i seen) (simp_all only: validate_client_ips.simps stamp_simps)

lemma stamp_validate_wg_client [stamp_simps]: "validate_wg_client v (stamp r t c) x0 = validate_wg_client v c x0"
  by (simp only: validate_wg_client_def stamp_simps)

lemma stamp_validate_ddns [stamp_simps]: "validate_ddns v (stamp r t c) = validate_ddns v c"
  by (simp only: validate_ddns_def stamp_simps)

lemma stamp_validate_cloudflare [stamp_simps]: "validate_cloudflare v (stamp r t c) = validate_cloudflare v c"
  by (simp only: validate_cloudflare_def stamp_simps)

lemma stamp_validate_proxy [stamp_simps]: "validate_proxy (stamp r t c) x0 = validate_proxy c x0"
  by (simp only: validate_proxy_def stamp_simps)

lemma stamp_validate_names [stamp_simps]: "validate_names v (stamp r t c) = validate_names v c"
  by (simp only: validate_names_def stamp_simps)

lemma stamp_validate_qos [stamp_simps]: "validate_qos (stamp r t c) = validate_qos c"
  by (simp only: validate_qos_def stamp_simps)

lemma stamp_validate_wifi [stamp_simps]: "validate_wifi (stamp r t c) = validate_wifi c"
  by (simp only: validate_wifi_def stamp_simps)

lemma stamp_validate_device_profiles [stamp_simps]: "validate_device_profiles v (stamp r t c) x0 = validate_device_profiles v c x0"
  by (simp only: validate_device_profiles_def stamp_simps)

lemma stamp_validation_errors_of [stamp_simps]: "validation_errors_of v (stamp r t c) = validation_errors_of v c"
  by (simp only: validation_errors_of_def stamp_simps)

lemma stamp_validate [stamp_simps]: "validate v (stamp r t c) = validate v c"
  by (simp only: validate_def stamp_simps)

lemma stamp_validate_scenario_safety [stamp_simps]: "validate_scenario_safety (stamp r t c) = validate_scenario_safety c"
  by (simp only: validate_scenario_safety_def stamp_simps)

end
