(* ===== verification/Engine_Inv.thy ===== *)
theory Engine_Inv
  imports Engine Store_Auth Config_Stamp
begin

text \<open>
  The invariant of the engine and the specifications of its parts. With a store, the newest stored configuration is
  the engine's current one; every acknowledgement that the helper was asked for names a configuration that was stored
  at that moment; a pending change has a live timer until it is stored; every other transaction is in a final state.
\<close>

section \<open>Frames\<close>

lemma adv_engine [simp]:
  "e_active_tx (adv c e q d s) = e_active_tx s" "e_applying (adv c e q d s) = e_applying s"
  "e_current_config (adv c e q d s) = e_current_config s" "e_pending (adv c e q d s) = e_pending s"
  "e_recovery_required (adv c e q d s) = e_recovery_required s" "e_recovery_reason (adv c e q d s) = e_recovery_reason s"
  "e_has_store (adv c e q d s) = e_has_store s" "e_txs (adv c e q d s) = e_txs s" "e_timers (adv c e q d s) = e_timers s"
  "e_leases (adv c e q d s) = e_leases s" "e_answers (adv c e q d s) = e_answers s" "e_requests (adv c e q d s) = e_requests s"
  by (simp_all add: adv_def)

text \<open>The engine after a call of the helper: at most two attempts were recorded.\<close>

definition called :: "apply_request \<Rightarrow> attempt list \<Rightarrow> nat \<Rightarrow> engine \<Rightarrow> engine" where
  "called req answers n s = s\<lparr>e_answers := answers,
     e_requests := e_requests s @ replicate n (req\<lparr>rq_version := PROTOCOL_VERSION\<rparr>, w_db s), e_applying := False\<rparr>"

definition answered :: "apply_request \<Rightarrow> engine \<Rightarrow> apply_response \<Rightarrow> bool" where
  "answered req s resp \<longleftrightarrow> Attempt (Reply resp) \<in> set (e_answers s) \<and> rs_id resp = rq_id req \<and> response_validate resp = Inr ()"

lemma wp_apply_attempts:
  assumes "\<And>res as m. m \<le> n \<Longrightarrow> (\<And>resp. res = Inr resp \<Longrightarrow> answered req s resp \<and> 0 < m) \<Longrightarrow>
      Q res (s\<lparr>e_answers := as, e_requests := e_requests s @ replicate m (req\<lparr>rq_version := PROTOCOL_VERSION\<rparr>, w_db s)\<rparr>)"
  shows "wp (apply_attempts n err req) Q s"
  using assms
proof (induction n arbitrary: s err)
  case 0
  from 0 [of 0 "Inl e" "e_answers s" for e] show ?case by (simp add: wp_simps)
next
  case (Suc n)
  let ?entry = "(req\<lparr>rq_version := PROTOCOL_VERSION\<rparr>, w_db s)"
  have none: "Q (Inl e) (s\<lparr>e_answers := as\<rparr>)" for e as
    using Suc.prems [of 0 "Inl e" as] by simp
  show ?case
  proof (cases "e_answers s")
    case Nil
    then have "s\<lparr>e_answers := []\<rparr> = s" by simp
    with Nil none [of _ "[]"] show ?thesis by (simp add: next_attempt_def wp_simps)
  next
    case (Cons a as)
    show ?thesis
    proof (cases a)
      case Expired
      with Cons none show ?thesis by (simp add: next_attempt_def wp_simps)
    next
      case (Attempt answer)
      let ?s = "s\<lparr>e_answers := as, e_requests := e_requests s @ [?entry]\<rparr>"
      show ?thesis
      proof (cases "client_apply req answer")
        case (Inr resp)
        have ans: "answered req s resp" if "response_validate resp = Inr ()"
          using that Inr Cons Attempt by (simp add: answered_def client_apply_ok)
        have "Q (case response_validate resp of Inl e \<Rightarrow> Inl (Wrapf ''router-applyd returned an invalid outcome'' e) | Inr _ \<Rightarrow> Inr resp) ?s"
          using Suc.prems [of 1 _ as] ans by (auto split: sum.splits)
        with Cons Attempt Inr show ?thesis by (simp add: next_attempt_def log_request_def wp_simps)
      next
        case (Inl e)
        have "wp (apply_attempts n (Some e) req) Q ?s"
        proof (rule Suc.IH)
          fix res :: "apply_response result" and as' m
          assume m: "m \<le> n" "\<And>resp. res = Inr resp \<Longrightarrow> answered req ?s resp \<and> 0 < m"
          have "answered req s resp \<and> 0 < Suc m" if "res = Inr resp" for resp
            using m(2) [OF that] Cons by (auto simp: answered_def)
          from Suc.prems [of "Suc m" res as', OF _ this] m(1)
          show "Q res (?s\<lparr>e_answers := as', e_requests := e_requests ?s @ replicate m (req\<lparr>rq_version := PROTOCOL_VERSION\<rparr>, w_db ?s)\<rparr>)"
            by simp
        qed
        with Cons Attempt Inl show ?thesis by (simp add: next_attempt_def log_request_def wp_simps)
      qed
    qed
  qed
qed

lemma wp_privileged:
  assumes "\<And>res as n. n \<le> 2 \<Longrightarrow> (\<And>resp. res = Inr resp \<Longrightarrow> answered req s resp \<and> 0 < n) \<Longrightarrow> Q res (called req as n s)"
  shows "wp (privileged req) Q s"
proof -
  have "wp (apply_attempts 2 None req) (\<lambda>r t. Q r (t\<lparr>e_applying := False\<rparr>)) (s\<lparr>e_applying := True\<rparr>)"
  proof (rule wp_apply_attempts)
    fix res :: "apply_response result" and as and m :: nat
    assume m: "m \<le> 2" "\<And>resp. res = Inr resp \<Longrightarrow> answered req (s\<lparr>e_applying := True\<rparr>) resp \<and> 0 < m"
    have "answered req s resp \<and> 0 < m" if "res = Inr resp" for resp
      using m(2) [OF that] by (simp add: answered_def)
    from assms [OF m(1) this, of res as] show "Q res (s\<lparr>e_applying := True, e_answers := as,
        e_requests := e_requests (s\<lparr>e_applying := True\<rparr>) @ replicate m (req\<lparr>rq_version := PROTOCOL_VERSION\<rparr>, w_db (s\<lparr>e_applying := True\<rparr>)), e_applying := False\<rparr>)"
      by (simp add: called_def)
  qed
  then show ?thesis
    by (simp add: privileged_def apply_privileged_def PRIVILEGED_APPLY_ATTEMPTS_def wp_simps)
qed


section \<open>The invariant\<close>

text \<open>The newest row of the store is a configuration, up to the time that \<open>commit_initial_setup\<close> gives it.\<close>

definition stored :: "storage \<Rightarrow> system_config \<Rightarrow> store \<Rightarrow> bool" where
  "stored k cfg d \<longleftrightarrow> (\<exists>at data. marshal_config k (cfg\<lparr>updated_at := at\<rparr>) = Inr data \<and> latest_text d = Some data)"

definition tx_final :: "tx_state \<Rightarrow> bool" where
  "tx_final st \<longleftrightarrow> st \<in> {Committed, RolledBack, RecoveryRequired, Rejected}"

definition admitted :: "env \<Rightarrow> system_config \<Rightarrow> bool" where
  "admitted v c \<longleftrightarrow> validate v c = Inr () \<and> validate_scenario_safety c = Inr ()"

definition log_ok :: "storage \<Rightarrow> (apply_request \<times> store) list \<Rightarrow> bool" where
  "log_ok k log \<longleftrightarrow> (\<forall>(req, d) \<in> set log. rq_op req = op_commit_confirmed \<longrightarrow> stored k (rq_config req) d)"

definition pending_ok :: "deps \<Rightarrow> engine \<Rightarrow> pending_change \<Rightarrow> bool" where
  "pending_ok x s p \<longleftrightarrow>
     pc_tx p < length (e_txs s) \<and> pc_rollback_attempts p \<le> MAXIMUM_ROLLBACK_ATTEMPTS \<and>
     admitted (dp_env x) (tx_config (e_txs s ! pc_tx p)) \<and>
     next_revision (revision (pc_previous p)) = Some (revision (tx_config (e_txs s ! pc_tx p))) \<and>
     (if pc_canonical_committed p then e_current_config s = tx_config (e_txs s ! pc_tx p)
      else e_current_config s = pc_previous p \<and>
        (\<exists>i < length (e_timers s). pc_timer p = Some i \<and> \<not> ti_cancelled (e_timers s ! i) \<and> ti_tx_id (e_timers s ! i) = tx_id (e_txs s ! pc_tx p)))"

definition busy :: "engine \<Rightarrow> nat \<Rightarrow> bool" where
  "busy s i \<longleftrightarrow> map_option pc_tx (e_pending s) = Some i"

text \<open>The invariant while the transactions of \<open>open_txs\<close> are being processed.\<close>

definition engine_inv :: "deps \<Rightarrow> nat set \<Rightarrow> engine \<Rightarrow> bool" where
  "engine_inv x open_txs s \<longleftrightarrow>
     (e_has_store s \<longrightarrow> stored (dp_storage x) (e_current_config s) (w_db s) \<and> log_ok (dp_storage x) (e_requests s)) \<and>
     admitted (dp_env x) (e_current_config s) \<and>
     (\<forall>i < length (e_txs s). i \<notin> open_txs \<longrightarrow> \<not> busy s i \<longrightarrow> tx_final (tx_current_state (e_txs s ! i))) \<and>
     (\<forall>r. e_active_tx s = Some r \<longrightarrow> r < length (e_txs s)) \<and>
     (\<forall>p. e_pending s = Some p \<longrightarrow> pending_ok x s p)"

definition engine_ok :: "deps \<Rightarrow> engine \<Rightarrow> bool" where
  "engine_ok x s \<longleftrightarrow> engine_inv x {} s \<and> \<not> e_applying s"

lemma tx_final_states [simp]: "tx_final Committed" "tx_final RolledBack" "tx_final RecoveryRequired" "tx_final Rejected"
  by (simp_all add: tx_final_def)

lemma admitted_stamp: "admitted v (c\<lparr>revision := r, updated_at := t\<rparr>) \<longleftrightarrow> admitted v c"
  using stamp_validate [of v r t c] stamp_validate_scenario_safety [of r t c] by (simp add: admitted_def stamp_def)

lemma log_ok_Nil [simp]: "log_ok k []" and log_ok_append [simp]: "log_ok k (a @ b) \<longleftrightarrow> log_ok k a \<and> log_ok k b"
  by (auto simp: log_ok_def)

lemma log_ok_replicate:
  "(rq_op req = op_commit_confirmed \<Longrightarrow> stored k (rq_config req) d) \<Longrightarrow> log_ok k (replicate n (req, d))"
  by (auto simp: log_ok_def)

lemma called_fields [simp]:
  "e_active_tx (called req as n s) = e_active_tx s" "e_applying (called req as n s) = False"
  "e_current_config (called req as n s) = e_current_config s" "e_pending (called req as n s) = e_pending s"
  "e_recovery_required (called req as n s) = e_recovery_required s" "e_recovery_reason (called req as n s) = e_recovery_reason s"
  "e_has_store (called req as n s) = e_has_store s" "e_txs (called req as n s) = e_txs s" "e_timers (called req as n s) = e_timers s"
  "e_leases (called req as n s) = e_leases s" "e_answers (called req as n s) = as" "w_db (called req as n s) = w_db s"
  "e_requests (called req as n s) = e_requests s @ replicate n (req\<lparr>rq_version := PROTOCOL_VERSION\<rparr>, w_db s)"
  by (simp_all add: called_def)

text \<open>The two commit callbacks of the engine.\<close>

locale commit_callback =
  fixes x :: deps and commit :: commit_fn
  assumes commit_spec:
    "\<lbrakk>\<And>err c e q. Q (Inl err) (adv c e q (w_db s) s);
      \<And>c e q d. stored (dp_storage x) cfg d \<Longrightarrow> Q (Inr ()) (adv c e q d s)\<rbrakk> \<Longrightarrow> wp (commit cfg) Q s"

interpretation saving: commit_callback x "save_config (dp_env x) (dp_storage x)" for x
proof
  fix Q :: "unit result \<Rightarrow> engine \<Rightarrow> bool" and s cfg
  assume fail: "\<And>err c e q. Q (Inl err) (adv c e q (w_db s) s)"
    and ok: "\<And>c e q d. stored (dp_storage x) cfg d \<Longrightarrow> Q (Inr ()) (adv c e q d s)"
  have "stored (dp_storage x) cfg (saved (dp_storage x) cfg data d)" if "marshal_config (dp_storage x) cfg = Inr data" for data d
    using that by (auto simp: stored_def intro: exI [of _ "updated_at cfg"])
  then show "wp (save_config (dp_env x) (dp_storage x) cfg) Q s" by (intro wp_save_config fail ok)
qed

interpretation initial: commit_callback x "commit_initial_setup (dp_env x) (dp_storage x) hash" for x hash
proof
  fix Q :: "unit result \<Rightarrow> engine \<Rightarrow> bool" and s cfg
  assume fail: "\<And>err c e q. Q (Inl err) (adv c e q (w_db s) s)"
    and ok: "\<And>c e q d. stored (dp_storage x) cfg d \<Longrightarrow> Q (Inr ()) (adv c e q d s)"
  have "stored (dp_storage x) cfg (setup_done (dp_storage x) hash cfg at data d)"
    if "marshal_config (dp_storage x) (cfg\<lparr>updated_at := at\<rparr>) = Inr data" for at data d
    using that by (auto simp: stored_def)
  then show "wp (commit_initial_setup (dp_env x) (dp_storage x) hash cfg) Q s" by (intro wp_commit_initial_setup fail ok)
qed

end
