(* ===== verification/Engine_Apply.thy ===== *)
theory Engine_Apply
  imports Engine_Inv
begin

text \<open>
  Applying a change: every way through \<open>process_locked\<close> keeps the invariant and ends in one of the outcomes of \<open>fin\<close>.
\<close>

section \<open>Outcomes\<close>

definition working :: "deps \<Rightarrow> nat \<Rightarrow> engine \<Rightarrow> bool" where
  "working x r s \<longleftrightarrow> engine_inv x {r} s \<and> \<not> e_applying s \<and> e_pending s = None \<and> r < length (e_txs s)"

text \<open>Whether the pending change is already stored.\<close>

definition canon :: "engine \<Rightarrow> bool" where
  "canon s \<longleftrightarrow> (\<exists>p. e_pending s = Some p \<and> pc_canonical_committed p)"

text \<open>A candidate for the request \<open>src\<close>: the request itself with the next revision and a new time.\<close>

definition stamped :: "system_config \<Rightarrow> system_config \<Rightarrow> system_config \<Rightarrow> bool" where
  "stamped src old_cfg new_cfg \<longleftrightarrow> next_revision (revision old_cfg) = Some (revision new_cfg) \<and>
     new_cfg = src\<lparr>revision := revision new_cfg, updated_at := updated_at new_cfg\<rparr>"

text \<open>
  What an admitted change leaves for the transaction \<open>r\<close>, when \<open>old_cfg\<close> was current: a candidate with the next revision,
  awaiting confirmation when it needs one and committed when not; or an error that leaves \<open>old_cfg\<close> current, or one
  after the commit, which blocks the engine.
\<close>

definition fin :: "deps \<Rightarrow> nat \<Rightarrow> bool \<Rightarrow> system_config \<Rightarrow> system_config \<Rightarrow> unit result \<Rightarrow> engine \<Rightarrow> bool" where
  "fin x r need src old_cfg res t \<longleftrightarrow> engine_ok x t \<and> r < length (e_txs t) \<and>
     (let tx = e_txs t ! r; next = stamped src old_cfg (tx_config tx)
      in case res of
        Inr _ \<Rightarrow> next \<and>
          (if need then tx_current_state tx = AwaitingConfirmation \<and> e_current_config t = old_cfg \<and> busy t r \<and> \<not> canon t
           else tx_current_state tx = Committed \<and> e_current_config t = tx_config tx \<and> e_pending t = None)
      | Inl _ \<Rightarrow> tx_current_state tx \<in> {Rejected, RolledBack, RecoveryRequired} \<and> e_pending t = None \<and>
          (e_current_config t = old_cfg \<or>
           tx_current_state tx = RecoveryRequired \<and> e_recovery_required t \<and> e_current_config t = tx_config tx \<and> next))"

lemmas engine_defs = working_def engine_ok_def engine_inv_def pending_ok_def busy_def

lemmas op_defs = fail_tx_def set_tx_def modify_tx_def require_recovery_def clear_recovery_def timer_after_def timer_stop_def modify_pending_def

lemma ok_adv: "engine_ok x s \<Longrightarrow> latest_text d = latest_text (w_db s) \<Longrightarrow> engine_ok x (adv c e q d s)"
  by (simp add: engine_defs stored_def)

lemma adv_pending [simp]: "busy (adv c e q d s) i = busy s i" "canon (adv c e q d s) = canon s"
  by (simp_all add: busy_def canon_def)

lemma working_adv: "working x r s \<Longrightarrow> (e_has_store s \<longrightarrow> stored (dp_storage x) (e_current_config s) d) \<Longrightarrow> working x r (adv c e q d s)"
  by (simp add: engine_defs)

lemma working_called:
  "working x r s \<Longrightarrow> (e_has_store s \<Longrightarrow> rq_op req = op_commit_confirmed \<Longrightarrow> stored (dp_storage x) (rq_config req) (w_db s)) \<Longrightarrow>
   working x r (called req as n s)"
  by (auto simp: engine_defs intro!: log_ok_replicate)

lemma working_tx: "working x r s \<Longrightarrow> working x r (s\<lparr>e_txs := (e_txs s)[r := tx]\<rparr>)"
  by (auto simp: engine_defs)

lemma wp_fail_tx:
  assumes "working x r s" and "e_current_config s = old_cfg" and "st \<in> {Rejected, RolledBack, RecoveryRequired}"
    and "\<And>t. fin x r need src old_cfg (Inl err) t \<Longrightarrow> Q (Inl err) t"
  shows "wp (fail_tx r st msg err) Q s"
proof -
  have "wp (fail_tx r st msg err) (\<lambda>_. fin x r need src old_cfg (Inl err)) s"
    using assms by (auto simp: op_defs wp_simps fin_def engine_defs Let_def nth_list_update)
  then show ?thesis using assms(4) by (auto simp: op_defs wp_simps)
qed

lemma wp_fail_committed:
  assumes "working x r s" and "e_current_config s = tx_config (e_txs s ! r)"
    and "stamped src old_cfg (tx_config (e_txs s ! r))"
    and "\<And>t. fin x r need src old_cfg (Inl err) t \<Longrightarrow> Q (Inl err) t"
  shows "wp (fail_tx r RecoveryRequired msg err) Q s"
proof -
  have "wp (fail_tx r RecoveryRequired msg err) (\<lambda>_. fin x r need src old_cfg (Inl err)) s"
    using assms by (auto simp: op_defs wp_simps fin_def engine_defs Let_def nth_list_update)
  then show ?thesis using assms(4) by (auto simp: op_defs wp_simps)
qed

lemma wp_finish_commit:
  assumes "working x r s" and "tx_config (e_txs s ! r) = new_cfg" and "admitted (dp_env x) new_cfg"
    and "e_has_store s \<Longrightarrow> stored (dp_storage x) new_cfg (w_db s)"
    and "stamped src old_cfg new_cfg"
  shows "wp (finish_commit r new_cfg) (fin x r False src old_cfg) s"
  using assms by (auto simp: finish_commit_def op_defs wp_simps fin_def engine_defs Let_def nth_list_update)


section \<open>Stages\<close>

lemma wp_await_confirmation:
  assumes "working x r s" and "tx_config (e_txs s ! r) = new_cfg" and "tx_id (e_txs s ! r) = ident" and "admitted (dp_env x) new_cfg"
    and "e_current_config s = old_cfg" and "stamped src old_cfg new_cfg"
  shows "wp (await_confirmation r ident old_cfg h) (fin x r True src old_cfg) s"
  unfolding await_confirmation_def wp_simps
  by (rule wp_now)
    (use assms in \<open>auto simp: op_defs wp_simps fin_def canon_def stamped_def engine_defs Let_def nth_list_update nth_append MAXIMUM_ROLLBACK_ATTEMPTS_def\<close>)

lemma other_ops [simp]:
  "op_apply_all \<noteq> op_commit_confirmed" "op_reconcile \<noteq> op_commit_confirmed" "op_wg_tunnel_status \<noteq> op_commit_confirmed"
  "op_commit_confirmed \<noteq> op_apply_all" "op_commit_confirmed \<noteq> op_reconcile" "op_commit_confirmed \<noteq> op_wg_tunnel_status"
  by (simp_all add: op_apply_all_def op_reconcile_def op_wg_tunnel_status_def op_commit_confirmed_def)

lemma build_apply_request_op: "build_apply_request g ident cfg = Inr req \<Longrightarrow> rq_op req = op_apply_all \<and> rq_config req = cfg \<and> rq_id req = ident"
  by (auto simp: build_apply_request_def request_for_def split: sum.splits)

lemma wp_undo_apply:
  assumes "working x r s" and "e_current_config s = old_cfg"
  shows "wp (undo_apply x r ident err) (fin x r need src old_cfg) s"
  unfolding undo_apply_def wp_simps
  by (auto simp: wp_simps Let_def dest!: build_apply_request_op intro!: wp_fail_tx wp_privileged working_called
    simp: assms)

lemma commit_request_simps [simp]:
  "rq_op (commit_request ident cfg) = op_commit_confirmed" "rq_config (commit_request ident cfg) = cfg" "rq_id (commit_request ident cfg) = ident"
  by (simp_all add: commit_request_def request_for_def)

lemma wp_acknowledge:
  assumes "working x r s" and "e_current_config s = new_cfg" and "tx_config (e_txs s ! r) = new_cfg" and "stored (dp_storage x) new_cfg (w_db s)"
    and "stamped src old_cfg new_cfg"
    and "\<And>err t. fin x r need src old_cfg (Inl err) t \<Longrightarrow> Q (Inl err) t"
    and "\<And>t. working x r t \<Longrightarrow> tx_config (e_txs t ! r) = new_cfg \<Longrightarrow> stored (dp_storage x) new_cfg (w_db t) \<Longrightarrow> Q (Inr ()) t"
  shows "wp (acknowledge r ident new_cfg) Q s"
  unfolding acknowledge_def wp_simps
  by (rule wp_privileged) (use assms(1-6) in \<open>auto simp: wp_simps intro!: wp_fail_committed working_called assms(7)\<close>)

context commit_callback
begin

lemma wp_commit_verified:
  assumes w: "working x r s" and cfg: "tx_config (e_txs s ! r) = new_cfg" and adm: "admitted (dp_env x) new_cfg"
    and old_cfg: "e_current_config s = old_cfg" and rev: "stamped src old_cfg new_cfg"
  shows "wp (commit_verified x r ident new_cfg dfr (Some commit)) (fin x r False src old_cfg) s"
proof -
  have old: "working x r (adv c e q (w_db s) s)" for c e q
    using w by (intro working_adv) (auto simp: engine_defs)
  have new: "working x r ((adv c e q d s)\<lparr>e_current_config := new_cfg\<rparr>)" if "stored (dp_storage x) new_cfg d" for c e q d
    using w adm that by (auto simp: engine_defs)
  show ?thesis unfolding commit_verified_def option.case wp_simps
    by (rule commit_spec) (use old new cfg adm rev old_cfg in \<open>auto simp: wp_simps intro!: wp_acknowledge [where old_cfg = old_cfg] wp_undo_apply wp_finish_commit\<close>)
qed

end


definition commits_ok :: "deps \<Rightarrow> commit_fn option \<Rightarrow> engine \<Rightarrow> bool" where
  "commits_ok x commit s \<longleftrightarrow> (case commit of None \<Rightarrow> \<not> e_has_store s | Some c \<Rightarrow> commit_callback x c)"

lemma wp_commit_any:
  assumes "commits_ok x commit s" and "working x r s" and "tx_config (e_txs s ! r) = new_cfg" and "admitted (dp_env x) new_cfg"
    and "e_current_config s = old_cfg" and "stamped src old_cfg new_cfg"
  shows "wp (commit_verified x r ident new_cfg dfr commit) (fin x r False src old_cfg) s"
proof (cases commit)
  case None
  then have "\<not> e_has_store s" using assms(1) by (simp add: commits_ok_def)
  with None assms(2-) show ?thesis by (auto simp: commit_verified_def intro!: wp_finish_commit)
next
  case (Some c)
  with assms(1) have "commit_callback x c" by (simp add: commits_ok_def)
  from commit_callback.wp_commit_verified [OF this assms(2-)] Some show ?thesis by simp
qed

text \<open>A state that differs only in what effects consume and record.\<close>

definition same :: "engine \<Rightarrow> engine \<Rightarrow> bool" where
  "same s t \<longleftrightarrow> e_txs t = e_txs s \<and> e_current_config t = e_current_config s \<and> e_has_store t = e_has_store s \<and> w_db t = w_db s \<and>
     e_timers t = e_timers s \<and> e_pending t = e_pending s \<and> e_active_tx t = e_active_tx s"

lemma same_trans: "same s t \<Longrightarrow> same t u \<Longrightarrow> same s u"
  by (simp add: same_def)

lemma wp_now_working:
  assumes "working x r s" and "\<And>a t. working x r t \<Longrightarrow> same s t \<Longrightarrow> Q a t"
  shows "wp now Q s"
  by (rule wp_now, rule assms(2)) (use assms(1) in \<open>auto simp: same_def engine_defs\<close>)

lemma wp_privileged_working:
  assumes "working x r s" and "e_has_store s \<Longrightarrow> rq_op req = op_commit_confirmed \<Longrightarrow> stored (dp_storage x) (rq_config req) (w_db s)"
    and "\<And>res t. working x r t \<Longrightarrow> same s t \<Longrightarrow> (\<And>resp. res = Inr resp \<Longrightarrow> response_validate resp = Inr ()) \<Longrightarrow> Q res t"
  shows "wp (privileged req) Q s"
  by (rule wp_privileged, rule assms(3)) (use assms(1,2) in \<open>auto simp: same_def answered_def intro: working_called\<close>)

lemma wp_verified:
  assumes w: "working x r t" and "same s t" and "tx_id (e_txs s ! r) = ident" and "admitted (dp_env x) new_cfg"
    and "e_current_config s = old_cfg" and "stamped src old_cfg new_cfg" and "commits_ok x commit s"
    and tx: "tx_id tx = tx_id (e_txs t ! r)" "tx_config tx = new_cfg"
  shows "wp (if confirm then await_confirmation r ident old_cfg h else commit_verified x r ident new_cfg dfr commit) (fin x r confirm src old_cfg)
    (t\<lparr>e_txs := (e_txs t)[r := tx]\<rparr>)"
proof -
  have r: "r < length (e_txs t)" using w by (simp add: working_def)
  have "e_has_store t = e_has_store s" "e_txs t = e_txs s" "e_current_config t = e_current_config s" using assms(2) by (simp_all add: same_def)
  then have c: "commits_ok x commit (t\<lparr>e_txs := (e_txs t)[r := tx]\<rparr>)" "e_current_config t = old_cfg" "tx_id tx = ident"
    using assms by (simp_all add: commits_ok_def split: option.splits)
  show ?thesis unfolding wp_simps
    using assms(4,6) c r tx(2) working_tx [OF w] by (auto intro!: wp_await_confirmation wp_commit_any)
qed

lemma wp_activate_candidate:
  assumes w: "working x r s" and s: "tx_id (e_txs s ! r) = ident" "admitted (dp_env x) new_cfg" "e_current_config s = old_cfg"
      "stamped src old_cfg new_cfg" "commits_ok x commit s"
    and op: "rq_op request = op_apply_all"
  shows "wp (activate_candidate x r ident old_cfg new_cfg request allow commit)
    (fin x r (\<not> allow \<and> requires_confirmation (st_codec (dp_storage x)) old_cfg new_cfg) src old_cfg) s"
proof -
  have fail: "wp (fail_tx r st msg err) (fin x r need src old_cfg) t"
    if "working x r t" "same s t" "st \<in> {Rejected, RolledBack, RecoveryRequired}" for t st msg err need
    using that s(3) by (intro wp_fail_tx) (auto simp: same_def)
  have late: "wp (fail_tx r RecoveryRequired msg err) (fin x r need src old_cfg) (t\<lparr>e_txs := (e_txs t)[r := tx]\<rparr>)"
    if "working x r t" "same s t" for t msg err tx need
    using that s(3) by (intro wp_fail_tx working_tx) (auto simp: same_def)
  have ok: "wp (if need then await_confirmation r ident old_cfg h else commit_verified x r ident new_cfg dfr commit) (fin x r need src old_cfg)
      (t\<lparr>e_txs := (e_txs t)[r := (e_txs t ! r)\<lparr>tx_current_state := Verified, tx_config := new_cfg\<rparr>]\<rparr>)"
    if "working x r t" "same s t" for t h dfr need
    using that s by (intro wp_verified) auto
  have answer: "wp (case res of
        Inl err \<Rightarrow> fail_tx r RecoveryRequired (m err) (e err)
      | Inr resp \<Rightarrow>
          if \<not> rs_success resp then
            fail_tx r (if rs_recovery_required resp then RecoveryRequired else if rs_rolled_back resp then RolledBack else Rejected) (m' resp) (e' resp)
          else do {
            set_tx r Applied None;
            if \<not> rs_verified resp then fail_tx r RecoveryRequired m'' e''
            else do {
              modify_tx r (\<lambda>tx. tx\<lparr>tx_current_state := Verified, tx_config := new_cfg\<rparr>);
              if need then await_confirmation r ident old_cfg h else commit_verified x r ident new_cfg dfr commit } }) (fin x r need src old_cfg) t"
    if t: "working x r t" "same s t" for t res need h dfr m e m' e' m'' e''
  proof -
    have r: "r < length (e_txs t)" using t(1) by (simp add: working_def)
    note ok = ok [OF t, of need h dfr, unfolded wp_if]
    show ?thesis unfolding wp_simps set_tx_def modify_tx_def
      using t late [OF t] ok r by (intro allI impI conjI) (auto intro!: fail)
  qed
  show ?thesis unfolding activate_candidate_def Let_def wp_bind
    apply (rule wp_now_working [OF w])
    apply (rule wp_privileged_working, assumption)
     apply (simp add: op)
    apply (rule answer, assumption, erule same_trans, assumption)
    done
qed


section \<open>The whole operation\<close>

lemma live_candidate_ok: "live_candidate v c old = Inr u \<Longrightarrow> admitted v c \<and> admitted v old"
  by (auto simp: live_candidate_def validate_live_candidate_def admitted_def split: sum.splits)

lemma admission_ok:
  assumes "admission x s cfg allow = Inr u"
  shows "\<not> e_recovery_required s \<and> e_pending s = None \<and> revision cfg = revision (e_current_config s) \<and> admitted (dp_env x) cfg"
  using assms live_candidate_ok [of "dp_env x" cfg "e_current_config s"]
  by (auto simp: admission_def reject_def Let_def split: if_splits sum.splits)

lemma admission_error: "admission x s cfg allow = Inl (st, msg, err) \<Longrightarrow> st \<in> {Rejected, RecoveryRequired}"
  by (auto simp: admission_def reject_def Let_def split: if_splits sum.splits)

definition fresh :: "deps \<Rightarrow> nat \<Rightarrow> string \<Rightarrow> commit_fn option \<Rightarrow> engine \<Rightarrow> bool" where
  "fresh x r ident commit s \<longleftrightarrow> engine_inv x {r} s \<and> \<not> e_applying s \<and> r < length (e_txs s) \<and> \<not> busy s r \<and> tx_id (e_txs s ! r) = ident \<and>
     (case commit of None \<Rightarrow> True | Some c \<Rightarrow> commit_callback x c)"

lemma fresh_commits: "fresh x r ident commit s \<Longrightarrow> e_has_store t = e_has_store s \<Longrightarrow> commits_ok x (commit_config x commit (e_has_store s)) t"
  using saving.commit_callback_axioms by (auto simp: fresh_def commits_ok_def commit_config_def split: option.splits)

lemma wp_pre_apply_snapshot:
  assumes "working x r s" and "\<And>e t. working x r t \<Longrightarrow> e_current_config t = e_current_config s \<Longrightarrow> Q (Inl e) t"
    and "\<And>t. working x r t \<Longrightarrow> e_txs t = e_txs s \<Longrightarrow> e_current_config t = e_current_config s \<Longrightarrow> e_has_store t = e_has_store s \<Longrightarrow> Q (Inr ()) t"
  shows "wp (if e_has_store s then pre_apply_snapshot x c else State_Monad.return (Inr ())) Q s"
proof -
  have adv: "working x r (adv a e q d s)" if "latest_text d = latest_text (w_db s)" for a e q d
    using assms(1) that by (intro working_adv) (auto simp: engine_defs stored_def)
  have "latest_text ((w_db s)\<lparr>snapshots := ss\<rparr>) = latest_text (w_db s)" for ss by (simp add: latest_text_def)
  then show ?thesis unfolding wp_simps pre_apply_snapshot_def
    by (auto intro!: wp_create_snapshot assms(2,3) adv assms(1) simp: wp_simps)
qed

lemma working_len: "working x r s \<Longrightarrow> r < length (e_txs s)"
  by (simp add: working_def)

lemma working_step: "working x r s \<Longrightarrow> ts = (e_txs s)[r := tx] \<Longrightarrow> working x r (s\<lparr>e_txs := ts\<rparr>)"
  by (simp add: working_tx)

lemma wp_snapshot_and_activate:
  assumes w: "working x r s" and s: "tx_id (e_txs s ! r) = ident" "admitted (dp_env x) new_cfg" "e_current_config s = old_cfg"
      "stamped src old_cfg new_cfg" "commits_ok x commit s" "rq_op request = op_apply_all"
  shows "wp (snapshot_and_activate x r ident old_cfg new_cfg request allow commit) (fin x r (\<not> allow \<and> requires_confirmation (st_codec (dp_storage x)) old_cfg new_cfg) src old_cfg) s"
  unfolding snapshot_and_activate_def wp_bind wp_get
  by (rule wp_pre_apply_snapshot [OF w])
    (use s working_len [OF w] in \<open>auto simp: wp_simps set_tx_def modify_tx_def commits_ok_def nth_list_update
      intro!: wp_fail_tx wp_activate_candidate working_step split: option.splits\<close>)

lemma needs_stamp: "requires_confirmation j old_cfg (cfg\<lparr>revision := r, updated_at := t\<rparr>) = requires_confirmation j old_cfg cfg"
  by (simp add: requires_confirmation_def)

lemma wp_prepare_candidate:
  assumes w: "working x r s" and s: "tx_id (e_txs s ! r) = ident" "admitted (dp_env x) cfg" "e_current_config s = old_cfg"
      "next_revision (revision old_cfg) = Some rev_no" "commits_ok x commit s"
  shows "wp (prepare_candidate x r ident old_cfg cfg rev_no allow commit) (fin x r (\<not> allow \<and> requires_confirmation (st_codec (dp_storage x)) old_cfg cfg) cfg old_cfg) s"
  unfolding prepare_candidate_def wp_bind
proof (rule wp_now_working [OF w], goal_cases)
  case (1 now t)
  have "r < length (e_txs t)" "tx_id (e_txs t ! r) = ident" "e_current_config t = old_cfg" "commits_ok x commit (t\<lparr>e_txs := u\<rparr>)" for u
    using 1 s by (auto simp: working_def same_def commits_ok_def split: option.splits)
  with 1(1) s show ?case unfolding Let_def wp_simps set_tx_def modify_tx_def
    by (auto dest!: build_apply_request_op simp: admitted_stamp stamped_def intro!: wp_fail_tx wp_snapshot_and_activate [of _ _ _ _ "stamp rev_no now cfg", unfolded stamp_def needs_stamp] working_step)
qed

lemma wp_audit_transaction:
  assumes "\<And>c e q d. latest_text d = latest_text (w_db s) \<Longrightarrow> config_revisions d = config_revisions (w_db s) \<Longrightarrow> Q () (adv c e q d s)"
    and "Q () s"
  shows "wp (audit_transaction k r previous phase) Q s"
proof -
  have latest: "latest_text ((w_db s)\<lparr>audit_events := a, backup_export_status := b\<rparr>) = latest_text (w_db s)"
    "latest_text ((w_db s)\<lparr>audit_events := a, backup_export_status := b, audit_events := a', backup_export_status := b'\<rparr>) = latest_text (w_db s)" for a b a' b'
    by (simp_all add: latest_text_def)
  show ?thesis unfolding audit_transaction_def Let_def wp_simps
    by (auto simp: wp_simps latest intro!: wp_append_audit_event assms)
qed

lemma fin_adv: "fin x r need src old_cfg res t \<Longrightarrow> latest_text d = latest_text (w_db t) \<Longrightarrow> fin x r need src old_cfg res (adv c e q d t)"
  by (cases res) (simp_all add: fin_def ok_adv Let_def)

text \<open>A refused change: the transaction ends there, nothing was sent to the helper and the rest of the engine stays.\<close>

definition refused :: "deps \<Rightarrow> engine \<Rightarrow> tx_state \<Rightarrow> engine \<Rightarrow> bool" where
  "refused x s st t \<longleftrightarrow> engine_ok x t \<and> st \<in> {Rejected, RecoveryRequired} \<and>
     e_current_config t = e_current_config s \<and> e_pending t = e_pending s \<and> e_recovery_required t = e_recovery_required s \<and>
     e_requests t = e_requests s \<and> e_timers t = e_timers s \<and> config_revisions (w_db t) = config_revisions (w_db s) \<and>
     length (e_txs t) = Suc (length (e_txs s)) \<and> take (length (e_txs s)) (e_txs t) = e_txs s \<and>
     tx_current_state (e_txs t ! length (e_txs s)) = st"

definition needs :: "deps \<Rightarrow> engine \<Rightarrow> system_config \<Rightarrow> bool \<Rightarrow> bool" where
  "needs x s cfg allow \<longleftrightarrow> \<not> allow \<and> requires_confirmation (st_codec (dp_storage x)) (e_current_config s) cfg"

definition processed :: "deps \<Rightarrow> system_config \<Rightarrow> bool \<Rightarrow> engine \<Rightarrow> unit result \<Rightarrow> engine \<Rightarrow> bool" where
  "processed x cfg allow s res t \<longleftrightarrow>
     (case admission x s cfg allow of
        Inl (st, _, err) \<Rightarrow> res = Inl err \<and> refused x s st t
      | Inr _ \<Rightarrow> fin x (length (e_txs s)) (needs x s cfg allow) cfg (e_current_config s) res t)"

lemma admission_frame:
  "e_recovery_required t = e_recovery_required s \<Longrightarrow> e_recovery_reason t = e_recovery_reason s \<Longrightarrow> e_pending t = e_pending s \<Longrightarrow>
   e_current_config t = e_current_config s \<Longrightarrow> e_leases t = e_leases s \<Longrightarrow> admission x t cfg allow = admission x s cfg allow"
  by (simp only: admission_def)

lemma processed_adv:
  assumes "processed x cfg allow s res t" and "latest_text d = latest_text (w_db t)" and "config_revisions d = config_revisions (w_db t)"
  shows "processed x cfg allow s res (adv c e q d t)"
  using assms by (auto simp: processed_def refused_def intro: ok_adv fin_adv split: sum.splits)

lemma fresh_final:
  "fresh x r ident commit s \<Longrightarrow> tx_final (tx_current_state tx) \<Longrightarrow> engine_ok x (s\<lparr>e_txs := (e_txs s)[r := tx]\<rparr>)"
  by (auto simp: fresh_def engine_defs nth_list_update)

lemma wp_process_locked:
  assumes f: "fresh x r ident commit s" and ok: "engine_ok x s0" and s: "e_txs s = e_txs s0 @ [tx]" "r = length (e_txs s0)"
    and frame: "e_recovery_required s = e_recovery_required s0" "e_recovery_reason s = e_recovery_reason s0" "e_pending s = e_pending s0"
      "e_current_config s = e_current_config s0" "e_leases s = e_leases s0" "e_requests s = e_requests s0" "e_timers s = e_timers s0"
      "w_db s = w_db s0" "e_has_store s = e_has_store s0"
  shows "wp (process_locked x r ident cfg allow commit) (processed x cfg allow s0) s"
proof (cases "admission x s cfg allow")
  case (Inl a)
  obtain st msg err where a: "a = (st, msg, err)" by (cases a)
  with Inl have "st \<in> {Rejected, RecoveryRequired}" by (blast dest: admission_error)
  moreover have "admission x s0 cfg allow = Inl (st, msg, err)" using Inl a admission_frame [of s s0] frame by simp
  moreover have "refused x s0 st (s\<lparr>e_txs := (e_txs s)[r := tx'\<lparr>tx_current_state := st, tx_error := msg\<rparr>]\<rparr>)" for tx'
    using fresh_final [OF f, of "tx'\<lparr>tx_current_state := st, tx_error := msg\<rparr>"] calculation s frame by (auto simp: refused_def)
  ultimately show ?thesis using Inl a
    by (simp add: process_locked_def set_tx_def modify_tx_def wp_simps processed_def)
next
  case (Inr u)
  note adm = admission_ok [OF Inr]
  have adm0: "admission x s0 cfg allow = Inr u" using Inr admission_frame [of s s0] frame by simp
  have w: "working x r s" using f adm by (auto simp: fresh_def working_def)
  have "wp (process_locked x r ident cfg allow commit) (fin x r (needs x s0 cfg allow) cfg (e_current_config s0)) s"
    unfolding process_locked_def wp_bind wp_get needs_def frame(4) [symmetric] using Inr adm w f
    by (auto simp: wp_simps fresh_def intro!: wp_fail_tx wp_prepare_candidate fresh_commits [OF f])
  then show ?thesis by (rule wp_mono) (simp add: processed_def adm0 s)
qed

lemma wp_process:
  assumes ok: "engine_ok x s" and commit: "\<And>c. commit = Some c \<Longrightarrow> commit_callback x c"
  shows "wp (process x ident cfg allow commit) (\<lambda>(tx, res) t. processed x cfg allow s res t \<and> tx = e_txs t ! length (e_txs s)) s"
  unfolding process_def wp_bind
proof (rule wp_now, goal_cases)
  case (1 a c e q)
  let ?r = "length (e_txs s)"
  have fresh: "fresh x ?r ident commit ((adv c e q (w_db s) s)\<lparr>e_txs := e_txs s @ [tx], e_active_tx := Some ?r\<rparr>)" if "tx_id tx = ident" for tx
    using ok commit that by (auto simp: fresh_def engine_defs nth_append split: option.splits)
  show ?case unfolding wp_get Let_def wp_bind wp_set
    by (rule wp_mono [OF wp_process_locked [OF _ ok]])
      (auto simp: wp_simps intro!: fresh wp_audit_transaction processed_adv)
qed

end
