(* ===== verification/Engine_Confirm.thy ===== *)
theory Engine_Confirm
  imports Engine_Apply
begin

text \<open>
  Confirming, rolling back and reconciling a pending change: each operation keeps the invariant, and each says what
  becomes of the pending change and of the current configuration.
\<close>

section \<open>A pending change in hand\<close>

definition held :: "deps \<Rightarrow> nat \<Rightarrow> system_config \<Rightarrow> engine \<Rightarrow> bool" where
  "held x r cand s \<longleftrightarrow> engine_ok x s \<and> busy s r \<and> tx_config (e_txs s ! r) = cand"

text \<open>After a confirmation: the candidate is current and nothing is pending, or the change is still pending.\<close>

definition cfin :: "deps \<Rightarrow> nat \<Rightarrow> system_config \<Rightarrow> system_config \<Rightarrow> unit result \<Rightarrow> engine \<Rightarrow> bool" where
  "cfin x r cand old_cfg res t \<longleftrightarrow> engine_ok x t \<and> r < length (e_txs t) \<and> tx_config (e_txs t ! r) = cand \<and>
     (case res of
        Inr _ \<Rightarrow> e_pending t = None \<and> e_current_config t = cand \<and> tx_current_state (e_txs t ! r) = Committed \<and> \<not> e_recovery_required t
      | Inl _ \<Rightarrow> busy t r \<and> (e_current_config t = old_cfg \<or> canon t))"

lemma busy_bound: "engine_ok x s \<Longrightarrow> busy s r \<Longrightarrow> r < length (e_txs s)"
  by (auto simp: engine_defs)

lemma ok_tx:
  "engine_ok x s \<Longrightarrow> busy s r \<Longrightarrow> tx_config tx = tx_config (e_txs s ! r) \<Longrightarrow> tx_id tx = tx_id (e_txs s ! r) \<Longrightarrow>
   engine_ok x (s\<lparr>e_txs := (e_txs s)[r := tx]\<rparr>)"
  by (auto simp: engine_defs nth_list_update split: if_splits)

lemma held_tx:
  "held x r cand s \<Longrightarrow> tx_config tx = cand \<Longrightarrow> tx_id tx = tx_id (e_txs s ! r) \<Longrightarrow> held x r cand (s\<lparr>e_txs := (e_txs s)[r := tx]\<rparr>)"
  using busy_bound [of x s r] by (auto simp: held_def busy_def intro!: ok_tx)

lemma ok_called:
  "engine_ok x s \<Longrightarrow> (e_has_store s \<Longrightarrow> rq_op req = op_commit_confirmed \<Longrightarrow> stored (dp_storage x) (rq_config req) (w_db s)) \<Longrightarrow>
   engine_ok x (called req as n s)"
  by (auto simp: engine_defs intro!: log_ok_replicate)

text \<open>Running an effect from an engine in order.\<close>

lemma wp_now_ok:
  assumes "engine_ok x s" and "\<And>a t. engine_ok x t \<Longrightarrow> same s t \<Longrightarrow> e_recovery_required t = e_recovery_required s \<Longrightarrow> Q a t"
  shows "wp now Q s"
  by (rule wp_now, rule assms(2)) (use assms(1) in \<open>auto simp: same_def intro: ok_adv\<close>)

lemma wp_privileged_ok:
  assumes "engine_ok x s" and "e_has_store s \<Longrightarrow> rq_op req = op_commit_confirmed \<Longrightarrow> stored (dp_storage x) (rq_config req) (w_db s)"
    and "\<And>res t. engine_ok x t \<Longrightarrow> same s t \<Longrightarrow> e_recovery_required t = e_recovery_required s \<Longrightarrow>
      (\<And>resp. res = Inr resp \<Longrightarrow> answered req s resp) \<Longrightarrow> Q res t"
  shows "wp (privileged req) Q s"
  by (rule wp_privileged, rule assms(3)) (use assms(1,2) in \<open>auto simp: same_def intro: ok_called\<close>)

lemma same_held: "same s t \<Longrightarrow> engine_ok x t \<Longrightarrow> held x r cand s \<Longrightarrow> held x r cand t"
  by (auto simp: same_def held_def busy_def)

lemma same_canon: "same s t \<Longrightarrow> canon t = canon s"
  by (simp add: same_def canon_def)

lemma held_canon: "held x r cand s \<Longrightarrow> canon s \<Longrightarrow> e_current_config s = cand \<and> (e_has_store s \<longrightarrow> stored (dp_storage x) cand (w_db s))"
  by (auto simp: held_def canon_def engine_defs)

lemma wp_fail_held:
  assumes "held x r cand s" and "e_current_config s = old_cfg \<or> canon s"
    and "\<And>t. cfin x r cand old_cfg (Inl err) t \<Longrightarrow> Q (Inl err) t"
  shows "wp (fail_tx r st msg err) Q s"
proof -
  have "wp (fail_tx r st msg err) (\<lambda>_. cfin x r cand old_cfg (Inl err)) s"
    using assms(1,2) by (auto simp: op_defs wp_simps cfin_def held_def canon_def engine_defs nth_list_update)
  then show ?thesis using assms(3) by (auto simp: op_defs wp_simps)
qed


section \<open>Confirmation\<close>

lemma wp_confirm_error:
  assumes "held x r cand s" and "e_current_config s = old_cfg \<or> canon s" and "\<And>t. cfin x r cand old_cfg (Inl err) t \<Longrightarrow> Q (Inl err) t"
  shows "wp (confirm_error r msg err) Q s"
proof -
  have "cfin x r cand old_cfg (Inl err) (s\<lparr>e_txs := (e_txs s)[r := (e_txs s ! r)\<lparr>tx_error := msg\<rparr>]\<rparr>)"
    using assms(1,2) by (auto simp: cfin_def held_def canon_def engine_defs nth_list_update)
  then show ?thesis using assms(3) by (simp add: confirm_error_def modify_tx_def wp_simps)
qed

lemma wp_confirm_tunnel:
  assumes h: "held x r cand s" and old: "e_current_config s = old_cfg"
    and fail: "\<And>err t. cfin x r cand old_cfg (Inl err) t \<Longrightarrow> Q (Inl err) t"
    and ok: "\<And>t. engine_ok x t \<Longrightarrow> same s t \<Longrightarrow> Q (Inr ()) t"
  shows "wp (confirm_tunnel r ident p cand) Q s"
proof -
  have err: "wp (confirm_error r msg e) Q t" if "engine_ok x t" "same s t" for t msg e
    using that h old by (intro wp_confirm_error fail) (auto simp: same_def held_def busy_def)
  have s: "engine_ok x s" using h by (simp add: held_def)
  show ?thesis unfolding confirm_tunnel_def Let_def wp_bind
    apply (rule wp_privileged_ok [OF s])
     apply (simp add: request_for_def)
    unfolding wp_simps
    apply (intro conjI allI impI)
     apply (rule err, assumption, assumption)
    apply (rule wp_now_ok, assumption)
    apply (intro conjI allI impI)
     apply (rule err, assumption, erule (1) same_trans)
    apply (rule ok, assumption, erule (1) same_trans)
    done
qed

lemma held_commit:
  assumes "held x r cand s" and "e_pending s = Some p" and "e_has_store s \<longrightarrow> stored (dp_storage x) cand d"
  shows "held x r cand ((adv c e q d s)\<lparr>e_pending := Some (p\<lparr>pc_canonical_committed := True\<rparr>), e_timers := ts, e_current_config := cand\<rparr>)"
  using assms by (auto simp: held_def engine_defs)

lemma wp_confirm_store:
  assumes h: "held x r cand s" and p: "e_pending s = Some p" and old: "e_current_config s = old_cfg"
    and fail: "\<And>err t. cfin x r cand old_cfg (Inl err) t \<Longrightarrow> Q (Inl err) t"
    and ok: "\<And>t. held x r cand t \<Longrightarrow> e_pending t = Some (p\<lparr>pc_canonical_committed := True\<rparr>) \<Longrightarrow> Q (Inr ()) t"
  shows "wp (confirm_store x r p cand) Q s"
proof -
  have stored_ok: "wp (do { modify_pending (\<lambda>p. p\<lparr>pc_canonical_committed := True\<rparr>); timer_stop (pc_timer p);
      State_Monad.update (\<lambda>s. s\<lparr>e_current_config := cand\<rparr>); State_Monad.return (Inr ()) }) Q (adv c e q d s)"
    if "e_has_store s \<longrightarrow> stored (dp_storage x) cand d" for c e q d
  proof -
    note k = held_commit [OF h p that, where c = c and e = e and q = q]
    have "held x r cand ((adv c e q d s)\<lparr>e_pending := Some (p\<lparr>pc_canonical_committed := True\<rparr>), e_current_config := cand\<rparr>)"
      using k [where ts = "e_timers s"] by (simp add: adv_def)
    then show ?thesis using k p
      by (cases "pc_timer p") (auto simp: modify_pending_def timer_stop_def wp_simps intro!: ok)
  qed
  have refuse: "cfin x r cand old_cfg (Inl err) ((adv c e q (w_db s) s)\<lparr>e_txs := (e_txs s)[r := (e_txs s ! r)
      \<lparr>tx_current_state := st, tx_error := m\<rparr>]\<rparr>)" for c e q st m err
    using h old by (auto simp: cfin_def held_def engine_defs nth_list_update)
  show ?thesis
  proof (cases "e_has_store s")
    case True
    then show ?thesis unfolding confirm_store_def wp_bind wp_get if_P [OF True]
      by (intro saving.commit_spec) (auto simp: wp_simps modify_tx_def intro!: stored_ok [unfolded wp_simps] fail refuse)
  next
    case False
    with stored_ok [of "w_db s" "w_clock s" "w_entropy s" "w_sql s"] show ?thesis
      by (simp add: confirm_store_def wp_simps adv_self)
  qed
qed


lemma held_pending:
  "held x r cand s \<Longrightarrow> e_pending s = Some p \<Longrightarrow> held x r cand (s\<lparr>e_pending := Some (p\<lparr>pc_commit_attempts := n\<rparr>)\<rparr>)"
  by (auto simp: held_def engine_defs)

lemma wp_confirm_ack:
  assumes h: "held x r cand s" and c: "canon s"
    and fail: "\<And>err t. cfin x r cand old_cfg (Inl err) t \<Longrightarrow> Q (Inl err) t"
    and ok: "\<And>t. held x r cand t \<Longrightarrow> canon t \<Longrightarrow> Q (Inr ()) t"
  shows "wp (confirm_ack r ident p cand) Q s"
proof -
  obtain q where q: "e_pending s = Some q" "pc_canonical_committed q" using c by (auto simp: canon_def)
  let ?s = "s\<lparr>e_pending := Some (q\<lparr>pc_commit_attempts := pc_commit_attempts q + 1\<rparr>)\<rparr>"
  have h': "held x r cand ?s" and c': "canon ?s" using held_pending [OF h q(1)] q by (auto simp: canon_def)
  have "wp (privileged req) (\<lambda>res. wp (case ack_failure a b res of
      Some msg \<Rightarrow> fail_tx r RecoveryRequired msg e | None \<Rightarrow> State_Monad.return (Inr ())) Q) ?s"
    if "rq_config req = cand" for req a b e
  proof (rule wp_privileged_ok)
    show "engine_ok x ?s" using h' by (simp add: held_def)
    show "stored (dp_storage x) (rq_config req) (w_db ?s)" if "e_has_store ?s" using held_canon [OF h' c'] that \<open>rq_config req = cand\<close> by auto
  next
    fix res t
    assume t: "engine_ok x t" "same ?s t"
    have "held x r cand t" "canon t" using same_held [OF t(2,1) h'] same_canon [OF t(2)] c' by auto
    then show "wp (case ack_failure a b res of Some msg \<Rightarrow> fail_tx r RecoveryRequired msg e | None \<Rightarrow> State_Monad.return (Inr ())) Q t"
      by (auto simp: wp_simps intro!: wp_fail_held ok fail)
  qed
  with q show ?thesis by (simp add: confirm_ack_def modify_pending_def wp_bind wp_update)
qed

lemma wp_finalize_lan:
  assumes h: "held x r cand s" and c: "canon s"
    and fail: "\<And>err t. cfin x r cand old_cfg (Inl err) t \<Longrightarrow> Q (Inl err) t"
    and ok: "\<And>t. held x r cand t \<Longrightarrow> canon t \<Longrightarrow> Q (Inr ()) t"
  shows "wp (finalize_lan x r ident p cand) Q s"
proof -
  have s: "engine_ok x s" using h by (simp add: held_def)
  have "wp (privileged (req\<lparr>rq_op := op_reconcile\<rparr>)) (\<lambda>res. wp (case ack_failure a b res of
      Some msg \<Rightarrow> fail_tx r RecoveryRequired msg e | None \<Rightarrow> State_Monad.return (Inr ())) Q) s" for req a b e
    by (rule wp_privileged_ok [OF s])
      (use h c in \<open>auto simp: wp_simps same_canon intro!: wp_fail_held [where old_cfg = old_cfg] ok fail intro: same_held\<close>)
  then show ?thesis using h c
    by (auto simp: finalize_lan_def wp_if wp_sum wp_prod wp_bind wp_return intro!: wp_fail_held fail ok)
qed

lemma wp_confirm_done:
  assumes h: "held x r cand s" and c: "canon s" and ok: "\<And>t. cfin x r cand old_cfg (Inr ()) t \<Longrightarrow> Q (Inr ()) t"
  shows "wp (confirm_done r cand) Q s"
proof -
  have s: "engine_ok x s" using h by (simp add: held_def)
  have "cfin x r cand old_cfg (Inr ()) (t\<lparr>e_txs := (e_txs t)[r := (e_txs t ! r)\<lparr>tx_confirmed_at := Some a, tx_current_state := Committed\<rparr>],
      e_current_config := cand, e_pending := None, e_active_tx := Some r, e_recovery_required := False, e_recovery_reason := []\<rparr>)"
    if t: "engine_ok x t" "same s t" for t a
  proof -
    have "held x r cand t" "canon t" using same_held [OF t(2,1) h] same_canon [OF t(2)] c by auto
    then show ?thesis by (auto simp: cfin_def held_def canon_def engine_defs nth_list_update)
  qed
  then show ?thesis unfolding confirm_done_def wp_bind
    by (intro wp_now_ok [OF s]) (auto simp: wp_simps modify_tx_def clear_recovery_def intro!: ok)
qed

lemma wp_confirm_locked:
  assumes s: "engine_ok x s" and p: "e_pending s = Some p"
  shows "wp (confirm_locked x (pc_tx p) ident p) (cfin x (pc_tx p) (tx_config (e_txs s ! pc_tx p)) (e_current_config s)) s"
proof -
  let ?r = "pc_tx p" and ?cand = "tx_config (e_txs s ! pc_tx p)" and ?old = "e_current_config s"
  have h: "held x ?r ?cand s" using s p by (simp add: held_def busy_def)
  have rest: "wp (and_then (confirm_ack ?r ident p ?cand) (\<lambda>_. and_then (finalize_lan x ?r ident p ?cand) (\<lambda>_. confirm_done ?r ?cand)))
      (cfin x ?r ?cand ?old) t" if "held x ?r ?cand t" "canon t" for t
    unfolding wp_and_then using that by (auto intro!: wp_confirm_ack wp_finalize_lan wp_confirm_done)
  have store: "wp (confirm_store x ?r p ?cand) (\<lambda>r t. (\<forall>e. r = Inl e \<longrightarrow> cfin x ?r ?cand ?old (Inl e) t) \<and>
      (\<forall>y. r = Inr y \<longrightarrow> held x ?r ?cand t \<and> canon t)) t" if "engine_ok x t" "same s t" for t
    using that h p by (intro wp_confirm_store [where old_cfg = ?old and r = ?r]) (auto simp: same_def canon_def held_def busy_def)
  show ?thesis
  proof (cases "pc_canonical_committed p")
    case True
    with p have "canon s" by (auto simp: canon_def)
    with rest [OF h] True show ?thesis by (simp add: confirm_locked_def wp_bind wp_get Let_def wp_and_then wp_return)
  next
    case False
    have tunnel: "wp (if b then confirm_tunnel ?r ident p ?cand else State_Monad.return (Inr ()))
        (\<lambda>r t. (\<forall>e. r = Inl e \<longrightarrow> cfin x ?r ?cand ?old (Inl e) t) \<and> (\<forall>y. r = Inr y \<longrightarrow> engine_ok x t \<and> same s t)) s" for b
      unfolding wp_if wp_return using h s by (auto intro!: wp_confirm_tunnel simp: same_def)
    show ?thesis unfolding confirm_locked_def wp_bind wp_get Let_def if_not_P [OF False] wp_and_then
      by (rule wp_mono [OF tunnel]) (auto intro!: wp_mono [OF store] wp_confirm_ack wp_finalize_lan wp_confirm_done)
  qed
qed

lemma cfin_adv: "cfin x r cand old_cfg res t \<Longrightarrow> latest_text d = latest_text (w_db t) \<Longrightarrow> cfin x r cand old_cfg res (adv c e q d t)"
  by (cases res) (auto simp: cfin_def canon_def busy_def intro: ok_adv)

lemma wp_confirm_transaction:
  assumes s: "engine_ok x s"
  shows "wp (confirm_transaction x ident) (\<lambda>(tx, res) t.
    if \<exists>p. e_pending s = Some p \<and> tx_id (e_txs s ! pc_tx p) = ident
    then (let r = pc_tx (the (e_pending s)) in tx = Some (e_txs t ! r) \<and> cfin x r (tx_config (e_txs s ! r)) (e_current_config s) res t)
    else tx = None \<and> t = s \<and> \<not> is_ok res) s"
proof (cases "e_pending s")
  case None
  then show ?thesis by (simp add: confirm_transaction_def wp_simps)
next
  case (Some p)
  show ?thesis
  proof (cases "tx_id (e_txs s ! pc_tx p) = ident")
    case True
    with Some show ?thesis
      by (auto simp: confirm_transaction_def wp_bind wp_get wp_if wp_return Let_def
        intro!: wp_mono [OF wp_confirm_locked [OF s Some]] wp_audit_transaction cfin_adv)
  next
    case False
    with Some show ?thesis by (simp add: confirm_transaction_def wp_simps)
  qed
qed


section \<open>Expiry\<close>

text \<open>
  After an expiry of the pending change \<open>p\<close>: it was rolled back; or the attempts are used up and the engine is
  blocked; or it is still pending, with one more attempt counted and a new timer.
\<close>

definition rfin :: "deps \<Rightarrow> engine \<Rightarrow> pending_change \<Rightarrow> engine \<Rightarrow> bool" where
  "rfin x s p t \<longleftrightarrow> engine_ok x t \<and> e_current_config t = e_current_config s \<and> length (e_txs t) = length (e_txs s) \<and>
     tx_id (e_txs t ! pc_tx p) = tx_id (e_txs s ! pc_tx p) \<and> tx_config (e_txs t ! pc_tx p) = tx_config (e_txs s ! pc_tx p) \<and>
     (case e_pending t of
        None \<Rightarrow> tx_current_state (e_txs t ! pc_tx p) = RolledBack \<and> \<not> e_recovery_required t \<or>
          tx_current_state (e_txs t ! pc_tx p) = RecoveryRequired \<and> e_recovery_required t \<and> pc_rollback_attempts p = MAXIMUM_ROLLBACK_ATTEMPTS
      | Some p' \<Rightarrow> pc_tx p' = pc_tx p \<and> \<not> pc_canonical_committed p' \<and> pc_previous p' = pc_previous p \<and>
          pc_rollback_attempts p' = pc_rollback_attempts p + 1 \<and> pc_timer p' = Some (length (e_timers s)))"

lemma rfin_adv: "rfin x s p t \<Longrightarrow> latest_text d = latest_text (w_db t) \<Longrightarrow> rfin x s p (adv c e q d t)"
  by (auto simp: rfin_def intro: ok_adv split: option.splits)

definition trying :: "deps \<Rightarrow> engine \<Rightarrow> pending_change \<Rightarrow> engine \<Rightarrow> bool" where
  "trying x s p t \<longleftrightarrow> engine_ok x t \<and> e_current_config t = e_current_config s \<and> e_txs t = e_txs s \<and> e_timers t = e_timers s \<and>
     e_pending t = Some (p\<lparr>pc_rollback_attempts := pc_rollback_attempts p + 1\<rparr>) \<and>
     \<not> pc_canonical_committed p \<and> pc_rollback_attempts p < MAXIMUM_ROLLBACK_ATTEMPTS"

lemma rfin_done:
  "trying x s p t \<Longrightarrow> wp (rollback_done (pc_tx p) p) (\<lambda>_. rfin x s p) t"
  by (cases "pc_timer p") (auto simp: trying_def rollback_done_def op_defs wp_simps rfin_def engine_defs nth_list_update)

lemma rfin_retry:
  "trying x s p t \<Longrightarrow> tx_id (e_txs s ! pc_tx p) = ident \<Longrightarrow>
   wp (do { rollback_error (pc_tx p) msg; retry_rollback ident n }) (\<lambda>_. rfin x s p) t"
  by (auto simp: trying_def rollback_error_def retry_rollback_def op_defs wp_simps rfin_def engine_defs nth_list_update nth_append)

lemma rfin_exhausted:
  assumes "engine_ok x s" "e_pending s = Some p" "\<not> pc_canonical_committed p" "pc_rollback_attempts p = MAXIMUM_ROLLBACK_ATTEMPTS"
  shows "wp (rollback_exhausted (pc_tx p)) (\<lambda>_. rfin x s p) (s\<lparr>e_pending := Some q\<rparr>)"
  using assms by (auto simp: rollback_exhausted_def rollback_error_def op_defs wp_simps rfin_def engine_defs nth_list_update Let_def)

lemma trying_same: "trying x s p t \<Longrightarrow> same t u \<Longrightarrow> engine_ok x u \<Longrightarrow> trying x s p u"
  by (simp add: trying_def same_def)

lemma wp_rollback_attempt:
  assumes t: "trying x s p t" and ident: "tx_id (e_txs s ! pc_tx p) = ident"
  shows "wp (rollback_attempt x (pc_tx p) ident p n) (\<lambda>_. rfin x s p) t"
proof -
  have ok: "engine_ok x t" using t by (simp add: trying_def)
  have "wp (privileged req) (\<lambda>res. wp (if verified_answer res then rollback_done (pc_tx p) p
      else do { rollback_error (pc_tx p) msg; retry_rollback ident n }) (\<lambda>_. rfin x s p)) t"
    if "rq_op req = op_apply_all" for req msg
    unfolding wp_if
    by (rule wp_privileged_ok [OF ok]) (use that t ident in \<open>auto intro: rfin_done rfin_retry trying_same\<close>)
  then show ?thesis using rfin_retry [OF t ident] unfolding rollback_attempt_def wp_sum wp_bind
    by (auto dest: build_apply_request_op)
qed

lemma wp_rollback_expired:
  assumes s: "engine_ok x s"
  shows "wp (rollback_expired x ident) (\<lambda>_ t.
    if \<exists>p. e_pending s = Some p \<and> tx_id (e_txs s ! pc_tx p) = ident \<and> \<not> pc_canonical_committed p
    then rfin x s (the (e_pending s)) t else t = s) s"
proof (cases "\<exists>p. e_pending s = Some p \<and> tx_id (e_txs s ! pc_tx p) = ident \<and> \<not> pc_canonical_committed p")
  case True
  then obtain p where p: "e_pending s = Some p" "tx_id (e_txs s ! pc_tx p) = ident" "\<not> pc_canonical_committed p" by blast
  have le: "pc_rollback_attempts p \<le> MAXIMUM_ROLLBACK_ATTEMPTS" using s p by (simp add: engine_defs)
  let ?s = "s\<lparr>e_pending := Some (p\<lparr>pc_rollback_attempts := pc_rollback_attempts p + 1\<rparr>)\<rparr>"
  have t: "trying x s p ?s" if "pc_rollback_attempts p < MAXIMUM_ROLLBACK_ATTEMPTS"
    using s p that by (auto simp: trying_def engine_defs)
  have "wp (if pc_rollback_attempts p + 1 > MAXIMUM_ROLLBACK_ATTEMPTS then rollback_exhausted (pc_tx p)
      else rollback_attempt x (pc_tx p) ident p (pc_rollback_attempts p + 1)) (\<lambda>_. rfin x s p) ?s"
    using le t p s by (auto simp: wp_if intro!: rfin_exhausted wp_rollback_attempt)
  then have "wp (if pc_rollback_attempts p + 1 > MAXIMUM_ROLLBACK_ATTEMPTS then rollback_exhausted (pc_tx p)
      else rollback_attempt x (pc_tx p) ident p (pc_rollback_attempts p + 1))
      (\<lambda>_. wp (audit_transaction (dp_storage x) (pc_tx p) n phase) (\<lambda>_. rfin x s p)) ?s" for n phase
    by (rule wp_mono) (auto intro!: wp_audit_transaction rfin_adv)
  with p True show ?thesis by (simp add: rollback_expired_def wp_bind wp_get Let_def modify_pending_def wp_update wp_if)
next
  case False
  then show ?thesis by (auto simp: rollback_expired_def wp_simps)
qed


section \<open>Reconciliation and the bypass\<close>

text \<open>After a verified reconciliation nothing is pending or blocked; otherwise only the block may be set.\<close>

definition reconciled :: "deps \<Rightarrow> engine \<Rightarrow> unit result \<Rightarrow> engine \<Rightarrow> bool" where
  "reconciled x s res t \<longleftrightarrow> engine_ok x t \<and> e_current_config t = e_current_config s \<and>
     (case res of Inr _ \<Rightarrow> e_pending t = None \<and> \<not> e_recovery_required t | Inl _ \<Rightarrow> e_pending t = e_pending s \<and> e_txs t = e_txs s)"

lemma ok_recovery: "engine_ok x s \<Longrightarrow> engine_ok x (s\<lparr>e_recovery_required := b, e_recovery_reason := m\<rparr>)"
  by (simp add: engine_defs)

lemma reconcile_pending_none: "e_pending s = None \<Longrightarrow> wp reconcile_pending Q s = Q () s"
  by (simp add: reconcile_pending_def wp_simps)

lemma ok_released:
  assumes "engine_ok x s" and "e_pending s = Some p" and "e_pending t = None" and "e_txs t = (e_txs s)[pc_tx p := tx]"
    and "tx_final (tx_current_state tx)" and "e_current_config t = e_current_config s" and "e_has_store t = e_has_store s"
    and "w_db t = w_db s" and "e_requests t = e_requests s" and "e_active_tx t = Some (pc_tx p)" and "e_applying t = e_applying s"
  shows "engine_ok x t"
  using assms by (auto simp: engine_defs nth_list_update)

lemma wp_reconcile_pending:
  assumes s: "engine_ok x s"
    and Q: "\<And>t. engine_ok x t \<Longrightarrow> e_pending t = None \<Longrightarrow> e_current_config t = e_current_config s \<Longrightarrow> Q () t"
  shows "wp reconcile_pending Q s"
proof (cases "e_pending s")
  case None
  with s Q show ?thesis by (simp add: reconcile_pending_none)
next
  case (Some p)
  then show ?thesis
    by (cases "pc_timer p")
      (auto simp: reconcile_pending_def op_defs wp_simps intro!: wp_now Q ok_released [OF s Some])
qed

lemma wp_reconcile:
  assumes s: "engine_ok x s"
  shows "wp (reconcile x) (reconciled x s) s"
proof -
  have blocked: "reconciled x s (Inl e) (t\<lparr>e_recovery_required := True, e_recovery_reason := m\<rparr>)" if "engine_ok x t" "same s t" for t e m
    using that by (auto simp: reconciled_def same_def intro: ok_recovery)
  have released: "wp reconcile_pending (\<lambda>_ t. reconciled x s (Inr ()) (t\<lparr>e_recovery_required := False, e_recovery_reason := []\<rparr>)) t"
    if "engine_ok x t" "same s t" for t
    using that by (intro wp_reconcile_pending) (auto simp: reconciled_def same_def intro: ok_recovery)
  have answer: "wp (do { res \<leftarrow> privileged req; case res of
        Inl err \<Rightarrow> do { require_recovery (m err); State_Monad.return (Inl (Errorf (m err))) }
      | Inr resp \<Rightarrow> if b resp then do { require_recovery (m' resp); State_Monad.return (Inl (Errorf (m' resp))) }
          else do { reconcile_pending; clear_recovery; State_Monad.return (Inr ()) } }) (reconciled x s) t"
    if t: "engine_ok x t" "same s t" and "rq_op req = op_reconcile" for t req m m' b
    unfolding wp_sum wp_if wp_bind
    by (rule wp_privileged_ok [OF t(1)])
      (use that in \<open>auto simp: require_recovery_def clear_recovery_def wp_simps intro!: blocked released intro: same_trans\<close>)
  show ?thesis unfolding reconcile_def wp_bind Let_def
    by (rule wp_now_ok [OF s])
      (auto simp only: wp_get wp_sum wp_prod wp_return intro!: answer; auto simp: reconciled_def same_def)
qed

lemma wp_apply_temporary_runtime:
  assumes "engine_ok x s" and "rq_op req \<noteq> op_commit_confirmed" and Q: "\<And>res t. engine_ok x t \<Longrightarrow> same s t \<Longrightarrow> Q res t"
  shows "wp (apply_temporary_runtime req) Q s"
  unfolding apply_temporary_runtime_def wp_simps
  by (rule wp_privileged_ok [OF assms(1)]) (use assms(2) in \<open>auto intro: Q\<close>)

lemma wp_restore_qos:
  assumes s: "engine_ok x s" and Q: "\<And>res t. engine_ok x t \<Longrightarrow> same s t \<Longrightarrow> Q res t"
  shows "wp (restore_qos x cfg) Q s"
  unfolding restore_qos_def wp_simps wrapped_def
  by (rule wp_now_ok [OF s]) (auto intro!: wp_apply_temporary_runtime Q intro: same_trans)

lemma wp_with_qos_bypassed:
  assumes s: "engine_ok x s"
  shows "wp (with_qos_bypassed x measured) (\<lambda>_ t. engine_ok x t \<and> e_current_config t = e_current_config s \<and>
    e_pending t = e_pending s \<and> e_txs t = e_txs s) s"
  unfolding with_qos_bypassed_def Let_def wp_simps wrapped_def require_recovery_def
  apply (intro conjI impI allI)
  using s apply simp_all
  apply (rule wp_now_ok [OF s])
  apply (auto dest!: build_apply_request_op intro!: wp_apply_temporary_runtime wp_restore_qos ok_recovery simp: same_def)
  done

end
