(* ===== verification/Engine_Frame.thy ===== *)
theory Engine_Frame
  imports Engine_Confirm
begin

text \<open>
  What no operation of the engine changes. \<open>frames f m\<close> says that \<open>m\<close> keeps \<open>f\<close> of the state; the rules follow the structure
  of the code. The store of an engine is given when it is made and stays.
\<close>

named_theorems frame_intros \<open>rules for what code keeps\<close>

definition frames :: "('s \<Rightarrow> 'b) \<Rightarrow> ('s, 'a) state \<Rightarrow> bool" where
  "frames f m \<longleftrightarrow> (\<forall>s. wp m (\<lambda>_ t. f t = f s) s)"

lemma framesI: "(\<And>s. wp m (\<lambda>_ t. f t = f s) s) \<Longrightarrow> frames f m"
  by (simp add: frames_def)

lemma frames_snd: "frames f m \<Longrightarrow> f (snd (run_state m s)) = f s"
  by (simp add: frames_def wp_def split_beta)

lemma frames_wp: "frames f m \<Longrightarrow> (\<And>a t. f t = f s \<Longrightarrow> Q a t) \<Longrightarrow> wp m Q s"
  by (auto simp: frames_def elim!: allE [of _ s] intro: wp_mono)

lemma frames_return [frame_intros]: "frames f (State_Monad.return a)"
  by (simp add: frames_def wp_return)

lemma frames_get [frame_intros]: "frames f State_Monad.get"
  by (simp add: frames_def wp_get)

lemma frames_update [frame_intros]: "(\<And>s. f (g s) = f s) \<Longrightarrow> frames f (State_Monad.update g)"
  by (simp add: frames_def wp_update)

lemma frames_bind [frame_intros]: "frames f m \<Longrightarrow> (\<And>a. frames f (g a)) \<Longrightarrow> frames f (State_Monad.bind m g)"
  by (rule framesI, unfold wp_bind, erule frames_wp, erule meta_allE, erule frames_wp) simp

lemma frames_and_then [frame_intros]: "frames f m \<Longrightarrow> (\<And>a. frames f (g a)) \<Longrightarrow> frames f (and_then m g)"
  unfolding and_then_def by (auto intro!: frame_intros split: sum.splits)

lemma frames_if [frame_intros]: "(b \<Longrightarrow> frames f m) \<Longrightarrow> (\<not> b \<Longrightarrow> frames f n) \<Longrightarrow> frames f (if b then m else n)"
  by simp

lemma frames_option [frame_intros]: "frames f m \<Longrightarrow> (\<And>a. frames f (g a)) \<Longrightarrow> frames f (case x of None \<Rightarrow> m | Some a \<Rightarrow> g a)"
  by (simp split: option.splits)

lemma frames_sum [frame_intros]: "(\<And>e. frames f (m e)) \<Longrightarrow> (\<And>a. frames f (g a)) \<Longrightarrow> frames f (case x of Inl e \<Rightarrow> m e | Inr a \<Rightarrow> g a)"
  by (simp split: sum.splits)

lemma frames_prod [frame_intros]: "(\<And>a b. frames f (g a b)) \<Longrightarrow> frames f (case x of (a, b) \<Rightarrow> g a b)"
  by (simp split: prod.splits)

lemma frames_wrapped [frame_intros]: "frames f m \<Longrightarrow> frames f (wrapped p m)"
  unfolding wrapped_def by (intro frame_intros)

section \<open>The store of the engine\<close>

lemma store_effects [frame_intros]:
  "frames e_has_store now" "frames e_has_store (save_config v k cfg)" "frames e_has_store (commit_initial_setup v k hash cfg)"
  "frames e_has_store (create_snapshot k cfg)" "frames e_has_store (append_audit_event k event_type actor details)"
  "frames e_has_store (timer_after delay ident)" "frames e_has_store (privileged req)"
  by (rule framesI, (rule wp_now wp_save_config wp_commit_initial_setup wp_create_snapshot wp_append_audit_event wp_privileged)?,
      simp_all add: timer_after_def wp_simps)+

lemma store_steps [frame_intros]:
  "frames e_has_store (set_tx r st err_text)" "frames e_has_store (modify_tx r g)" "frames e_has_store (require_recovery m)"
  "frames e_has_store clear_recovery" "frames e_has_store (timer_stop i)" "frames e_has_store (modify_pending h)"
  "frames e_has_store (fail_tx r st m err)" "frames e_has_store (finish_commit r cfg)" "frames e_has_store (confirm_error r m err)"
  "frames e_has_store (audit_transaction k r n phase)" "frames e_has_store (rollback_error r m)"
  by (auto simp: op_defs finish_commit_def confirm_error_def audit_transaction_def rollback_error_def Let_def intro!: frame_intros)

lemma store_process:
  assumes "\<And>c cfg. commit = Some c \<Longrightarrow> frames e_has_store (c cfg)"
  shows "frames e_has_store (process x ident cfg allow commit)"
proof -
  have "frames e_has_store (c cfg)" if "commit_config x commit b = Some c" for c cfg b
    using that assms by (auto simp: commit_config_def intro: frame_intros split: option.splits if_splits)
  then have commit: "frames e_has_store (commit_verified x r ident cfg d (commit_config x commit b))" for r ident cfg d b
    unfolding commit_verified_def acknowledge_def undo_apply_def Let_def by (cases "commit_config x commit b") (auto intro!: frame_intros)
  have locked: "frames e_has_store (process_locked x r ident cfg allow commit)" for r
    unfolding process_locked_def prepare_candidate_def snapshot_and_activate_def activate_candidate_def await_confirmation_def pre_apply_snapshot_def Let_def
    by (intro frame_intros commit) auto
  have set: "frames e_has_store (do { s \<leftarrow> State_Monad.get; State_Monad.set (s\<lparr>e_txs := ts s, e_active_tx := a s\<rparr>); m s })"
    if "\<And>s. frames e_has_store (m s)" for ts a and m :: "engine \<Rightarrow> (engine, transaction \<times> unit result) state"
    by (rule framesI, unfold wp_simps, rule frames_wp [OF that]) simp
  show ?thesis unfolding process_def Let_def by (rule frames_bind, rule frame_intros, rule set) (intro frame_intros locked)
qed

lemma store_confirm: "frames e_has_store (confirm_transaction x ident)"
  unfolding confirm_transaction_def confirm_locked_def confirm_tunnel_def confirm_store_def confirm_ack_def finalize_lan_def confirm_done_def Let_def
  by (intro frame_intros) auto

lemma store_expire: "frames e_has_store (rollback_expired x ident)"
  unfolding rollback_expired_def rollback_exhausted_def rollback_attempt_def rollback_done_def retry_rollback_def Let_def
  by (intro frame_intros) auto

lemma store_reconcile: "frames e_has_store (reconcile x)"
  unfolding reconcile_def reconcile_pending_def Let_def by (intro frame_intros) auto

lemma store_bypass: "frames e_has_store (with_qos_bypassed x measured)"
  unfolding with_qos_bypassed_def restore_qos_def apply_temporary_runtime_def Let_def by (intro frame_intros)

end
