(* ===== verification/Engine_Steps.thy ===== *)
theory Engine_Steps
  imports Engine_Frame
begin

text \<open>
  The engine as a machine. The contract says what the router promises about its configuration: one configuration is
  current; a candidate may be on trial; it replaces the current one or is discarded, and nothing new is admitted while a
  candidate is on trial or the engine is blocked. Every operation of the engine is a step of the contract.
\<close>

section \<open>The contract\<close>

datatype phase = Idle | Trial system_config | Finishing

record contract =
  ct_current :: system_config
  ct_phase :: phase
  ct_blocked :: bool

definition succeeds :: "env \<Rightarrow> system_config \<Rightarrow> system_config \<Rightarrow> bool" where
  "succeeds v old_cfg new_cfg \<longleftrightarrow> admitted v new_cfg \<and> next_revision (revision old_cfg) = Some (revision new_cfg)"

inductive contract_step :: "env \<Rightarrow> contract \<Rightarrow> contract \<Rightarrow> bool" for v where
  keep: "contract_step v c (c\<lparr>ct_blocked := b\<rparr>)"
| commit: "succeeds v cur cand \<Longrightarrow>
    contract_step v \<lparr>ct_current = cur, ct_phase = Idle, ct_blocked = False\<rparr> \<lparr>ct_current = cand, ct_phase = Idle, ct_blocked = b\<rparr>"
| attempt: "succeeds v cur cand \<Longrightarrow>
    contract_step v \<lparr>ct_current = cur, ct_phase = Idle, ct_blocked = False\<rparr> \<lparr>ct_current = cur, ct_phase = Trial cand, ct_blocked = b\<rparr>"
| adopt: "succeeds v cur cand \<Longrightarrow> ph \<in> {Idle, Finishing} \<Longrightarrow>
    contract_step v \<lparr>ct_current = cur, ct_phase = Trial cand, ct_blocked = a\<rparr> \<lparr>ct_current = cand, ct_phase = ph, ct_blocked = b\<rparr>"
| discard: "contract_step v \<lparr>ct_current = cur, ct_phase = Trial cand, ct_blocked = a\<rparr> \<lparr>ct_current = cur, ct_phase = Idle, ct_blocked = b\<rparr>"
| finish: "contract_step v \<lparr>ct_current = cur, ct_phase = Finishing, ct_blocked = a\<rparr> \<lparr>ct_current = cur, ct_phase = Idle, ct_blocked = b\<rparr>"

inductive_cases contract_stepE: "contract_step v c d"

lemma next_revision_less: "next_revision r = Some r' \<Longrightarrow> unat r' = unat r + 1"
  by (auto simp: next_revision_def checked_next_def next_generation split: if_splits option.splits)

interpretation contracts: monotone_steps "contract_step v" "\<lambda>_. True" "\<lambda>c. unat (revision (ct_current c))" for v
proof
  fix c d assume "contract_step v c d"
  then show "unat (revision (ct_current c)) \<le> unat (revision (ct_current d))"
    by (auto elim!: contract_stepE simp: succeeds_def dest!: next_revision_less)
qed simp

section \<open>Steps of the engine\<close>

text \<open>
  The public operations, one at a time under the operation mutex. The environment may change what the engine will read
  and, through other handles of the store, every table but the configurations.
\<close>

inductive engine_step :: "deps \<Rightarrow> engine \<Rightarrow> engine \<Rightarrow> bool" for x where
  step_process: "engine_step x s (snd (run_state (process_transaction x ident cfg) s))"
| step_initial: "engine_step x s (snd (run_state (process_initial_setup x ident cfg (commit_initial_setup (dp_env x) (dp_storage x) hash)) s))"
| step_confirm: "engine_step x s (snd (run_state (confirm_transaction x ident) s))"
| step_expire: "engine_step x s (snd (run_state (rollback_expired x ident) s))"
| step_reconcile: "engine_step x s (snd (run_state (reconcile x) s))"
| step_bypass: "engine_step x s (snd (run_state (with_qos_bypassed x measured) s))"
| step_environment: "config_revisions d = config_revisions (w_db s) \<Longrightarrow>
    engine_step x s (s\<lparr>w_clock := c, w_entropy := e, w_sql := q, w_db := d, e_leases := ls, e_answers := as\<rparr>)"

definition phase_of :: "engine \<Rightarrow> phase" where
  "phase_of s = (case e_pending s of None \<Rightarrow> Idle
     | Some p \<Rightarrow> if pc_canonical_committed p then Finishing else Trial (tx_config (e_txs s ! pc_tx p)))"

definition contract_of :: "engine \<Rightarrow> contract" where
  "contract_of s = \<lparr>ct_current = e_current_config s, ct_phase = phase_of s, ct_blocked = e_recovery_required s\<rparr>"

text \<open>What a step must give: the invariant, and a step of the contract.\<close>

definition good :: "deps \<Rightarrow> engine \<Rightarrow> engine \<Rightarrow> bool" where
  "good x s t \<longleftrightarrow> engine_ok x t \<and> contract_step (dp_env x) (contract_of s) (contract_of t)"

lemma good_snd: "wp m (\<lambda>_. good x s) s \<Longrightarrow> good x s (snd (run_state m s))"
  by (simp add: wp_def split: prod.splits)

lemma good_keep: "engine_ok x t \<Longrightarrow> e_current_config t = e_current_config s \<Longrightarrow> phase_of t = phase_of s \<Longrightarrow> good x s t"
  using contract_step.keep [of "dp_env x" "contract_of s" "e_recovery_required t"] by (simp add: good_def contract_of_def)

lemma good_commit:
  "engine_ok x t \<Longrightarrow> phase_of s = Idle \<Longrightarrow> \<not> e_recovery_required s \<Longrightarrow> phase_of t = Idle \<Longrightarrow>
   succeeds (dp_env x) (e_current_config s) (e_current_config t) \<Longrightarrow> good x s t"
  by (simp add: good_def contract_of_def contract_step.commit)

lemma good_attempt:
  "engine_ok x t \<Longrightarrow> phase_of s = Idle \<Longrightarrow> \<not> e_recovery_required s \<Longrightarrow> e_current_config t = e_current_config s \<Longrightarrow>
   phase_of t = Trial cand \<Longrightarrow> succeeds (dp_env x) (e_current_config s) cand \<Longrightarrow> good x s t"
  by (simp add: good_def contract_of_def contract_step.attempt)

lemma good_adopt:
  "engine_ok x t \<Longrightarrow> phase_of s = Trial (e_current_config t) \<Longrightarrow> phase_of t \<in> {Idle, Finishing} \<Longrightarrow>
   succeeds (dp_env x) (e_current_config s) (e_current_config t) \<Longrightarrow> good x s t"
  by (simp add: good_def contract_of_def contract_step.adopt)

lemma good_release:
  "engine_ok x t \<Longrightarrow> e_current_config t = e_current_config s \<Longrightarrow> e_pending t = None \<Longrightarrow> good x s t"
  using good_keep [of x t s] contract_step.intros
  by (cases "phase_of s") (auto simp: good_def contract_of_def phase_of_def [of t])

lemma phase_pending:
  assumes "engine_ok x s" and "busy s r"
  shows "phase_of s = (if canon s then Finishing else Trial (tx_config (e_txs s ! r)))"
    and "canon s \<Longrightarrow> e_current_config s = tx_config (e_txs s ! r)"
    and "\<not> canon s \<Longrightarrow> succeeds (dp_env x) (e_current_config s) (tx_config (e_txs s ! r))"
    and "\<not> canon s \<Longrightarrow> e_current_config s \<noteq> tx_config (e_txs s ! r)"
  using assms by (auto simp: engine_defs canon_def phase_of_def succeeds_def split: option.splits dest!: next_revision_less)

lemma phase_same: "e_pending t = e_pending s \<Longrightarrow> e_txs t = e_txs s \<Longrightarrow> phase_of t = phase_of s"
  by (simp only: phase_of_def)

lemma good_processed:
  assumes "processed x cfg allow s res t" and ok: "engine_ok x s"
  shows "good x s t"
proof (cases "admission x s cfg allow")
  case (Inl a)
  with assms obtain st where r: "refused x s st t" by (auto simp: processed_def split: prod.splits)
  then have "e_txs s = take (length (e_txs s)) (e_txs t)" by (simp add: refused_def)
  then have "e_txs t ! i = e_txs s ! i" if "i < length (e_txs s)" for i using that by (metis nth_take)
  with r ok have "phase_of t = phase_of s" by (auto simp: refused_def phase_of_def engine_defs split: option.splits)
  with r show ?thesis by (auto simp: refused_def intro: good_keep)
next
  case (Inr u)
  have start: "\<not> e_recovery_required s" "e_pending s = None" "phase_of s = Idle"
    using admission_ok [OF Inr] by (auto simp: phase_of_def)
  from assms Inr have f: "fin x (length (e_txs s)) (needs x s cfg allow) cfg (e_current_config s) res t" by (simp add: processed_def)
  then have t: "engine_ok x t" "admitted (dp_env x) (e_current_config t)" by (simp_all add: fin_def engine_defs)
  show ?thesis
  proof (cases "e_pending t")
    case None
    with f start t show ?thesis
      by (cases res) (auto simp: fin_def Let_def succeeds_def stamped_def phase_of_def [of t] busy_def split: if_splits intro: good_release good_commit)
  next
    case (Some p)
    with f have b: "busy t (length (e_txs s))" "\<not> canon t" "e_current_config t = e_current_config s"
      by (auto simp: fin_def Let_def split: sum.splits if_splits)
    with phase_pending [OF t(1) b(1)] t start show ?thesis by (auto intro: good_attempt)
  qed
qed

lemma good_confirmed:
  assumes s: "engine_ok x s" and p: "e_pending s = Some p"
    and f: "cfin x (pc_tx p) (tx_config (e_txs s ! pc_tx p)) (e_current_config s) res t"
  shows "good x s t"
proof -
  have b: "busy s (pc_tx p)" using p by (simp add: busy_def)
  note ps = phase_pending [OF s b]
  have t: "engine_ok x t" "tx_config (e_txs t ! pc_tx p) = tx_config (e_txs s ! pc_tx p)" using f by (simp_all add: cfin_def)
  show ?thesis
  proof (cases res)
    case (Inr u)
    with f have t': "e_pending t = None" "e_current_config t = tx_config (e_txs s ! pc_tx p)" by (simp_all add: cfin_def)
    with t ps show ?thesis
      by (cases "canon s") (auto intro: good_release good_adopt simp: phase_of_def [of t])
  next
    case (Inl e)
    with f have t': "busy t (pc_tx p)" "e_current_config t = e_current_config s \<or> canon t" by (simp_all add: cfin_def)
    note pt = phase_pending [OF t(1) t'(1)]
    show ?thesis using t t' ps pt
      by (cases "canon s"; cases "canon t") (auto intro: good_keep good_adopt)
  qed
qed

lemma good_rolled_back:
  assumes s: "engine_ok x s" and p: "e_pending s = Some p" "\<not> pc_canonical_committed p" and f: "rfin x s p t"
  shows "good x s t"
proof (cases "e_pending t")
  case None
  with f show ?thesis by (auto simp: rfin_def intro: good_release)
next
  case (Some p')
  with f p have "phase_of t = phase_of s" by (simp add: rfin_def phase_of_def)
  with f show ?thesis by (auto simp: rfin_def intro: good_keep)
qed

lemma good_step: "engine_step x s t \<Longrightarrow> engine_ok x s \<Longrightarrow> good x s t"
proof (induction rule: engine_step.induct)
  case (step_process s ident cfg)
  show ?case unfolding process_transaction_def
    by (rule good_snd, rule wp_mono [OF wp_process]) (use step_process in \<open>auto intro: good_processed\<close>)
next
  case (step_initial s ident cfg hash)
  show ?case unfolding process_initial_setup_def
    by (rule good_snd, rule wp_mono [OF wp_process]) (use step_initial in \<open>auto intro: good_processed initial.commit_callback_axioms\<close>)
next
  case (step_confirm s ident)
  show ?case by (rule good_snd, rule wp_mono [OF wp_confirm_transaction])
    (use step_confirm in \<open>auto simp: Let_def intro: good_confirmed good_keep split: if_splits\<close>)
next
  case (step_expire s ident)
  show ?case by (rule good_snd, rule wp_mono [OF wp_rollback_expired])
    (use step_expire in \<open>auto intro: good_rolled_back good_keep split: if_splits\<close>)
next
  case (step_reconcile s)
  show ?case by (rule good_snd, rule wp_mono [OF wp_reconcile])
    (use step_reconcile in \<open>auto simp: reconciled_def intro: good_release good_keep phase_same split: sum.splits\<close>)
next
  case (step_bypass s measured)
  show ?case by (rule good_snd, rule wp_mono [OF wp_with_qos_bypassed])
    (use step_bypass in \<open>auto intro: good_keep phase_same\<close>)
next
  case (step_environment d s c e q ls as)
  then have "latest_text d = latest_text (w_db s)" by (simp add: latest_text_def)
  with step_environment(2) show ?case by (auto intro!: good_keep phase_same simp: engine_defs stored_def)
qed

lemma store_step_kept: "engine_step x s t \<Longrightarrow> e_has_store t = e_has_store s"
  by (induction rule: engine_step.induct)
    (auto simp: process_transaction_def process_initial_setup_def
      intro!: frames_snd store_process store_confirm store_expire store_reconcile store_bypass frame_intros)

interpretation engines: simulation "engine_step x" "\<lambda>s. engine_ok x s \<and> e_has_store s = has_store" "contract_step (dp_env x)" contract_of
  for x has_store
  by unfold_locales (auto dest: good_step store_step_kept simp: good_def)

end
