(* ===== verification/Nft_Syntax.thy ===== *)
theory Nft_Syntax
  imports Policy
begin

text \<open>
  The part of the nftables language that the generator writes: statements, rules, chains and their text. A rule is a
  list of statements from left to right; its text is what \<open>nftables.rs\<close> formats.
\<close>

section \<open>Text\<close>

definition quoted :: "string \<Rightarrow> string" where
  "quoted s = CHR 0x22 # s @ [CHR 0x22]"

definition unlines :: "string list \<Rightarrow> string" where
  "unlines ls = concat (map (\<lambda>l. l @ [CHR 0x0A]) ls)"

definition em_dash :: string where
  "em_dash = [CHR 0xE2, CHR 0x80, CHR 0x94]"

definition braces :: "string list \<Rightarrow> string" where
  "braces xs = ''{ '' @ join '', '' xs @ '' }''"

section \<open>Statements\<close>

datatype stmt =
    Iifname string
  | Oifname string
  | Oifname_any "string list"
  | Saddr string
  | Saddr_any "string list"
  | Saddr_not string
  | Saddr_none "string list"
  | Daddr string
  | Daddr_any "string list"
  | Daddr_service string
  | Ip_protocol string
  | L4 string
  | Dport string
  | Dport_any "string list"
  | Sport string
  | Sport_any "string list"
  | Ct_state "string list"
  | Meter string
  | Limit_over
  | Fib_missing
  | Fib_not_local
  | Nfproto_ipv6
  | Skuid string
  | Meta_day nat
  | Meta_hour string string
  | Counter_name string
  | Counter
  | Update string string
  | Clamp_mss
  | Accept
  | Drop
  | Return
  | Jump string
  | Masquerade
  | Dnat string string

fun stmt_text :: "stmt \<Rightarrow> string" where
  "stmt_text (Iifname i) = ''iifname '' @ quoted i"
| "stmt_text (Oifname i) = ''oifname '' @ quoted i"
| "stmt_text (Oifname_any is) = ''oifname '' @ braces is"
| "stmt_text (Saddr a) = ''ip saddr '' @ a"
| "stmt_text (Saddr_any as) = ''ip saddr '' @ braces as"
| "stmt_text (Saddr_not a) = ''ip saddr != '' @ a"
| "stmt_text (Saddr_none as) = ''ip saddr != '' @ braces as"
| "stmt_text (Daddr a) = ''ip daddr '' @ a"
| "stmt_text (Daddr_any as) = ''ip daddr '' @ braces as"
| "stmt_text (Daddr_service s) = ''ip daddr @svc_'' @ s"
| "stmt_text (Ip_protocol p) = ''ip protocol '' @ p"
| "stmt_text (L4 p) = p"
| "stmt_text (Dport p) = ''dport '' @ p"
| "stmt_text (Dport_any ps) = ''dport '' @ braces ps"
| "stmt_text (Sport p) = ''sport '' @ p"
| "stmt_text (Sport_any ps) = ''sport '' @ braces ps"
| "stmt_text (Ct_state ss) = ''ct state '' @ join '','' ss"
| "stmt_text (Meter m) = ''meter '' @ m @ '' { ip saddr timeout 10s limit rate over 20/second burst 40 packets }''"
| "stmt_text Limit_over = ''limit rate over 30/second burst 60 packets''"
| "stmt_text Fib_missing = ''fib saddr . iif oif missing''"
| "stmt_text Fib_not_local = ''fib saddr type != local''"
| "stmt_text Nfproto_ipv6 = ''meta nfproto ipv6''"
| "stmt_text (Skuid u) = ''meta skuid '' @ u"
| "stmt_text (Meta_day d) = ''meta day '' @ nat_string d"
| "stmt_text (Meta_hour a b) = ''meta hour '' @ quoted a @ ''-'' @ quoted b"
| "stmt_text (Counter_name c) = ''counter name '' @ c"
| "stmt_text Counter = ''counter''"
| "stmt_text (Update s e) = ''update @'' @ s @ '' { '' @ e @ '' }''"
| "stmt_text Clamp_mss = ''tcp flags syn tcp option maxseg size set rt mtu''"
| "stmt_text Accept = ''accept''"
| "stmt_text Drop = ''drop''"
| "stmt_text Return = ''return''"
| "stmt_text (Jump c) = ''jump '' @ c"
| "stmt_text Masquerade = ''masquerade''"
| "stmt_text (Dnat a p) = ''dnat ip to '' @ a @ '':'' @ p"

section \<open>Lines, chains and tables\<close>

datatype line = Rule "stmt list" | Remark string | Hook string | Blank

fun line_text :: "line \<Rightarrow> string" where
  "line_text (Rule ss) = ''    '' @ join '' '' (map stmt_text ss)"
| "line_text (Remark t) = ''    # '' @ t"
| "line_text (Hook t) = ''    '' @ t"
| "line_text Blank = []"

datatype nft_object = Chain string "line list" | Item string

fun object_lines :: "nft_object \<Rightarrow> string list" where
  "object_lines (Chain name ls) = (''  chain '' @ name @ '' {'') # map line_text ls @ [''  }'']"
| "object_lines (Item t) = [t]"

definition table_lines :: "nft_object list \<Rightarrow> string list" where
  "table_lines os =
     [''# Generated by Minimal Router OS '' @ em_dash @ '' do not edit manually'', ''# Table: inet minimalrouter'', [],
      ''table inet minimalrouter {''] @ concat (map object_lines os) @ [''}'']"

definition chain_named :: "string \<Rightarrow> nft_object list \<Rightarrow> line list" where
  "chain_named name os = concat (map (\<lambda>x. case x of Chain n ls \<Rightarrow> if n = name then ls else [] | Item _ \<Rightarrow> []) os)"

end
