(* ===== verification/Device_Profiles.thy ===== *)
theory Device_Profiles
  imports Nft_Syntax Profiles "HOL-Library.List_Lexorder" "HOL-Library.Char_ord"
begin

text \<open>
  Device profiles in the firewall and in dnsmasq (\<open>mr-services/src/services/device_profiles.rs\<close>): the managed services and
  their domains, the schedule of each day, and the rules of the chain \<open>device_profiles\<close>.
\<close>

definition ORDERED_SCHEDULE_DAYS :: "string list" where
  "ORDERED_SCHEDULE_DAYS = [''monday'', ''tuesday'', ''wednesday'', ''thursday'', ''friday'', ''saturday'', ''sunday'']"

definition service_table :: "(string \<times> string list) list" where
  "service_table =
     [(''youtube'', [''youtube.com'', ''googlevideo.com'', ''ytimg.com'', ''youtu.be'']),
      (''steam'', [''steampowered.com'', ''steamcommunity.com'', ''steamstatic.com'', ''steamcontent.com'', ''steamserver.net'']),
      (''wiki'', [''wikipedia.org'', ''wikimedia.org'', ''wikimediafoundation.org'', ''mediawiki.org'']),
      (''tiktok'', [''tiktok.com'', ''byteoversea.com'', ''ibytedtos.com'', ''tiktokv.com'']),
      (''instagram'', [''instagram.com'', ''cdninstagram.com'']),
      (''facebook'', [''facebook.com'', ''fbcdn.net'', ''messenger.com'']),
      (''roblox'', [''roblox.com'', ''rbxcdn.com'']),
      (''epic'', [''epicgames.com'', ''unrealengine.com'']),
      (''twitch'', [''twitch.tv'', ''ttvnw.net'', ''jtvnw.net'']),
      (''adult'', [''pornhub.com'', ''xvideos.com'', ''xnxx.com'', ''onlyfans.com'']),
      (''gaming'', [''roblox.com'', ''rbxcdn.com'', ''twitch.tv'', ''ttvnw.net'', ''steampowered.com'', ''steamcommunity.com'', ''epicgames.com''])]"

definition service_domains :: "string \<Rightarrow> string list option" where
  "service_domains service = map_of service_table service"

text \<open>A \<open>BTreeSet\<close> is read in the order of its strings.\<close>

definition active_managed_services :: "env \<Rightarrow> system_config \<Rightarrow> string list" where
  "active_managed_services v c =
     sort (remdups (concat (map (\<lambda>p.
       if \<not> df_enabled (adguard c) \<or> \<not> dp_enabled p then []
       else filter (\<lambda>s. service_domains s \<noteq> None) (map (\<lambda>s. to_lower (lowercase v) (trim_space s)) (items (dp_services p))))
       (items (df_device_profiles (adguard c))))))"

definition write_dns_filter_nftsets :: "env \<Rightarrow> system_config \<Rightarrow> string list" where
  "write_dns_filter_nftsets v c =
     (let services = active_managed_services v c
      in if services = [] then []
         else [[], ''# Device profile service destination sets''] @
           concat (map (\<lambda>s. case service_domains s of
               None \<Rightarrow> []
             | Some ds \<Rightarrow> if ds = [] then [] else [''nftset=/'' @ join ''/'' ds @ ''/4#inet#minimalrouter#svc_'' @ s]) services))"

definition all_day :: "access_window glist" where
  "all_day = Some [\<lparr>aw_start = ''00:00'', aw_end = ''23:59''\<rparr>]"

definition effective_day_windows :: "weekly_access_schedule \<Rightarrow> (string \<times> access_window glist) list" where
  "effective_day_windows schedule =
     (if ws_day_windows schedule \<noteq> [] then ws_day_windows schedule
      else map (\<lambda>d. (d, ws_weekday_windows schedule)) (take 5 ORDERED_SCHEDULE_DAYS) @
        (if ws_weekend_mode schedule = ''all_day'' then [(''saturday'', all_day), (''sunday'', all_day)]
         else if ws_weekend_mode schedule = ''same_as_weekdays''
         then [(''saturday'', ws_weekday_windows schedule), (''sunday'', ws_weekday_windows schedule)]
         else if ws_weekend_mode schedule = ''custom''
         then [(''saturday'', ws_weekend_windows schedule), (''sunday'', ws_weekend_windows schedule)]
         else []))"

definition write_allowed_windows :: "string \<Rightarrow> string \<Rightarrow> nat \<Rightarrow> access_window list \<Rightarrow> line list" where
  "write_allowed_windows address service day windows =
     map (\<lambda>w. Rule [Saddr address, Daddr_service service, Meta_day day,
       Meta_hour (aw_start w) (if aw_end w = ''23:59'' then ''23:59:59'' else aw_end w), Return]) windows"

definition service_rules :: "weekly_access_schedule \<Rightarrow> string \<Rightarrow> string \<Rightarrow> line list" where
  "service_rules schedule address service =
     (if service_domains service = None then []
      else concat (map (\<lambda>(index, day).
          write_allowed_windows address service ((index + 1) mod 7)
            (case map_of (effective_day_windows schedule) day of None \<Rightarrow> [] | Some ws \<Rightarrow> items ws))
          (List.enumerate 0 ORDERED_SCHEDULE_DAYS)) @
        [Rule [Saddr address, Daddr_service service, Drop]])"

definition address_rules :: "device_profile \<Rightarrow> string \<Rightarrow> line list" where
  "address_rules p address =
     [Rule [Saddr address, L4 ''udp'', Dport_any [''53'', ''853''], Drop],
      Rule [Saddr address, L4 ''tcp'', Dport_any [''53'', ''853''], Drop]] @
     concat (map (service_rules (dp_schedule p) address) (items (dp_services p)))"

definition profile_rules :: "device_profile \<Rightarrow> line list" where
  "profile_rules p =
     (if \<not> dp_enabled p then []
      else Remark (''Device profile: '' @ dp_name p) # concat (map (address_rules p) (items (dp_ip_addresses p))))"

definition write_device_profile_objects :: "env \<Rightarrow> system_config \<Rightarrow> nft_object list" where
  "write_device_profile_objects v c =
     (let services = active_managed_services v c
      in if services = [] then []
         else Item ''  # Dynamic destination sets populated by dnsmasq from DNS answers.'' #
           map (\<lambda>s. Item (''  set svc_'' @ s @ '' { type ipv4_addr; flags timeout; timeout 4h; }'')) services @
           [Item [], Chain ''device_profiles''
             (concat (map profile_rules (items (df_device_profiles (adguard c)))) @ [Rule [Return]]), Item []])"

end
