(* ===== verification/Nftables.thy ===== *)
theory Nftables
  imports Device_Profiles Store
begin

text \<open>
  The firewall generator (\<open>mr-services/src/services/nftables.rs\<close>). Each function of the source that writes lines is the
  list of those lines; the text of the ruleset is their concatenation.
\<close>

section \<open>Helpers\<close>

definition ACCOUNTING_SET_RX :: string where "ACCOUNTING_SET_RX = ''acct_rx''"
definition ACCOUNTING_SET_TX :: string where "ACCOUNTING_SET_TX = ''acct_tx''"

definition RESERVED_WAN_SOURCES :: "string list" where
  "RESERVED_WAN_SOURCES = [''0.0.0.0/8'', ''10.0.0.0/8'', ''100.64.0.0/10'', ''127.0.0.0/8'', ''169.254.0.0/16'', ''172.16.0.0/12'',
     ''192.0.0.0/24'', ''192.0.2.0/24'', ''192.168.0.0/16'', ''198.18.0.0/15'', ''198.51.100.0/24'', ''203.0.113.0/24'', ''224.0.0.0/3'']"

text \<open>The elements in the order of their first occurrence, as a loop with a \<open>HashSet\<close> of seen elements keeps them.\<close>

definition first_seen :: "'a list \<Rightarrow> 'a list" where
  "first_seen xs = rev (remdups (rev xs))"

text \<open>\<open>review.rs\<close>: the name of the counter of a rule, a digest of what the rule matches.\<close>

definition firewall_rule_counter :: "storage \<Rightarrow> firewall_rule \<Rightarrow> string" where
  "firewall_rule_counter k rule =
     (let r = rule\<lparr>fr_name := [], fr_preset_id := [], fr_scope := firewall_rule_scope rule\<rparr>;
          data = (case json_encode (st_codec k) (firewall_rule_json r) of None \<Rightarrow> [] | Some t \<Rightarrow> t)
      in ''mr_rule_'' @ hex_encode k (take 12 (sha256 k data)))"

definition wg_peer_endpoint_nets :: "system_config \<Rightarrow> string list" where
  "wg_peer_endpoint_nets c =
     (if \<not> wg_enabled (wireguard c) then []
      else first_seen (concat (map (\<lambda>peer.
        if \<not> wp_enabled peer then []
        else (let host = (case split_host_port (wp_endpoint peer) of Inr (h, _) \<Rightarrow> h | Inl _ \<Rightarrow> wp_endpoint peer)
              in case parse_ip host of
                   None \<Rightarrow> []
                 | Some x \<Rightarrow> if to4 x = None then [] else [ip_string x @ ''/32'']))
        (items (wg_peers (wireguard c))))))"

definition lan_broadcast_address :: "string \<Rightarrow> string" where
  "lan_broadcast_address cidr =
     (case parse_cidr cidr of
        None \<Rightarrow> []
      | Some (_, n) \<Rightarrow> if to4 (net_ip n) = None then [] else (case ipv4_broadcast n of None \<Rightarrow> [] | Some b \<Rightarrow> ip_string b))"

definition sanitize_comment :: "string \<Rightarrow> string" where
  "sanitize_comment value =
     (let value = map (\<lambda>c. if c \<in> {CHR 0x0D, CHR 0x0A, CHR 0x09} then CHR '' '' else c) value
      in if list_ex (\<lambda>c. code c < 32) value then map (\<lambda>c. if code c < 32 then CHR ''?'' else c) value else value)"

definition extra_lan_source_interface :: "system_config \<Rightarrow> string \<Rightarrow> string" where
  "extra_lan_source_interface c src_cidr =
     (case parse_cidr src_cidr of
        None \<Rightarrow> []
      | Some (_, src_net) \<Rightarrow>
          (let src_ones = fst (mask_size (net_mask src_net));
               inside = (\<lambda>cidr. case parse_cidr cidr of None \<Rightarrow> False
                 | Some (_, zone) \<Rightarrow> ipnet_contains zone (net_ip src_net) \<and> src_ones \<ge> fst (mask_size (net_mask zone)))
           in if inside (lan_cidr (lan c)) then runtime_lan_interface c
              else if wg_enabled (wireguard c) \<and> inside (wg_address (wireguard c)) then wg_interface (wireguard c)
              else []))"

definition wg_client_interface :: "system_config \<Rightarrow> string" where
  "wg_client_interface c = (if wc_interface (wg_client c) = [] then ''wg1'' else wc_interface (wg_client c))"

definition wg_server_interface :: "system_config \<Rightarrow> string" where
  "wg_server_interface c = (if wg_interface (wireguard c) = [] then ''wg0'' else wg_interface (wireguard c))"

definition enabled_tunnel_port_forwards :: "system_config \<Rightarrow> port_forward_rule list" where
  "enabled_tunnel_port_forwards c =
     (if \<not> wg_enabled (wireguard c) then [] else filter pf_enabled (items (fw_port_forwards (firewall c))))"

definition port_forward_protocols :: "env \<Rightarrow> string \<Rightarrow> string list" where
  "port_forward_protocols v protocol =
     (let p = to_lower (lowercase v) (trim_space protocol)
      in if p = ''both'' then [''tcp'', ''udp''] else if p = ''udp'' then [''udp''] else [''tcp''])"

definition opt_net_string :: "ipnet option \<Rightarrow> string" where
  "opt_net_string network = (case network of None \<Rightarrow> ''<nil>'' | Some n \<Rightarrow> ipnet_string n)"

section \<open>Groups of rules\<close>

definition write_known_wg_peer_endpoint_input_rules :: "system_config \<Rightarrow> line list" where
  "write_known_wg_peer_endpoint_input_rules c =
     (let endpoints = wg_peer_endpoint_nets c; port = int_string (wg_listen_port (wireguard c));
          rules = (\<lambda>i m. [Rule [Iifname i, Saddr_any endpoints, Ct_state [''invalid''], Drop],
            Rule [Iifname i, Saddr_any endpoints, L4 ''udp'', Dport port, Ct_state [''new''], Meter m, Drop],
            Rule [Iifname i, Saddr_any endpoints, L4 ''udp'', Dport port, Accept]])
      in if endpoints = [] \<or> \<not> wg_enabled (wireguard c) then []
         else [Remark ''Known WireGuard peer endpoints: UDP socket only, never general trust''] @
           (if wan_interface (wan c) \<noteq> [] then rules (wan_interface (wan c)) ''wg_known_wan_rate'' else []) @
           rules ''ppp*'' ''wg_known_ppp_rate'' @ [Blank])"

definition write_wan_antispoof :: "string \<Rightarrow> line list" where
  "write_wan_antispoof i =
     [Rule [Iifname i, Saddr_any RESERVED_WAN_SOURCES, Drop],
      Rule [Iifname i, Fib_missing, Drop],
      Rule [Iifname i, Nfproto_ipv6, Drop],
      Rule [Iifname ''ppp*'', Saddr_any RESERVED_WAN_SOURCES, Drop],
      Rule [Iifname ''ppp*'', Fib_missing, Drop],
      Rule [Iifname ''ppp*'', Nfproto_ipv6, Drop], Blank]"

definition custom_rule_stmts :: "system_config \<Rightarrow> firewall_rule \<Rightarrow> stmt list" where
  "custom_rule_stmts c rule =
     [Iifname (lan_interface (lan c))] @
     (if fr_src_ip rule \<noteq> [] then [Saddr (fr_src_ip rule)] else []) @
     (if fr_protocol rule = ''icmp'' then [Ip_protocol ''icmp''] else if fr_protocol rule \<noteq> ''any'' then [L4 (fr_protocol rule)] else []) @
     (if fr_protocol rule = ''tcp'' \<or> fr_protocol rule = ''udp'' then [Dport (int_string (fr_dst_port rule))] else []) @
     (if fr_direction rule = ''forward'' \<and> firewall_rule_scope rule = ''wan'' then [Oifname_any [wan_interface (wan c), ''ppp*'']] else [])"

definition write_custom_rules :: "storage \<Rightarrow> system_config \<Rightarrow> string \<Rightarrow> string \<Rightarrow> line list" where
  "write_custom_rules k c direction action =
     concat (map (\<lambda>rule.
       if \<not> fr_enabled rule \<or> fr_direction rule \<noteq> direction \<or> fr_action rule \<noteq> action then []
       else if direction = ''forward'' \<and> firewall_rule_scope rule = ''wan'' \<and> \<not> wan_enabled (wan c) then []
       else [Remark (''Custom LAN '' @ direction @ '' '' @ action @ '' rule: '' @ sanitize_comment (fr_name rule)),
         Rule (custom_rule_stmts c rule @ [Counter_name (firewall_rule_counter k rule), if action = ''allow'' then Accept else Drop])])
       (items (fw_custom_rules (firewall c))))"

definition wg_client_networks :: "system_config \<Rightarrow> string list" where
  "wg_client_networks c =
     map (\<lambda>(_, n). ipnet_string n)
       (filter (\<lambda>(_, n). to4 (net_ip n) \<noteq> None) (List.map_filter (\<lambda>e. parse_cidr (trim_space e)) (items (wc_allowed_ips (wg_client c)))))"

definition write_wg_client_input_rules :: "system_config \<Rightarrow> line list" where
  "write_wg_client_input_rules c =
     (if \<not> wc_enabled (wg_client c) then []
      else (let i = wg_client_interface c; allowed = wg_client_networks c
            in [Remark (''WireGuard client '' @ i @ '': established-only (remote site cannot initiate)''),
                Rule (Iifname i # (if allowed = [] then [Drop] else [Saddr_none allowed, Drop])),
                Rule [Iifname i, Ct_state [''new''], Drop], Blank]))"

definition write_wg_client_forward_rules :: "system_config \<Rightarrow> line list" where
  "write_wg_client_forward_rules c =
     (if \<not> wc_enabled (wg_client c) then []
      else (let i = wg_client_interface c;
                sources = lan_interface (lan c) #
                  (if wg_enabled (wireguard c) \<and> wg_interface (wireguard c) \<noteq> [] then [wg_interface (wireguard c)] else [])
            in [Remark (''WireGuard client '' @ i @ '': trusted home networks may dial out, remote site may only respond'')] @
               map (\<lambda>src. Rule [Iifname src, Oifname i, Accept]) sources @
               [Rule [Iifname i, Ct_state [''new''], Drop], Blank]))"

definition write_wg_client_output_rules :: "system_config \<Rightarrow> line list" where
  "write_wg_client_output_rules c =
     (if \<not> wc_enabled (wg_client c) then []
      else case split_host_port (wc_endpoint (wg_client c)) of
        Inl _ \<Rightarrow> []
      | Inr (_, port) \<Rightarrow>
          (if port = [] then []
           else (if wan_interface (wan c) \<noteq> [] then [Rule [Oifname (wan_interface (wan c)), L4 ''udp'', Dport port, Accept]] else []) @
             [Rule [Oifname ''ppp*'', L4 ''udp'', Dport port, Accept]]))"

definition write_wg_client_masquerade :: "system_config \<Rightarrow> line list" where
  "write_wg_client_masquerade c = (if wc_enabled (wg_client c) then [Rule [Oifname (wg_client_interface c), Masquerade]] else [])"

definition write_extra_lan_input_rules :: "system_config \<Rightarrow> line list" where
  "write_extra_lan_input_rules c =
     concat (map (\<lambda>x.
       if \<not> xl_enabled x \<or> xl_interface x = [] \<or> xl_cidr x = [] then []
       else [Remark (''Extra LAN '' @ xl_interface x @ '' ('' @ sanitize_comment (xl_name x) @ ''): isolated segment, router hosts no services here''),
         Rule [Iifname (xl_interface x), Saddr_none [xl_cidr x], Drop],
         Rule [Iifname (xl_interface x), Ip_protocol ''icmp'', Accept]])
       (items (fw_extra_lans (firewall c))))"

definition extra_lan_accept :: "system_config \<Rightarrow> extra_lan_config \<Rightarrow> string \<Rightarrow> line list" where
  "extra_lan_accept c x src =
     (let i = extra_lan_source_interface c src; proto = (if xl_protocol x = [] then ''tcp'' else xl_protocol x)
      in if i = [] then []
         else [Rule [Iifname i, Saddr src, Daddr (xl_dst_ip x), L4 proto, Dport (int_string (xl_dst_port x)), Oifname (xl_interface x), Accept]])"

definition write_extra_lan_forward_rules :: "system_config \<Rightarrow> line list" where
  "write_extra_lan_forward_rules c =
     concat (map (\<lambda>x.
       if \<not> xl_enabled x \<or> xl_interface x = [] \<or> xl_cidr x = [] \<or> xl_dst_ip x = [] then []
       else [Remark (''Extra LAN '' @ xl_interface x @ '' ('' @ sanitize_comment (xl_name x) @ ''): isolated segment, only '' @ xl_cidr x @
             '' sources reach '' @ xl_dst_ip x @ '':'' @ int_string (xl_dst_port x) @ '' on '' @ xl_interface x),
         Rule [Iifname (xl_interface x), Saddr_not (xl_cidr x), Drop]] @
         concat (map (extra_lan_accept c x) (items (xl_allow_from x))))
       (items (fw_extra_lans (firewall c))))"

definition accounting_on :: "system_config \<Rightarrow> bool" where
  "accounting_on c \<longleftrightarrow> acc_enabled (accounting c) \<and> lan_interface (lan c) \<noteq> []"

definition write_accounting_sets :: "system_config \<Rightarrow> nft_object list" where
  "write_accounting_sets c =
     (if \<not> accounting_on c then []
      else concat (map (\<lambda>name. map Item [''  set '' @ name @ '' {'', ''    type ipv4_addr'', ''    size 512'', ''    flags dynamic,timeout'',
        ''    timeout 7d'', ''    counter'', ''  }'', []]) [ACCOUNTING_SET_RX, ACCOUNTING_SET_TX]))"

definition write_accounting_rules :: "system_config \<Rightarrow> line list" where
  "write_accounting_rules c =
     (if \<not> accounting_on c then []
      else [Remark ''Per-device byte accounting (counters only, no verdict)'',
        Rule [Iifname (lan_interface (lan c)), Update ACCOUNTING_SET_TX ''ip saddr''],
        Rule [Oifname (lan_interface (lan c)), Update ACCOUNTING_SET_RX ''ip daddr''], Blank])"

definition write_tunnel_port_forwards :: "env \<Rightarrow> system_config \<Rightarrow> nft_object list" where
  "write_tunnel_port_forwards v c =
     (let rules = enabled_tunnel_port_forwards c
      in if rules = [] then []
         else [Chain ''prerouting''
           ([Hook ''type nat hook prerouting priority dstnat; policy accept;'', Blank,
             Remark ''Port forwards are reachable only over the WireGuard tunnel, never the WAN.''] @
            concat (map (\<lambda>r. map (\<lambda>p. Rule [Iifname (wg_server_interface c), L4 p, Dport (int_string (pf_external_port r)),
                Dnat (pf_internal_ip r) (int_string (pf_internal_port r))]) (port_forward_protocols v (pf_protocol r))) rules)), Item []])"

definition write_tunnel_port_forward_forward :: "env \<Rightarrow> system_config \<Rightarrow> line list" where
  "write_tunnel_port_forward_forward v c =
     (let rules = enabled_tunnel_port_forwards c
      in if rules = [] then []
         else [Remark ''Tunnel port forwards: allow the DNAT-translated destination''] @
           concat (map (\<lambda>r. map (\<lambda>p. Rule [Iifname (wg_server_interface c), Oifname (lan_interface (lan c)), Daddr (pf_internal_ip r),
               L4 p, Dport (int_string (pf_internal_port r)), Ct_state [''new''], Accept]) (port_forward_protocols v (pf_protocol r))) rules) @
           [Blank])"

section \<open>Chains\<close>

definition established :: line where
  "established = Rule [Ct_state [''established'', ''related''], Accept]"

definition wg_input_rules :: "system_config \<Rightarrow> line list" where
  "wg_input_rules c =
     (if \<not> wg_enabled (wireguard c) then []
      else (let wg_network = opt_net_string (map_option snd (parse_cidr (wg_address (wireguard c)))); wg = wg_interface (wireguard c);
                port = int_string (wg_listen_port (wireguard c)); wan_if = wan_interface (wan c);
                endpoint = (\<lambda>i m. [Rule [Iifname i, L4 ''udp'', Dport port, Ct_state [''new''], Meter m, Drop], Rule [Iifname i, L4 ''udp'', Dport port, Accept]])
            in [Remark ''WireGuard endpoint with a per-source flood guard''] @
               (if wan_if \<noteq> [] then endpoint wan_if ''wg_wan_rate'' else []) @ endpoint ''ppp*'' ''wg_ppp_rate'' @
               [Remark ''Authenticated tunnel services'',
                Rule [Iifname wg, Saddr_not wg_network, Drop],
                Rule [Iifname wg, L4 ''tcp'', Dport (int_string (sys_https_port (system c))), Accept],
                Rule [Iifname wg, L4 ''tcp'', Dport ''22'', Accept],
                Rule [Iifname wg, L4 ''udp'', Dport ''53'', Accept],
                Rule [Iifname wg, L4 ''tcp'', Dport ''53'', Accept], Blank]))"

definition squid_input_rules :: "system_config \<Rightarrow> line list" where
  "squid_input_rules c =
     (let port = (if sq_port (squid_proxy c) = 0 then 3128 else sq_port (squid_proxy c)); i = lan_interface (lan c)
      in if sq_enabled (squid_proxy c) \<and> i \<noteq> []
         then [Remark (''Allow Squid Proxy from LAN ('' @ i @ '', port '' @ int_string port @ '')''),
           Rule [Iifname i, L4 ''tcp'', Dport (int_string port), Accept], Blank]
         else [])"

definition lan_input_rules :: "system_config \<Rightarrow> line list" where
  "lan_input_rules c =
     (let i = lan_interface (lan c); https = int_string (sys_https_port (system c))
      in if i = [] then []
         else [Remark (''Allow essential network services from LAN ('' @ i @ '') only'')] @
           (if sys_management_access (system c) \<noteq> ''wireguard_only''
            then [Rule [Iifname i, L4 ''tcp'', Dport https, Ct_state [''new''], Limit_over, Drop],
              Rule [Iifname i, L4 ''tcp'', Dport https, Accept], Rule [Iifname i, L4 ''tcp'', Dport ''22'', Accept]]
            else [Remark ''Management HTTPS is intentionally unavailable on LAN; use WireGuard'']) @
           [Rule [Iifname i, L4 ''udp'', Dport_any [''53'', ''67''], Accept],
            Rule [Iifname i, L4 ''tcp'', Dport ''53'', Accept],
            Rule [Iifname i, Ip_protocol ''icmp'', Accept], Blank])"

definition input_chain :: "storage \<Rightarrow> system_config \<Rightarrow> line list" where
  "input_chain k c =
     (let lan_if = lan_interface (lan c); wan_if = wan_interface (wan c)
      in [Hook ''type filter hook input priority filter; policy drop;'', Blank, Remark ''Allow loopback'', Rule [Iifname ''lo'', Accept], Blank] @
         (if wan_if \<noteq> []
          then write_known_wg_peer_endpoint_input_rules c @
            [Remark ''Drop spoofed/reserved WAN sources before connection tracking accepts''] @ write_wan_antispoof wan_if
          else []) @
         (if lan_if \<noteq> []
          then [Remark ''LAN source anti-spoofing (0.0.0.0 is needed for DHCP discovery)'',
            Rule [Iifname lan_if, Saddr_none [''0.0.0.0'', lan_cidr (lan c)], Drop], Blank]
          else []) @
         [Remark ''Reject invalid packets before service accepts'', Rule [Ct_state [''invalid''], Drop]] @
         write_custom_rules k c ''input'' ''deny'' @
         [Remark ''Allow established and related connections'', established, Blank] @
         wg_input_rules c @ write_wg_client_input_rules c @ squid_input_rules c @ lan_input_rules c @ write_extra_lan_input_rules c @
         (if wg_enabled (wireguard c)
          then [Rule [Iifname (wg_interface (wireguard c)), Saddr_not (opt_net_string (map_option snd (parse_cidr (wg_address (wireguard c))))), Drop], Blank]
          else []) @
         write_custom_rules k c ''input'' ''allow'' @
         [Remark ''Reject WAN unsolicited input'', Rule [Drop]])"

definition restricted_rules :: "system_config \<Rightarrow> line list" where
  "restricted_rules c =
     (if sq_enabled (squid_proxy c) \<and> items (sq_restricted_ips (squid_proxy c)) \<noteq> []
      then [Remark ''Block direct WAN traffic for Restricted IP Alias (Must use Squid Proxy)''] @
        concat (map (\<lambda>i. if trim_space (ri_ip_address i) \<noteq> [] \<and> ri_enabled i then [Rule [Saddr (trim_space (ri_ip_address i)), Drop]] else [])
          (items (sq_restricted_ips (squid_proxy c)))) @ [Blank]
      else [])"

definition lan_egress_rules :: "system_config \<Rightarrow> line list" where
  "lan_egress_rules c =
     (let i = lan_interface (lan c)
      in if wan_enabled (wan c) \<and> i \<noteq> []
         then [Remark (''Allow LAN ('' @ i @ '') out to WAN''), Rule [Iifname i, Oifname (wan_interface (wan c)), Accept],
           Rule [Iifname i, Oifname ''ppp*'', Accept], Blank]
         else [])"

definition wg_forward_rules :: "system_config \<Rightarrow> line list" where
  "wg_forward_rules c =
     (if \<not> wg_enabled (wireguard c) then []
      else (let wg = wg_interface (wireguard c)
            in [Remark ''Authenticated WireGuard clients may reach LAN and optional full-tunnel WAN'',
                Rule [Iifname wg, Oifname (lan_interface (lan c)), Accept]] @
               (if wan_enabled (wan c) then [Rule [Iifname wg, Oifname (wan_interface (wan c)), Accept], Rule [Iifname wg, Oifname ''ppp*'', Accept]] else []) @
               [Blank]))"

definition forward_chain :: "env \<Rightarrow> storage \<Rightarrow> system_config \<Rightarrow> line list" where
  "forward_chain v k c =
     (let lan_if = lan_interface (lan c); wan_if = wan_interface (wan c)
      in [Hook ''type filter hook forward priority filter; policy drop;'', Blank] @
         (if wan_if \<noteq> [] then Remark ''WAN anti-spoofing precedes state acceptance'' # write_wan_antispoof wan_if else []) @
         (if lan_if \<noteq> [] then [Rule [Iifname lan_if, Saddr_not (lan_cidr (lan c)), Drop], Blank] else []) @
         [Remark ''Reject invalid before established state'', Rule [Ct_state [''invalid''], Drop]] @
         (if active_managed_services v c \<noteq> []
          then [Remark ''Device schedules run before established acceptance so expired streams are cut'', Rule [Jump ''device_profiles'']]
          else []) @
         write_custom_rules k c ''forward'' ''deny'' @ restricted_rules c @ write_accounting_rules c @
         [Remark ''Allow established/related'', established, Blank,
          Remark ''TCP MSS clamping prevents PPPoE fragmentation stalls'', Rule [Clamp_mss], Blank] @
         write_custom_rules k c ''forward'' ''allow'' @ write_extra_lan_forward_rules c @ lan_egress_rules c @ wg_forward_rules c @
         write_tunnel_port_forward_forward v c @ write_wg_client_forward_rules c)"

definition squid_output_denies :: "system_config \<Rightarrow> line list" where
  "squid_output_denies c =
     (let lan_if = lan_interface (lan c)
      in if \<not> sq_enabled (squid_proxy c) then []
         else (if lan_if \<noteq> []
            then [Rule [Skuid ''squid'', Oifname lan_if, L4 ''tcp'', Sport (int_string (sq_port (squid_proxy c))), Accept], Rule [Skuid ''squid'', Oifname lan_if, Drop]]
            else []) @
           (if wg_enabled (wireguard c) \<and> wg_interface (wireguard c) \<noteq> [] then [Rule [Skuid ''squid'', Oifname (wg_interface (wireguard c)), Drop]] else []) @
           (if wc_enabled (wg_client c) then [Rule [Skuid ''squid'', Oifname (wg_client_interface c), Drop]] else []) @
           concat (map (\<lambda>x. if xl_enabled x \<and> xl_interface x \<noteq> [] then [Rule [Skuid ''squid'', Oifname (xl_interface x), Drop]] else [])
             (items (fw_extra_lans (firewall c)))))"

definition service_output_rules :: "system_config \<Rightarrow> line list" where
  "service_output_rules c =
     (let lan_if = lan_interface (lan c); https = int_string (sys_https_port (system c)); servers = items (dhcp_dns_servers (dhcp c))
      in [Rule [Oifname lan_if, L4 ''udp'', Sport_any [''53'', ''67''], Accept],
          if sys_management_access (system c) = ''wireguard_only'' then Rule [Oifname lan_if, L4 ''tcp'', Sport ''53'', Accept]
          else Rule [Oifname lan_if, L4 ''tcp'', Sport_any [''53'', https], Accept]] @
         (if wg_enabled (wireguard c)
          then [Rule [Oifname (wg_interface (wireguard c)), L4 ''udp'', Sport_any [''53'', int_string (wg_listen_port (wireguard c))], Accept],
            Rule [Oifname (wg_interface (wireguard c)), L4 ''tcp'', Sport_any [''53'', https], Accept]]
          else []) @
         write_wg_client_output_rules c @
         (if servers \<noteq> [] then [Rule [Daddr_any servers, L4 ''udp'', Dport ''53'', Accept], Rule [Daddr_any servers, L4 ''tcp'', Dport ''53'', Accept]] else []) @
         [Rule [L4 ''udp'', Dport ''123'', Accept], Rule [Ip_protocol ''icmp'', Accept], Blank])"

definition daemon_output_rules :: "system_config \<Rightarrow> line list" where
  "daemon_output_rules c =
     (let lan_if = lan_interface (lan c); wan_if = wan_interface (wan c); broadcast = lan_broadcast_address (lan_cidr (lan c));
          https = (\<lambda>u i. Rule [Skuid u, Oifname i, L4 ''tcp'', Dport ''443'', Accept])
      in [Remark ''The unprivileged management daemon may use HTTPS only through WAN paths''] @
         (if wan_if \<noteq> [] then [https ''routerd'' wan_if] else []) @ [https ''routerd'' ''ppp*''] @
         (if lan_if \<noteq> [] \<and> broadcast \<noteq> []
          then [Remark ''Wake-on-LAN magic packets may only leave via the local LAN segment'',
            Rule [Skuid ''routerd'', Oifname lan_if, Daddr broadcast, L4 ''udp'', Dport ''9'', Accept]]
          else []) @
         (if cf_ddns_enabled (cloudflare c)
          then [Remark ''DDNS HTTPS is confined to WAN paths''] @
            (if wan_if \<noteq> [] then [https ''root'' wan_if, https ''inadyn'' wan_if] else []) @ [https ''root'' ''ppp*'', https ''inadyn'' ''ppp*'']
          else []) @
         (if sq_enabled (squid_proxy c)
          then [Remark ''Squid is an Internet-only egress proxy; no private/tunnel interface is a valid destination''] @
            (if wan_if \<noteq> [] then [Rule [Skuid ''squid'', Oifname wan_if, L4 ''tcp'', Dport_any [''80'', ''443''], Accept]] else []) @
            [Rule [Skuid ''squid'', Oifname ''ppp*'', L4 ''tcp'', Dport_any [''80'', ''443''], Accept]]
          else []))"

definition output_chain :: "system_config \<Rightarrow> line list" where
  "output_chain c =
     [Hook ''type filter hook output priority filter; policy drop;'', Blank,
      Remark ''The appliance itself has a narrow egress allowlist'', Rule [Oifname ''lo'', Accept]] @
     (if wan_interface (wan c) \<noteq> []
      then [Remark ''Never leak source addresses that are not assigned to the appliance itself.'',
        Remark ''fib-based (rather than a static private-range list) so an ISP-assigned'',
        Remark ''private or CGNAT WAN address (10.x, 100.64.0.0/10) remains routable.'',
        Remark ''NOTE: fib saddr . iif oif is not supported in the output hook (kernel'',
        Remark ''rejects it), hence fib saddr type != local here; forward chain uses'',
        Remark ''fib saddr . iif oif which is valid there.'',
        Rule [Oifname (wan_interface (wan c)), Fib_not_local, Drop], Rule [Oifname ''ppp*'', Fib_not_local, Drop]]
      else []) @
     [Rule [Ct_state [''invalid''], Drop]] @ squid_output_denies c @ [established] @ service_output_rules c @ daemon_output_rules c @
     [Rule [Counter, Drop]]"

definition postrouting_chain :: "system_config \<Rightarrow> line list" where
  "postrouting_chain c =
     [Hook ''type nat hook postrouting priority srcnat; policy accept;'', Blank,
      Remark ''Masquerade outgoing LAN traffic on WAN interfaces (ppp0 / ethernet WAN)''] @
     (if wan_enabled (wan c) then [Rule [Oifname ''ppp*'', Masquerade], Rule [Oifname (wan_interface (wan c)), Masquerade]] else []) @
     write_wg_client_masquerade c"

section \<open>The ruleset\<close>

definition rule_counters :: "storage \<Rightarrow> system_config \<Rightarrow> string list" where
  "rule_counters k c = first_seen (map (firewall_rule_counter k)
     (filter (\<lambda>r. fr_enabled r \<and> (fr_direction r \<noteq> ''forward'' \<or> firewall_rule_scope r \<noteq> ''wan'' \<or> wan_enabled (wan c)))
       (items (fw_custom_rules (firewall c)))))"

definition observe_chains :: "string list" where
  "observe_chains = concat (map (\<lambda>hook.
     [''  chain observe_'' @ hook @ ''_before { type filter hook '' @ hook @ '' priority -1; policy accept; counter name mr_seen; }'',
      ''  chain observe_'' @ hook @ ''_after { type filter hook '' @ hook @ '' priority 1; policy accept; counter name mr_accepted; }''])
     [''input'', ''forward''])"

text \<open>The configuration with the interface that carries the LAN at run time.\<close>

definition runtime_config :: "system_config \<Rightarrow> system_config" where
  "runtime_config c = c\<lparr>lan := (lan c)\<lparr>lan_interface := runtime_lan_interface c\<rparr>\<rparr>"

definition ruleset :: "env \<Rightarrow> storage \<Rightarrow> system_config \<Rightarrow> nft_object list" where
  "ruleset v k c =
     [Item (''  counter mr_revision_'' @ nat_string (unat (revision c)) @ '' { }'')] @
     map (\<lambda>n. Item (''  counter '' @ n @ '' { }'')) (rule_counters k c) @
     write_device_profile_objects v c @ write_accounting_sets c @
     [Item ''  counter mr_seen { }'', Item ''  counter mr_accepted { }''] @ map Item observe_chains @
     [Chain ''input'' (input_chain k c), Item [], Chain ''forward'' (forward_chain v k c), Item [],
      Chain ''output'' (output_chain c), Item []] @
     write_tunnel_port_forwards v c @ [Chain ''postrouting'' (postrouting_chain c)]"

definition generate_nftables_lines :: "env \<Rightarrow> storage \<Rightarrow> system_config \<Rightarrow> string list result" where
  "generate_nftables_lines v k c =
     (case validate_scenario_safety c of
        Inl errs \<Rightarrow> Inl (Wrapf ''scenario safety'' (Errorf (validation_errors_text errs)))
      | Inr _ \<Rightarrow> Inr (table_lines (ruleset v k (runtime_config c))))"

definition nftables_text :: "env \<Rightarrow> storage \<Rightarrow> system_config \<Rightarrow> string result" where
  "nftables_text v k c = map_sum id unlines (generate_nftables_lines v k c)"

end
