(* ===== verification/Services.thy ===== *)
theory Services
  imports Nftables
begin

text \<open>
  The text generators of dnsmasq, pppd, hostapd, tc, Squid, inadyn, cloudflared and the block list
  (\<open>mr-services/src/services/generators.rs\<close>). A generator is the list of the lines it writes.
\<close>

definition generated_header :: string where
  "generated_header = ''# Generated by Minimal Router OS '' @ em_dash @ '' do not edit manually''"

section \<open>dnsmasq\<close>

definition generate_doh_dnsmasq_integration :: "system_config \<Rightarrow> string list" where
  "generate_doh_dnsmasq_integration c =
     (if \<not> dhcp_dns_enabled (dhcp c) then []
      else (let bar = [CHR 0xE2, CHR 0x94, CHR 0x80]
            in [''# '' @ bar @ bar @ '' DNS-over-HTTPS Integration '' @ bar @ bar, ''# Point dnsmasq upstream to local DoH proxy'', ''server=127.0.0.1#5053'']))"

text \<open>The address of the tunnel server without its prefix length, when dnsmasq serves the tunnel.\<close>

definition dnsmasq_tunnel_address :: "system_config \<Rightarrow> string option" where
  "dnsmasq_tunnel_address c =
     (let w = wireguard c
      in if wg_enabled w \<and> wg_interface w \<noteq> [] \<and> wg_address w \<noteq> []
         then (let wg_ip = hd (split_char (CHR ''/'') (wg_address w)) in if wg_ip = [] then None else Some wg_ip)
         else None)"

definition dnsmasq_lease_line :: "static_lease \<Rightarrow> string" where
  "dnsmasq_lease_line lease =
     (let hostname = trim_space (sl_hostname lease)
      in ''dhcp-host='' @ sl_mac lease @ '','' @ sl_ip_address lease @ (if hostname = [] then [] else '','' @ hostname))"

definition dnsmasq_dhcp_lines :: "system_config \<Rightarrow> string list" where
  "dnsmasq_dhcp_lines c =
     (let d = dhcp c; leases = items (dhcp_static_leases d)
      in if dhcp_enabled d
         then [''# DHCP pool'', ''dhcp-leasefile=/var/lib/minimalrouter-dhcp/dnsmasq.leases'',
             ''dhcp-range='' @ dhcp_range_start d @ '','' @ dhcp_range_end d @ '','' @ lan_netmask (lan c) @ '','' @ dhcp_lease_time d,
             ''dhcp-option=option:router,'' @ lan_ip_address (lan c),
             ''dhcp-option=option:dns-server,'' @ lan_ip_address (lan c), []] @
           (if leases = [] then [] else ''# Static DHCP leases'' # map dnsmasq_lease_line leases)
         else [''# DHCP disabled''])"

definition generate_dnsmasq_lines :: "env \<Rightarrow> system_config \<Rightarrow> string list" where
  "generate_dnsmasq_lines v cfg =
     (let c = runtime_config cfg; servers = items (dhcp_dns_servers (dhcp c)); records = items (dns_records (dns c));
          tunnel = dnsmasq_tunnel_address c
      in [generated_header, ''# File: /etc/dnsmasq.d/minimalrouter.conf'', [],
          ''domain='' @ sys_domain (system c), ''interface='' @ lan_interface (lan c)] @
         (if tunnel = None then [] else [''interface='' @ wg_interface (wireguard c)]) @
         [''listen-address='' @ join '','' ([''127.0.0.1'', lan_ip_address (lan c)] @ (case tunnel of None \<Rightarrow> [] | Some a \<Rightarrow> [a])),
          ''bind-dynamic'', ''no-resolv'', ''strict-order'', ''cache-size=1000'', ''bogus-priv'', ''domain-needed'',
          ''# DNS rebind attack protection'', ''stop-dns-rebind'', ''rebind-domain-ok=/use-application-dns.net/'', []] @
         (if servers = [] then [] else [''# Upstream DNS servers''] @ map (\<lambda>s. ''server='' @ s) servers @ [[]]) @
         (if dhcp_dns_enabled (dhcp c) then generate_doh_dnsmasq_integration c else []) @
         dnsmasq_dhcp_lines c @
         (if records = [] then []
          else [[], ''# Static DNS records''] @ map (\<lambda>r. ''host-record='' @ dr_name r @ '','' @ dr_ip r) records) @
         (if df_enabled (adguard c)
          then [[], ''# DNS Filter global sinkhole blocklist'', ''conf-file=/etc/dnsmasq.d/adblock_hosts.conf'']
          else []) @
         write_dns_filter_nftsets v c)"

section \<open>pppd\<close>

definition replace_char :: "char \<Rightarrow> string \<Rightarrow> string \<Rightarrow> string" where
  "replace_char c to s = concat (map (\<lambda>x. if x = c then to else [x]) s)"

definition quote_pppd :: "string \<Rightarrow> string" where
  "quote_pppd value = replace_char (CHR 0x22) [CHR 0x5C, CHR 0x22] (replace_char (CHR 0x5C) [CHR 0x5C, CHR 0x5C] value)"

record pppoe_config_bundle =
  peer_config :: "string list"
  chap_secrets :: "string list"
  pap_secrets :: "string list"

definition pppoe_secret_lines :: "wan_settings \<Rightarrow> string list" where
  "pppoe_secret_lines w =
     [generated_header, quoted (quote_pppd (wan_username w)) @ '' * '' @ quoted (quote_pppd (wan_password w)) @ '' *'']"

definition generate_pppoe_lines :: "system_config \<Rightarrow> pppoe_config_bundle" where
  "generate_pppoe_lines c =
     (let w = wan c
      in \<lparr>peer_config =
           [generated_header, ''plugin pppoe.so '' @ wan_interface w, ''name '' @ quoted (quote_pppd (wan_username w)),
            ''noipdefault'', ''noauth'', ''noipv6'', ''defaultroute'', ''replacedefaultroute'', ''persist'', ''maxfail 0'', ''holdoff 5'',
            ''lcp-echo-interval 5'', ''lcp-echo-failure 4''] @
           (if wan_mtu w > 0 then [''mtu '' @ int_string (wan_mtu w), ''mru '' @ int_string (wan_mtu w)] else []),
         chap_secrets = pppoe_secret_lines w, pap_secrets = pppoe_secret_lines w\<rparr>)"

section \<open>hostapd\<close>

definition generate_hostapd_lines :: "system_config \<Rightarrow> string list" where
  "generate_hostapd_lines c =
     (let w = wifi c
      in [generated_header, ''# File: /etc/hostapd/hostapd.conf'', []] @
         (if \<not> wf_enabled w then [''# Wi-Fi Access Point is disabled'']
          else
            [''interface='' @ (if wf_interface w = [] then ''wlan0'' else wf_interface w), ''bridge='' @ WIFI_BRIDGE_INTERFACE,
             ''driver=nl80211'', ''ssid='' @ wf_ssid w] @
            (if wf_band w = ''5ghz'' then [''hw_mode=a'', ''ieee80211n=1'', ''ieee80211ac=1''] else [''hw_mode=g'', ''ieee80211n=1'']) @
            [''channel='' @ int_string (if wf_channel w \<le> 0 then 36 else wf_channel w),
             if wf_hide_ssid w then ''ignore_broadcast_ssid=1'' else ''ignore_broadcast_ssid=0'',
             ''wpa=2'', ''wpa_passphrase='' @ wf_passphrase w, ''wpa_key_mgmt=WPA-PSK SAE'', ''ieee80211w=1'', ''rsn_pairwise=CCMP'']))"

section \<open>Traffic shaping\<close>

definition QOS_INTERFACE_NAME :: string where "QOS_INTERFACE_NAME = ''ifb0''"

definition qos_interface :: "system_config \<Rightarrow> string" where
  "qos_interface c =
     (let iface = (if wan_enabled (wan c) then ''ppp0'' else wan_interface (wan c)) in if iface = [] then ''eth0'' else iface)"

text \<open>\<open>format!("{}kbit", mbps.wrapping_mul(1000))\<close>.\<close>

definition kbit :: "int \<Rightarrow> string" where
  "kbit mbps = int_string (wrap_i64 (mbps * 1000)) @ ''kbit''"

definition mirred_command :: "string \<Rightarrow> string list" where
  "mirred_command iface =
     [''filter'', ''add'', ''dev'', iface, ''parent'', ''ffff:'', ''protocol'', ''ip'', ''u32'', ''match'', ''u32'', ''0'', ''0'',
      ''action'', ''mirred'', ''egress'', ''redirect'', ''dev'', QOS_INTERFACE_NAME]"

definition fq_codel_commands :: "string \<Rightarrow> string \<Rightarrow> string list list" where
  "fq_codel_commands dev rate =
     [[''qdisc'', ''add'', ''dev'', dev, ''root'', ''handle'', ''1:'', ''htb'', ''default'', ''10''],
      [''class'', ''add'', ''dev'', dev, ''parent'', ''1:'', ''classid'', ''1:10'', ''htb'', ''rate'', rate, ''ceil'', rate, ''burst'', ''64k''],
      [''qdisc'', ''add'', ''dev'', dev, ''parent'', ''1:10'', ''handle'', ''10:'', ''fq_codel'', ''target'', ''5ms'', ''interval'', ''100ms'',
       ''limit'', ''10240'']]"

definition cake_command :: "string \<Rightarrow> string \<Rightarrow> string list" where
  "cake_command dev rate =
     [''qdisc'', ''add'', ''dev'', dev, ''root'', ''cake'', ''bandwidth'', rate, ''besteffort'', ''nat'', ''wash'', ''no-split-gso'']"

definition ingress_command :: "string \<Rightarrow> string list" where
  "ingress_command dev = [''qdisc'', ''add'', ''dev'', dev, ''handle'', ''ffff:'', ''ingress'']"

definition qos_commands :: "system_config \<Rightarrow> string list list result" where
  "qos_commands c =
     (let q = qos c; iface = qos_interface c; down = kbit (qos_download_limit_mbps q); up = kbit (qos_upload_limit_mbps q);
          ifb = QOS_INTERFACE_NAME
      in if \<not> qos_enabled q then Inr []
         else if qos_algorithm q = ''fq_codel''
         then Inr (fq_codel_commands iface up @ [ingress_command iface, mirred_command iface] @ fq_codel_commands ifb down)
         else if qos_algorithm q = ''cake''
         then Inr [cake_command iface up, ingress_command iface, mirred_command iface, cake_command ifb down]
         else Inl (Errorf (''unsupported QoS algorithm: '' @ qos_algorithm q)))"

definition generate_qos_lines :: "system_config \<Rightarrow> string list result" where
  "generate_qos_lines c =
     (if \<not> qos_enabled (qos c) then Inr [''# QoS disabled'']
      else map_sum id (\<lambda>cmds.
        [''# Generated by Minimal Router OS '' @ em_dash @ '' non-executable QoS plan'',
         ''# router-applyd invokes /sbin/tc directly with these argv values'', []] @ map (\<lambda>args. ''/sbin/tc '' @ join '' '' args) cmds)
        (qos_commands c))"

section \<open>Squid\<close>

definition NEVER_PROXIED :: "string list" where
  "NEVER_PROXIED =
     [''0.0.0.0/8'', ''10.0.0.0/8'', ''100.64.0.0/10'', ''127.0.0.0/8'', ''169.254.0.0/16'', ''172.16.0.0/12'', ''192.0.0.0/24'',
      ''192.0.2.0/24'', ''192.168.0.0/16'', ''198.18.0.0/15'', ''198.51.100.0/24'', ''203.0.113.0/24'', ''224.0.0.0/4'', ''240.0.0.0/4'']"

text \<open>The text of the network that a CIDR names, if it names one.\<close>

definition cidr_network :: "string \<Rightarrow> string list" where
  "cidr_network text = (case parse_cidr text of None \<Rightarrow> [] | Some (_, n) \<Rightarrow> [ipnet_string n])"

definition squid_blocked :: "system_config \<Rightarrow> string list" where
  "squid_blocked c =
     NEVER_PROXIED @ [opt_net_string (map_option snd (parse_cidr (lan_cidr (lan c))))] @
     (if wg_enabled (wireguard c) then cidr_network (wg_address (wireguard c)) else []) @
     concat (map (\<lambda>x. if xl_enabled x \<and> trim_space (xl_cidr x) \<noteq> [] then cidr_network (xl_cidr x) else [])
       (items (fw_extra_lans (firewall c)))) @
     concat (map (\<lambda>remote. case parse_cidr (trim_space remote) of
           None \<Rightarrow> []
         | Some (_, n) \<Rightarrow> if to4 (net_ip n) = None then [] else [ipnet_string n])
       (items (wc_allowed_ips (wg_client c))))"

definition generate_squid_lines :: "system_config \<Rightarrow> string list" where
  "generate_squid_lines c =
     [generated_header, ''http_port '' @ lan_ip_address (lan c) @ '':'' @ int_string (sq_port (squid_proxy c)), [],
      ''# Disable disk & memory caching (Pure forward proxy)'', ''cache deny all'', ''cache_mem 0 MB'',
      ''# Short graceful shutdown so config rollback never waits on idle clients'', ''shutdown_lifetime 2 seconds'', []] @
     (if sq_enabled (squid_proxy c)
      then [''# Basic authentication scheme (NCSA htpasswd)'',
        ''auth_param basic program /usr/lib/squid/basic_ncsa_auth /etc/squid/passwd'',
        ''auth_param basic realm Minimal Router OS Proxy'', ''auth_param basic credentialsttl 2 hours'',
        ''acl localnet src '' @ opt_net_string (map_option snd (parse_cidr (lan_cidr (lan c)))),
        ''acl authenticated proxy_auth REQUIRED'', ''acl blocked_dst dst '' @ join '' '' (squid_blocked c),
        ''http_access deny blocked_dst'', ''http_access allow localnet authenticated'']
      else [''# Proxy disabled'']) @
     [''http_access deny all'']"

section \<open>Dynamic DNS, tunnel and DNS over HTTPS\<close>

definition dynamic_dns_provider :: "env \<Rightarrow> system_config \<Rightarrow> string" where
  "dynamic_dns_provider v c =
     (let provider = to_lower (lowercase v) (trim_space (cf_ddns_provider (cloudflare c)))
      in if provider = [] then ''cloudflare'' else provider)"

definition inadyn_provider :: "string \<Rightarrow> string \<Rightarrow> cloudflare_config \<Rightarrow> string list \<Rightarrow> string list" where
  "inadyn_provider name user cf extra =
     [''provider '' @ name @ '':1 {'', ''    username = '' @ quote user, ''    password = '' @ quote (cf_api_token cf),
      ''    hostname = '' @ quote (cf_domain cf), ''    checkip-server = api.ipify.org'', ''    checkip-path = /'', ''    checkip-ssl = true''] @
     extra @ [''}'']"

definition generate_dynamic_dns_lines :: "env \<Rightarrow> system_config \<Rightarrow> string list result" where
  "generate_dynamic_dns_lines v c =
     (let cf = cloudflare c; provider = dynamic_dns_provider v c;
          prefix = [''# Generated by Minimal Router OS '' @ em_dash @ '' Dynamic DNS'', ''period = 300'', ''forced-update = 2592000'',
            ''allow-ipv6 = false'', ''secure-ssl = true'', []]
      in if \<not> cf_ddns_enabled cf then Inr [''# Dynamic DNS disabled or not configured'']
         else if provider = ''noip'' then Inr (prefix @ inadyn_provider ''no-ip.com'' (cf_ddns_user cf) cf [])
         else if provider = ''cloudflare''
         then Inr (prefix @ inadyn_provider ''cloudflare.com'' (cf_zone_name cf) cf [''    ttl = 300'', ''    proxied = false''])
         else Inl (Errorf (''unsupported dynamic DNS provider '' @ quote (cf_ddns_provider cf))))"

definition generate_cloudflare_tunnel_lines :: "system_config \<Rightarrow> string list result" where
  "generate_cloudflare_tunnel_lines c =
     (let hostname = trim_space (cf_tunnel_hostname (cloudflare c))
      in if \<not> cf_tunnel_enabled (cloudflare c) then Inr [''# Cloudflare Tunnel disabled'']
         else if hostname = [] then Inl (Errorf ''Cloudflare Tunnel hostname is required'')
         else Inr [''# Generated by Minimal Router OS '' @ em_dash @ '' remotely managed Cloudflare Tunnel'',
           ''# Routing and origin settings are managed in Cloudflare.'', ''# Expected public hostname: '' @ hostname,
           ''# Connector token is stored separately and is never written here.''])"

definition generate_doh_proxy_lines :: "system_config \<Rightarrow> string list" where
  "generate_doh_proxy_lines c =
     (if \<not> dhcp_dns_enabled (dhcp c) then [''# DNS-over-HTTPS proxy disabled (DNS not enabled)'']
      else [''# Generated by Minimal Router OS '' @ em_dash @ '' DNS-over-HTTPS proxy'',
        ''# Uses cloudflared as a local DoH/TLS forwarding proxy'', [], ''# cloudflared DoH proxy configuration'',
        ''proxy-dns: true'', ''proxy-dns-address: 127.0.0.1:5053'', ''proxy-dns-port: 5053'', [],
        ''# Upstream DNS-over-HTTPS resolvers'', ''# Cloudflare (1.1.1.1) '' @ em_dash @ '' primary'', ''proxy-dns-upstream:'',
        ''  - https://1.1.1.1/dns-query'', ''  - https://1.0.0.1/dns-query'', ''  - https://dns.google/dns-query'',
        ''  - https://dns.quad9.net/dns-query'', [], ''# TLS session caching for performance'',
        ''tls-cipher-suites: TLS_AES_128_GCM_SHA256:TLS_AES_256_GCM_SHA384:TLS_CHACHA20_POLY1305_SHA256'',
        ''edns-payload-size: 1232''])"

section \<open>The block list\<close>

text \<open>
  One step of \<open>String::from_utf8_lossy\<close>: whether the text starts with a character, and how many bytes it has; otherwise how
  many bytes the replacement character stands for. A byte past the end reads as 0.
\<close>

definition byte_at :: "string \<Rightarrow> nat \<Rightarrow> nat" where
  "byte_at s i = (if i < length s then code (s ! i) else 0)"

definition continuation :: "nat \<Rightarrow> bool" where
  "continuation b \<longleftrightarrow> 128 \<le> b \<and> b \<le> 191"

definition second_byte :: "nat \<Rightarrow> nat \<Rightarrow> bool" where
  "second_byte a b \<longleftrightarrow> continuation b \<and> (a = 224 \<longrightarrow> 160 \<le> b) \<and> (a = 237 \<longrightarrow> b \<le> 159) \<and> (a = 240 \<longrightarrow> 144 \<le> b) \<and> (a = 244 \<longrightarrow> b \<le> 143)"

definition utf8_step :: "string \<Rightarrow> bool \<times> nat" where
  "utf8_step s =
     (let a = byte_at s 0; b = byte_at s 1; c = byte_at s 2; d = byte_at s 3
      in if a < 128 then (True, 1)
         else if 194 \<le> a \<and> a \<le> 223 then (if continuation b then (True, 2) else (False, 1))
         else if 224 \<le> a \<and> a \<le> 239
         then (if \<not> second_byte a b then (False, 1) else if continuation c then (True, 3) else (False, 2))
         else if 240 \<le> a \<and> a \<le> 244
         then (if \<not> second_byte a b then (False, 1) else if \<not> continuation c then (False, 2) else if continuation d then (True, 4) else (False, 3))
         else (False, 1))"

lemma utf8_step_progress: "0 < snd (utf8_step s)"
  by (simp add: utf8_step_def Let_def)

function from_utf8_lossy :: "string \<Rightarrow> string" where
  "from_utf8_lossy s =
     (if s = [] then []
      else (let (ok, n) = utf8_step s
            in (if ok then take n s else [CHR 0xEF, CHR 0xBF, CHR 0xBD]) @ from_utf8_lossy (drop n s)))"
  by pat_completeness auto
termination
  by (relation "measure length") (auto, metis utf8_step_progress length_greater_0_conv snd_conv diff_less)

declare from_utf8_lossy.simps [simp del]

text \<open>
  \<open>BLOCK_DOMAIN_PATTERN\<close> ignores case, so by the folding of Unicode its letters include the long s (U+017F) and the Kelvin
  sign (U+212A). It reads characters, and two labels at least.
\<close>

definition block_alnum :: "nat \<Rightarrow> bool" where
  "block_alnum n \<longleftrightarrow> (n < 128 \<and> is_ascii_alnum (char_of n)) \<or> n = 383 \<or> n = 8490"

definition block_label :: "nat list \<Rightarrow> bool" where
  "block_label s \<longleftrightarrow> s \<noteq> [] \<and> length s \<le> 63 \<and> block_alnum (hd s) \<and> block_alnum (last s) \<and>
     list_all (\<lambda>n. block_alnum n \<or> n = 45) s"

fun split_at_dot :: "nat list \<Rightarrow> nat list list" where
  "split_at_dot [] = [[]]"
| "split_at_dot (n # ns) =
     (if n = 46 then [] # split_at_dot ns
      else case split_at_dot ns of [] \<Rightarrow> [[n]] | l # ls \<Rightarrow> (n # l) # ls)"

definition BLOCK_DOMAIN_PATTERN :: "string \<Rightarrow> bool" where
  "BLOCK_DOMAIN_PATTERN s \<longleftrightarrow> (let labels = split_at_dot (code_points s) in length labels \<ge> 2 \<and> list_all block_label labels)"

text \<open>One line of a hosts file: the domain it blocks.\<close>

definition hosts_line :: "env \<Rightarrow> string \<Rightarrow> string option" where
  "hosts_line v raw =
     (let line = trim_space raw
      in if line = [] \<or> starts_with line ''#'' then None
         else (case Go_Strings.fields line of
             address # name # _ \<Rightarrow>
               (if address \<notin> {''0.0.0.0'', ''127.0.0.1'', ''::1''} then None
                else (let domain = to_lower (lowercase v) (case strip_suffix ''.'' name of None \<Rightarrow> name | Some n \<Rightarrow> n)
                      in if domain = ''localhost'' \<or> domain = ''localhost.localdomain'' then None
                         else if length domain > 253 \<or> \<not> BLOCK_DOMAIN_PATTERN domain then None
                         else Some domain))
           | _ \<Rightarrow> None))"

definition parse_hosts_file :: "env \<Rightarrow> string \<Rightarrow> string list" where
  "parse_hosts_file v bytes =
     first_seen (List.map_filter (hosts_line v)
       (takeWhile (\<lambda>raw. length raw \<le> 1024 * 1024) (split_char (CHR 0x0A) (from_utf8_lossy bytes))))"

definition builtin_blocklist :: "string list" where
  "builtin_blocklist =
     [''pagead2.googlesyndication.com'', ''adservice.google.com'', ''googleads.g.doubleclick.net'', ''tpc.googlesyndication.com'',
      ''www.googlesyndication.com'', ''partner.googleadservices.com'', ''ad.doubleclick.net'', ''ad.turn.com'', ''ads.facebook.com'',
      ''analytics.google.com'', ''track.google.com'', ''stats.g.doubleclick.net'', ''pixel.facebook.com'', ''tr.snapchat.com'',
      ''ads.tiktok.com'', ''analytics.tiktok.com'']"

definition generate_ad_block_lines :: "env \<Rightarrow> system_config \<Rightarrow> string \<Rightarrow> string list" where
  "generate_ad_block_lines v c hosts_data =
     (if \<not> df_enabled (adguard c) then []
      else (let parsed = parse_hosts_file v hosts_data; domains = (if parsed = [] then builtin_blocklist else parsed)
            in [''# Generated by Minimal Router OS '' @ em_dash @ '' AdGuard DNS blocklist'',
                ''# File: /etc/dnsmasq.d/adblock_hosts.conf'', [], ''# Global DNS blocklist (NXDOMAIN for all record types)''] @
               map (\<lambda>d. ''address=/'' @ d @ ''/'') domains @ [[], ''# Total blocked domains: '' @ nat_string (length domains)]))"

end
