(* ===== verification/Wireguard.thy ===== *)
theory Wireguard
  imports Services
begin

text \<open>
  The WireGuard files (\<open>mr-services/src/services/wireguard.rs\<close>): the server and client inputs of \<open>wg setconf\<close>, the
  configuration of a new device with its QR code, and the keys. The QR and PNG encoders, X25519 and base64 are parameters.
\<close>

unbundle bit_operations_syntax

section \<open>Server and outbound tunnel\<close>

definition runtime_input_line :: string where
  "runtime_input_line = ''# Runtime input for wg setconf; interface address is applied separately''"

text \<open>The host route of a peer: its single allowed address, an IPv4 \<open>/32\<close>.\<close>

definition peer_host_route :: "wireguard_peer \<Rightarrow> string result" where
  "peer_host_route peer =
     (case items (wp_allowed_ips peer) of
        [entry] \<Rightarrow>
          (case parse_cidr (trim_space entry) of
             Some (x, network) \<Rightarrow>
               (if to4 x \<noteq> None \<and> mask_size (net_mask network) = (32, 32) then Inr (ipnet_string network)
                else Inl (Errorf (''WireGuard peer '' @ quote (wp_name peer) @ '' must use an IPv4 /32 address'')))
           | None \<Rightarrow> Inl (Errorf (''WireGuard peer '' @ quote (wp_name peer) @ '' must use an IPv4 /32 address'')))
      | _ \<Rightarrow> Inl (Errorf (''WireGuard peer '' @ quote (wp_name peer) @ '' must have exactly one IPv4 /32 address'')))"

definition peer_lines :: "wireguard_peer \<Rightarrow> string \<Rightarrow> string list" where
  "peer_lines peer host_route =
     [''# Peer: '' @ wp_name peer, ''[Peer]'', ''PublicKey = '' @ wp_public_key peer] @
     (if wp_preshared_key peer = [] then [] else [''PresharedKey = '' @ wp_preshared_key peer]) @
     [''AllowedIPs = '' @ host_route] @
     (if wp_endpoint peer = [] then [] else [''Endpoint = '' @ wp_endpoint peer]) @
     [''PersistentKeepalive = 25'', []]"

fun generate_peers :: "string list \<Rightarrow> wireguard_peer list \<Rightarrow> string list result" where
  "generate_peers seen [] = Inr []"
| "generate_peers seen (peer # peers) =
     (if \<not> wp_enabled peer then generate_peers seen peers
      else
        (case peer_host_route peer of
           Inl e \<Rightarrow> Inl e
         | Inr host_route \<Rightarrow>
             (if host_route \<in> set seen
              then Inl (Errorf (''WireGuard peer '' @ quote (wp_name peer) @ '' duplicates address '' @ host_route))
              else map_sum id (\<lambda>rest. peer_lines peer host_route @ rest) (generate_peers (host_route # seen) peers))))"

definition generate_wg :: "wireguard_config \<Rightarrow> bool \<Rightarrow> string list result" where
  "generate_wg w include_address =
     map_sum id (\<lambda>peers.
       [generated_header, if include_address then ''# Runtime file: /run/minimalrouter/wg0.conf'' else runtime_input_line, [],
        ''[Interface]'', ''PrivateKey = '' @ wg_private_key w,
        if wg_listen_port w > 0 then ''ListenPort = '' @ int_string (wg_listen_port w) else ''ListenPort = 51820''] @
       (if include_address then [''Address = '' @ wg_address w] else []) @ [[]] @ peers)
       (generate_peers [] (items (wg_peers w)))"

definition generate_wireguard_lines :: "wireguard_config \<Rightarrow> string list result" where
  "generate_wireguard_lines w = generate_wg w True"

definition generate_wireguard_runtime :: "wireguard_config \<Rightarrow> string list result" where
  "generate_wireguard_runtime w = generate_wg w False"

text \<open>The allowed networks of the outbound tunnel, in canonical form and without duplicates.\<close>

fun client_networks :: "string list \<Rightarrow> string list \<Rightarrow> string list result" where
  "client_networks seen [] = Inr []"
| "client_networks seen (entry # es) =
     (case parse_cidr (trim_space entry) of
        Some (_, n) \<Rightarrow>
          (if to4 (net_ip n) = None
           then Inl (Errorf (''WireGuard client allowed network '' @ quote entry @ '' must be valid IPv4 CIDR''))
           else if ipnet_string n \<in> set seen then Inl (Errorf (''WireGuard client duplicates allowed network '' @ ipnet_string n))
           else map_sum id (\<lambda>rest. ipnet_string n # rest) (client_networks (ipnet_string n # seen) es))
      | None \<Rightarrow> Inl (Errorf (''WireGuard client allowed network '' @ quote entry @ '' must be valid IPv4 CIDR'')))"

definition client_address_error :: "wg_client_config \<Rightarrow> error option" where
  "client_address_error w =
     (let required = Some (Errorf ''WireGuard client address is required and must be a valid IPv4 /32'')
      in case parse_cidr (trim_space (wc_address w)) of
           Some (x, network) \<Rightarrow>
             (if to4 x = None then required
              else if mask_size (net_mask network) \<noteq> (32, 32) then Some (Errorf ''WireGuard client address must be an IPv4 /32'')
              else None)
         | None \<Rightarrow> required)"

definition generate_wireguard_client_runtime :: "wg_client_config \<Rightarrow> string list result" where
  "generate_wireguard_client_runtime w =
     (case client_address_error w of
        Some e \<Rightarrow> Inl e
      | None \<Rightarrow>
          (if items (wc_allowed_ips w) = [] then Inl (Errorf ''WireGuard client must list at least one allowed network'')
           else map_sum id (\<lambda>allowed.
             [generated_header, runtime_input_line, [], ''[Interface]'', ''PrivateKey = '' @ wc_private_key w, [],
              ''# Peer: remote site (outbound tunnel)'', ''[Peer]'', ''PublicKey = '' @ wc_public_key w] @
             (if wc_preshared_key w = [] then [] else [''PresharedKey = '' @ wc_preshared_key w]) @
             [''AllowedIPs = '' @ join '', '' allowed] @
             (if wc_endpoint w = [] then [] else [''Endpoint = '' @ wc_endpoint w]) @
             [''PersistentKeepalive = '' @ int_string (wc_persistent_keepalive w)])
             (client_networks [] (items (wc_allowed_ips w)))))"

section \<open>The configuration of a device\<close>

fun routed_networks :: "string list \<Rightarrow> string list result" where
  "routed_networks [] = Inr []"
| "routed_networks (raw # rs) =
     (case parse_cidr (trim_space raw) of
        Some (x, n) \<Rightarrow>
          (if to4 x = None then Inl (Errorf (''invalid routed IPv4 CIDR '' @ quote raw))
           else map_sum id (\<lambda>rest. ipnet_string n # rest) (routed_networks rs))
      | None \<Rightarrow> Inl (Errorf (''invalid routed IPv4 CIDR '' @ quote raw)))"

text \<open>The networks a device routes through the tunnel; with none given, only its own.\<close>

definition client_allowed :: "string \<Rightarrow> string list \<Rightarrow> string list result" where
  "client_allowed client_ip routed_cidrs =
     (case routed_networks routed_cidrs of
        Inl e \<Rightarrow> Inl e
      | Inr networks \<Rightarrow>
          (if networks \<noteq> [] then Inr (first_seen networks)
           else case parse_cidr client_ip of
             Some (x, n) \<Rightarrow> if to4 x = None then Inl (Errorf ''client CIDR is invalid'') else Inr [ipnet_string n]
           | None \<Rightarrow> Inl (Errorf ''client CIDR is invalid'')))"

definition client_config_lines ::
  "string \<Rightarrow> string \<Rightarrow> string \<Rightarrow> string \<Rightarrow> string \<Rightarrow> string \<Rightarrow> string list \<Rightarrow> string list result" where
  "client_config_lines client_private_key client_ip server_public_key server_endpoint preshared_key dns_servers routed_cidrs =
     map_sum id (\<lambda>allowed.
       [''[Interface]'', ''PrivateKey = '' @ client_private_key, ''Address = '' @ client_ip] @
       (if dns_servers = [] then [] else [''DNS = '' @ dns_servers]) @
       [[], ''[Peer]'', ''PublicKey = '' @ server_public_key] @
       (if preshared_key = [] then [] else [''PresharedKey = '' @ preshared_key]) @
       (if server_endpoint = [] then [] else [''Endpoint = '' @ server_endpoint]) @
       [''AllowedIPs = '' @ join '', '' allowed, ''PersistentKeepalive = 25''])
       (client_allowed client_ip routed_cidrs)"

text \<open>
  The QR code as a bitmap. \<open>qr_encode\<close> gives the width of the code and whether each module is dark, \<open>png_encode\<close> the file of a
  square bitmap with one bit per pixel.
\<close>

record qr_library =
  qr_encode :: "string \<Rightarrow> (nat \<times> bool list) result"
  png_encode :: "nat \<Rightarrow> u8 list \<Rightarrow> u8 list result"
  base64_standard :: "u8 list \<Rightarrow> string"

definition qr_side :: "nat \<Rightarrow> nat" where
  "qr_side width = (width + 8) * 8"

definition qr_row_bytes :: "nat \<Rightarrow> nat" where
  "qr_row_bytes width = (qr_side width + 7) div 8"

definition clear_pixel :: "nat \<Rightarrow> nat \<times> nat \<Rightarrow> u8 list \<Rightarrow> u8 list" where
  "clear_pixel row_bytes p pixels =
     (let (px, py) = p; i = py * row_bytes + px div 8
      in pixels[i := pixels ! i AND NOT (drop_bit (px mod 8) 0x80)])"

text \<open>The pixels of a module, row by row.\<close>

definition module_pixels :: "nat \<Rightarrow> nat \<Rightarrow> (nat \<times> nat) list" where
  "module_pixels x y = concat (map (\<lambda>dy. map (\<lambda>dx. ((x + 4) * 8 + dx, (y + 4) * 8 + dy)) [0..<8]) [0..<8])"

definition dark_pixels :: "nat \<Rightarrow> bool list \<Rightarrow> (nat \<times> nat) list" where
  "dark_pixels width colors =
     concat (map (\<lambda>y. concat (map (\<lambda>x. if colors ! (y * width + x) then module_pixels x y else []) [0..<width])) [0..<width])"

definition qr_pixels :: "nat \<Rightarrow> bool list \<Rightarrow> u8 list" where
  "qr_pixels width colors =
     fold (clear_pixel (qr_row_bytes width)) (dark_pixels width colors) (replicate (qr_row_bytes width * qr_side width) 0xFF)"

definition qr_png :: "qr_library \<Rightarrow> string \<Rightarrow> u8 list result" where
  "qr_png q t =
     (case qr_encode q t of Inl e \<Rightarrow> Inl e | Inr (width, colors) \<Rightarrow> png_encode q (qr_side width) (qr_pixels width colors))"

definition generate_client_config ::
  "qr_library \<Rightarrow> string \<Rightarrow> string \<Rightarrow> string \<Rightarrow> string \<Rightarrow> string \<Rightarrow> string \<Rightarrow> string list \<Rightarrow> (string \<times> string) result" where
  "generate_client_config q client_private_key client_ip server_public_key server_endpoint preshared_key dns_servers routed_cidrs =
     (case client_config_lines client_private_key client_ip server_public_key server_endpoint preshared_key dns_servers routed_cidrs of
        Inl e \<Rightarrow> Inl e
      | Inr ls \<Rightarrow>
          (case qr_png q (unlines ls) of
             Inl e \<Rightarrow> Inl (Wrapf ''encode WireGuard QR'' e)
           | Inr png \<Rightarrow> Inr (unlines ls, ''data:image/png;base64,'' @ base64_standard q png)))"

section \<open>Keys\<close>

text \<open>The clamping of a private key; \<open>x25519_base\<close> is the multiplication of the base point.\<close>

definition clamp_key :: "u8 list \<Rightarrow> u8 list" where
  "clamp_key private =
     (let private = private[0 := private ! 0 AND 248]; private = private[31 := private ! 31 AND 127]
      in private[31 := private ! 31 OR 64])"

definition generate_wireguard_keypair ::
  "qr_library \<Rightarrow> (u8 list \<Rightarrow> u8 list) \<Rightarrow> (string + u8 list) \<Rightarrow> (string \<times> string) result" where
  "generate_wireguard_keypair q x25519_base random =
     (case random of
        Inl e \<Rightarrow> Inl (Wrapf ''generate WireGuard private key'' (Errorf e))
      | Inr bytes \<Rightarrow> (let private = clamp_key bytes in Inr (base64_standard q private, base64_standard q (x25519_base private))))"

definition wireguard_public_key ::
  "qr_library \<Rightarrow> (string \<Rightarrow> u8 list option) \<Rightarrow> (u8 list \<Rightarrow> u8 list) \<Rightarrow> string \<Rightarrow> string result" where
  "wireguard_public_key q decode x25519_base private_key =
     (case decode private_key of
        Some private \<Rightarrow>
          (if length private \<noteq> 32 then Inl (Errorf ''invalid WireGuard private key'')
           else if list_all (\<lambda>b. b = 0) (x25519_base private)
           then Inl (Errorf ''derive WireGuard public key: bad input point: low order point'')
           else Inr (base64_standard q (x25519_base private)))
      | None \<Rightarrow> Inl (Errorf ''invalid WireGuard private key''))"

definition generate_wireguard_preshared_key :: "qr_library \<Rightarrow> (string + u8 list) \<Rightarrow> string result" where
  "generate_wireguard_preshared_key q random =
     (case random of Inl e \<Rightarrow> Inl (Wrapf ''generate WireGuard preshared key'' (Errorf e)) | Inr key \<Rightarrow> Inr (base64_standard q key))"

section \<open>The bitmap\<close>

text \<open>Whether a pixel of a bitmap is white.\<close>

definition pixel :: "nat \<Rightarrow> u8 list \<Rightarrow> nat \<Rightarrow> nat \<Rightarrow> bool" where
  "pixel row_bytes pixels px py = bit (pixels ! (py * row_bytes + px div 8)) (7 - px mod 8)"

lemma pixel_mask: "n < 8 \<Longrightarrow> m < 8 \<Longrightarrow> bit (drop_bit n 0x80 :: u8) (7 - m) \<longleftrightarrow> n = m"
  by (auto simp: less_Suc_eq numeral_eq_Suc bit_simps)

lemma row_cell_eq:
  fixes a b r x y :: nat
  assumes "a * r + x = b * r + y" "x < r" "y < r"
  shows "a = b \<and> x = y"
  using assms by (metis add.commute mod_mult_self1 mod_less add_right_cancel mult_cancel2 not_less_zero)

lemma length_clear_pixel [simp]: "length (clear_pixel r p ps) = length ps"
  by (simp add: clear_pixel_def Let_def split: prod.splits)

lemma clear_pixel_bit:
  assumes "px div 8 < r" "qx div 8 < r" "py * r + px div 8 < length ps" "qy * r + qx div 8 < length ps"
  shows "pixel r (clear_pixel r (px, py) ps) qx qy \<longleftrightarrow> pixel r ps qx qy \<and> (px, py) \<noteq> (qx, qy)"
proof (cases "py * r + px div 8 = qy * r + qx div 8")
  case True
  with assms have cell: "py = qy" "px div 8 = qx div 8" using row_cell_eq by blast+
  then have "(px, py) = (qx, qy) \<longleftrightarrow> px mod 8 = qx mod 8" by (metis div_mult_mod_eq prod.inject)
  moreover have "bit (w AND NOT (drop_bit (px mod 8) 0x80)) (7 - qx mod 8) \<longleftrightarrow> bit w (7 - qx mod 8) \<and> px mod 8 \<noteq> qx mod 8" for w :: u8
    using pixel_mask [of "px mod 8" "qx mod 8"] less_imp_diff_less [of 7 8 "qx mod 8"] by (simp add: bit_and_iff bit_not_iff)
  ultimately show ?thesis using assms(3) cell by (simp add: pixel_def clear_pixel_def Let_def)
next
  case False
  with assms show ?thesis by (auto simp: pixel_def clear_pixel_def Let_def)
qed

lemma fold_clear_bit:
  assumes "\<And>px py. (px, py) \<in> set pts \<Longrightarrow> px div 8 < r \<and> py * r + px div 8 < length ps"
    and "qx div 8 < r" "qy * r + qx div 8 < length ps"
  shows "pixel r (fold (clear_pixel r) pts ps) qx qy \<longleftrightarrow> pixel r ps qx qy \<and> (qx, qy) \<notin> set pts"
  using assms
proof (induction pts arbitrary: ps)
  case (Cons p pts)
  obtain px py where p: "p = (px, py)" by (cases p)
  have "pixel r (fold (clear_pixel r) pts (clear_pixel r p ps)) qx qy \<longleftrightarrow> pixel r (clear_pixel r p ps) qx qy \<and> (qx, qy) \<notin> set pts"
    using Cons.prems by (intro Cons.IH) auto
  with clear_pixel_bit [of px r qx py ps qy] Cons.prems p show ?case by auto
qed simp

lemma module_pixels_iff: "(px, py) \<in> set (module_pixels x y) \<longleftrightarrow> px div 8 = x + 4 \<and> py div 8 = y + 4"
proof -
  have eight: "(\<exists>d<8. p = k * 8 + d) \<longleftrightarrow> p div 8 = k" for p k :: nat
    by (metis div_mult_mod_eq mod_less_divisor zero_less_numeral div_mult_self3 div_less add_0 add.commute zero_neq_numeral)
  have "(px, py) \<in> set (module_pixels x y) \<longleftrightarrow> (\<exists>dx<8. px = (x + 4) * 8 + dx) \<and> (\<exists>dy<8. py = (y + 4) * 8 + dy)"
    by (fastforce simp: module_pixels_def)
  then show ?thesis by (simp only: eight)
qed

lemma dark_pixels_iff:
  "(px, py) \<in> set (dark_pixels width colors) \<longleftrightarrow>
     4 \<le> px div 8 \<and> px div 8 < width + 4 \<and> 4 \<le> py div 8 \<and> py div 8 < width + 4 \<and> colors ! ((py div 8 - 4) * width + (px div 8 - 4))"
  (is "?l \<longleftrightarrow> ?r")
proof -
  have "?l \<longleftrightarrow> (\<exists>x<width. \<exists>y<width. colors ! (y * width + x) \<and> px div 8 = x + 4 \<and> py div 8 = y + 4)"
    by (fastforce simp: dark_pixels_def module_pixels_iff split: if_splits)
  also have "\<dots> \<longleftrightarrow> ?r"
  proof
    assume r: ?r
    show "\<exists>x<width. \<exists>y<width. colors ! (y * width + x) \<and> px div 8 = x + 4 \<and> py div 8 = y + 4"
      using r by (intro exI [of _ "px div 8 - 4"] conjI exI [of _ "py div 8 - 4"]) auto
  qed auto
  finally show ?thesis .
qed

end
