(* ===== verification/Review.thy ===== *)
theory Review
  imports Nftables Apply_Safety
begin

text \<open>
  Explanations of the policy and summaries of a change (\<open>mr-services/src/services/review.rs\<close>): the zone of an address, the
  verdict on a new flow, warnings about custom rules, and the differences of two configurations in words.
\<close>

section \<open>The policy for a flow\<close>

record firewall_flow =
  fl_source_ip :: string
  fl_destination_ip :: string
  fl_protocol :: string
  fl_port :: int

record firewall_explanation =
  fe_revision :: u64
  fe_checked_at :: time
  fe_basis :: string
  fe_verdict :: string
  fe_reason :: string
  fe_rule_id :: string
  fe_source_zone :: string
  fe_destination_zone :: string
  fe_limitations :: "string list"

definition in_network :: "string \<Rightarrow> string \<Rightarrow> bool" where
  "in_network address cidr =
     (case (parse_cidr cidr, parse_ip address) of (Some (_, n), Some x) \<Rightarrow> ipnet_contains n x | _ \<Rightarrow> False)"

definition first_part :: "string \<Rightarrow> string" where
  "first_part value = hd (split_char (CHR ''/'') value)"

definition firewall_zone :: "system_config \<Rightarrow> string \<Rightarrow> string" where
  "firewall_zone c x =
     (let segments = filter xl_enabled (items (fw_extra_lans (firewall c)))
      in if x = lan_ip_address (lan c) \<or> (wg_enabled (wireguard c) \<and> first_part (wg_address (wireguard c)) = x) then ''router''
         else if list_ex (\<lambda>s. first_part (xl_router_address s) = x) segments then ''router''
         else if in_network x (lan_cidr (lan c)) then ''lan''
         else if wg_enabled (wireguard c) \<and> in_network x (wg_address (wireguard c)) then ''wireguard''
         else case List.find (\<lambda>s. in_network x (xl_cidr s)) segments of
             Some s \<Rightarrow> ''segment:'' @ xl_id s
           | None \<Rightarrow>
               (if wc_enabled (wg_client c) \<and> list_ex (in_network x) (items (wc_allowed_ips (wg_client c))) then ''tunnel''
                else if is_some_and (parse_ip x) (\<lambda>p. is_global_unicast p \<and> \<not> is_private p) then ''wan''
                else ''unknown''))"

definition firewall_rule_matches :: "firewall_rule \<Rightarrow> firewall_flow \<Rightarrow> bool" where
  "firewall_rule_matches rule flow \<longleftrightarrow>
     \<not> (fr_src_ip rule \<noteq> [] \<and> fr_src_ip rule \<noteq> fl_source_ip flow \<and> \<not> in_network (fl_source_ip flow) (fr_src_ip rule)) \<and>
     (fr_protocol rule = ''any'' \<or>
      (fr_protocol rule = fl_protocol flow \<and> (fr_protocol rule = ''icmp'' \<or> fr_dst_port rule = fl_port flow)))"

text \<open>The verdict, its reason and the identifier of the rule that decides, if a custom rule does.\<close>

type_synonym verdict_reason = "string \<times> string \<times> string"

definition explain_input :: "system_config \<Rightarrow> firewall_flow \<Rightarrow> string \<Rightarrow> verdict_reason" where
  "explain_input c flow src =
     (let proxy_port = (if sq_port (squid_proxy c) = 0 then 3128 else sq_port (squid_proxy c));
          none = (''deny'', ''No router-input allowance matches this new flow.'', [])
      in if src = ''tunnel'' then (''deny'', ''The outbound tunnel cannot initiate connections to the router.'', [])
         else if starts_with src ''segment:''
         then (if fl_protocol flow = ''icmp'' then (''allow'', ''Isolated segments may ping the router.'', [])
               else (''deny'', ''Isolated segments cannot reach router services.'', []))
         else if fl_port flow = 53 \<and> fl_protocol flow \<noteq> ''icmp''
         then (''allow'', ''Router DNS is permitted from LAN and authenticated WireGuard; listener availability is not tested.'', [])
         else if fl_protocol flow = ''tcp'' \<and> (fl_port flow = 22 \<or> fl_port flow = sys_https_port (system c)) \<and>
                 (src = ''wireguard'' \<or> sys_management_access (system c) \<noteq> ''wireguard_only'')
         then (''allow'', ''Management port is allowed by packet policy; trusted networks and authentication still apply.'', [])
         else if src = ''lan'' then
           (if fl_protocol flow = ''icmp'' \<or> (fl_protocol flow = ''udp'' \<and> fl_port flow = 67)
            then (''allow'', ''Essential LAN router service is permitted.'', [])
            else if sq_enabled (squid_proxy c) \<and> fl_protocol flow = ''tcp'' \<and> fl_port flow = proxy_port
            then (''allow'', ''LAN access to the configured proxy listener is permitted.'', [])
            else case List.find (\<lambda>r. fr_enabled r \<and> fr_direction r = ''input'' \<and> fr_action r = ''allow'' \<and> firewall_rule_matches r flow)
                        (items (fw_custom_rules (firewall c))) of
                Some rule \<Rightarrow> (''allow'', ''Matching custom router-input allowance.'', fr_id rule)
              | None \<Rightarrow> none)
         else none)"

text \<open>A device with a schedule: direct DNS is denied, anything else depends on the time and on sets filled from DNS answers.\<close>

definition explain_profile :: "env \<Rightarrow> system_config \<Rightarrow> firewall_flow \<Rightarrow> verdict_reason option" where
  "explain_profile v c flow =
     (if active_managed_services v c \<noteq> [] \<and>
         list_ex (\<lambda>p. dp_enabled p \<and> fl_source_ip flow \<in> set (items (dp_ip_addresses p))) (items (df_device_profiles (adguard c)))
      then Some (if fl_protocol flow \<noteq> ''icmp'' \<and> (fl_port flow = 53 \<or> fl_port flow = 853)
                 then (''deny'', ''Device schedules block direct DNS/DoT before custom rules.'', [])
                 else (''unknown'', ''This device has a schedule. Its dynamic DNS destination sets and router-time enforcement must be inspected before deciding.'', []))
      else None)"

definition explain_segment :: "system_config \<Rightarrow> firewall_flow \<Rightarrow> verdict_reason" where
  "explain_segment c flow =
     (if list_ex (\<lambda>s. xl_enabled s \<and> fl_destination_ip flow = xl_dst_ip s \<and> fl_port flow = xl_dst_port s \<and>
           (fl_protocol flow = xl_protocol s \<or> (xl_protocol s = [] \<and> fl_protocol flow = ''tcp'')) \<and>
           list_ex (in_network (fl_source_ip flow)) (items (xl_allow_from s))) (items (fw_extra_lans (firewall c)))
      then (''allow'', ''The isolated-segment service ACL permits this source, destination and port.'', [])
      else (''deny'', ''The isolated-segment service ACL does not allow this flow.'', []))"

definition explain_egress :: "system_config \<Rightarrow> firewall_flow \<Rightarrow> string \<Rightarrow> string \<Rightarrow> verdict_reason" where
  "explain_egress c flow src dst =
     (if dst = ''wan'' \<and> wan_enabled (wan c) \<and> (src = ''lan'' \<or> src = ''wireguard'') then
        (let default_egress = (''allow'', ''Default configured egress allows this source toward WAN, after earlier restrictions.'', [])
         in if src = ''lan'' then
              (case List.find (\<lambda>r. fr_enabled r \<and> fr_direction r = ''forward'' \<and> fr_action r = ''allow'' \<and> firewall_rule_matches r flow)
                      (items (fw_custom_rules (firewall c))) of
                 Some rule \<Rightarrow>
                   (''allow'', ''Matching custom WAN allowance, after earlier restrictions. Default LAN-to-WAN egress also permits this path.'', fr_id rule)
               | None \<Rightarrow> default_egress)
            else default_egress)
      else if src = ''wireguard'' \<and> dst = ''lan''
      then (''allow'', ''Authenticated WireGuard clients may reach the LAN; DNAT is not an access-control list.'', [])
      else if dst = ''tunnel'' \<and> (src = ''lan'' \<or> src = ''wireguard'')
      then (''allow'', ''Trusted LAN/WireGuard sources may initiate toward the configured outbound tunnel.'', [])
      else (''deny'', ''No forwarding allowance matches this new flow.'', []))"

definition custom_deny :: "system_config \<Rightarrow> firewall_flow \<Rightarrow> string \<Rightarrow> firewall_rule option" where
  "custom_deny c flow dst =
     List.find (\<lambda>r. fr_enabled r \<and> fr_direction r = ''forward'' \<and> fr_action r = ''deny'' \<and> firewall_rule_matches r flow \<and>
         (firewall_rule_scope r = ''all'' \<or> (dst = ''wan'' \<and> wan_enabled (wan c))))
       (items (fw_custom_rules (firewall c)))"

definition explain_forward :: "system_config \<Rightarrow> firewall_flow \<Rightarrow> string \<Rightarrow> string \<Rightarrow> verdict_reason" where
  "explain_forward c flow src dst =
     (case if src = ''lan'' then custom_deny c flow dst else None of
        Some rule \<Rightarrow> (''deny'', ''Matching custom deny runs before established connections and all custom allows.'', fr_id rule)
      | None \<Rightarrow>
          (if sq_enabled (squid_proxy c) \<and>
              list_ex (\<lambda>i. ri_enabled i \<and> ri_ip_address i = fl_source_ip flow) (items (sq_restricted_ips (squid_proxy c)))
           then (''deny'', ''Proxy restriction blocks direct forwarded traffic from this address.'', [])
           else if src = ''tunnel'' then (''deny'', ''The outbound tunnel may only return traffic; new remote initiations are denied.'', [])
           else if starts_with src ''segment:'' then (''deny'', ''Isolated segments cannot initiate routed connections.'', [])
           else if starts_with dst ''segment:'' then explain_segment c flow
           else explain_egress c flow src dst))"

definition explain_verdict :: "env \<Rightarrow> system_config \<Rightarrow> firewall_flow \<Rightarrow> string \<Rightarrow> string \<Rightarrow> verdict_reason" where
  "explain_verdict v c flow src dst =
     (if src = ''unknown'' \<or> dst = ''unknown'' \<or> src = ''router''
      then (''unknown'', ''This address needs live routing/interface context outside the supported configured topology.'', [])
      else if src = dst \<and> (src = ''lan'' \<or> starts_with src ''segment:'')
      then (''not_routed'',
        ''Devices in the same configured subnet normally communicate directly; router forwarding rules do not protect that path.'', [])
      else if src = ''wan''
      then (''unknown'',
        ''WAN anti-spoof routing checks and WireGuard endpoint rate limits require live ingress context. New non-WireGuard WAN traffic is denied by configured policy.'', [])
      else if dst = ''router'' then explain_input c flow src
      else case explain_profile v c flow of Some r \<Rightarrow> r | None \<Rightarrow> explain_forward c flow src dst)"

text \<open>Prerouting rewrites the destination of a flow from the tunnel before the policy sees it.\<close>

definition matching_forward :: "system_config \<Rightarrow> firewall_flow \<Rightarrow> string \<Rightarrow> port_forward_rule option" where
  "matching_forward c flow src =
     (if src = ''wireguard''
      then List.find (\<lambda>pf. pf_enabled pf \<and> pf_external_port pf = fl_port flow \<and> (pf_protocol pf = fl_protocol flow \<or> pf_protocol pf = ''both''))
             (items (fw_port_forwards (firewall c)))
      else None)"

definition rewritten_flow :: "system_config \<Rightarrow> firewall_flow \<Rightarrow> string \<Rightarrow> firewall_flow" where
  "rewritten_flow c flow src =
     (case matching_forward c flow src of
        None \<Rightarrow> flow
      | Some pf \<Rightarrow> flow\<lparr>fl_destination_ip := pf_internal_ip pf, fl_port := pf_internal_port pf\<rparr>)"

definition flow_error :: "firewall_flow \<Rightarrow> error option" where
  "flow_error flow =
     (if \<not> list_all (\<lambda>a. is_some_and (parse_ip a) (\<lambda>x. to4 x \<noteq> None)) [fl_source_ip flow, fl_destination_ip flow]
      then Some (Errorf ''source_ip and destination_ip must be IPv4 addresses'')
      else if fl_protocol flow \<notin> {''tcp'', ''udp'', ''icmp''} then Some (Errorf ''protocol must be tcp, udp or icmp'')
      else if (fl_protocol flow = ''icmp'' \<and> fl_port flow \<noteq> 0) \<or> (fl_protocol flow \<noteq> ''icmp'' \<and> (fl_port flow < 1 \<or> fl_port flow > 65535))
      then Some (Errorf ''port must be 1-65535 for TCP/UDP and zero for ICMP'')
      else None)"

definition unknown_explanation :: "time \<Rightarrow> system_config \<Rightarrow> firewall_explanation" where
  "unknown_explanation t c =
     \<lparr>fe_revision = revision c, fe_checked_at = t, fe_basis = ''configured_policy'', fe_verdict = ''unknown'', fe_reason = [],
      fe_rule_id = [], fe_source_zone = [], fe_destination_zone = [],
      fe_limitations =
        [''New IPv4 flow; source interface inferred from configured subnets, not observed.'',
         ''Not a packet test. Live routes, conntrack, rate limits, application access and other firewall tables are not verified.'']\<rparr>"

definition explain_firewall_flow ::
  "env \<Rightarrow> time \<Rightarrow> system_config \<Rightarrow> firewall_flow \<Rightarrow> (firewall_explanation \<times> error) + firewall_explanation" where
  "explain_firewall_flow v t c flow =
     (let result = unknown_explanation t c
      in case flow_error flow of
           Some e \<Rightarrow> Inl (result, e)
         | None \<Rightarrow>
             (let src = firewall_zone c (fl_source_ip flow); f = rewritten_flow c flow src; dst = firewall_zone c (fl_destination_ip f);
                  dnat = (case matching_forward c flow src of
                      None \<Rightarrow> []
                    | Some pf \<Rightarrow> ''Tunnel DNAT maps to '' @ pf_internal_ip pf @ '':'' @ int_string (pf_internal_port pf) @ ''. '');
                  (verdict, reason, rule_id) = explain_verdict v c f src dst
              in Inr (result\<lparr>fe_verdict := verdict, fe_reason := dnat @ reason, fe_rule_id := rule_id, fe_source_zone := src, fe_destination_zone := dst\<rparr>)))"

section \<open>Warnings\<close>

definition same_match :: "firewall_rule \<Rightarrow> firewall_rule \<Rightarrow> bool" where
  "same_match r other \<longleftrightarrow> fr_enabled other \<and> fr_direction other = fr_direction r \<and> fr_protocol other = fr_protocol r \<and>
     fr_src_ip other = fr_src_ip r \<and> fr_dst_port other = fr_dst_port r \<and> firewall_rule_scope other = firewall_rule_scope r"

definition rule_warnings :: "firewall_rule list \<Rightarrow> firewall_rule \<Rightarrow> string list" where
  "rule_warnings earlier r =
     (if fr_direction r = ''forward'' \<and> fr_action r = ''allow''
      then [fr_name r @ '': WAN egress is already allowed by default; an allow cannot override an earlier deny or device schedule.''] else []) @
     (if fr_direction r = ''forward'' \<and> firewall_rule_scope r = ''all''
      then [fr_name r @ '': applies to every routed destination from LAN, including tunnels and isolated segments.''] else []) @
     (case List.find (same_match r) earlier of
        None \<Rightarrow> []
      | Some other \<Rightarrow>
          [fr_name other @ '' and '' @ fr_name r @ '' overlap: denies are evaluated before allows; identical matches may be redundant.''])"

text \<open>The loop stops after the rule at which 30 warnings are reached.\<close>

fun warnings_loop :: "string list \<Rightarrow> firewall_rule list \<Rightarrow> firewall_rule list \<Rightarrow> string list" where
  "warnings_loop out earlier [] = out"
| "warnings_loop out earlier (r # rs) =
     (if \<not> fr_enabled r then warnings_loop out (earlier @ [r]) rs
      else (let out' = out @ rule_warnings earlier r
            in if length out' \<ge> 30 then out' @ [''Additional warnings omitted; review all configured rules.'']
               else warnings_loop out' (earlier @ [r]) rs))"

definition firewall_warnings_of :: "system_config \<Rightarrow> string list" where
  "firewall_warnings_of c = warnings_loop [] [] (items (fw_custom_rules (firewall c)))"

section \<open>Changes in words\<close>

definition bool_text :: "bool \<Rightarrow> string" where
  "bool_text b = (if b then ''true'' else ''false'')"

definition arrow :: string where "arrow = '' '' @ [CHR 0xE2, CHR 0x86, CHR 0x92] @ '' ''"

definition middle_dot :: string where "middle_dot = '' '' @ [CHR 0xC2, CHR 0xB7] @ '' ''"

text \<open>
  The comparison of two lists by a key. \<open>old\<close> is the map of the entries that no new entry has claimed yet; each new entry gives
  its lines from the old one under its key, and each old entry that is left over gives the lines of its removal.
\<close>

fun diff_loop :: "('a \<Rightarrow> string) \<Rightarrow> ('a option \<Rightarrow> 'a \<Rightarrow> string list) \<Rightarrow> (string \<rightharpoonup> 'a) \<Rightarrow> 'a list \<Rightarrow> string list \<times> (string \<rightharpoonup> 'a)" where
  "diff_loop key describe old [] = ([], old)"
| "diff_loop key describe old (r # rs) =
     (let (ls, old') = diff_loop key describe (old(key r := None)) rs in (describe (old (key r)) r @ ls, old'))"

definition diff_lines :: "('a \<Rightarrow> string) \<Rightarrow> ('a option \<Rightarrow> 'a \<Rightarrow> string list) \<Rightarrow> ('a \<Rightarrow> string) \<Rightarrow> 'a list \<Rightarrow> 'a list \<Rightarrow> string list" where
  "diff_lines key describe removed before_list after_list =
     (let (ls, left) = diff_loop key describe (map_of (rev (map (\<lambda>r. (key r, r)) before_list))) after_list
      in ls @ map removed (filter (\<lambda>r. left (key r) \<noteq> None) before_list))"

definition describe_rule :: "firewall_rule \<Rightarrow> string" where
  "describe_rule r =
     fr_name r @ '': '' @ fr_action r @ '' '' @ fr_direction r @ '' '' @ fr_protocol r @ ''/'' @ int_string (fr_dst_port r) @ '' from '' @
     fr_src_ip r @ '', scope '' @ firewall_rule_scope r @ '', enabled='' @ bool_text (fr_enabled r)"

definition rule_change :: "codec \<Rightarrow> firewall_rule option \<Rightarrow> firewall_rule \<Rightarrow> string list" where
  "rule_change j prev r =
     (case prev of
        None \<Rightarrow> [''Add '' @ describe_rule r]
      | Some p \<Rightarrow> if equal_section j (firewall_rule_json p) (firewall_rule_json r) then []
                  else [''Change '' @ describe_rule p @ arrow @ describe_rule r])"

definition forward_change :: "codec \<Rightarrow> port_forward_rule option \<Rightarrow> port_forward_rule \<Rightarrow> string list" where
  "forward_change j prev r =
     (if is_some_and prev (\<lambda>p. equal_section j (port_forward_json p) (port_forward_json r)) then []
      else [(if prev = None then ''Add'' else ''Change'') @ '' tunnel forward '' @ pf_name r @ '': '' @ pf_protocol r @ ''/'' @
        int_string (pf_external_port r) @ arrow @ pf_internal_ip r @ '':'' @ int_string (pf_internal_port r) @ '', enabled='' @ bool_text (pf_enabled r)])"

text \<open>At most 50 lines and a last one for the rest.\<close>

definition at_most_50 :: "(nat \<Rightarrow> string) \<Rightarrow> string list \<Rightarrow> string list" where
  "at_most_50 omitted changes = (if length changes > 50 then take 50 changes @ [omitted (length changes - 50)] else changes)"

definition describe_firewall_changes_of :: "codec \<Rightarrow> firewall_config \<Rightarrow> firewall_config \<Rightarrow> string list" where
  "describe_firewall_changes_of j old new =
     at_most_50 (\<lambda>_. ''Additional changes omitted; reduce the batch for a complete review.'')
       (diff_lines fr_id (rule_change j) (\<lambda>r. ''Remove '' @ describe_rule r) (items (fw_custom_rules old)) (items (fw_custom_rules new)) @
        diff_lines pf_id (forward_change j) (\<lambda>r. ''Remove tunnel forward '' @ pf_name r) (items (fw_port_forwards old)) (items (fw_port_forwards new)) @
        (if equal_section j (list_json extra_lan_json (fw_extra_lans old)) (list_json extra_lan_json (fw_extra_lans new)) then []
         else [''Isolated-segment access policy changes; review source networks and destination services.'']))"

definition field_change :: "string \<Rightarrow> string \<Rightarrow> string \<Rightarrow> string list" where
  "field_change name a b = (if a \<noteq> b then [name @ '': '' @ a @ arrow @ b] else [])"

definition lease_change :: "static_lease option \<Rightarrow> static_lease \<Rightarrow> string list" where
  "lease_change prev l =
     (case prev of
        None \<Rightarrow> [''Reservation added: '' @ sl_hostname l @ middle_dot @ sl_mac l @ arrow @ sl_ip_address l]
      | Some p \<Rightarrow>
          (if p = l then []
           else [''Reservation changed: '' @ sl_hostname p @ '' / '' @ sl_mac p @ '' / '' @ sl_ip_address p @ arrow @
             sl_hostname l @ '' / '' @ sl_mac l @ '' / '' @ sl_ip_address l]))"

definition record_change :: "dns_record option \<Rightarrow> dns_record \<Rightarrow> string list" where
  "record_change prev r =
     (case prev of
        None \<Rightarrow> [''Local DNS added: '' @ dr_name r @ arrow @ dr_ip r]
      | Some p \<Rightarrow> field_change (''Local DNS '' @ dr_name r) (dr_ip p) (dr_ip r))"

definition describe_network_changes_of :: "system_config \<Rightarrow> system_config \<Rightarrow> string list" where
  "describe_network_changes_of c n =
     at_most_50 (\<lambda>extra. nat_string extra @ '' additional network changes; review the full candidate before applying.'')
       (field_change ''LAN gateway'' (lan_ip_address (lan c)) (lan_ip_address (lan n)) @
        field_change ''LAN interface'' (lan_interface (lan c)) (lan_interface (lan n)) @
        field_change ''DHCP enabled'' (bool_text (dhcp_enabled (dhcp c))) (bool_text (dhcp_enabled (dhcp n))) @
        field_change ''Pool start'' (dhcp_range_start (dhcp c)) (dhcp_range_start (dhcp n)) @
        field_change ''Pool end'' (dhcp_range_end (dhcp c)) (dhcp_range_end (dhcp n)) @
        field_change ''Lease duration'' (dhcp_lease_time (dhcp c)) (dhcp_lease_time (dhcp n)) @
        field_change ''Upstream DNS'' (join '', '' (items (dhcp_dns_servers (dhcp c)))) (join '', '' (items (dhcp_dns_servers (dhcp n)))) @
        field_change ''WAN enabled'' (bool_text (wan_enabled (wan c))) (bool_text (wan_enabled (wan n))) @
        field_change ''WAN interface'' (wan_interface (wan c)) (wan_interface (wan n)) @
        field_change ''WAN MTU'' (int_string (wan_mtu (wan c))) (int_string (wan_mtu (wan n))) @
        (if wan_username (wan c) \<noteq> wan_username (wan n) then [''PPPoE username: changed''] else []) @
        (if wan_password (wan c) \<noteq> wan_password (wan n) then [''PPPoE password: changed (hidden)''] else []) @
        diff_lines sl_id lease_change (\<lambda>l. ''Reservation removed: '' @ sl_hostname l @ middle_dot @ sl_ip_address l)
          (items (dhcp_static_leases (dhcp c))) (items (dhcp_static_leases (dhcp n))) @
        diff_lines dr_name record_change (\<lambda>r. ''Local DNS removed: '' @ dr_name r @ arrow @ dr_ip r)
          (items (dns_records (dns c))) (items (dns_records (dns n))))"

text \<open>The descriptions that the preview of a change uses.\<close>

definition review_describers :: "codec \<Rightarrow> describers" where
  "review_describers j =
     \<lparr>describe_firewall_changes = describe_firewall_changes_of j, firewall_warnings = firewall_warnings_of,
      describe_network_changes = describe_network_changes_of\<rparr>"

end
