(* ===== verification/Schedule.thy ===== *)
theory Schedule
  imports Device_Profiles
begin

text \<open>
  The status of the device profiles at the router clock (\<open>device_profile_statuses\<close> of \<open>mr-services/src/services/review.rs\<close>):
  whether a schedule allows its services now, and when that changes next. An offset is in seconds.
\<close>

definition DAY_NANOS :: int where "DAY_NANOS = 86400 * 1000000000"
definition MINUTE_NANOS :: int where "MINUTE_NANOS = 60 * 1000000000"

text \<open>Local time in nanoseconds, the number of its day, and the minute of that day. Day 0 (1970-01-01) was a Thursday.\<close>

definition local_nanos :: "time \<Rightarrow> int" where
  "local_nanos t = tm_wall t + tm_offset t * 1000000000"

definition local_day :: "time \<Rightarrow> int" where
  "local_day t = local_nanos t div DAY_NANOS"

definition local_minute :: "time \<Rightarrow> int" where
  "local_minute t = local_nanos t mod DAY_NANOS div MINUTE_NANOS"

definition weekday_name :: "time \<Rightarrow> string" where
  "weekday_name t = ORDERED_SCHEDULE_DAYS ! nat ((local_day t + 3) mod 7)"

definition schedule_minute :: "string \<Rightarrow> int" where
  "schedule_minute value =
     (let parts = split_char (CHR '':'') value;
          number = (\<lambda>p. case p of None \<Rightarrow> 0 | Some s \<Rightarrow> (case go_atoi s of None \<Rightarrow> 0 | Some n \<Rightarrow> n));
          hour = number (Some (hd parts)); minute = number (if length parts > 1 then Some (parts ! 1) else None)
      in wrap_i64 (wrap_i64 (hour * 60) + minute))"

definition window_end :: "access_window \<Rightarrow> int" where
  "window_end w = (if aw_end w = ''23:59'' then 1440 else schedule_minute (aw_end w))"

definition windows_of :: "(string \<times> access_window glist) list \<Rightarrow> time \<Rightarrow> access_window list" where
  "windows_of windows t = (case map_of windows (weekday_name t) of None \<Rightarrow> [] | Some ws \<Rightarrow> items ws)"

definition schedule_allowed :: "(string \<times> access_window glist) list \<Rightarrow> time \<Rightarrow> bool" where
  "schedule_allowed windows t =
     list_ex (\<lambda>w. local_minute t \<ge> schedule_minute (aw_start w) \<and> local_minute t < window_end w) (windows_of windows t)"

text \<open>The instant of midnight of the local day \<open>n\<close>, and the boundaries of the intervals that start on that day.\<close>

definition midnight :: "time \<Rightarrow> int \<Rightarrow> time" where
  "midnight t n = from_wall (n * DAY_NANOS - tm_offset t * 1000000000) (tm_offset t)"

definition boundary_minute :: "access_window \<Rightarrow> int \<Rightarrow> int" where
  "boundary_minute w minute = (if minute = 1439 \<and> aw_end w = ''23:59'' then 1440 else minute)"

definition plus_minutes :: "time \<Rightarrow> int \<Rightarrow> time" where
  "plus_minutes t m = t\<lparr>tm_wall := tm_wall t + m * MINUTE_NANOS\<rparr>"

definition day_boundaries :: "(string \<times> access_window glist) list \<Rightarrow> time \<Rightarrow> time list" where
  "day_boundaries windows day =
     day # concat (map (\<lambda>w. map (\<lambda>m. plus_minutes day (boundary_minute w m)) [schedule_minute (aw_start w), schedule_minute (aw_end w)])
       (windows_of windows day))"

definition boundaries :: "(string \<times> access_window glist) list \<Rightarrow> time \<Rightarrow> time list" where
  "boundaries windows t =
     sort_key tm_wall (concat (map (\<lambda>i. day_boundaries windows (midnight t (local_day t + int i))) [0..<9]))"

definition next_change :: "(string \<times> access_window glist) list \<Rightarrow> time \<Rightarrow> time option" where
  "next_change windows t =
     List.find (\<lambda>b. tm_wall b > tm_wall t \<and> schedule_allowed windows b \<noteq> schedule_allowed windows t) (boundaries windows t)"

record profile_status =
  ps_id :: string
  ps_name :: string
  ps_ip_addresses :: "string list"
  ps_services :: "string list"
  ps_state :: string
  ps_allowed_now :: "bool option"
  ps_next_change_at :: "time option"
  ps_next_state :: string
  ps_missing_reservations :: "string list"
  ps_basis :: string
  ps_enforcement_verified :: bool

definition profile_status_of :: "system_config \<Rightarrow> time \<Rightarrow> device_profile \<Rightarrow> profile_status" where
  "profile_status_of c t p =
     (let reserved = map sl_ip_address (items (dhcp_static_leases (dhcp c)));
          status = \<lparr>ps_id = dp_id p, ps_name = dp_name p, ps_ip_addresses = items (dp_ip_addresses p), ps_services = items (dp_services p),
            ps_state = [], ps_allowed_now = None, ps_next_change_at = None, ps_next_state = [],
            ps_missing_reservations = filter (\<lambda>x. x \<notin> set reserved) (items (dp_ip_addresses p)), ps_basis = ''configured_schedule'',
            ps_enforcement_verified = False\<rparr>;
          windows = effective_day_windows (dp_schedule p); allowed = schedule_allowed windows t
      in if \<not> dp_enabled p then status\<lparr>ps_state := ''paused''\<rparr>
         else if \<not> df_enabled (adguard c) then status\<lparr>ps_state := ''filter_off''\<rparr>
         else status\<lparr>ps_allowed_now := Some allowed, ps_state := (if allowed then ''allowed'' else ''blocked''),
           ps_next_change_at := next_change windows t,
           ps_next_state := (if next_change windows t = None then [] else if allowed then ''blocked'' else ''allowed'')\<rparr>)"

definition device_profile_statuses :: "system_config \<Rightarrow> time \<Rightarrow> profile_status list" where
  "device_profile_statuses c t = map (profile_status_of c t) (items (df_device_profiles (adguard c)))"

section \<open>Minutes and days\<close>

lemma nanos_positive [simp]: "0 < DAY_NANOS" "0 < MINUTE_NANOS" "DAY_NANOS \<noteq> 0" "MINUTE_NANOS \<noteq> 0" "0 \<le> MINUTE_NANOS"
  by (simp_all add: DAY_NANOS_def MINUTE_NANOS_def)

lemma day_minutes: "DAY_NANOS = 1440 * MINUTE_NANOS"
  by (simp add: DAY_NANOS_def MINUTE_NANOS_def)

lemma minute_floor: "r div MINUTE_NANOS * MINUTE_NANOS \<le> r"
  using pos_mod_sign [OF nanos_positive(2), of r] div_mult_mod_eq [of r MINUTE_NANOS] by linarith

text \<open>The instant of a boundary of the day of \<open>t\<close> that is not after the minute of \<open>t\<close>.\<close>

lemma boundary_before:
  assumes "0 \<le> m" "m \<le> local_minute t" "tm_offset u = tm_offset t"
  defines "b \<equiv> plus_minutes (midnight u (local_day t)) m"
  shows "tm_wall b \<le> tm_wall t" "local_day b = local_day t" "local_minute b = m" "tm_offset b = tm_offset t"
proof -
  define r where "r = local_nanos t mod DAY_NANOS"
  have r: "0 \<le> r" "r < DAY_NANOS" "local_nanos t = local_day t * DAY_NANOS + r"
    by (simp_all add: r_def local_day_def)
  have b: "local_nanos b = local_day t * DAY_NANOS + m * MINUTE_NANOS"
    by (simp add: b_def local_nanos_def plus_minutes_def midnight_def from_wall_def assms(3))
  have "m * MINUTE_NANOS \<le> r"
    using mult_right_mono [OF assms(2) nanos_positive(5)] minute_floor [of r] unfolding local_minute_def r_def [symmetric] by linarith
  moreover from this assms(1) have "m * MINUTE_NANOS < DAY_NANOS" using r by linarith
  ultimately show "tm_wall b \<le> tm_wall t" "local_day b = local_day t" "local_minute b = m"
    using assms(1) b r by (simp_all add: local_day_def local_minute_def b_def local_nanos_def plus_minutes_def midnight_def from_wall_def assms(3))
  show "tm_offset b = tm_offset t" by (simp add: b_def plus_minutes_def midnight_def from_wall_def assms(3))
qed

section \<open>The last boundary before an instant\<close>

definition edges :: "(string \<times> access_window glist) list \<Rightarrow> time \<Rightarrow> int list" where
  "edges windows t = concat (map (\<lambda>w. [schedule_minute (aw_start w), window_end w]) (windows_of windows t))"

lemma allowed_between_edges:
  assumes "weekday_name u = weekday_name t" and "\<And>e. e \<in> set (edges windows t) \<Longrightarrow> e \<le> local_minute u \<longleftrightarrow> e \<le> local_minute t"
  shows "schedule_allowed windows u = schedule_allowed windows t"
proof -
  have "windows_of windows u = windows_of windows t" using assms(1) by (simp add: windows_of_def)
  moreover have "(schedule_minute (aw_start w) \<le> local_minute u \<and> local_minute u < window_end w) \<longleftrightarrow>
      (schedule_minute (aw_start w) \<le> local_minute t \<and> local_minute t < window_end w)" if "w \<in> set (windows_of windows t)" for w
    using assms(2) [of "schedule_minute (aw_start w)"] assms(2) [of "window_end w"] that by (force simp: edges_def)
  ultimately show ?thesis by (auto simp: schedule_allowed_def list_ex_iff)
qed

definition last_edge :: "(string \<times> access_window glist) list \<Rightarrow> time \<Rightarrow> int" where
  "last_edge windows t = Max (insert 0 {e \<in> set (edges windows t). 0 \<le> e \<and> e \<le> local_minute t})"

lemma local_minute_bounds: "0 \<le> local_minute t" "local_minute t < 1440"
proof -
  have "local_nanos t mod DAY_NANOS < 1440 * MINUTE_NANOS" by (simp add: day_minutes [symmetric])
  with minute_floor [of "local_nanos t mod DAY_NANOS"] have "local_minute t * MINUTE_NANOS < 1440 * MINUTE_NANOS"
    unfolding local_minute_def by linarith
  then show "local_minute t < 1440" by simp
  show "0 \<le> local_minute t" by (simp add: local_minute_def pos_imp_zdiv_nonneg_iff)
qed

lemma last_edge:
  "0 \<le> last_edge windows t" "last_edge windows t \<le> local_minute t"
  "last_edge windows t \<in> insert 0 (set (edges windows t))"
  "e \<in> set (edges windows t) \<Longrightarrow> e \<le> local_minute t \<longleftrightarrow> e \<le> last_edge windows t"
proof -
  let ?S = "insert 0 {e \<in> set (edges windows t). 0 \<le> e \<and> e \<le> local_minute t}"
  have fin: "finite ?S" by simp
  then have mem: "last_edge windows t \<in> ?S" unfolding last_edge_def by (intro Max_in) auto
  then show "0 \<le> last_edge windows t" "last_edge windows t \<le> local_minute t" "last_edge windows t \<in> insert 0 (set (edges windows t))"
    using local_minute_bounds [of t] by auto
  have "e \<le> last_edge windows t" if "e \<in> ?S" for e unfolding last_edge_def using fin that by (rule Max_ge)
  with mem show "e \<in> set (edges windows t) \<Longrightarrow> e \<le> local_minute t \<longleftrightarrow> e \<le> last_edge windows t"
    using local_minute_bounds(1) [of t] by (smt (verit) insert_iff mem_Collect_eq)
qed

text \<open>A window that starts in the last minute and ends there has no boundary in the list.\<close>

definition proper_windows :: "(string \<times> access_window glist) list \<Rightarrow> bool" where
  "proper_windows windows \<longleftrightarrow> (\<forall>(day, ws) \<in> set windows. \<forall>w \<in> set (items ws). \<not> (schedule_minute (aw_start w) = 1439 \<and> aw_end w = ''23:59''))"

lemma last_edge_boundary:
  assumes "proper_windows windows" "weekday_name day = weekday_name t"
  shows "plus_minutes day (last_edge windows t) \<in> set (day_boundaries windows day)"
proof (cases "last_edge windows t = 0")
  case True
  then show ?thesis by (simp add: plus_minutes_def day_boundaries_def)
next
  case False
  then obtain w where w: "w \<in> set (windows_of windows t)" "last_edge windows t = schedule_minute (aw_start w) \<or> last_edge windows t = window_end w"
    using last_edge(3) [of windows t] by (auto simp: edges_def)
  have same: "windows_of windows day = windows_of windows t" using assms(2) by (simp add: windows_of_def)
  have "\<not> (schedule_minute (aw_start w) = 1439 \<and> aw_end w = ''23:59'')"
    using assms(1) w(1) by (auto simp: proper_windows_def windows_of_def split: option.splits dest!: map_of_SomeD [OF sym])
  moreover have "last_edge windows t < 1440" using last_edge(2) [of windows t] local_minute_bounds(2) [of t] by linarith
  ultimately have "last_edge windows t = boundary_minute w (schedule_minute (aw_start w)) \<or> last_edge windows t = boundary_minute w (schedule_minute (aw_end w))"
    using w(2) by (auto simp: boundary_minute_def window_end_def split: if_splits)
  with w(1) same show ?thesis by (force simp: day_boundaries_def)
qed

text \<open>Between the last boundary before \<open>t\<close> and \<open>t\<close> the schedule does not change.\<close>

lemma last_boundary:
  assumes "proper_windows windows" "tm_offset t = tm_offset s" "local_day s \<le> local_day t" "local_day t \<le> local_day s + 8"
  obtains b where "b \<in> set (boundaries windows s)" "tm_wall b \<le> tm_wall t" "tm_offset b = tm_offset t"
    "\<And>u. tm_offset u = tm_offset t \<Longrightarrow> tm_wall b \<le> tm_wall u \<Longrightarrow> tm_wall u \<le> tm_wall t \<Longrightarrow> schedule_allowed windows u = schedule_allowed windows t"
proof -
  define b where "b = plus_minutes (midnight s (local_day t)) (last_edge windows t)"
  note b = boundary_before [OF last_edge(1) [of windows t] last_edge(2) [of windows t] assms(2) [symmetric], folded b_def]
  have day: "local_day (midnight s n) = n" for n
    by (simp add: local_day_def local_nanos_def midnight_def from_wall_def)
  have "local_day t = local_day s + int (nat (local_day t - local_day s))" "nat (local_day t - local_day s) < 9" using assms(3,4) by auto
  moreover have "b \<in> set (day_boundaries windows (midnight s (local_day t)))"
    unfolding b_def by (rule last_edge_boundary [OF assms(1)]) (simp add: weekday_name_def day)
  ultimately have 1: "b \<in> set (boundaries windows s)" by (force simp: boundaries_def)
  have 2: "schedule_allowed windows u = schedule_allowed windows t"
    if u: "tm_offset u = tm_offset t" "tm_wall b \<le> tm_wall u" "tm_wall u \<le> tm_wall t" for u
  proof (rule allowed_between_edges)
    have nanos: "local_nanos b \<le> local_nanos u" "local_nanos u \<le> local_nanos t" using u b(4) by (simp_all add: local_nanos_def)
    then have "local_day b \<le> local_day u" "local_day u \<le> local_day t" by (simp_all add: local_day_def zdiv_mono1)
    with b(2) have day: "local_day u = local_day t" by simp
    then show "weekday_name u = weekday_name t" by (simp add: weekday_name_def)
    have "local_nanos x mod DAY_NANOS = local_nanos x - local_day x * DAY_NANOS" for x
      by (simp add: local_day_def minus_div_mult_eq_mod)
    with nanos day b(2) have "local_minute b \<le> local_minute u" "local_minute u \<le> local_minute t"
      by (simp_all add: local_minute_def zdiv_mono1)
    then show "e \<le> local_minute u \<longleftrightarrow> e \<le> local_minute t" if "e \<in> set (edges windows t)" for e
      using last_edge(4) [OF that] b(3) by linarith
  qed
  show thesis using that [OF 1 b(1) b(4)] 2 by blast
qed

section \<open>The forecast\<close>

lemma find_None: "List.find P xs = None \<Longrightarrow> x \<in> set xs \<Longrightarrow> \<not> P x"
  by (simp add: find_None_iff)

lemma find_Some: "List.find P xs = Some y \<Longrightarrow> y \<in> set xs \<and> P y"
  by (induction xs) (auto split: if_splits)

lemma find_least: "List.find P xs = Some y \<Longrightarrow> sorted (map f xs) \<Longrightarrow> x \<in> set xs \<Longrightarrow> P x \<Longrightarrow> f y \<le> f x"
  by (induction xs) (auto split: if_splits)

lemma boundary_of_change:
  assumes "proper_windows windows" "tm_offset t = tm_offset s" "tm_wall s \<le> tm_wall t" "local_day t \<le> local_day s + 8"
    "schedule_allowed windows t \<noteq> schedule_allowed windows s"
  obtains b where "b \<in> set (boundaries windows s)" "tm_wall s < tm_wall b" "tm_wall b \<le> tm_wall t" "schedule_allowed windows b \<noteq> schedule_allowed windows s"
proof -
  have "local_day s \<le> local_day t" using assms(2,3) by (simp add: local_day_def local_nanos_def zdiv_mono1)
  from last_boundary [OF assms(1,2) this assms(4)] obtain b
    where b: "b \<in> set (boundaries windows s)" "tm_wall b \<le> tm_wall t" "tm_offset b = tm_offset t"
      "\<And>u. tm_offset u = tm_offset t \<Longrightarrow> tm_wall b \<le> tm_wall u \<Longrightarrow> tm_wall u \<le> tm_wall t \<Longrightarrow> schedule_allowed windows u = schedule_allowed windows t"
    by blast
  have "tm_wall s < tm_wall b"
  proof (rule ccontr)
    assume "\<not> tm_wall s < tm_wall b"
    with b(4) [of s, OF assms(2) [symmetric] _ assms(3)] assms(5) show False by simp
  qed
  moreover have "schedule_allowed windows b \<noteq> schedule_allowed windows s"
    using b(4) [of b, OF b(3) order_refl b(2)] assms(5) by simp
  ultimately show thesis using that b(1,2) by blast
qed

text \<open>A schedule repeats after seven days.\<close>

definition plus_weeks :: "time \<Rightarrow> int \<Rightarrow> time" where
  "plus_weeks t k = t\<lparr>tm_wall := tm_wall t + k * (7 * DAY_NANOS)\<rparr>"

lemma schedule_weekly: "schedule_allowed windows (plus_weeks t k) = schedule_allowed windows t"
proof -
  have nanos: "local_nanos (plus_weeks t k) = local_nanos t + (k * 7) * DAY_NANOS" by (simp add: local_nanos_def plus_weeks_def)
  have day: "local_day (plus_weeks t k) = local_day t + k * 7"
    unfolding local_day_def nanos by (subst div_mult_self1) simp_all
  have minute: "local_minute (plus_weeks t k) = local_minute t"
    unfolding local_minute_def nanos by (simp only: mod_mult_self1)
  have "(local_day t + k * 7 + 3) mod 7 = (local_day t + 3) mod 7"
    using mod_mult_self1 [of "local_day t + 3" k 7] by (simp only: ac_simps)
  then have "weekday_name (plus_weeks t k) = weekday_name t" by (simp only: weekday_name_def day)
  with minute show ?thesis by (simp only: schedule_allowed_def windows_of_def)
qed

lemma same_week:
  assumes "tm_offset t = tm_offset s" "tm_wall s \<le> tm_wall t"
  obtains k where "tm_wall s \<le> tm_wall (plus_weeks t k)" "tm_wall (plus_weeks t k) \<le> tm_wall t" "local_day (plus_weeks t k) \<le> local_day s + 8" "tm_offset (plus_weeks t k) = tm_offset s"
proof -
  define d where "d = tm_wall t - tm_wall s"
  define k where "k = - (d div (7 * DAY_NANOS))"
  have w: "tm_wall (plus_weeks t k) = tm_wall s + d mod (7 * DAY_NANOS)"
    unfolding minus_div_mult_eq_mod [of d, symmetric] by (simp add: plus_weeks_def k_def d_def)
  have week: "0 < 7 * DAY_NANOS" by simp
  note m = pos_mod_sign [OF week, of d] pos_mod_bound [OF week, of d]
  have "d mod (7 * DAY_NANOS) \<le> d" using assms(2) unfolding d_def by (intro zmod_le_nonneg_dividend) simp
  with w have le: "tm_wall (plus_weeks t k) \<le> tm_wall t" by (simp add: d_def)
  have o: "tm_offset (plus_weeks t k) = tm_offset s" using assms(1) by (simp add: plus_weeks_def)
  have "local_nanos (plus_weeks t k) \<le> local_nanos s + 7 * DAY_NANOS" using w m(2) unfolding local_nanos_def o by linarith
  then have "local_day (plus_weeks t k) \<le> (local_nanos s + 7 * DAY_NANOS) div DAY_NANOS"
    unfolding local_day_def by (rule zdiv_mono1) simp
  also have "\<dots> = local_day s + 7" unfolding local_day_def by (subst div_mult_self1) simp_all
  finally show thesis using that [of k] w m(1) o le by simp
qed

lemma change_boundary:
  assumes "proper_windows windows" "tm_offset t = tm_offset s" "tm_wall s \<le> tm_wall t" "schedule_allowed windows t \<noteq> schedule_allowed windows s"
  obtains b where "b \<in> set (boundaries windows s)" "tm_wall s < tm_wall b" "tm_wall b \<le> tm_wall t" "schedule_allowed windows b \<noteq> schedule_allowed windows s"
proof -
  obtain k where k: "tm_wall s \<le> tm_wall (plus_weeks t k)" "tm_wall (plus_weeks t k) \<le> tm_wall t"
      "local_day (plus_weeks t k) \<le> local_day s + 8" "tm_offset (plus_weeks t k) = tm_offset s"
    by (rule same_week [OF assms(2,3)])
  have "schedule_allowed windows (plus_weeks t k) \<noteq> schedule_allowed windows s" unfolding schedule_weekly by (rule assms(4))
  from boundary_of_change [OF assms(1) k(4,1,3) this] obtain b
    where b: "b \<in> set (boundaries windows s)" "tm_wall s < tm_wall b" "tm_wall b \<le> tm_wall (plus_weeks t k)" "schedule_allowed windows b \<noteq> schedule_allowed windows s" .
  show thesis using b(1,2) order_trans [OF b(3) k(2)] b(4) by (rule that)
qed

lemma next_change_correct:
  assumes "proper_windows windows"
  shows "case next_change windows s of
      None \<Rightarrow> (\<forall>t. tm_offset t = tm_offset s \<and> tm_wall s \<le> tm_wall t \<longrightarrow> schedule_allowed windows t = schedule_allowed windows s)
    | Some b \<Rightarrow> tm_wall s < tm_wall b \<and> schedule_allowed windows b \<noteq> schedule_allowed windows s \<and>
        (\<forall>t. tm_offset t = tm_offset s \<and> tm_wall s \<le> tm_wall t \<and> tm_wall t < tm_wall b \<longrightarrow> schedule_allowed windows t = schedule_allowed windows s)"
proof (cases "next_change windows s")
  case None
  have same: "schedule_allowed windows t = schedule_allowed windows s" if t: "tm_offset t = tm_offset s" "tm_wall s \<le> tm_wall t" for t
  proof (rule ccontr)
    assume "schedule_allowed windows t \<noteq> schedule_allowed windows s"
    from change_boundary [OF assms t this] obtain b
      where b: "b \<in> set (boundaries windows s)" "tm_wall s < tm_wall b" "tm_wall b \<le> tm_wall t" "schedule_allowed windows b \<noteq> schedule_allowed windows s" .
    from find_None [OF None [unfolded next_change_def] b(1)] conjI [OF b(2,4)] show False by (rule notE)
  qed
  show ?thesis unfolding None option.case by (intro allI impI, elim conjE, rule same)
next
  case (Some b)
  have sorted: "sorted (map tm_wall (boundaries windows s))" by (simp add: boundaries_def)
  have same: "schedule_allowed windows t = schedule_allowed windows s"
    if t: "tm_offset t = tm_offset s" "tm_wall s \<le> tm_wall t" and "tm_wall t < tm_wall b" for t
  proof (rule ccontr)
    assume "schedule_allowed windows t \<noteq> schedule_allowed windows s"
    from change_boundary [OF assms t this] obtain x
      where "x \<in> set (boundaries windows s)" "tm_wall s < tm_wall x" "tm_wall x \<le> tm_wall t" "schedule_allowed windows x \<noteq> schedule_allowed windows s" .
    with find_least [OF Some [unfolded next_change_def] sorted, of x] that(3) show False by simp
  qed
  have change: "tm_wall s < tm_wall b \<and> schedule_allowed windows b \<noteq> schedule_allowed windows s"
    using find_Some [OF Some [unfolded next_change_def]] by (rule conjunct2)
  have steady: "\<forall>t. tm_offset t = tm_offset s \<and> tm_wall s \<le> tm_wall t \<and> tm_wall t < tm_wall b \<longrightarrow>
      schedule_allowed windows t = schedule_allowed windows s"
    by (intro allI impI, elim conjE, rule same)
  show ?thesis unfolding Some option.case by (rule conjI [OF conjunct1 [OF change] conjI [OF conjunct2 [OF change] steady]])
qed

end
