(* ===== verification/Schedule_Props.thy ===== *)
theory Schedule_Props
  imports Schedule Change_Props
begin

text \<open>
  The forecast of \<open>device_profile_statuses\<close> for an accepted configuration: the state it reports is the state of the schedule,
  and the next change is the first instant at which that state differs.
\<close>

section \<open>Minutes of accepted windows\<close>

lemma getnum_digits:
  assumes "getnum s fixed = Some (n, r)"
  obtains ds where "s = ds @ r" "ds \<noteq> []" "length ds \<le> 2" "list_all is_ascii_digit ds" "n = dval ds"
proof (cases s)
  case (Cons a rest)
  show thesis
  proof (cases rest)
    case Nil
    with Cons assms that [of "[a]"] show thesis by (simp add: getnum_def dval_def split: if_splits)
  next
    case (Cons b rest')
    with \<open>s = a # rest\<close> assms that [of "[a]"] that [of "[a, b]"] show thesis by (simp add: getnum_def dval_def split: if_splits)
  qed
qed (use assms in \<open>simp add: getnum_def\<close>)

lemma parse_clock_parts:
  assumes "parse_clock s = Some (h, m)"
  obtains hs ms where "s = hs @ CHR '':'' # ms" "hs \<noteq> []" "ms \<noteq> []" "length hs \<le> 2" "length ms \<le> 2"
    "list_all is_ascii_digit hs" "list_all is_ascii_digit ms" "h = dval hs" "m = dval ms" "h < 24" "m < 60"
proof -
  from assms obtain r r1 where r: "getnum s False = Some (h, r)" "strip_prefix '':'' r = Some r1" "getnum r1 True = Some (m, [])" "h < 24" "m < 60"
    by (auto simp: parse_clock_def split: option.splits if_splits)
  from r(1) obtain hs where hs: "s = hs @ r" "hs \<noteq> []" "length hs \<le> 2" "list_all is_ascii_digit hs" "h = dval hs" by (rule getnum_digits)
  from r(3) obtain ms where ms: "r1 = ms @ []" "ms \<noteq> []" "length ms \<le> 2" "list_all is_ascii_digit ms" "m = dval ms" by (rule getnum_digits)
  from r(2) have "r = CHR '':'' # r1" by (auto simp: strip_prefix_def starts_with_def split: if_splits) (cases r; simp)
  with hs ms r(4,5) that [of hs ms] show thesis by simp
qed

lemma digit_not: "list_all is_ascii_digit ds \<Longrightarrow> \<not> is_ascii_digit c \<Longrightarrow> c \<notin> set ds"
  by (auto simp: list_all_iff)

lemma go_atoi_digits:
  assumes "ds \<noteq> []" "length ds \<le> 2" "list_all is_ascii_digit ds"
  shows "go_atoi ds = Some (int (dval ds))"
proof -
  obtain c r where ds: "ds = c # r" using assms(1) by (cases ds) auto
  then have "c \<noteq> CHR ''+''" "c \<noteq> CHR ''-''" using assms(3) by (auto simp: is_ascii_digit_def)
  moreover have "dval ds < 100"
    using dval_less [OF assms(3)] power_increasing [OF assms(2), of "10 :: nat"] by simp
  ultimately show ?thesis using assms ds by (simp add: go_atoi_def is_i64_def i64_min_def i64_max_def)
qed

lemma wrap_i64_small: "- (2 ^ 63) \<le> x \<Longrightarrow> x < 2 ^ 63 \<Longrightarrow> wrap_i64 x = x"
  by (simp add: wrap_i64_def)

lemma schedule_minute_clock:
  assumes "parse_clock s = Some (h, m)"
  shows "schedule_minute s = int (h * 60 + m)"
proof -
  from assms obtain hs ms where s: "s = hs @ CHR '':'' # ms" "hs \<noteq> []" "ms \<noteq> []" "length hs \<le> 2" "length ms \<le> 2"
    "list_all is_ascii_digit hs" "list_all is_ascii_digit ms" "h = dval hs" "m = dval ms" "h < 24" "m < 60"
    by (rule parse_clock_parts)
  have "\<not> is_ascii_digit (CHR '':'')" by (simp add: is_ascii_digit_def)
  with s(6,7) have "split_char (CHR '':'') s = [hs, ms]" by (simp add: s(1) split_char_append digit_not)
  with s show ?thesis by (simp add: schedule_minute_def go_atoi_digits wrap_i64_small)
qed

section \<open>Accepted schedules\<close>

definition sound_window :: "access_window \<Rightarrow> bool" where
  "sound_window w \<longleftrightarrow> parse_clock (aw_start w) \<noteq> None \<and> parse_clock (aw_end w) \<noteq> None \<and>
     fst (window_minutes w) < snd (window_minutes w)"

lemma parse_windows_sound: "parse_windows field i ws = ([], parsed) \<Longrightarrow> w \<in> set ws \<Longrightarrow> sound_window w"
proof (induction ws arbitrary: i parsed)
  case (Cons x ws)
  obtain e p where r: "parse_windows field (i + 1) ws = (e, p)" by fastforce
  from Cons.prems(1) r have "parse_clock (aw_start x) \<noteq> None" "parse_clock (aw_end x) \<noteq> None" "e = []"
    by (auto simp: Let_def split: option.splits if_splits)
  moreover have "fst (window_minutes x) < snd (window_minutes x)" using parse_windows_ok [OF Cons.prems(1)] by simp
  ultimately show ?case using Cons.IH [of "i + 1" p] Cons.prems(2) r by (auto simp: sound_window_def)
qed simp

lemma validate_windows_sound: "validate_windows field ws = [] \<Longrightarrow> w \<in> set ws \<Longrightarrow> sound_window w"
  by (cases "parse_windows field 0 ws") (auto simp only: validate_windows_def accept_simps intro: parse_windows_sound split: if_splits)

lemma sound_all_day: "w \<in> set (items all_day) \<Longrightarrow> sound_window w"
proof -
  assume "w \<in> set (items all_day)"
  then have "w = \<lparr>aw_start = ''00:00'', aw_end = ''23:59''\<rparr>" by (simp add: all_day_def)
  moreover have "sound_window \<lparr>aw_start = ''00:00'', aw_end = ''23:59''\<rparr>"
    unfolding sound_window_def by code_simp
  ultimately show ?thesis by simp
qed

lemma schedule_sound:
  assumes "validate_profile_schedule field schedule = []" "(day, ws) \<in> set (effective_day_windows schedule)" "w \<in> set (items ws)"
  shows "sound_window w"
proof (cases "ws_day_windows schedule = []")
  case False
  have days: "validate_days field ds = [] \<Longrightarrow> (day, ws) \<in> set ds \<Longrightarrow> \<exists>f. validate_windows f (items ws) = []" for ds
    by (induction field ds rule: validate_days.induct) (auto simp only: validate_days.simps accept_simps list.set insert_iff prod.inject split: if_splits)
  from False assms(1,2) have "validate_days field (ws_day_windows schedule) = []" "(day, ws) \<in> set (ws_day_windows schedule)"
    by (simp_all only: validate_profile_schedule_def effective_day_windows_def accept_simps if_True not_False_eq_True)
  from days [OF this] assms(3) show ?thesis using validate_windows_sound by blast
next
  case True
  have weekday: "validate_windows (field @ ''.weekday_windows'') (items (ws_weekday_windows schedule)) = []"
    using assms(1) True by (simp only: validate_profile_schedule_def accept_simps if_False)
  have weekend: "ws_weekend_mode schedule = ''custom'' \<Longrightarrow> validate_windows (field @ ''.weekend_windows'') (items (ws_weekend_windows schedule)) = []"
    using assms(1) True by (simp add: validate_profile_schedule_def)
  from assms(2) True have "ws = ws_weekday_windows schedule \<or> ws = all_day \<or> (ws_weekend_mode schedule = ''custom'' \<and> ws = ws_weekend_windows schedule)"
    by (auto simp: effective_day_windows_def split: if_splits)
  then show ?thesis using weekday weekend assms(3) validate_windows_sound sound_all_day by blast
qed

lemma sound_proper:
  assumes "\<And>day ws w. (day, ws) \<in> set windows \<Longrightarrow> w \<in> set (items ws) \<Longrightarrow> sound_window w"
  shows "proper_windows windows"
proof -
  have "\<not> (schedule_minute (aw_start w) = 1439 \<and> aw_end w = ''23:59'')" if "sound_window w" for w
  proof
    assume edge: "schedule_minute (aw_start w) = 1439 \<and> aw_end w = ''23:59''"
    have "parse_clock ''23:59'' = Some (23, 59)" by code_simp
    with that edge show False by (auto simp: sound_window_def window_minutes_def schedule_minute_clock)
  qed
  with assms show ?thesis by (fastforce simp: proper_windows_def)
qed

lemma profiles_Cons:
  "validate_profiles v net i ids ips (p # ps) = [] \<Longrightarrow>
    (\<exists>path seen. validate_profile_ips net path (dp_id p) 0 ips (items (dp_ip_addresses p)) = ([], seen) \<and>
      \<not> has_control (dp_name p) \<and> validate_profile_services v path 0 [] (items (dp_services p)) = [] \<and>
      validate_profile_schedule (path @ ''.schedule'') (dp_schedule p) = [] \<and> validate_profiles v net (i + 1) (dp_id p # ids) seen ps = [])"
  by (cases "validate_profile_ips net (at_index ''adguard.device_profiles'' i) (dp_id p) 0 ips (items (dp_ip_addresses p))")
    (simp only: validate_profiles.simps accept_simps, blast)

lemma profile_accepted:
  "validate_profiles v net i ids ips ps = [] \<Longrightarrow> p \<in> set ps \<Longrightarrow>
    \<exists>path seen seen'. validate_profile_ips net path (dp_id p) 0 seen (items (dp_ip_addresses p)) = ([], seen') \<and>
      \<not> has_control (dp_name p) \<and> validate_profile_services v path 0 [] (items (dp_services p)) = [] \<and>
      validate_profile_schedule (path @ ''.schedule'') (dp_schedule p) = []"
proof (induction ps arbitrary: i ids ips)
  case (Cons q ps)
  from profiles_Cons [OF Cons.prems(1)] Cons.IH Cons.prems(2) show ?case by (metis set_ConsD)
qed simp

lemma accepted_proper:
  assumes "validate v c = Inr ()" "p \<in> set (items (df_device_profiles (adguard c)))"
  shows "proper_windows (effective_day_windows (dp_schedule p))"
proof -
  from assms(1) obtain net where "validate_device_profiles v c (Some net) = []" by (rule validate_partsE)
  then have "validate_profiles v (Some net) 0 [] Map.empty (items (df_device_profiles (adguard c))) = []"
    by (simp only: validate_device_profiles_def append_is_Nil_conv)
  from profile_accepted [OF this assms(2)] obtain field where "validate_profile_schedule field (dp_schedule p) = []" by blast
  then show ?thesis by (intro sound_proper schedule_sound)
qed

section \<open>Properties\<close>

text \<open>
  C17: The status of an enabled device profile of an accepted configuration is right about now and about the future. It says
  whether the schedule allows the services at \<open>s\<close>. If it announces a change, that instant is later, the state there is the
  opposite, and the state stays the same at every instant before it. If it announces none, the state never changes again.
  Instants are compared in the time zone of \<open>s\<close>.
\<close>

theorem forecast_exact:
  assumes "validate v c = Inr ()" "p \<in> set (items (df_device_profiles (adguard c)))" "dp_enabled p" "df_enabled (adguard c)"
  defines "now \<equiv> schedule_allowed (effective_day_windows (dp_schedule p))"
  shows "profile_status_of c s p \<in> set (device_profile_statuses c s) \<and> ps_allowed_now (profile_status_of c s p) = Some (now s) \<and>
    (case ps_next_change_at (profile_status_of c s p) of
       None \<Rightarrow> (\<forall>t. tm_offset t = tm_offset s \<and> tm_wall s \<le> tm_wall t \<longrightarrow> now t = now s)
     | Some b \<Rightarrow> tm_wall s < tm_wall b \<and> now b \<noteq> now s \<and>
         (\<forall>t. tm_offset t = tm_offset s \<and> tm_wall s \<le> tm_wall t \<and> tm_wall t < tm_wall b \<longrightarrow> now t = now s))"
proof -
  have "ps_next_change_at (profile_status_of c s p) = next_change (effective_day_windows (dp_schedule p)) s"
    "ps_allowed_now (profile_status_of c s p) = Some (now s)"
    using assms(3,4) by (simp_all add: profile_status_of_def Let_def now_def)
  moreover have "profile_status_of c s p \<in> set (device_profile_statuses c s)" using assms(2) by (simp add: device_profile_statuses_def)
  ultimately show ?thesis
    using next_change_correct [OF accepted_proper [OF assms(1,2)], of s] unfolding now_def by (simp only: simp_thms)
qed

definition sample_profile :: device_profile where
  "sample_profile = \<lparr>dp_id = ''kid'', dp_name = ''kid'', dp_ip_addresses = Some [''192.168.1.50''], dp_services = Some [''youtube''],
     dp_schedule = \<lparr>ws_day_windows = [(''monday'', Some [\<lparr>aw_start = ''16:00'', aw_end = ''18:30''\<rparr>])], ws_weekday_windows = None,
       ws_weekend_mode = [], ws_weekend_windows = None\<rparr>, dp_enabled = True\<rparr>"

definition sample_filtered :: system_config where
  "sample_filtered = (default_config zero_time)\<lparr>adguard := (adguard (default_config zero_time))
     \<lparr>df_enabled := True, df_device_profiles := Some [sample_profile]\<rparr>\<rparr>"

text \<open>Monday, 1 January 2024, at \<open>m\<close> minutes after midnight UTC.\<close>

definition sample_monday :: "int \<Rightarrow> time" where
  "sample_monday m = from_wall (1704067200 * 1000000000 + m * MINUTE_NANOS) 0"

theorem forecast_exact_witness:
  "ps_next_change_at (profile_status_of sample_filtered (sample_monday 720) sample_profile) = Some (sample_monday 960) \<and>
   schedule_allowed (effective_day_windows (dp_schedule sample_profile)) (sample_monday 959) =
   schedule_allowed (effective_day_windows (dp_schedule sample_profile)) (sample_monday 720)"
proof -
  have valid: "validate sample_env sample_filtered = Inr ()" by code_simp
  have mem: "sample_profile \<in> set (items (df_device_profiles (adguard sample_filtered)))" by (simp add: sample_filtered_def)
  have on: "dp_enabled sample_profile" "df_enabled (adguard sample_filtered)" by (simp_all add: sample_filtered_def sample_profile_def)
  have change: "ps_next_change_at (profile_status_of sample_filtered (sample_monday 720) sample_profile) = Some (sample_monday 960)" by code_simp
  have "tm_offset (sample_monday 959) = tm_offset (sample_monday 720)" "tm_wall (sample_monday 720) \<le> tm_wall (sample_monday 959)"
    "tm_wall (sample_monday 959) < tm_wall (sample_monday 960)"
    by (simp_all add: sample_monday_def from_wall_def MINUTE_NANOS_def)
  with forecast_exact [OF valid mem on, of "sample_monday 720"] change show ?thesis unfolding change option.case by blast
qed

end
