(* ===== verification/Spec2Isabelle.thy ===== *)
theory Spec2Isabelle
  imports Firmware_Props Slot_Steps Store_Audit Engine_Props Wireguard Review Schedule_Props
begin

text \<open>
  Verification of the router appliance whose Rust sources are under \<open>src/rust/crates\<close>.

  \<^bold>\<open>The program.\<close> A daemon keeps one canonical configuration of the router in an SQLite store. A change is a candidate
  configuration: it is validated (\<open>mr-config/src/config\<close>), rendered into the files of the services, sent to a privileged
  helper that applies and verifies it, and stored. A change that may cut off the administrator stays on trial until it is
  confirmed; a timer rolls it back otherwise (\<open>mr-services/src/apply\<close>). The same store holds snapshots, the audit log, the
  administrator's credential and the sessions. Releases of the firmware are signed, staged into slots and activated or
  rolled back through a journal (\<open>mr-core/src/firmware\<close>). All of it rests on a port of Go's standard library
  (\<open>mr-core/src/goish\<close>).

  \<^bold>\<open>Conventions.\<close> A Rust string is the list of its bytes. \<open>u8\<close>, \<open>u32\<close> and \<open>u64\<close> are words; an \<open>i64\<close> is an integer, with
  wrap-around or saturation written out where the source has it. A fallible function returns \<open>error + 'a\<close>. State is passed
  explicitly: through the state monad for the store and the engine, through a monad with failure and interruption for the
  slots. Loops are structural recursion, or functions with a termination proof; no fuel is used. Code of other crates
  (JSON text, hashes, signatures, base64, calendar formats, Unicode tables) is a parameter, gathered in the records
  \<open>crypto\<close>, \<open>env\<close>, \<open>codec\<close>, \<open>storage\<close>, \<open>generators\<close> and \<open>describers\<close>. What a run reads from outside (clock, entropy, SQL
  errors, failures of file-system calls, answers of the helper) is a list or a schedule in the state, so a statement over
  all states is a statement over all behaviours of the environment.

  \<^bold>\<open>Foundations.\<close>
  \<^item> \<open>Prelude\<close>: machine types, error values, the string operations of the Rust standard library.
  \<^item> \<open>Net_Addr\<close>, \<open>Net_Cidr\<close>, \<open>Net_Host\<close>: \<open>goish/net.rs\<close> and \<open>network/address_identity.rs\<close>. Parsing inverts printing; a
    parsed network is exactly an interval of addresses; identities are canonical forms.
  \<^item> \<open>Filepath\<close>, \<open>Go_Strings\<close>, \<open>Go_Time\<close>: \<open>goish/filepath.rs\<close>, \<open>strings.rs\<close>, \<open>time.rs\<close>. \<open>clean\<close> computes the resolved path and
    local paths stay inside; durations round-trip, and a sum beyond 64 bits wraps around.
  \<^item> \<open>State_Wp\<close>: weakest preconditions for the state monad. \<open>Transition\<close>: the interfaces \<open>invariant_steps\<close>, \<open>monotone_steps\<close>
    and \<open>simulation\<close> of components that change state in steps.

  \<^bold>\<open>Firmware.\<close>
  \<^item> \<open>Release_Version\<close>, \<open>Firmware\<close>, \<open>Firmware_Props\<close>: \<open>firmware/mod.rs\<close>. Versions are ordered by a key; an accepted release is
    signed, complete and has the signed digests.
  \<^item> \<open>Slots\<close>: \<open>SlotManager\<close> of \<open>firmware/slots.rs\<close>, with a failure or a stop possible at every file-system call.
    \<open>Slot_Recovery\<close>, \<open>Slot_Atomic\<close>, \<open>Slot_Props\<close>, \<open>Slot_Steps\<close>: activation, rollback and staging are atomic under every such
    schedule, and the version floor never drops along any sequence of operations and crashes.

  \<^bold>\<open>Configuration.\<close>
  \<^item> \<open>Config_Model\<close>, \<open>Config_Json\<close>: \<open>config/model.rs\<close> and the encoding of each struct. \<open>Validation_Base\<close>, \<open>Profiles\<close>,
    \<open>Validation\<close>, \<open>Validate\<close>: every check of \<open>config/validation.rs\<close> and \<open>profiles.rs\<close>. \<open>Policy\<close>: \<open>config/policy.rs\<close>.
  \<^item> \<open>Validation_Props\<close>, \<open>Config_Props\<close>, \<open>Policy_Props\<close>, \<open>Change_Props\<close>: what an accepted configuration guarantees (address
    pool, leases, extra LANs, peers, forwards, tunnel networks, trusted clients, schedules) and what a change without
    confirmation keeps. \<open>Config_Stamp\<close>: validation does not look at revision and time. \<open>Config_Sample\<close>: an accepted example.

  \<^bold>\<open>Store.\<close>
  \<^item> \<open>Store\<close>: the tables and statements of \<open>config/store.rs\<close>; every statement may fail. \<open>Store_Props\<close>: the specifications of
    its operations. \<open>Store_Auth\<close>: keys stay unique, the authentication epoch never falls, a stale login gets no session.
    \<open>Store_Audit\<close>: bounds on what floods of events can displace.

  \<^bold>\<open>Transactions.\<close>
  \<^item> \<open>Apply_Ipc\<close>, \<open>Apply_Safety\<close>: requests and responses of \<open>apply/ipc.rs\<close>; \<open>apply/safety.rs\<close> with the preview.
  \<^item> \<open>Engine\<close>: \<open>apply/engine.rs\<close>. Transactions and timers are shared objects and live in lists of the state; each public
    operation is one step, as the operation mutex makes it; every request is recorded with the tables of the store.
  \<^item> \<open>Engine_Inv\<close>, \<open>Engine_Apply\<close>, \<open>Engine_Confirm\<close>, \<open>Engine_Frame\<close>: the invariant and the specification of each operation; the
    locale \<open>commit_callback\<close> is the interface to the two functions of the store that commit.
  \<^item> \<open>Engine_Steps\<close>: the commit-confirm contract and the simulation. \<open>Engine_Props\<close>: every run is a run of the contract, the
    outcomes of apply and confirm, the timer resolves an unconfirmed change within six expiries, the preview agrees with
    the admission.

  \<^bold>\<open>Generated files and review.\<close> (\<open>mr-services/src/services\<close>)
  \<^item> \<open>Nft_Syntax\<close>, \<open>Device_Profiles\<close>, \<open>Nftables\<close>: the firewall as chains of rules and their text. \<open>Services\<close>: dnsmasq, pppd,
    hostapd, tc, Squid, inadyn, cloudflared and the block list. \<open>Wireguard\<close>: the WireGuard files, the QR code and the keys.
  \<^item> \<open>Review\<close>: the explanation of a flow, warnings and the differences of two configurations in words. \<open>Schedule\<close>: the status
    of the device profiles at a time. \<open>Schedule_Props\<close>: for an accepted configuration the announced change is the first
    instant at which the schedule differs. \<open>peer_endpoint_line_break\<close>, below: an accepted endpoint of a peer can add a line
    to the file of the tunnel.

  \<^bold>\<open>Not modelled.\<close> Input and output proper: sockets, HTTP, TLS, processes, files outside the update directory, kernel
  statistics, network probes and downloads. The privileged helper executes commands as root; its answers are arbitrary
  inputs of the engine. JSON text, cryptography and calendar formats belong to other crates. Threads are not modelled
  beyond the mutexes that make the operations of the store and the engine atomic; a timer is an entry that may fire at any
  time. The generators of service files and the descriptions of changes are parameters of the engine, whatever they
  compute. Opening and migrating the database, backups, imports and read-only queries are left out.
\<close>

text \<open>
  Validation reads the host of the endpoint of a peer and not its port, and the file of the tunnel holds the endpoint as it
  is written. An accepted endpoint with a line break in the place of the port adds a line of its own to the peer: here a
  second \<open>AllowedIPs\<close>, outside of the subnet of the tunnel, after the route that was checked.
\<close>

definition broken_endpoint :: string where
  "broken_endpoint = ''198.51.100.9:1'' @ [CHR 0x0A] @ ''AllowedIPs = 0.0.0.0/0''"

definition broken_peer_config :: system_config where
  "broken_peer_config = sample_config\<lparr>wireguard := (wireguard sample_config)
     \<lparr>wg_peers := Some [(sample_peer ''10.8.0.2/32'')\<lparr>wp_endpoint := broken_endpoint\<rparr>]\<rparr>\<rparr>"

lemma peer_endpoint_line_break:
  "validate sample_env broken_peer_config = Inr () \<and>
   (case generate_wireguard_runtime (wireguard broken_peer_config) of
      Inl _ \<Rightarrow> False
    | Inr file \<Rightarrow> ''AllowedIPs = 0.0.0.0/0'' \<in> set (split_char (CHR 0x0A) (unlines file)) \<and>
        ''AllowedIPs = 10.8.0.2/32'' \<in> set (split_char (CHR 0x0A) (unlines file)))"
  by (rule conjI) code_simp+

end
